(* ===== verification/Netsrv_Prelude.thy ===== *)
theory Netsrv_Prelude
  imports Main "HOL-Library.Word"
begin

unbundle bit_operations_syntax

text \<open>
  Shared vocabulary of the development.  It holds the machine integer types, the result type of
  C++ code that may throw or run into undefined behaviour, the byte-order functions of a
  little-endian host, and the locales that state the contracts several components share: a byte
  codec and its decoding loop, a step function with an invariant, and a step function that refines an
  abstract one, with the generic lemmas about their runs.
\<close>

named_theorems res_simps \<open>unfolding of the result monad\<close>
named_theorems cstr_defs \<open>definitions of the C string functions\<close>

section \<open>Machine integers and results\<close>

type_synonym u8 = "8 word"
type_synonym u16 = "16 word"
type_synonym u32 = "32 word"
type_synonym buffer = "u8 list"

text \<open>
  Outcome of a piece of C++ code: a value, an exception (with its message), or undefined behaviour
  (an access past the end of a buffer, a null pointer handed to a function that dereferences it).
\<close>

datatype 'a res = Val 'a | Throws string | UB

primrec res_bind :: "'a res \<Rightarrow> ('a \<Rightarrow> 'b res) \<Rightarrow> 'b res" where
  "res_bind (Val x) f = f x"
| "res_bind (Throws e) f = Throws e"
| "res_bind UB f = UB"

declare res_bind.simps [res_simps]

lemma res_bind_Val_iff: "res_bind m f = Val y \<longleftrightarrow> (\<exists>x. m = Val x \<and> f x = Val y)"
  by (cases m) auto

lemma res_bind_cong [fundef_cong]:
  "m = m' \<Longrightarrow> (\<And>x. m' = Val x \<Longrightarrow> f x = f' x) \<Longrightarrow> res_bind m f = res_bind m' f'"
  by (cases m') auto

lemma res_bind_split:
  "P (res_bind m f) \<longleftrightarrow>
     (\<forall>x. m = Val x \<longrightarrow> P (f x)) \<and> (\<forall>e. m = Throws e \<longrightarrow> P (Throws e)) \<and> (m = UB \<longrightarrow> P UB)"
  by (cases m) auto

text \<open>Address families of \<^verbatim>\<open><sys/socket.h>\<close> on Linux.\<close>

definition AF_INET :: int where "AF_INET = 2"
definition AF_INET6 :: int where "AF_INET6 = 10"

section \<open>Byte order on a little-endian host\<close>

text \<open>
  \<^verbatim>\<open>htons\<close>/\<^verbatim>\<open>ntohs\<close> and \<^verbatim>\<open>htonl\<close>/\<^verbatim>\<open>ntohl\<close> swap bytes; a word lies in memory with its least
  significant byte first.
\<close>

definition mem16 :: "u16 \<Rightarrow> u8 list" where
  "mem16 n = [ucast n, ucast (drop_bit 8 n)]"

definition load16 :: "u8 \<Rightarrow> u8 \<Rightarrow> u16" where
  "load16 b0 b1 = ucast b0 OR push_bit 8 (ucast b1)"

definition mem32 :: "u32 \<Rightarrow> u8 list" where
  "mem32 n = [ucast n, ucast (drop_bit 8 n), ucast (drop_bit 16 n), ucast (drop_bit 24 n)]"

definition load32 :: "u8 \<Rightarrow> u8 \<Rightarrow> u8 \<Rightarrow> u8 \<Rightarrow> u32" where
  "load32 b0 b1 b2 b3 =
     ucast b0 OR push_bit 8 (ucast b1) OR push_bit 16 (ucast b2) OR push_bit 24 (ucast b3)"

definition htons :: "u16 \<Rightarrow> u16" where
  "htons n = load16 (ucast (drop_bit 8 n)) (ucast n)"

definition htonl :: "u32 \<Rightarrow> u32" where
  "htonl n = load32 (ucast (drop_bit 24 n)) (ucast (drop_bit 16 n)) (ucast (drop_bit 8 n)) (ucast n)"

lemma bit_u8_high [simp]: "8 \<le> n \<Longrightarrow> \<not> bit (b :: u8) n"
  using bit_imp_le_length [of b n] by auto

lemma load16_ucast_low: "ucast (load16 b0 b1) = b0"
  by (rule bit_word_eqI) (auto simp: load16_def bit_simps)

lemma load16_ucast_high: "ucast (drop_bit 8 (load16 b0 b1)) = b1"
  by (rule bit_word_eqI) (auto simp: load16_def bit_simps)

lemma load16_inj [simp]: "load16 a b = load16 c d \<longleftrightarrow> a = c \<and> b = d"
  by (metis load16_ucast_low load16_ucast_high)

lemma load16_parts [simp]: "load16 (ucast n) (ucast (drop_bit 8 n)) = n"
  by (rule bit_word_eqI) (auto simp: load16_def bit_simps)

lemma load32_ucast0: "ucast (load32 b0 b1 b2 b3) = b0"
  by (rule bit_word_eqI) (auto simp: load32_def bit_simps)

lemma load32_ucast1: "ucast (drop_bit 8 (load32 b0 b1 b2 b3)) = b1"
  by (rule bit_word_eqI) (auto simp: load32_def bit_simps)

lemma load32_ucast2: "ucast (drop_bit 16 (load32 b0 b1 b2 b3)) = b2"
  by (rule bit_word_eqI) (auto simp: load32_def bit_simps)

lemma load32_ucast3: "ucast (drop_bit 24 (load32 b0 b1 b2 b3)) = b3"
  by (rule bit_word_eqI) (auto simp: load32_def bit_simps)

lemma load32_inj [simp]:
  "load32 a b c d = load32 a' b' c' d' \<longleftrightarrow> a = a' \<and> b = b' \<and> c = c' \<and> d = d'"
  by (metis load32_ucast0 load32_ucast1 load32_ucast2 load32_ucast3)

lemma load32_and:
  "load32 a b c d AND load32 a' b' c' d' = load32 (a AND a') (b AND b') (c AND c') (d AND d')"
proof (rule bit_word_eqI)
  fix k assume "k < LENGTH(32)"
  consider "k < 8" | "8 \<le> k" "k < 16" | "16 \<le> k" "k < 24" | "24 \<le> k" by linarith
  then show "bit (load32 a b c d AND load32 a' b' c' d') k =
      bit (load32 (a AND a') (b AND b') (c AND c') (d AND d')) k"
    by cases (use \<open>k < LENGTH(32)\<close> in \<open>auto simp: load32_def bit_simps\<close>)
qed

lemmas load_bytes [simp] =
  load16_ucast_low load16_ucast_high load32_ucast0 load32_ucast1 load32_ucast2 load32_ucast3

lemma htons_load16 [simp]: "htons (load16 b0 b1) = load16 b1 b0"
  by (simp add: htons_def)

lemma htonl_load32 [simp]: "htonl (load32 b0 b1 b2 b3) = load32 b3 b2 b1 b0"
  by (simp add: htonl_def)

lemma htons_htons [simp]: "htons (htons n) = n"
  by (simp add: htons_def [of n])

lemma mem16_load16 [simp]: "mem16 (load16 b0 b1) = [b0, b1]"
  by (simp add: mem16_def)

lemma mem16_htons: "mem16 (htons n) = [ucast (drop_bit 8 n), ucast n]"
  by (simp add: htons_def)

lemma length_mem16 [simp]: "length (mem16 n) = 2"
  by (simp add: mem16_def)

lemma mem32_load32 [simp]: "mem32 (load32 b0 b1 b2 b3) = [b0, b1, b2, b3]"
  by (simp add: mem32_def)

section \<open>Byte codecs\<close>

text \<open>
  The contract between an encoder that appends the bytes of a value to a buffer and a decoder that
  reads a value at an offset and advances the offset: what was encoded is read back, whatever
  precedes and follows it, and the offset moves to the first byte after it.
\<close>

locale byte_codec =
  fixes enc :: "'a \<Rightarrow> u8 list"
    and dec :: "u8 list \<Rightarrow> nat \<Rightarrow> ('a \<times> nat) res"
    and wf :: "'a \<Rightarrow> bool"
  assumes dec_enc: "wf x \<Longrightarrow> dec (pre @ enc x @ post) (length pre) = Val (x, length pre + length (enc x))"
begin

lemma dec_enc_at:
  assumes "wf x" and "off = length pre" and "off' = off + length (enc x)"
  shows "dec (pre @ enc x @ post) off = Val (x, off')"
  using assms dec_enc by simp

lemma enc_inj:
  assumes "wf x" and "wf y" and "enc x = enc y"
  shows "x = y"
  using dec_enc [of x "[]" "[]"] dec_enc [of y "[]" "[]"] assms by simp

lemma enc_prefix_free:
  assumes "wf x" and "wf y" and "enc x @ xs = enc y @ ys"
  shows "x = y \<and> xs = ys"
proof -
  have "dec (enc x @ xs) 0 = Val (x, length (enc x))"
    using dec_enc [OF assms(1), of "[]" xs] by simp
  moreover have "dec (enc y @ ys) 0 = Val (y, length (enc y))"
    using dec_enc [OF assms(2), of "[]" ys] by simp
  ultimately have "x = y" using assms(3) by simp
  then show ?thesis using assms(3) by simp
qed

end

text \<open>
  A loop that decodes values while the offset is inside the buffer recovers a whole sequence.
\<close>

locale byte_codec_loop = byte_codec +
  fixes loop :: "u8 list \<Rightarrow> nat \<Rightarrow> 'a list res"
  assumes enc_nonempty: "wf x \<Longrightarrow> enc x \<noteq> []"
    and loop_end: "length buff \<le> off \<Longrightarrow> loop buff off = Val []"
    and loop_step: "off < length buff \<Longrightarrow> dec buff off = Val (x, off') \<Longrightarrow> off < off' \<Longrightarrow>
           loop buff off = res_bind (loop buff off') (\<lambda>xs. Val (x # xs))"
begin

lemma loop_concat_enc:
  assumes "\<forall>x\<in>set xs. wf x"
  shows "loop (pre @ concat (map enc xs)) (length pre) = Val xs"
  using assms
proof (induction xs arbitrary: pre)
  case Nil
  then show ?case by (simp add: loop_end)
next
  case (Cons x xs)
  let ?buff = "pre @ enc x @ concat (map enc xs)"
  have d: "dec ?buff (length pre) = Val (x, length pre + length (enc x))"
    using Cons.prems by (simp add: dec_enc)
  have "loop ?buff (length pre + length (enc x)) = Val xs"
    using Cons.IH [of "pre @ enc x"] Cons.prems by simp
  moreover have "enc x \<noteq> []" using Cons.prems by (simp add: enc_nonempty)
  ultimately show ?case using loop_step [OF _ d] by simp
qed

end

section \<open>Step functions and their invariants\<close>

text \<open>
  A component that reacts to one event at a time, together with a property of its state that every
  reaction to an acceptable event keeps.  Every run, that is every sequence of acceptable events,
  then keeps the property.
\<close>

locale guarded_invariant =
  fixes step :: "'s \<Rightarrow> 'e \<Rightarrow> 's"
    and inv :: "'s \<Rightarrow> bool"
    and guard :: "'e \<Rightarrow> bool"
  assumes guarded_step: "inv s \<Longrightarrow> guard e \<Longrightarrow> inv (step s e)"
begin

lemma guarded_run: "inv s \<Longrightarrow> \<forall>e\<in>set es. guard e \<Longrightarrow> inv (foldl step s es)"
  by (induction es arbitrary: s) (simp_all add: guarded_step)

end

text \<open>Without a condition on the events.\<close>

locale step_invariant =
  fixes step :: "'s \<Rightarrow> 'e \<Rightarrow> 's"
    and inv :: "'s \<Rightarrow> bool"
  assumes step_keeps: "inv s \<Longrightarrow> inv (step s e)"

sublocale step_invariant \<subseteq> guarded_invariant step inv "\<lambda>_. True"
  by unfold_locales (rule step_keeps)

context step_invariant
begin

lemma run_keeps: "inv s \<Longrightarrow> inv (foldl step s es)"
  by (rule guarded_run) simp_all

end

text \<open>
  A step function that refines an abstract one: on states with the invariant, an abstraction function
  carries each concrete step to the abstract step, and hence every run to the abstract run.
\<close>

locale simulation = step_invariant step inv for step :: "'s \<Rightarrow> 'e \<Rightarrow> 's" and inv :: "'s \<Rightarrow> bool" +
  fixes abs_step :: "'a \<Rightarrow> 'e \<Rightarrow> 'a"
    and abstraction :: "'s \<Rightarrow> 'a"
  assumes abs_commutes: "inv s \<Longrightarrow> abstraction (step s e) = abs_step (abstraction s) e"
begin

lemma run_refines: "inv s \<Longrightarrow> abstraction (foldl step s es) = foldl abs_step (abstraction s) es"
  by (induction es arbitrary: s) (simp_all add: abs_commutes step_keeps)

end

text \<open>The property of a result that is required only of values.\<close>

definition res_inv :: "('s \<Rightarrow> bool) \<Rightarrow> 's res \<Rightarrow> bool" where
  "res_inv I r \<longleftrightarrow> (\<forall>s. r = Val s \<longrightarrow> I s)"

lemma res_inv_simps [simp]: "res_inv I (Val s) = I s" "res_inv I (Throws e)" "res_inv I UB"
  by (simp_all add: res_inv_def)

lemma res_inv_bind: "res_inv I r \<Longrightarrow> (\<And>s. I s \<Longrightarrow> res_inv J (f s)) \<Longrightarrow> res_inv J (res_bind r f)"
  by (cases r) simp_all

end
