(* ===== verification/Stun_Codec.thy ===== *)
theory Stun_Codec
  imports Netsrv_Prelude
begin

text \<open>
  The STUN messages of \<^verbatim>\<open>StunClient.h\<close> and their wire format: \<^verbatim>\<open>encoder\<close>, \<^verbatim>\<open>decoder\<close>,
  \<^verbatim>\<open>message::encode\<close>, \<^verbatim>\<open>message::find_attribute\<close> and the address attribute.  A buffer is a list
  of bytes; an index at or past its size is undefined behaviour, as it is for
  \<^verbatim>\<open>std::vector::operator[]\<close>.  The lemmas show the round trips of the codec, that everything the
  decoder accepts is a concatenation of well-formed attributes, and where the decoder reads the
  transaction id from.
\<close>

section \<open>Data\<close>

record attribute =
  attr_type :: u16
  attr_length :: u16
  attr_value :: buffer

record message_header =
  message_type :: u16
  message_length :: u16
  transaction_id :: buffer

record message =
  m_header :: message_header
  m_attrs :: "attribute list"

datatype network_access_type =
  udp_blocked | open_internet | symmetric_firewall | full_cone | symmetric_nat | restricted
  | port_resricted | network_unknown

datatype protocol = af_inet | af_inet6

definition binding_request :: u16 where "binding_request = 0x0001"
definition binding_response :: u16 where "binding_response = 0x0101"
definition mapped_address_type :: u16 where "mapped_address_type = 0x0001"
definition change_request :: u16 where "change_request = 0x0003"

text \<open>
  A \<^verbatim>\<open>sockaddr_storage\<close>: the fields of \<^verbatim>\<open>sockaddr_in\<close> and \<^verbatim>\<open>sockaddr_in6\<close> as they lie in memory,
  or an address of another family.
\<close>

datatype sockaddr_storage =
    Sockaddr_in (sin_port: u16) (s_addr: u32)
  | Sockaddr_in6 (sin6_port: u16) (s6_addr: buffer)
  | Sockaddr_other int

fun ss_family :: "sockaddr_storage \<Rightarrow> int" where
  "ss_family (Sockaddr_in p a) = AF_INET"
| "ss_family (Sockaddr_in6 p a) = AF_INET6"
| "ss_family (Sockaddr_other f) = f"

section \<open>Encoder\<close>

definition encode_u16 :: "buffer \<Rightarrow> u16 \<Rightarrow> buffer" where
  "encode_u16 buff n = buff @ mem16 (htons n)"

text \<open>
  \<^verbatim>\<open>encode_u32\<close> converts with \<^verbatim>\<open>htons\<close>: the argument is narrowed to 16 bits before the swap and
  widened again afterwards.
\<close>

definition encode_u32 :: "buffer \<Rightarrow> u32 \<Rightarrow> buffer" where
  "encode_u32 buff n = buff @ mem32 (ucast (htons (ucast n)))"

definition encode_attr :: "buffer \<Rightarrow> attribute \<Rightarrow> buffer" where
  "encode_attr bytes v = encode_u16 (encode_u16 bytes (attr_type v)) (attr_length v) @ attr_value v"

definition encode :: "message \<Rightarrow> buffer" where
  "encode m =
     (let bytes = encode_u16 [] (message_type (m_header m));
          bytes = encode_u16 bytes (message_length (m_header m));
          bytes = foldl (\<lambda>bs b. bs @ [b]) bytes (transaction_id (m_header m))
      in foldl encode_attr bytes (m_attrs m))"

definition find_attribute :: "message \<Rightarrow> u16 \<Rightarrow> attribute option" where
  "find_attribute m ty = find (\<lambda>a. ty = attr_type a) (m_attrs m)"

text \<open>The random transaction id is an argument.\<close>

definition create_binding_request :: "buffer \<Rightarrow> message" where
  "create_binding_request tid =
     \<lparr> m_header = \<lparr> message_type = 1, message_length = 8, transaction_id = tid \<rparr>,
       m_attrs = [\<lparr> attr_type = 3, attr_length = 4, attr_value = [0, 0, 0, 0] \<rparr>] \<rparr>"

section \<open>Decoder\<close>

definition decode_u16 :: "buffer \<Rightarrow> nat \<Rightarrow> (u16 \<times> nat) res" where
  "decode_u16 buff off =
     (if off + 2 \<le> length buff then Val (htons (load16 (buff ! off) (buff ! (off + 1))), off + 2)
      else UB)"

definition decode_u32 :: "buffer \<Rightarrow> nat \<Rightarrow> (u32 \<times> nat) res" where
  "decode_u32 buff off =
     (if off + 4 \<le> length buff
      then Val (htonl (load32 (buff ! off) (buff ! (off + 1)) (buff ! (off + 2)) (buff ! (off + 3))),
                off + 4)
      else UB)"

definition decode_attr :: "buffer \<Rightarrow> nat \<Rightarrow> (attribute \<times> nat) res" where
  "decode_attr buff off =
     res_bind (decode_u16 buff off) (\<lambda>(ty, off1).
     res_bind (decode_u16 buff off1) (\<lambda>(len, off2).
       if off2 + unat len \<le> length buff
       then Val (\<lparr> attr_type = ty, attr_length = len,
                   attr_value = take (unat len) (drop off2 buff) \<rparr>, off2 + unat len)
       else UB))"

text \<open>
  The loop over the transaction id reads \<^verbatim>\<open>buff[temp_offset++ + i]\<close>: both the offset and the index
  advance.
\<close>

function decode_transaction_id :: "buffer \<Rightarrow> nat \<Rightarrow> nat \<Rightarrow> nat \<Rightarrow> (buffer \<times> nat) res" where
  "decode_transaction_id buff off i n =
     (if i < n
      then (if off + i < length buff
            then res_bind (decode_transaction_id buff (off + 1) (i + 1) n)
                   (\<lambda>(bs, off'). Val (buff ! (off + i) # bs, off'))
            else UB)
      else Val ([], off))"
  by auto
termination by (relation "measure (\<lambda>(buff, off, i, n). n - i)") auto

declare decode_transaction_id.simps [simp del]

lemma decode_attr_advances: "decode_attr buff off = Val (a, off') \<Longrightarrow> off < off' \<and> off' \<le> length buff"
  by (auto simp: decode_attr_def decode_u16_def res_bind_Val_iff split: if_splits)

function decode_attrs :: "buffer \<Rightarrow> nat \<Rightarrow> attribute list res" where
  "decode_attrs buff off =
     (if off < length buff
      then res_bind (decode_attr buff off)
             (\<lambda>(a, off'). res_bind (decode_attrs buff off') (\<lambda>attrs. Val (a # attrs)))
      else Val [])"
  by auto
termination
  by (relation "measure (\<lambda>(buff, off). length buff - off)") (auto dest: decode_attr_advances)

declare decode_attrs.simps [simp del]

text \<open>
  \<^verbatim>\<open>decode_message\<close> takes an optional pointer to the offset and writes the new offset through it;
  the attribute loop ends with the offset at the end of the buffer.  A null result (no message) is
  \<^term>\<open>None\<close>.
\<close>

definition decode_message :: "buffer \<Rightarrow> nat option \<Rightarrow> (message option \<times> nat option) res" where
  "decode_message buff offset =
     (let temp_offset = (case offset of Some n \<Rightarrow> n | None \<Rightarrow> 0) in
      res_bind (decode_u16 buff temp_offset) (\<lambda>(ty, off1).
      res_bind (decode_u16 buff off1) (\<lambda>(len, off2).
        if ty = binding_response
        then res_bind (decode_transaction_id buff off2 0 16) (\<lambda>(tid, off3).
             res_bind (decode_attrs buff off3) (\<lambda>attrs.
               Val (Some \<lparr> m_header = \<lparr> message_type = ty, message_length = len, transaction_id = tid \<rparr>,
                           m_attrs = attrs \<rparr>,
                    map_option (\<lambda>_. max off3 (length buff)) offset)))
        else Val (None, map_option (\<lambda>_. off2) offset))))"

text \<open>The constructor of \<^verbatim>\<open>attributes::address\<close>.\<close>

definition decode_address :: "attribute \<Rightarrow> sockaddr_storage res" where
  "decode_address attr =
     res_bind (decode_u16 (attr_value attr) 0) (\<lambda>(family, off).
       if family = 1
       then res_bind (decode_u16 (attr_value attr) off) (\<lambda>(port, off).
            res_bind (decode_u32 (attr_value attr) off) (\<lambda>(a, off).
              Val (Sockaddr_in port (htonl a))))
       else if family = 2
       then res_bind (decode_u16 (attr_value attr) off) (\<lambda>(port, off).
              if off + 16 \<le> length (attr_value attr)
              then Val (Sockaddr_in6 port (map (\<lambda>i. attr_value attr ! (off + i)) [0..<16]))
              else UB)
       else Throws ''invalid mapped address family'')"

section \<open>The codec contracts\<close>

definition wf_attribute :: "attribute \<Rightarrow> bool" where
  "wf_attribute a \<longleftrightarrow> length (attr_value a) = unat (attr_length a)"

definition attr_bytes :: "attribute \<Rightarrow> buffer" where
  "attr_bytes a = encode_attr [] a"

lemma encode_u16_append: "encode_u16 buff n = buff @ encode_u16 [] n"
  by (simp add: encode_u16_def)

lemma length_encode_u16 [simp]: "length (encode_u16 [] n) = 2"
  by (simp add: encode_u16_def)

lemma encode_attr_append: "encode_attr buff a = buff @ attr_bytes a"
  by (simp add: attr_bytes_def encode_attr_def encode_u16_def)

lemma attr_bytes_split:
  "attr_bytes a = encode_u16 [] (attr_type a) @ encode_u16 [] (attr_length a) @ attr_value a"
  by (simp add: attr_bytes_def encode_attr_def encode_u16_def)

lemma length_attr_bytes [simp]: "length (attr_bytes a) = 4 + length (attr_value a)"
  by (simp add: attr_bytes_split)

interpretation u16_codec: byte_codec "encode_u16 []" decode_u16 "\<lambda>_. True"
proof
  fix x :: u16 and pre post :: buffer
  show "decode_u16 (pre @ encode_u16 [] x @ post) (length pre)
          = Val (x, length pre + length (encode_u16 [] x))"
    by (simp add: decode_u16_def encode_u16_def mem16_htons nth_append htons_def [of x, symmetric])
qed

lemma decode_attr_bytes:
  assumes "wf_attribute a"
  shows "decode_attr (pre @ attr_bytes a @ post) (length pre) = Val (a, length pre + length (attr_bytes a))"
proof -
  let ?t = "encode_u16 [] (attr_type a)" and ?l = "encode_u16 [] (attr_length a)"
  let ?buff = "pre @ ?t @ ?l @ attr_value a @ post"
  have "decode_u16 ?buff (length pre) = Val (attr_type a, length pre + 2)"
    by (rule u16_codec.dec_enc_at) simp_all
  moreover have "decode_u16 ((pre @ ?t) @ ?l @ (attr_value a @ post)) (length pre + 2)
      = Val (attr_length a, length pre + 4)"
    by (rule u16_codec.dec_enc_at) simp_all
  moreover have "drop (length pre + 4) ?buff = attr_value a @ post" by simp
  ultimately show ?thesis using assms
    by (simp add: decode_attr_def attr_bytes_split wf_attribute_def add.assoc)
qed

interpretation attr_codec: byte_codec_loop attr_bytes decode_attr wf_attribute decode_attrs
proof
  fix x :: attribute and pre post :: buffer
  assume "wf_attribute x"
  then show "decode_attr (pre @ attr_bytes x @ post) (length pre)
      = Val (x, length pre + length (attr_bytes x))"
    by (rule decode_attr_bytes)
next
  fix x :: attribute
  show "attr_bytes x \<noteq> []" by (metis length_attr_bytes add_is_0 list.size(3) zero_neq_numeral)
next
  fix buff :: buffer and off
  assume "length buff \<le> off"
  then show "decode_attrs buff off = Val []" by (simp add: decode_attrs.simps)
next
  fix buff :: buffer and off x off'
  assume "off < length buff" and "decode_attr buff off = Val (x, off')"
  then show "decode_attrs buff off = res_bind (decode_attrs buff off') (\<lambda>xs. Val (x # xs))"
    by (simp add: decode_attrs.simps [of buff off])
qed

lemma foldl_push_back: "foldl (\<lambda>bs b. bs @ [b]) acc xs = acc @ xs"
  by (induction xs arbitrary: acc) simp_all

lemma foldl_encode_attr: "foldl encode_attr acc as = acc @ concat (map attr_bytes as)"
proof (induction "as" arbitrary: acc)
  case (Cons a as)
  then show ?case by (simp add: encode_attr_append [of acc a])
qed simp

lemma encode_split:
  "encode m = encode_u16 [] (message_type (m_header m)) @ encode_u16 [] (message_length (m_header m))
     @ transaction_id (m_header m) @ concat (map attr_bytes (m_attrs m))"
  by (simp add: encode_def foldl_push_back foldl_encode_attr encode_u16_append [of "encode_u16 [] _"])

section \<open>What the decoder reads\<close>

lemma decode_transaction_id_eq:
  "decode_transaction_id buff off i n =
     (if n \<le> i then Val ([], off)
      else if off + (n - 1) + (n - 1 - i) < length buff
      then Val (map (\<lambda>k. buff ! (off + i + 2 * k)) [0..<n - i], off + (n - i))
      else UB)"
proof (induction buff off i n rule: decode_transaction_id.induct)
  case (1 buff off i n)
  show ?case
  proof (cases "n \<le> i")
    case True
    then show ?thesis by (simp add: decode_transaction_id.simps)
  next
    case False
    have m: "map (\<lambda>k. buff ! (off + i + 2 * k)) [0..<n - i]
        = buff ! (off + i) # map (\<lambda>k. buff ! (off + 1 + (i + 1) + 2 * k)) [0..<n - (i + 1)]"
    proof -
      have "[0..<n - i] = 0 # map Suc [0..<n - (i + 1)]"
        using False by (simp add: Suc_diff_Suc map_Suc_upt upt_conv_Cons del: upt_Suc)
      then show ?thesis by (simp add: comp_def algebra_simps)
    qed
    show ?thesis
    proof (cases "off + i < length buff")
      case True
      then show ?thesis
        using False m "1.IH" decode_transaction_id.simps [of buff off i n] by auto
    next
      case F: False
      then show ?thesis using False by (simp add: decode_transaction_id.simps)
    qed
  qed
qed

lemma decode_transaction_id_16:
  "decode_transaction_id buff off 0 16 =
     (if off + 30 < length buff then Val (map (\<lambda>k. buff ! (off + 2 * k)) [0..<16], off + 16) else UB)"
  by (simp add: decode_transaction_id_eq)

lemma decode_u16_bytes:
  assumes "decode_u16 buff off = Val (x, off')"
  shows "off' = off + 2 \<and> off + 2 \<le> length buff \<and> encode_u16 [] x = take 2 (drop off buff)"
proof -
  from assms have len: "off + 2 \<le> length buff" and off': "off' = off + 2"
    and x: "x = htons (load16 (buff ! off) (buff ! (off + 1)))"
    by (auto simp: decode_u16_def split: if_splits)
  have "take 2 (drop off buff) = [buff ! off, buff ! (off + 1)]"
    using len by (auto intro!: nth_equalityI simp: less_Suc_eq numeral_2_eq_2)
  then show ?thesis using len off' x by (simp add: encode_u16_def)
qed

lemma decode_attr_sound:
  assumes "decode_attr buff off = Val (a, off')"
  shows "wf_attribute a \<and> off' = off + length (attr_bytes a) \<and> off' \<le> length buff \<and>
         attr_bytes a = take (length (attr_bytes a)) (drop off buff)"
proof -
  from assms obtain ty off1 len off2 where
    d1: "decode_u16 buff off = Val (ty, off1)" and d2: "decode_u16 buff off1 = Val (len, off2)" and
    fits: "off2 + unat len \<le> length buff" and off': "off' = off2 + unat len" and
    a: "a = \<lparr> attr_type = ty, attr_length = len, attr_value = take (unat len) (drop off2 buff) \<rparr>"
    by (auto simp: decode_attr_def res_bind_Val_iff split: if_splits)
  have off1: "off1 = off + 2" and off2: "off2 = off + 4"
    using decode_u16_bytes [OF d1] decode_u16_bytes [OF d2] by auto
  have ab: "attr_bytes a = take 2 (drop off buff) @ take 2 (drop (off + 2) buff)
      @ take (unat len) (drop (off + 4) buff)"
    using decode_u16_bytes [OF d1] decode_u16_bytes [OF d2] off1 off2 a by (simp add: attr_bytes_split)
  have four: "4 + unat len = 2 + (2 + unat len)" by simp
  have "take (4 + unat len) (drop off buff) = take 2 (drop off buff) @ take (2 + unat len) (drop (off + 2) buff)"
    by (subst four, subst take_add) (simp add: add.commute)
  also have "take (2 + unat len) (drop (off + 2) buff)
      = take 2 (drop (off + 2) buff) @ take (unat len) (drop (off + 4) buff)"
    by (subst take_add) (simp add: numeral_eq_Suc)
  finally have "attr_bytes a = take (4 + unat len) (drop off buff)" using ab by simp
  moreover have "length (attr_value a) = unat len" using a fits by simp
  ultimately show ?thesis using fits off' off2 a by (simp add: wf_attribute_def)
qed

lemma decode_attrs_sound:
  "decode_attrs buff off = Val attrs \<Longrightarrow> off \<le> length buff \<Longrightarrow>
     (\<forall>a\<in>set attrs. wf_attribute a) \<and> concat (map attr_bytes attrs) = drop off buff"
proof (induction buff off arbitrary: attrs rule: decode_attrs.induct)
  case (1 buff off)
  show ?case
  proof (cases "off < length buff")
    case False
    then show ?thesis using 1 by (simp add: decode_attrs.simps)
  next
    case True
    with "1.prems" obtain a off' rest where
      a: "decode_attr buff off = Val (a, off')" and r: "decode_attrs buff off' = Val rest" and
      attrs: "attrs = a # rest"
      by (auto simp: decode_attrs.simps [of buff off] res_bind_Val_iff)
    note s = decode_attr_sound [OF a]
    have ih: "(\<forall>a\<in>set rest. wf_attribute a) \<and> concat (map attr_bytes rest) = drop off' buff"
      using "1.IH" [OF True a _ r] s by simp
    have "attr_bytes a @ drop off' buff = drop off buff"
      using s append_take_drop_id [of "length (attr_bytes a)" "drop off buff"]
      by (metis add.commute drop_drop)
    then show ?thesis using ih s attrs by simp
  qed
qed

lemma decode_u16_no_throw [simp]: "decode_u16 buff off \<noteq> Throws e"
  by (simp add: decode_u16_def)

lemma decode_attr_no_throw [simp]: "decode_attr buff off \<noteq> Throws e"
  by (auto simp: decode_attr_def split: res_bind_split if_splits)

lemma decode_attrs_no_throw [simp]: "decode_attrs buff off \<noteq> Throws e"
proof (induction buff off rule: decode_attrs.induct)
  case (1 buff off)
  show ?case
  proof (cases "off < length buff \<and> (\<exists>r. decode_attr buff off = Val r)")
    case True
    then obtain a off' where a: "decode_attr buff off = Val (a, off')" by fastforce
    then have "decode_attrs buff off' \<noteq> Throws e" using 1 True by simp
    then show ?thesis
      using True a by (cases "decode_attrs buff off'") (simp_all add: decode_attrs.simps [of buff off])
  next
    case False
    then show ?thesis
      by (cases "decode_attr buff off") (auto simp: decode_attrs.simps [of buff off])
  qed
qed

section \<open>Properties of the codec\<close>

lemma nth_encode_header:
  "k < 2 \<Longrightarrow> encode m ! k = encode_u16 [] (message_type (m_header m)) ! k"
  by (simp add: encode_split nth_append)

lemma decode_header_encode:
  "decode_u16 (encode m) 0 = Val (message_type (m_header m), 2)"
  "decode_u16 (encode m) 2 = Val (message_length (m_header m), 4)"
proof -
  let ?ty = "message_type (m_header m)" and ?len = "message_length (m_header m)"
  let ?rest = "transaction_id (m_header m) @ concat (map attr_bytes (m_attrs m))"
  have "decode_u16 ([] @ encode_u16 [] ?ty @ (encode_u16 [] ?len @ ?rest)) 0 = Val (?ty, 2)"
    by (rule u16_codec.dec_enc_at) simp_all
  then show "decode_u16 (encode m) 0 = Val (?ty, 2)" by (simp add: encode_split)
  have "decode_u16 (encode_u16 [] ?ty @ encode_u16 [] ?len @ ?rest) 2 = Val (?len, 4)"
    by (rule u16_codec.dec_enc_at) simp_all
  then show "decode_u16 (encode m) 2 = Val (?len, 4)" by (simp add: encode_split)
qed

lemma decode_attrs_encode:
  assumes "length (transaction_id (m_header m)) = 16" and "\<forall>a\<in>set (m_attrs m). wf_attribute a"
  shows "decode_attrs (encode m) 20 = Val (m_attrs m)"
proof -
  let ?pre = "encode_u16 [] (message_type (m_header m)) @ encode_u16 [] (message_length (m_header m))
      @ transaction_id (m_header m)"
  have "decode_attrs (?pre @ concat (map attr_bytes (m_attrs m))) (length ?pre) = Val (m_attrs m)"
    by (rule attr_codec.loop_concat_enc) (rule assms(2))
  then show ?thesis using assms(1) by (simp add: encode_split)
qed

text \<open>
  C1.  Round trip of the wire format: a binding response whose attributes carry their true lengths
  and whose encoding has at least 35 bytes is decoded to the same type, length field and
  attributes.  The transaction id is not the one that was encoded: it consists of every second byte
  from offset 4 on.
\<close>

theorem decode_encode:
  assumes "message_type (m_header m) = binding_response"
    and "length (transaction_id (m_header m)) = 16"
    and "\<forall>a\<in>set (m_attrs m). wf_attribute a"
    and "35 \<le> length (encode m)"
  shows "decode_message (encode m) None =
    Val (Some (m \<lparr> m_header := (m_header m)
                     \<lparr> transaction_id := map (\<lambda>k. encode m ! (4 + 2 * k)) [0..<16] \<rparr> \<rparr>), None)"
  using assms decode_attrs_encode [of m] decode_header_encode [of m]
  by (simp add: decode_message_def decode_transaction_id_16)

definition sample_response :: message where
  "sample_response = \<lparr> m_header = \<lparr> message_type = 0x0101, message_length = 24,
       transaction_id = map of_nat [0..<16] \<rparr>,
     m_attrs = [\<lparr> attr_type = 1, attr_length = 8, attr_value = [0, 1, 0x12, 0x34, 203, 0, 113, 7] \<rparr>,
                \<lparr> attr_type = 4, attr_length = 8, attr_value = [0, 1, 0x0d, 0x96, 198, 51, 100, 9] \<rparr>] \<rparr>"

lemma sample_response_facts:
  "message_type (m_header sample_response) = binding_response"
  "length (transaction_id (m_header sample_response)) = 16"
  "\<forall>a\<in>set (m_attrs sample_response). wf_attribute a"
  "length (encode sample_response) = 44"
  by (simp_all add: sample_response_def binding_response_def wf_attribute_def encode_split)

definition sample_decoded :: message where
  "sample_decoded = sample_response \<lparr> m_header := (m_header sample_response)
     \<lparr> transaction_id := map (\<lambda>k. encode sample_response ! (4 + 2 * k)) [0..<16] \<rparr> \<rparr>"

lemma decode_sample_response:
  "decode_message (encode sample_response) None = Val (Some sample_decoded, None)"
  using sample_response_facts decode_attrs_encode [of sample_response]
    decode_header_encode [of sample_response]
  by (simp add: decode_message_def decode_transaction_id_16 sample_decoded_def)

theorem decode_encode_witness:
  "decode_message (encode sample_response) None =
     Val (Some (sample_response \<lparr> m_header := (m_header sample_response)
       \<lparr> transaction_id := map (\<lambda>k. encode sample_response ! (4 + 2 * k)) [0..<16] \<rparr> \<rparr>), None)"
  by (rule decode_encode) (simp_all add: sample_response_facts)

text \<open>
  C7.  Soundness of the decoder: whatever buffer it accepts as a message has at least 35 bytes, is a
  binding response, and is exactly the encoding of the decoded attributes behind the 20 bytes of the
  header; every attribute's length field is the size of its value.
\<close>

theorem decode_message_sound:
  assumes "decode_message buff None = Val (Some m, off)"
  shows "35 \<le> length buff \<and> message_type (m_header m) = binding_response \<and>
    (\<forall>a\<in>set (m_attrs m). wf_attribute a) \<and>
    buff = encode (m \<lparr> m_header := (m_header m) \<lparr> transaction_id := take 16 (drop 4 buff) \<rparr> \<rparr>)"
proof -
  from assms obtain ty len off1 off2 tid off3 attrs where
    d1: "decode_u16 buff 0 = Val (ty, off1)" and d2: "decode_u16 buff off1 = Val (len, off2)" and
    ty: "ty = binding_response" and t: "decode_transaction_id buff off2 0 16 = Val (tid, off3)" and
    as: "decode_attrs buff off3 = Val attrs" and
    m: "m = \<lparr> m_header = \<lparr> message_type = ty, message_length = len, transaction_id = tid \<rparr>, m_attrs = attrs \<rparr>"
    by (auto simp: decode_message_def res_bind_Val_iff split: if_splits)
  note b1 = decode_u16_bytes [OF d1] and b2 = decode_u16_bytes [OF d2]
  have off2: "off2 = 4" using b1 b2 by simp
  then have long: "35 \<le> length buff" and off3: "off3 = 20"
    using t by (auto simp: decode_transaction_id_16 split: if_splits)
  have wf: "\<forall>a\<in>set attrs. wf_attribute a" and c: "concat (map attr_bytes attrs) = drop 20 buff"
    using decode_attrs_sound [OF as] off3 long by simp_all
  have e: "encode_u16 [] ty = take 2 buff" "encode_u16 [] len = take 2 (drop 2 buff)"
    using b1 b2 by (simp_all add: numeral_2_eq_2)
  have "buff = take 2 buff @ take 2 (drop 2 buff) @ take 16 (drop 4 buff) @ drop 20 buff"
    using append_take_drop_id [of 2 buff] append_take_drop_id [of 2 "drop 2 buff"]
      append_take_drop_id [of 16 "drop 4 buff"] by simp
  also have "\<dots> = encode (m \<lparr> m_header := (m_header m) \<lparr> transaction_id := take 16 (drop 4 buff) \<rparr> \<rparr>)"
    using e c m by (simp add: encode_split)
  finally show ?thesis using long wf ty m by simp
qed

theorem decode_message_sound_witness:
  "35 \<le> length (encode sample_response) \<and> (\<exists>m. decode_message (encode sample_response) None = Val (Some m, None)
     \<and> (\<forall>a\<in>set (m_attrs m). wf_attribute a))"
  using decode_message_sound [OF decode_sample_response] decode_sample_response by blast

text \<open>
  C24.  The outcomes of the decoder: it never throws; it reads outside the buffer whenever the buffer
  has fewer than 4 bytes, and also whenever a binding response has fewer than 35 bytes, although a
  response that carries one IPv4 mapped address has 32; any other message of at least 4 bytes is
  reported as no message.
\<close>

theorem decode_message_outcome:
  "decode_message buff None \<noteq> Throws e \<and>
   (length buff < 4 \<longrightarrow> decode_message buff None = UB) \<and>
   (4 \<le> length buff \<and> take 2 buff \<noteq> [1, 1] \<longrightarrow> decode_message buff None = Val (None, None)) \<and>
   (4 \<le> length buff \<and> take 2 buff = [1, 1] \<and> length buff < 35 \<longrightarrow> decode_message buff None = UB)"
proof -
  have resp: "encode_u16 [] binding_response = [1, 1]"
    by (simp add: encode_u16_def mem16_htons binding_response_def drop_bit_eq_div)
  have ty: "ty = binding_response \<longleftrightarrow> take 2 buff = [1, 1]" if "decode_u16 buff 0 = Val (ty, off)" for ty off
    using decode_u16_bytes [OF that] resp u16_codec.enc_inj [of ty binding_response] by auto
  have "decode_message buff None \<noteq> Throws e"
    by (auto simp: decode_message_def decode_transaction_id_16 split: res_bind_split if_splits)
  moreover have "length buff < 4 \<longrightarrow> decode_message buff None = UB"
    by (auto simp: decode_message_def decode_u16_def)
  moreover have "4 \<le> length buff \<Longrightarrow> \<exists>ty len. decode_u16 buff 0 = Val (ty, 2) \<and> decode_u16 buff 2 = Val (len, 4)"
    by (simp add: decode_u16_def)
  ultimately show ?thesis
    using ty by (fastforce simp: decode_message_def decode_transaction_id_16)
qed

theorem decode_message_outcome_witness:
  "decode_message ([1, 1, 0, 12] @ replicate 16 0 @ [0, 1, 0, 8, 0, 1, 0x12, 0x34, 203, 0, 113, 7]) None = UB"
  by (rule decode_message_outcome [THEN conjunct2, THEN conjunct2, THEN conjunct2, rule_format]) simp

text \<open>
  The request on the wire: 28 bytes, the type 1, the length 8 of what follows the header, the
  transaction id and an empty CHANGE-REQUEST attribute.
\<close>

theorem encode_binding_request:
  assumes "length tid = 16"
  shows "encode (create_binding_request tid) = [0, 1, 0, 8] @ tid @ [0, 3, 0, 4, 0, 0, 0, 0] \<and>
    length (encode (create_binding_request tid)) = 20 + unat (message_length (m_header (create_binding_request tid)))"
  using assms
  by (simp add: encode_split create_binding_request_def attr_bytes_split encode_u16_def mem16_htons
      drop_bit_eq_div)

theorem encode_binding_request_witness:
  "encode (create_binding_request (replicate 16 7)) = [0, 1, 0, 8] @ replicate 16 7 @ [0, 3, 0, 4, 0, 0, 0, 0]"
  using encode_binding_request [of "replicate 16 7"] by simp

text \<open>
  \<^verbatim>\<open>encode_u32\<close> does not round trip with \<^verbatim>\<open>decode_u32\<close>: the upper half of the number is lost
  and the lower half comes back in the upper half.
\<close>

theorem encode_u32_decode:
  "decode_u32 (encode_u32 buff n) (length buff) = Val (push_bit 16 n, length buff + 4)"
proof -
  let ?t = "ucast (htons (ucast n)) :: u32"
  have t: "ucast ?t = (ucast (drop_bit 8 n) :: u8)" "ucast (drop_bit 8 ?t) = (ucast n :: u8)"
    "ucast (drop_bit 16 ?t) = (0 :: u8)" "ucast (drop_bit 24 ?t) = (0 :: u8)"
    by (rule bit_word_eqI; auto simp: htons_def load16_def bit_simps)+
  have "push_bit 16 n = load32 0 0 (ucast n) (ucast (drop_bit 8 n))"
  proof (rule bit_word_eqI)
    fix k assume "k < LENGTH(32)"
    moreover have "8 + (k - 24) = k - 16" if "24 \<le> k" using that by arith
    ultimately show "bit (push_bit 16 n) k = bit (load32 0 0 (ucast n) (ucast (drop_bit 8 n))) k"
      by (cases "24 \<le> k") (auto simp: load32_def bit_simps)
  qed
  then show ?thesis
    by (simp add: decode_u32_def encode_u32_def mem32_def nth_append t)
qed

lemma decode_address_v4:
  "decode_address \<lparr> attr_type = t, attr_length = l, attr_value = [0, 1, p1, p0, a, b, c, d] \<rparr>
     = Val (Sockaddr_in (load16 p0 p1) (load32 a b c d))"
proof -
  have "load16 1 0 = 1" by (simp add: load16_def)
  then show ?thesis by (simp add: decode_address_def decode_u16_def decode_u32_def)
qed

lemma decode_address_v6:
  assumes "length v6 = 16"
  shows "decode_address \<lparr> attr_type = t, attr_length = l, attr_value = [0, 2, p1, p0] @ v6 \<rparr>
     = Val (Sockaddr_in6 (load16 p0 p1) v6)"
proof -
  have two: "load16 2 0 = 2" by (simp add: load16_def)
  have "map (\<lambda>i. ([0, 2, p1, p0] @ v6) ! (4 + i)) [0..<16] = v6"
    using assms by (auto intro!: nth_equalityI)
  then show ?thesis
    using assms by (simp add: decode_address_def decode_u16_def two)
qed

text \<open>
  The mapped address: an IPv4 value of 8 bytes becomes an IPv4 socket address whose four
  octets in memory are the octets of the value in order; an IPv6 value of 20 bytes becomes an IPv6
  socket address with the sixteen octets in order.
\<close>

theorem decode_address_octets:
  "decode_address \<lparr> attr_type = t, attr_length = l, attr_value = [0, 1, p1, p0, a, b, c, d] \<rparr>
     = Val (Sockaddr_in (load16 p0 p1) (load32 a b c d)) \<and>
   (length v6 = 16 \<longrightarrow>
    decode_address \<lparr> attr_type = t, attr_length = l, attr_value = [0, 2, p1, p0] @ v6 \<rparr>
     = Val (Sockaddr_in6 (load16 p0 p1) v6))"
  by (simp add: decode_address_v4 decode_address_v6 [simplified])

theorem decode_address_octets_witness:
  "decode_address \<lparr> attr_type = 1, attr_length = 20, attr_value = [0, 2, 0x12, 0x34] @ replicate 16 9 \<rparr>
     = Val (Sockaddr_in6 (load16 0x34 0x12) (replicate 16 9))"
  using decode_address_octets [of 1 20 "0x12" "0x34" 0 0 0 0 "replicate 16 9"] by simp

end
