(* ===== verification/C_Strings.thy ===== *)
theory C_Strings
  imports Netsrv_Prelude
begin

text \<open>
  The part of the C and C++ string libraries that the sources use.  A C string is the list of its
  characters before the terminating NUL.  Bounded copies are given by the size of the destination;
  an unbounded copy into a destination that is too small is undefined behaviour.  The lemmas give
  the facts about comparing, splitting and joining on which the round trips of the configuration
  files rest.
\<close>

section \<open>Characters and comparison\<close>

definition tolower_c :: "char \<Rightarrow> char" where
  "tolower_c c = (let n = (of_char c :: nat) in if 65 \<le> n \<and> n \<le> 90 then char_of (n + 32) else c)"

definition isspace_c :: "char \<Rightarrow> bool" where
  "isspace_c c \<longleftrightarrow> (let n = (of_char c :: nat) in n = 32 \<or> (9 \<le> n \<and> n \<le> 13))"

definition isdigit_c :: "char \<Rightarrow> bool" where
  "isdigit_c c \<longleftrightarrow> (let n = (of_char c :: nat) in 48 \<le> n \<and> n \<le> 57)"

definition isxdigit_c :: "char \<Rightarrow> bool" where
  "isxdigit_c c \<longleftrightarrow> (let n = (of_char c :: nat) in
     (48 \<le> n \<and> n \<le> 57) \<or> (65 \<le> n \<and> n \<le> 70) \<or> (97 \<le> n \<and> n \<le> 102))"

definition newline :: char where "newline = CHR 0x0A"
definition tab :: char where "tab = CHR 0x09"

definition strcasecmp_eq :: "string \<Rightarrow> string \<Rightarrow> bool" where
  "strcasecmp_eq a b \<longleftrightarrow> map tolower_c a = map tolower_c b"

definition strncmp_eq :: "string \<Rightarrow> string \<Rightarrow> nat \<Rightarrow> bool" where
  "strncmp_eq a b n \<longleftrightarrow> take n a = take n b"

definition strncasecmp_eq :: "string \<Rightarrow> string \<Rightarrow> nat \<Rightarrow> bool" where
  "strncasecmp_eq a b n \<longleftrightarrow> take n (map tolower_c a) = take n (map tolower_c b)"

lemma strcasecmp_eq_refl [simp]: "strcasecmp_eq s s"
  by (simp add: strcasecmp_eq_def)

lemma strcasecmp_eq_sym: "strcasecmp_eq a b \<longleftrightarrow> strcasecmp_eq b a"
  by (auto simp: strcasecmp_eq_def)

lemma strncasecmp_eq_refl [simp]: "strncasecmp_eq s s n"
  by (simp add: strncasecmp_eq_def)

section \<open>Bounded and unbounded copies\<close>

definition snprintf_to :: "nat \<Rightarrow> string \<Rightarrow> string" where
  "snprintf_to n s = take (n - 1) s"

definition strcpy_to :: "nat \<Rightarrow> string \<Rightarrow> string res" where
  "strcpy_to n s = (if length s < n then Val s else UB)"

lemma length_snprintf_to: "0 < n \<Longrightarrow> length (snprintf_to n s) < n"
  by (simp add: snprintf_to_def)

lemma snprintf_to_id [simp]: "length s < n \<Longrightarrow> snprintf_to n s = s"
  by (simp add: snprintf_to_def)

lemma strcpy_to_Val [simp]: "strcpy_to n s = Val t \<longleftrightarrow> t = s \<and> length s < n"
  by (auto simp: strcpy_to_def)

lemma strcpy_to_no_throw [simp]: "strcpy_to n s \<noteq> Throws e"
  by (simp add: strcpy_to_def)

section \<open>Searching\<close>

definition starts_with :: "string \<Rightarrow> string \<Rightarrow> bool" where
  "starts_with p s \<longleftrightarrow> take (length p) s = p"

text \<open>\<^verbatim>\<open>strstr\<close>: the rest of the string from the first occurrence on.\<close>

fun strstr :: "string \<Rightarrow> string \<Rightarrow> string option" where
  "strstr [] p = (if p = [] then Some [] else None)"
| "strstr (c # s) p = (if starts_with p (c # s) then Some (c # s) else strstr s p)"

definition contains :: "string \<Rightarrow> string \<Rightarrow> bool" where
  "contains s p \<longleftrightarrow> strstr s p \<noteq> None"

definition strcasestr :: "string \<Rightarrow> string \<Rightarrow> bool" where
  "strcasestr s p \<longleftrightarrow> contains (map tolower_c s) (map tolower_c p)"

lemma starts_with_iff: "starts_with p s \<longleftrightarrow> (\<exists>t. s = p @ t)"
  unfolding starts_with_def by (metis append_eq_conv_conj append_take_drop_id)

lemma strstr_SomeD: "strstr s p = Some t \<Longrightarrow> (\<exists>u. s = u @ t) \<and> starts_with p t"
proof (induction s)
  case (Cons c s)
  then show ?case by (auto split: if_splits)
qed (auto split: if_splits simp: starts_with_def)

lemma strstr_found: "strstr (u @ p @ v) p \<noteq> None"
proof (induction u)
  case Nil
  have "starts_with p (p @ v)" by (simp add: starts_with_def)
  then show ?case by (cases "p @ v") (auto simp: starts_with_def)
qed (auto simp: starts_with_iff)

lemma contains_iff: "contains s p \<longleftrightarrow> (\<exists>u v. s = u @ p @ v)"
proof
  assume "contains s p"
  then obtain t where "strstr s p = Some t" by (auto simp: contains_def)
  then show "\<exists>u v. s = u @ p @ v" using strstr_SomeD by (fastforce simp: starts_with_iff)
next
  assume "\<exists>u v. s = u @ p @ v"
  then show "contains s p" using strstr_found by (auto simp: contains_def)
qed

section \<open>Splitting\<close>

text \<open>The pieces of a string between the occurrences of a character (one more than occurrences).\<close>

fun split_char :: "char \<Rightarrow> string \<Rightarrow> string list" where
  "split_char d [] = [[]]"
| "split_char d (c # s) =
     (if c = d then [] # split_char d s
      else (case split_char d s of p # ps \<Rightarrow> (c # p) # ps | [] \<Rightarrow> [[c]]))"

text \<open>
  Repeated \<^verbatim>\<open>std::getline(stream, token, d)\<close> until it fails: the pieces, without a trailing empty
  one.
\<close>

definition getline_all :: "char \<Rightarrow> string \<Rightarrow> string list" where
  "getline_all d s = (let ps = split_char d s in if last ps = [] then butlast ps else ps)"

text \<open>Repeated \<^verbatim>\<open>strtok\<close>: the non-empty pieces between characters of the delimiter set.\<close>

fun strtok_all :: "string \<Rightarrow> string \<Rightarrow> string list" where
  "strtok_all ds [] = []"
| "strtok_all ds (c # s) =
     (if c \<in> set ds then strtok_all ds s
      else (case s of
              [] \<Rightarrow> [[c]]
            | c' # _ \<Rightarrow>
                if c' \<in> set ds then [c] # strtok_all ds s
                else (case strtok_all ds s of p # ps \<Rightarrow> (c # p) # ps | [] \<Rightarrow> [[c]])))"

fun join_char :: "char \<Rightarrow> string list \<Rightarrow> string" where
  "join_char d [] = []"
| "join_char d [p] = p"
| "join_char d (p # ps) = p @ d # join_char d ps"

lemma split_char_nonempty [simp]: "split_char d s \<noteq> []"
  by (induction s) (auto split: list.splits)

lemma split_char_none: "d \<notin> set s \<Longrightarrow> split_char d s = [s]"
  by (induction s) auto

lemma split_char_append: "d \<notin> set p \<Longrightarrow> split_char d (p @ d # s) = p # split_char d s"
  by (induction p) auto

lemma split_char_join:
  "ps \<noteq> [] \<Longrightarrow> \<forall>p\<in>set ps. d \<notin> set p \<Longrightarrow> split_char d (join_char d ps) = ps"
  by (induction d ps rule: join_char.induct) (auto simp: split_char_none split_char_append)

lemma join_split_char: "join_char d (split_char d s) = s"
proof (induction s)
  case (Cons c s)
  obtain p ps where ps: "split_char d s = p # ps" by (cases "split_char d s") auto
  then have "join_char d (p # ps) = s" using Cons by simp
  moreover have "join_char d ((c # p) # ps) = c # join_char d (p # ps)" by (cases ps) simp_all
  ultimately show ?case using ps by simp
qed simp

lemma split_char_pieces: "p \<in> set (split_char d s) \<Longrightarrow> d \<notin> set p"
  by (induction s arbitrary: p) (auto split: list.splits if_splits)

lemma getline_all_join:
  assumes "ps \<noteq> []" and "\<forall>p\<in>set ps. d \<notin> set p" and "last ps \<noteq> []"
  shows "getline_all d (join_char d ps) = ps"
  using assms by (simp add: getline_all_def split_char_join)

text \<open>Lines that each end in the separator are read back exactly.\<close>

lemma getline_all_lines:
  assumes "\<forall>l\<in>set ls. d \<notin> set l"
  shows "getline_all d (concat (map (\<lambda>l. l @ [d]) ls)) = ls"
proof -
  have "split_char d (concat (map (\<lambda>l. l @ [d]) ls)) = ls @ [[]]"
    using assms by (induction ls) (simp_all add: split_char_append)
  then show ?thesis by (simp add: getline_all_def)
qed

lemma strtok_all_single:
  "s \<noteq> [] \<Longrightarrow> set s \<inter> set ds = {} \<Longrightarrow> strtok_all ds s = [s]"
proof (induction s)
  case (Cons c s)
  then show ?case by (cases s) simp_all
qed simp

lemma strtok_all_append:
  "p \<noteq> [] \<Longrightarrow> set p \<inter> set ds = {} \<Longrightarrow> d \<in> set ds \<Longrightarrow> strtok_all ds (p @ d # s) = p # strtok_all ds s"
proof (induction p)
  case (Cons c p)
  then show ?case by (cases p) auto
qed simp

lemma strtok_all_delim [simp]: "d \<in> set ds \<Longrightarrow> strtok_all ds (d # s) = strtok_all ds s"
  by simp

section \<open>Stream and formatted input\<close>

text \<open>
  \<^verbatim>\<open>%s\<close> of \<^verbatim>\<open>scanf\<close> and \<^verbatim>\<open>>>\<close> into a string: skip white space, take characters up to the next
  white space; fails at the end of the input.  \<^verbatim>\<open>%x\<close> takes an optional sign, an optional
  \<^verbatim>\<open>0x\<close> and hexadecimal digits.
\<close>

definition scan_str :: "string \<Rightarrow> (string \<times> string) option" where
  "scan_str s = (let s' = dropWhile isspace_c s in
     if s' = [] then None
     else Some (takeWhile (\<lambda>c. \<not> isspace_c c) s', dropWhile (\<lambda>c. \<not> isspace_c c) s'))"

definition skip_sign :: "string \<Rightarrow> string" where
  "skip_sign s = (case s of c # t \<Rightarrow> if c = CHR ''+'' \<or> c = CHR ''-'' then t else s | [] \<Rightarrow> [])"

definition skip_0x :: "string \<Rightarrow> string" where
  "skip_0x s = (case s of
      c # x # t \<Rightarrow> if c = CHR ''0'' \<and> tolower_c x = CHR ''x'' then t else s
    | _ \<Rightarrow> s)"

definition scan_hex :: "string \<Rightarrow> (string \<times> string) option" where
  "scan_hex s = (let s' = skip_0x (skip_sign (dropWhile isspace_c s)) in
     if takeWhile isxdigit_c s' = [] then None
     else Some (takeWhile isxdigit_c s', dropWhile isxdigit_c s'))"

lemma scan_str_shorter: "scan_str s = Some (t, r) \<Longrightarrow> length r < length s"
proof -
  assume a: "scan_str s = Some (t, r)"
  let ?s = "dropWhile isspace_c s"
  have ne: "?s \<noteq> []" and r: "r = dropWhile (\<lambda>c. \<not> isspace_c c) ?s"
    using a by (auto simp: scan_str_def Let_def split: if_splits)
  have "\<not> isspace_c (hd ?s)" using hd_dropWhile [OF ne] .
  then have "length r < length ?s"
    using ne r by (cases ?s) (auto simp: length_dropWhile_le less_Suc_eq_le)
  also have "\<dots> \<le> length s" by (rule length_dropWhile_le)
  finally show ?thesis .
qed

lemma length_skip_le: "length (skip_sign s) \<le> length s" "length (skip_0x s) \<le> length s"
  by (auto simp: skip_sign_def skip_0x_def split: list.splits)

lemma scan_hex_shorter: "scan_hex s = Some (t, r) \<Longrightarrow> length r \<le> length s"
  unfolding scan_hex_def Let_def
  by (auto split: if_splits intro!: order_trans [OF length_dropWhile_le] order_trans [OF length_skip_le(2)]
        order_trans [OF length_skip_le(1)] length_dropWhile_le)

text \<open>The white-space separated words of a string (repeated \<^verbatim>\<open>>>\<close>).\<close>

function words_of :: "string \<Rightarrow> string list" where
  "words_of s = (case scan_str s of None \<Rightarrow> [] | Some (w, r) \<Rightarrow> w # words_of r)"
  by auto
termination by (relation "measure length") (auto dest: scan_str_shorter)

declare words_of.simps [simp del]

text \<open>\<^verbatim>\<open>fgets\<close> with a buffer of \<^verbatim>\<open>n\<close> characters: at most \<^verbatim>\<open>n - 1\<close> characters, up to and including a newline.\<close>

fun fgets :: "nat \<Rightarrow> string \<Rightarrow> string \<times> string" where
  "fgets 0 s = ([], s)"
| "fgets (Suc n) [] = ([], [])"
| "fgets (Suc n) (c # s) =
     (if n = 0 then ([], c # s)
      else if c = newline then ([c], s)
      else (let (l, r) = fgets n s in (c # l, r)))"

lemma fgets_split: "fgets n s = (l, r) \<Longrightarrow> s = l @ r \<and> length l \<le> n - 1"
proof (induction n s arbitrary: l r rule: fgets.induct)
  case (3 n c s)
  then show ?case by (auto split: if_splits prod.splits)
qed auto

lemma fgets_progress: "fgets (Suc (Suc n)) (c # s) = (l, r) \<Longrightarrow> length r < length (c # s)"
proof -
  assume a: "fgets (Suc (Suc n)) (c # s) = (l, r)"
  then have "l \<noteq> []" by (auto split: if_splits prod.splits)
  moreover have "c # s = l @ r" using fgets_split [OF a] by simp
  ultimately show ?thesis by (metis length_append length_greater_0_conv less_add_same_cancel2)
qed

text \<open>All the chunks that a \<^verbatim>\<open>while (fgets(...))\<close> loop with a buffer of \<^verbatim>\<open>n + 2\<close> characters sees.\<close>

function fgets_all :: "nat \<Rightarrow> string \<Rightarrow> string list" where
  "fgets_all n [] = []"
| "fgets_all n (c # s) = (case fgets (Suc (Suc n)) (c # s) of (l, r) \<Rightarrow> l # fgets_all n r)"
  by pat_completeness auto
termination by (relation "measure (\<lambda>(n, s). length s)") (auto simp del: fgets.simps dest!: fgets_progress [OF sym])

lemma fgets_all_concat: "concat (fgets_all n s) = s"
proof (induction n s rule: fgets_all.induct)
  case (2 n c s)
  then show ?case by (auto split: prod.splits dest: fgets_split)
qed simp

lemma fgets_line:
  "length l < n \<Longrightarrow> newline \<notin> set l \<Longrightarrow> fgets (Suc n) (l @ newline # rest) = (l @ [newline], rest)"
proof (induction l arbitrary: n)
  case Nil
  then show ?case by simp
next
  case (Cons c l)
  then obtain m where n: "n = Suc m" by (cases n) auto
  then have "fgets (Suc m) (l @ newline # rest) = (l @ [newline], rest)" using Cons by simp
  then show ?case using Cons.prems n by auto
qed

lemma fgets_all_line:
  assumes "length l \<le> n" and "newline \<notin> set l"
  shows "fgets_all n (l @ newline # rest) = (l @ [newline]) # fgets_all n rest"
proof -
  have "fgets (Suc (Suc n)) (l @ newline # rest) = (l @ [newline], rest)"
    using assms by (intro fgets_line) simp_all
  moreover obtain c t where "l @ newline # rest = c # t" by (cases l) auto
  ultimately show ?thesis by simp
qed

section \<open>Numbers\<close>

definition digit_value :: "char \<Rightarrow> nat" where
  "digit_value c = of_char c - 48"

definition nat_of_digits :: "string \<Rightarrow> nat" where
  "nat_of_digits s = foldl (\<lambda>n c. 10 * n + digit_value c) 0 s"

definition atoi :: "string \<Rightarrow> int" where
  "atoi s = (let s' = dropWhile isspace_c s;
                 v = int (nat_of_digits (takeWhile isdigit_c (skip_sign s')))
             in if s' \<noteq> [] \<and> hd s' = CHR ''-'' then - v else v)"

definition digit_char :: "nat \<Rightarrow> char" where
  "digit_char n = char_of (n + 48)"

fun show_nat :: "nat \<Rightarrow> string" where
  "show_nat n = (if n < 10 then [digit_char n] else show_nat (n div 10) @ [digit_char (n mod 10)])"

declare show_nat.simps [simp del]

definition show_int :: "int \<Rightarrow> string" where
  "show_int i = (if i < 0 then CHR ''-'' # show_nat (nat (- i)) else show_nat (nat i))"

lemma digit_char_facts:
  assumes "n < 10"
  shows "digit_value (digit_char n) = n" "isdigit_c (digit_char n)" "\<not> isspace_c (digit_char n)"
proof -
  have "(of_char (char_of (n + 48) :: char) :: nat) = n + 48" using assms by simp
  then show "digit_value (digit_char n) = n" "isdigit_c (digit_char n)" "\<not> isspace_c (digit_char n)"
    using assms by (simp_all add: digit_value_def digit_char_def isdigit_c_def isspace_c_def)
qed

lemma show_nat_digits: "c \<in> set (show_nat n) \<Longrightarrow> isdigit_c c"
proof (induction n rule: show_nat.induct)
  case (1 n)
  then show ?case
    by (subst (asm) (2) show_nat.simps) (auto split: if_splits simp: digit_char_facts)
qed

lemma nat_of_digits_snoc: "nat_of_digits (s @ [c]) = 10 * nat_of_digits s + digit_value c"
  by (simp add: nat_of_digits_def)

lemma nat_of_digits_show_nat [simp]: "nat_of_digits (show_nat n) = n"
proof (induction n rule: show_nat.induct)
  case (1 n)
  show ?case
  proof (cases "n < 10")
    case True
    then show ?thesis by (subst show_nat.simps) (simp add: nat_of_digits_def digit_char_facts)
  next
    case False
    then show ?thesis using 1 by (subst show_nat.simps) (simp add: nat_of_digits_snoc digit_char_facts)
  qed
qed

lemma show_nat_nonempty [simp]: "show_nat n \<noteq> []"
  by (subst show_nat.simps) simp

end
