(* ===== verification/Netsrv_Utils.thy ===== *)
theory Netsrv_Utils
  imports C_Strings
begin

text \<open>
  The helpers of \<^verbatim>\<open>netsrvmgrUtiles.cpp\<close>: which interface carries the default route, the address
  and netmask of an interface, the addresses that are skipped (unique local, link local, derived
  from the hardware address, reserved for documentation), the type of an interface according to
  \<^verbatim>\<open>device.properties\<close>, and the DHCP helper script.  The operating system (environment, readable
  files, \<^verbatim>\<open>ioctl\<close>, \<^verbatim>\<open>popen\<close>, the netlink monitor) is a record of its answers; the GLib string functions
  are a record of functions.  \<^verbatim>\<open>inet_pton\<close> for IPv4 is the dotted-decimal parser.
\<close>

section \<open>Environment\<close>

record os =
  os_getenv :: "string \<Rightarrow> string option"
  os_file :: "string \<Rightarrow> string option"
  os_socket :: int
  os_hwaddr :: "string \<Rightarrow> buffer option"
  os_netmask :: "string \<Rightarrow> int \<Rightarrow> buffer option"
  os_ifaddrs :: "(string \<times> bool) list"
  os_getIpaddr :: "string \<Rightarrow> int \<Rightarrow> string list"
  os_system :: "string \<Rightarrow> int"
  os_popen :: "string \<Rightarrow> string option"
  os_inet_pton6 :: "string \<Rightarrow> buffer option"
  os_inet_ntop :: "int \<Rightarrow> buffer \<Rightarrow> string option"

record glib =
  g_strsplit_set :: "string \<Rightarrow> string \<Rightarrow> string list"
  g_strstrip :: "string \<Rightarrow> string"
  g_strrstr :: "string \<Rightarrow> string \<Rightarrow> bool"

definition INTERFACE_SIZE :: nat where "INTERFACE_SIZE = 10"
definition INTERFACE_LIST :: nat where "INTERFACE_LIST = 50"
definition MAX_IP_ADDRESS_LEN :: nat where "MAX_IP_ADDRESS_LEN = 46"
definition INET6_ADDRSTRLEN :: nat where "INET6_ADDRSTRLEN = 46"
definition IFNAMSIZ :: nat where "IFNAMSIZ = 16"
definition MAC_ADDR_BUFF_LEN :: nat where "MAC_ADDR_BUFF_LEN = 18"

text \<open>\<^verbatim>\<open>inet_pton(AF_INET, s, ...)\<close>: the \<^verbatim>\<open>s_addr\<close> field (network order in memory).\<close>

definition dec_octet :: "string \<Rightarrow> u8 option" where
  "dec_octet s =
     (if s \<noteq> [] \<and> length s \<le> 3 \<and> list_all isdigit_c s \<and> (hd s = CHR ''0'' \<longrightarrow> length s = 1)
         \<and> nat_of_digits s \<le> 255
      then Some (of_nat (nat_of_digits s)) else None)"

definition inet_pton4 :: "string \<Rightarrow> u32 option" where
  "inet_pton4 s =
     (case map dec_octet (split_char (CHR ''.'') s) of
        [Some a, Some b, Some c, Some d] \<Rightarrow> Some (load32 a b c d)
      | _ \<Rightarrow> None)"

section \<open>Hardware address and DHCP lease\<close>

definition hex_digit :: "u8 \<Rightarrow> char" where
  "hex_digit n = (if n < 10 then char_of (unat n + 48) else char_of (unat n + 55))"

definition hex_byte :: "u8 \<Rightarrow> string" where
  "hex_byte b = [hex_digit (drop_bit 4 b), hex_digit (b AND 15)]"

definition mac_string :: "buffer \<Rightarrow> string" where
  "mac_string mac = join_char (CHR '':'') (map hex_byte (take 6 mac))"

definition getMacAddress_IfName :: "os \<Rightarrow> string option \<Rightarrow> string \<Rightarrow> bool \<times> string" where
  "getMacAddress_IfName env ifName_in macAddress_out =
     (case ifName_in of
        None \<Rightarrow> (False, macAddress_out)
      | Some ifName \<Rightarrow>
          if os_socket env > 0
          then (case os_hwaddr env (take (IFNAMSIZ - 1) ifName) of
                  Some mac \<Rightarrow> (True, snprintf_to MAC_ADDR_BUFF_LEN (mac_string mac))
                | None \<Rightarrow> (False, macAddress_out))
          else (False, macAddress_out))"

text \<open>The command that \<^verbatim>\<open>triggerDhcpLease\<close> hands to \<^verbatim>\<open>popen\<close>; its output is only logged.\<close>

definition triggerDhcpLease :: "string \<Rightarrow> string option \<Rightarrow> string" where
  "triggerDhcpLease operation interface =
     snprintf_to 200 (''/lib/rdk/triggerDhcpLease.sh '' @ operation @ '' ''
       @ (case interface of Some i \<Rightarrow> i | None \<Rightarrow> []) @ '' 2>&1'')"

definition triggerDhcpRenew :: "string option \<Rightarrow> string" where
  "triggerDhcpRenew interface = triggerDhcpLease ''renew'' interface"

definition triggerDhcpReleaseAndRenew :: "string option \<Rightarrow> string" where
  "triggerDhcpReleaseAndRenew interface = triggerDhcpLease ''release_and_renew'' interface"

section \<open>The default route\<close>

text \<open>
  One \<^verbatim>\<open>fscanf\<close> of a line of \<^verbatim>\<open>/proc/net/ipv6_route\<close>: the fields that were assigned and the rest of
  the input; \<^term>\<open>None\<close> is \<^verbatim>\<open>EOF\<close>.  A conversion that does not match stops the scan.
\<close>

definition skip_hex :: "string \<Rightarrow> string option" where
  "skip_hex s = map_option snd (scan_hex s)"

fun skip_hexes :: "nat \<Rightarrow> string \<Rightarrow> string \<times> bool" where
  "skip_hexes 0 s = (s, True)"
| "skip_hexes (Suc n) s = (case skip_hex s of None \<Rightarrow> (dropWhile isspace_c s, False) | Some r \<Rightarrow> skip_hexes n r)"

definition scan_ipv6_route :: "string \<Rightarrow> (string list \<times> string) option" where
  "scan_ipv6_route s =
     (case scan_str s of
        None \<Rightarrow> None
      | Some (dst, r1) \<Rightarrow>
         (case skip_hexes 1 r1 of (r2, ok2) \<Rightarrow> if \<not> ok2 then Some ([dst], r2) else
         (case scan_str r2 of None \<Rightarrow> Some ([dst], []) | Some (_, r3) \<Rightarrow>
         (case skip_hexes 1 r3 of (r4, ok4) \<Rightarrow> if \<not> ok4 then Some ([dst], r4) else
         (case scan_str r4 of None \<Rightarrow> Some ([dst], []) | Some (gw, r5) \<Rightarrow>
         (case skip_hexes 4 r5 of (r6, ok6) \<Rightarrow> if \<not> ok6 then Some ([dst, gw], r6) else
         (case scan_str r6 of None \<Rightarrow> Some ([dst, gw], []) | Some (dev, r7) \<Rightarrow>
           Some ([dst, gw, dev], r7))))))))"

lemma skip_hexes_shorter: "skip_hexes n s = (r, ok) \<Longrightarrow> length r \<le> length s"
proof (induction n s rule: skip_hexes.induct)
  case (2 n s)
  then show ?case
    by (auto simp: skip_hex_def length_dropWhile_le split: option.splits dest: scan_hex_shorter)
qed simp

lemma scan_ipv6_route_shorter: "scan_ipv6_route s = Some (fs, r) \<Longrightarrow> length r < length s"
  unfolding scan_ipv6_route_def
  by (auto simp del: skip_hexes.simps split: option.splits prod.splits if_splits
      dest!: scan_str_shorter skip_hexes_shorter)

text \<open>
  The loop of \<^verbatim>\<open>getIPv6RouteInterface\<close>.  Besides the flag it returns the contents of \<^verbatim>\<open>devname\<close>,
  which every complete line overwrites.
\<close>

function ipv6_route_loop :: "nat \<Rightarrow> string \<Rightarrow> string \<Rightarrow> (bool \<times> string) res" where
  "ipv6_route_loop sz devname s =
     (case scan_ipv6_route s of
        None \<Rightarrow> Val (False, devname)
      | Some (conv, r) \<Rightarrow>
         if list_ex (\<lambda>f. 50 \<le> length f) (take 2 conv) then UB
         else (case conv of
            [dst, gw, dev] \<Rightarrow>
              if sz \<le> length dev then UB
              else if dst = gw \<and> dev \<noteq> ''sit0'' \<and> dev \<noteq> ''lo'' then Val (True, dev)
              else ipv6_route_loop sz dev r
          | _ \<Rightarrow> ipv6_route_loop sz devname r))"
  by auto
termination
  by (relation "measure (\<lambda>(n, d, s). length s)") (auto dest: scan_ipv6_route_shorter)

declare ipv6_route_loop.simps [simp del]

definition getIPv6RouteInterface :: "os \<Rightarrow> nat \<Rightarrow> string \<Rightarrow> (bool \<times> string) res" where
  "getIPv6RouteInterface env sz devname =
     (case os_file env ''/proc/net/ipv6_route'' of
        Some s \<Rightarrow> ipv6_route_loop sz devname s
      | None \<Rightarrow> Val (False, devname))"

fun ipv4_route_loop :: "nat \<Rightarrow> string \<Rightarrow> string list \<Rightarrow> (bool \<times> string) res" where
  "ipv4_route_loop sz devname [] = Val (False, devname)"
| "ipv4_route_loop sz devname (line # ls) =
     (case strtok_all [CHR '' '', tab] line of
        ptr # ctr # _ \<Rightarrow>
          if ctr = ''00000000'' then res_bind (strcpy_to sz ptr) (\<lambda>d. Val (True, d))
          else ipv4_route_loop sz devname ls
      | _ \<Rightarrow> ipv4_route_loop sz devname ls)"

definition getIPv4RouteInterface :: "os \<Rightarrow> nat \<Rightarrow> string \<Rightarrow> (bool \<times> string) res" where
  "getIPv4RouteInterface env sz devname =
     (case os_file env ''/proc/net/route'' of
        Some s \<Rightarrow> ipv4_route_loop sz devname (fgets_all 98 s)
      | None \<Rightarrow> Val (False, devname))"

definition getRouteInterface :: "os \<Rightarrow> nat \<Rightarrow> string \<Rightarrow> (bool \<times> string) res" where
  "getRouteInterface env sz devname =
     res_bind (getIPv6RouteInterface env sz devname) (\<lambda>(found, d).
       if found then Val (True, d) else getIPv4RouteInterface env sz d)"

section \<open>Interface types\<close>

text \<open>
  \<^verbatim>\<open>g_strsplit_set\<close> ends the vector with a null pointer, which compares unequal to every name, so the
  token after the last one never matches.
\<close>

fun dev_file_loop :: "glib \<Rightarrow> string \<Rightarrow> string list \<Rightarrow> bool \<times> string" where
  "dev_file_loop g dev [] = (False, dev)"
| "dev_file_loop g dev (t # ts) =
     (let key = g_strstrip g t;
          here = (case ts of n # _ \<Rightarrow> g_strstrip g n = dev | [] \<Rightarrow> False) in
      if g_strrstr g key ''ETHERNET_INTERFACE'' \<and> here then (True, ''ETHERNET'')
      else if g_strrstr g key ''MOCA_INTERFACE'' \<and> here then (True, ''MOCA'')
      else if g_strrstr g key ''WIFI_INTERFACE'' \<and> here then (True, ''WIFI'')
      else dev_file_loop g dev ts)"

definition readDevFile :: "glib \<Rightarrow> os \<Rightarrow> string \<Rightarrow> bool \<times> string" where
  "readDevFile g env deviceName =
     (case os_file env ''//etc/device.properties'' of
        None \<Rightarrow> (False, deviceName)
      | Some s \<Rightarrow> dev_file_loop g deviceName (g_strsplit_set g s ([CHR '','', CHR ''='', CHR 0x27, newline, CHR 0x27])))"

definition getRouteInterfaceType :: "glib \<Rightarrow> os \<Rightarrow> nat \<Rightarrow> string \<Rightarrow> (bool \<times> string) res" where
  "getRouteInterfaceType g env sz devname =
     res_bind (getRouteInterface env sz devname) (\<lambda>(found, d).
       if \<not> found then Val (False, d) else Val (readDevFile g env d))"

text \<open>
  \<^verbatim>\<open>getAllNetworkInterface\<close>: the types of the interfaces with an address, each once, separated by
  commas, and their number (a \<^verbatim>\<open>char\<close>).
\<close>

fun all_interfaces_loop ::
    "glib \<Rightarrow> os \<Rightarrow> (string \<times> bool) list \<Rightarrow> string \<times> bool \<times> 8 word \<Rightarrow> (string \<times> 8 word) res" where
  "all_interfaces_loop g env [] (device, first, count) = Val (device, count)"
| "all_interfaces_loop g env ((ifa_name, has_addr) # rest) (device, first, count) =
     (if has_addr \<and> ifa_name \<noteq> ''sit0'' \<and> ifa_name \<noteq> ''lo''
      then res_bind (strcpy_to 10 ifa_name) (\<lambda>temp.
             case readDevFile g env temp of (ok, ty) \<Rightarrow>
               if ok \<and> \<not> g_strrstr g device ty
               then all_interfaces_loop g env rest
                      ((if first then device @ '','' else device) @ ty, True, count + 1)
               else all_interfaces_loop g env rest (device, first, count))
      else all_interfaces_loop g env rest (device, first, count))"

definition getAllNetworkInterface :: "glib \<Rightarrow> os \<Rightarrow> (8 word \<times> string) res" where
  "getAllNetworkInterface g env =
     res_bind (all_interfaces_loop g env (os_ifaddrs env) ([], False, 0)) (\<lambda>(device, count).
       res_bind (strcpy_to INTERFACE_LIST device) (\<lambda>d. Val (count, d)))"

definition checkInterfaceActive :: "os \<Rightarrow> string option \<Rightarrow> bool res" where
  "checkInterfaceActive env interfaceName =
     (case interfaceName of
        None \<Rightarrow> Val False
      | Some n \<Rightarrow>
         res_bind (strcpy_to 100 (''/sys/class/net/'' @ n @ ''/operstate'')) (\<lambda>path.
           case os_file env path of
             None \<Rightarrow> Val False
           | Some s \<Rightarrow>
               res_bind (case scan_str s of Some (w, _) \<Rightarrow> strcpy_to 100 w | None \<Rightarrow> Val path)
                 (\<lambda>buf. Val (strcasestr buf ''UP''))))"

definition currentActiveInterface :: "os \<Rightarrow> nat \<Rightarrow> string \<Rightarrow> (bool \<times> string) res" where
  "currentActiveInterface env sz currentInterface =
     (case (os_getenv env ''WIFI_INTERFACE'', os_getenv env ''MOCA_INTERFACE'') of
        (Some w, Some m) \<Rightarrow>
          res_bind (checkInterfaceActive env (Some m)) (\<lambda>active.
          res_bind (strcpy_to sz (if active then m else w)) (\<lambda>i. Val (True, i)))
      | (Some w, None) \<Rightarrow> res_bind (strcpy_to sz []) (\<lambda>i. Val (True, i))
      | (None, Some m) \<Rightarrow> res_bind (strcpy_to sz m) (\<lambda>i. Val (True, i))
      | (None, None) \<Rightarrow> Val (False, currentInterface))"

section \<open>Addresses\<close>

definition chk_ipaddr_linklocal :: "os \<Rightarrow> string \<Rightarrow> int \<Rightarrow> bool res" where
  "chk_ipaddr_linklocal env stbip family =
     (if family = AF_INET
      then (case inet_pton4 stbip of
              Some a \<Rightarrow> Val (a AND htonl 0xffff0000 = htonl 0xa9fe0000)
            | None \<Rightarrow> UB)
      else if family = AF_INET6
      then (case os_inet_pton6 env stbip of
              Some (b0 # b1 # _) \<Rightarrow> Val (b0 = 0xfe \<and> b1 AND 0xc0 = 0x80)
            | _ \<Rightarrow> UB)
      else Val False)"

definition isIPv4AddressScopeDocumentation :: "string \<Rightarrow> bool res" where
  "isIPv4AddressScopeDocumentation ipv4_address =
     (case inet_pton4 ipv4_address of
        None \<Rightarrow> UB
      | Some a \<Rightarrow>
          let network_address = a AND htonl 0xffffff00
          in Val (network_address = htonl 0xc0000200 \<or> network_address = htonl 0xc6336400
                  \<or> network_address = htonl 0xcb007100))"

text \<open>\<^verbatim>\<open>std::string::insert(6, ...)\<close> throws \<^verbatim>\<open>out_of_range\<close> on a string of fewer than 6 characters.\<close>

definition check_global_v6_based_macaddress :: "string \<Rightarrow> string \<Rightarrow> bool res" where
  "check_global_v6_based_macaddress ipv6Addr macAddr =
     (if ipv6Addr = [] \<and> macAddr = [] then Val False
      else if length macAddr < 12 then Val False
      else let tmpMac = filter (\<lambda>c. c \<noteq> CHR '':'') (map tolower_c macAddr) in
        if length tmpMac < 6 then Throws ''basic_string::insert''
        else let tmpMac = drop 2 (take 6 tmpMac @ ''fffe'' @ drop 6 tmpMac);
                 tmpIp = filter (\<lambda>c. c \<noteq> CHR '':'') (map tolower_c ipv6Addr)
             in Val (contains tmpIp tmpMac))"

definition check_global_v6_ula_address :: "string \<Rightarrow> bool" where
  "check_global_v6_ula_address ipv6Addr \<longleftrightarrow>
     ipv6Addr \<noteq> [] \<and> (starts_with ''fd'' ipv6Addr \<or> starts_with ''fc'' ipv6Addr)"

definition strip_prefix_length :: "string \<Rightarrow> string" where
  "strip_prefix_length s = takeWhile (\<lambda>c. c \<noteq> CHR ''/'') s"

text \<open>
  The body of the address loops of \<^verbatim>\<open>getInterfaceConfig\<close> and \<^verbatim>\<open>getSTBip_family\<close>: the address without
  its prefix length when it is to be used, \<^term>\<open>None\<close> when it is skipped.
\<close>

definition select_address :: "os \<Rightarrow> int \<Rightarrow> string \<Rightarrow> nat \<Rightarrow> string \<Rightarrow> string option res" where
  "select_address env family macAddrStr count s =
     (if check_global_v6_ula_address s then Val None
      else res_bind (if count > 1 then check_global_v6_based_macaddress s macAddrStr else Val False)
        (\<lambda>from_mac. if from_mac then Val None
         else let tempStr = strip_prefix_length s in
           res_bind (chk_ipaddr_linklocal env tempStr family) (\<lambda>ll.
             if ll then Val None
             else res_bind (if family = AF_INET then isIPv4AddressScopeDocumentation tempStr else Val False)
               (\<lambda>doc. if doc then Val None else Val (Some tempStr)))))"

fun address_loop ::
    "os \<Rightarrow> int \<Rightarrow> string \<Rightarrow> nat \<Rightarrow> string list \<Rightarrow> string option \<Rightarrow> string option res" where
  "address_loop env family mac count [] ip = Val ip"
| "address_loop env family mac count (s # ss) ip =
     res_bind (select_address env family mac count s) (\<lambda>sel.
       case sel of
         None \<Rightarrow> address_loop env family mac count ss ip
       | Some t \<Rightarrow> res_bind (strcpy_to 46 t) (\<lambda>t. address_loop env family mac count ss (Some t)))"

definition getNetMask_IfName :: "os \<Rightarrow> string \<Rightarrow> int \<Rightarrow> string option \<Rightarrow> (bool \<times> string option) res" where
  "getNetMask_IfName env ifName_in family netMask_out =
     (if os_socket env > 0
      then let name = take (IFNAMSIZ - 1) ifName_in in
        res_bind (if os_system env ''/lib/rdk/pni_controller.sh uses_virtual_interface'' = 0
                  then strcpy_to IFNAMSIZ (name @ '':0'') else Val name) (\<lambda>name.
          case os_netmask env name family of
            None \<Rightarrow> Val (False, netMask_out)
          | Some bytes \<Rightarrow>
              (case os_inet_ntop env family bytes of
                 None \<Rightarrow> Val (False, netMask_out)
               | Some address \<Rightarrow> Val (True, Some address)))
      else Val (False, netMask_out))"

text \<open>
  \<^verbatim>\<open>getInterfaceConfig\<close> returns the result and the two output buffers, \<^term>\<open>None\<close> for one that is still
  uninitialised.
\<close>

definition getInterfaceConfig ::
    "os \<Rightarrow> string \<Rightarrow> int \<Rightarrow> string option \<Rightarrow> string option \<Rightarrow> (bool \<times> string option \<times> string option) res" where
  "getInterfaceConfig env ifName family interfaceIp netMask =
     (let ipAddr = os_getIpaddr env ifName family in
      if ipAddr = [] then Val (False, interfaceIp, netMask)
      else let mac = snd (getMacAddress_IfName env (Some ifName) []) in
        res_bind (address_loop env family mac (length ipAddr) ipAddr interfaceIp) (\<lambda>ip.
        res_bind (getNetMask_IfName env ifName family netMask) (\<lambda>(_, mask).
          Val (True, ip, mask))))"

text \<open>The interface of \<^verbatim>\<open>getSTBip_family\<close>: the default route's, or else the currently active one.\<close>

definition stb_interface :: "os \<Rightarrow> (bool \<times> string) res" where
  "stb_interface env =
     res_bind (getRouteInterface env INTERFACE_SIZE []) (\<lambda>(found, interface).
       if found then Val (True, interface) else currentActiveInterface env INTERFACE_SIZE interface)"

definition getSTBip_family :: "os \<Rightarrow> string \<Rightarrow> (bool \<times> string option) res" where
  "getSTBip_family env family =
     (if family \<noteq> ''ipv4'' \<and> family \<noteq> ''ipv6'' then Val (False, None)
      else let i_family = (if family = ''ipv4'' then AF_INET else AF_INET6) in
        res_bind (stb_interface env) (\<lambda>(ok, interface).
          if \<not> ok then Val (False, None)
          else let ipAddr = os_getIpaddr env interface i_family in
            if ipAddr = [] then Val (False, None)
            else let mac = snd (getMacAddress_IfName env (Some interface) []) in
              res_bind (address_loop env i_family mac (length ipAddr) ipAddr None) (\<lambda>ip.
                Val (ip \<noteq> None, ip))))"

text \<open>The result, the address and \<^verbatim>\<open>isIpv6\<close>.\<close>

definition getSTBip :: "os \<Rightarrow> (bool \<times> string option \<times> bool) res" where
  "getSTBip env =
     res_bind (getSTBip_family env ''ipv6'') (\<lambda>(ok6, ip6).
       if ok6 then Val (True, ip6, True)
       else res_bind (getSTBip_family env ''ipv4'') (\<lambda>(ok4, ip4).
         if ok4 then Val (True, ip4, False) else Val (False, ip4, False)))"

text \<open>\<^verbatim>\<open>getCommandOutput\<close>: the first line, as \<^verbatim>\<open>fgets\<close> gives it.\<close>

definition getCommandOutput :: "os \<Rightarrow> string \<Rightarrow> nat \<Rightarrow> bool \<times> string option" where
  "getCommandOutput env command output_buffer_size =
     (case os_popen env command of
        None \<Rightarrow> (False, None)
      | Some [] \<Rightarrow> (False, None)
      | Some out \<Rightarrow> (True, Some (fst (fgets output_buffer_size out))))"

section \<open>Dotted decimal addresses\<close>

definition dotted :: "u8 \<Rightarrow> u8 \<Rightarrow> u8 \<Rightarrow> u8 \<Rightarrow> string" where
  "dotted a b c d = join_char (CHR ''.'') (map (\<lambda>x. show_nat (unat x)) [a, b, c, d])"

lemma show_nat_cases:
  "n < 10 \<Longrightarrow> show_nat n = [digit_char n]"
  "10 \<le> n \<Longrightarrow> n < 100 \<Longrightarrow> show_nat n = [digit_char (n div 10), digit_char (n mod 10)]"
  "100 \<le> n \<Longrightarrow> n < 1000 \<Longrightarrow>
     show_nat n = [digit_char (n div 100), digit_char (n div 10 mod 10), digit_char (n mod 10)]"
proof -
  show one: "n < 10 \<Longrightarrow> show_nat n = [digit_char n]" for n by (subst show_nat.simps) simp
  show two: "10 \<le> n \<Longrightarrow> n < 100 \<Longrightarrow> show_nat n = [digit_char (n div 10), digit_char (n mod 10)]" for n
    using one [of "n div 10"] by (subst show_nat.simps) simp
  assume n: "100 \<le> n" "n < 1000"
  then have "show_nat (n div 10) = [digit_char (n div 100), digit_char (n div 10 mod 10)]"
    using two [of "n div 10"] by (simp add: div_mult2_eq [of n 10 10, simplified])
  then show "show_nat n = [digit_char (n div 100), digit_char (n div 10 mod 10), digit_char (n mod 10)]"
    using n by (subst show_nat.simps) simp
qed

lemma digit_char_zero: "n < 10 \<Longrightarrow> digit_char n = CHR ''0'' \<longleftrightarrow> n = 0"
proof -
  have "CHR ''0'' = digit_char 0" by code_simp
  then show "n < 10 \<Longrightarrow> digit_char n = CHR ''0'' \<longleftrightarrow> n = 0"
    using digit_char_facts(1) [of n] digit_char_facts(1) [of 0] by auto
qed

lemma dec_octet_show: "dec_octet (show_nat (unat (x :: u8))) = Some x"
proof -
  let ?n = "unat x"
  have n: "?n < 256" using unsigned_less [of x] by simp
  have v: "nat_of_digits (show_nat ?n) = ?n" by simp
  have d: "list_all isdigit_c (show_nat ?n)" using show_nat_digits by (auto simp: list_all_iff)
  consider "?n < 10" | "10 \<le> ?n" "?n < 100" | "100 \<le> ?n" by linarith
  then have "length (show_nat ?n) \<le> 3 \<and> (hd (show_nat ?n) = CHR ''0'' \<longrightarrow> length (show_nat ?n) = 1)"
    using n by cases (auto simp: show_nat_cases digit_char_zero)
  then show ?thesis using n v d by (simp add: dec_octet_def)
qed

lemma isdigit_not_dot: "isdigit_c c \<Longrightarrow> c \<noteq> CHR ''.''"
  by (auto simp: isdigit_c_def)

lemma inet_pton4_dotted [simp]: "inet_pton4 (dotted a b c d) = Some (load32 a b c d)"
proof -
  have "\<forall>p\<in>set (map (\<lambda>x. show_nat (unat x)) [a, b, c, d]). CHR ''.'' \<notin> set p"
    using show_nat_digits isdigit_not_dot by fastforce
  then have "split_char (CHR ''.'') (dotted a b c d) = map (\<lambda>x. show_nat (unat x)) [a, b, c, d]"
    unfolding dotted_def by (intro split_char_join) auto
  then show ?thesis by (simp add: inet_pton4_def dec_octet_show)
qed

lemma htonl_masks:
  "htonl 0xffff0000 = load32 0xff 0xff 0 0" "htonl 0xa9fe0000 = load32 169 254 0 0"
  "htonl 0xffffff00 = load32 0xff 0xff 0xff 0" "htonl 0xc0000200 = load32 192 0 2 0"
  "htonl 0xc6336400 = load32 198 51 100 0" "htonl 0xcb007100 = load32 203 0 113 0"
  by (simp_all add: htonl_def drop_bit_eq_div)

lemma and_0xff [simp]: "(b :: u8) AND 0xff = b"
proof -
  have "(0xff :: u8) = - 1" by simp
  then show ?thesis by (simp only: and.right_neutral)
qed

section \<open>Which addresses are used\<close>

lemma linklocal_octets:
  "chk_ipaddr_linklocal env (dotted a b c d) AF_INET = Val (a = 169 \<and> b = 254)"
  by (simp add: chk_ipaddr_linklocal_def htonl_masks load32_and)

lemma documentation_octets:
  "isIPv4AddressScopeDocumentation (dotted a b c d) =
     Val ([a, b, c] \<in> {[192, 0, 2], [198, 51, 100], [203, 0, 113]})"
  by (simp add: isIPv4AddressScopeDocumentation_def htonl_masks load32_and)

lemma select_address_Some:
  assumes "select_address env family mac count s = Val (Some t)"
  shows "t = strip_prefix_length s \<and> \<not> check_global_v6_ula_address s
    \<and> chk_ipaddr_linklocal env t family = Val False
    \<and> (family = AF_INET \<longrightarrow> isIPv4AddressScopeDocumentation t = Val False)
    \<and> (count > 1 \<longrightarrow> check_global_v6_based_macaddress s mac = Val False)"
  using assms by (auto simp: select_address_def Let_def res_bind_Val_iff split: if_splits)

text \<open>The loop keeps the last address it selects.\<close>

lemma address_loop_result:
  assumes "address_loop env family mac count ss ip = Val (Some t)" and "ip \<noteq> Some t"
  shows "length t < 46 \<and> (\<exists>s\<in>set ss. select_address env family mac count s = Val (Some t))"
  using assms
proof (induction env family mac count ss ip rule: address_loop.induct)
  case (2 env family mac count s ss ip)
  then obtain sel where sel: "select_address env family mac count s = Val sel"
    by (auto simp: res_bind_Val_iff)
  show ?case
  proof (cases sel)
    case None
    then show ?thesis using 2 sel by auto
  next
    case (Some u)
    then show ?thesis using 2 sel by (cases "t = u") (auto simp: res_bind_Val_iff)
  qed
qed simp

text \<open>
  C26.  \<^verbatim>\<open>getSTBip_family\<close> answers only with an address that the netlink monitor lists on the
  interface of the default route (or, without one, on the currently active interface), without its prefix length, which fits the 46-character buffer, is not unique local, not
  link local and, for IPv4, not in a block reserved for documentation.
\<close>

theorem getSTBip_family_sound:
  assumes "getSTBip_family env fam = Val (True, Some ip)"
  shows "\<exists>interface s family. family = (if fam = ''ipv4'' then AF_INET else AF_INET6)
    \<and> stb_interface env = Val (True, interface)
    \<and> s \<in> set (os_getIpaddr env interface family)
    \<and> ip = strip_prefix_length s \<and> length ip < MAX_IP_ADDRESS_LEN
    \<and> \<not> check_global_v6_ula_address s \<and> chk_ipaddr_linklocal env ip family = Val False
    \<and> (fam = ''ipv4'' \<longrightarrow> isIPv4AddressScopeDocumentation ip = Val False)"
proof -
  define family where "family = (if fam = ''ipv4'' then AF_INET else AF_INET6)"
  have doc: "fam = ''ipv4'' \<longrightarrow> family = AF_INET" by (simp add: family_def)
  from assms obtain interface mac where
    loop: "address_loop env family mac (length (os_getIpaddr env interface family))
             (os_getIpaddr env interface family) None = Val (Some ip)" and
    stb: "stb_interface env = Val (True, interface)"
    unfolding getSTBip_family_def family_def
    by (auto simp: Let_def res_bind_Val_iff split: if_splits prod.splits)
  from address_loop_result [OF loop] obtain s where
    "s \<in> set (os_getIpaddr env interface family)" and "length ip < 46" and
    sel: "select_address env family mac (length (os_getIpaddr env interface family)) s = Val (Some ip)"
    by auto
  then show ?thesis
    using select_address_Some [OF sel] doc stb unfolding family_def [symmetric]
    by (intro exI [of _ interface] exI [of _ s] exI [of _ family]) (auto simp: MAX_IP_ADDRESS_LEN_def)
qed

definition sample_os :: os where
  "sample_os = \<lparr> os_getenv = (\<lambda>n. if n = ''WIFI_INTERFACE'' then Some ''wlan0''
       else if n = ''MOCA_INTERFACE'' then Some ''eth0'' else None),
     os_file = (\<lambda>f. if f = ''/sys/class/net/eth0/operstate'' then Some ''up'' else None),
     os_socket = 5, os_hwaddr = (\<lambda>_. Some [0xA8, 0x11, 0xFC, 0xFD, 0x1E, 0x8D]),
     os_netmask = (\<lambda>_ _. Some [255, 255, 255, 0]),
     os_ifaddrs = [(''lo'', True), (''eth0'', True), (''wlan0'', True), (''eth0'', True)],
     os_getIpaddr = (\<lambda>i f. if i = ''eth0'' \<and> f = AF_INET
       then [''10.0.0.7/24''] else []),
     os_system = (\<lambda>_. 1), os_popen = (\<lambda>_. None), os_inet_pton6 = (\<lambda>_. None),
     os_inet_ntop = (\<lambda>_ _. Some ''255.255.255.0'') \<rparr>"

lemma sample_os_stb_ip: "getSTBip_family sample_os ''ipv4'' = Val (True, Some ''10.0.0.7'')"
  by code_simp

theorem getSTBip_family_sound_witness:
  "\<exists>interface s. s \<in> set (os_getIpaddr sample_os interface AF_INET) \<and> ''10.0.0.7'' = strip_prefix_length s
    \<and> isIPv4AddressScopeDocumentation ''10.0.0.7'' = Val False"
  using getSTBip_family_sound [OF sample_os_stb_ip] by auto

text \<open>
  On dotted decimal text the link-local test holds exactly for 169.254.0.0/16 and the
  documentation test exactly for 192.0.2.0/24, 198.51.100.0/24 and 203.0.113.0/24, although both
  work on the address in network byte order.
\<close>

theorem ipv4_scope_tests:
  "chk_ipaddr_linklocal env (dotted a b c d) AF_INET = Val (a = 169 \<and> b = 254) \<and>
   isIPv4AddressScopeDocumentation (dotted a b c d) =
     Val ([a, b, c] \<in> {[192, 0, 2], [198, 51, 100], [203, 0, 113]})"
  by (simp add: linklocal_octets documentation_octets)

section \<open>Addresses derived from the hardware address\<close>

lemma length_mac_string: "length mac = 6 \<Longrightarrow> length (mac_string mac) = 17"
  by (auto simp: mac_string_def hex_byte_def length_Suc_conv numeral_eq_Suc)

lemma hex_digit_char: "b < 16 \<Longrightarrow> hex_digit b \<noteq> CHR '':'' \<and> tolower_c (hex_digit b) \<noteq> CHR '':''"
proof -
  assume "b < 16"
  then have n: "unat b < 16" by (simp add: word_less_nat_alt)
  define n where "n = unat b"
  have "n \<in> set [0..<16]" using n n_def by auto
  moreover have "\<forall>n\<in>set [0..<16]. (let c = (if n < 10 then char_of (n + 48) else char_of (n + 55))
      in c \<noteq> CHR '':'' \<and> tolower_c c \<noteq> CHR '':'')" by code_simp
  ultimately show ?thesis by (auto simp: hex_digit_def n_def Let_def word_less_nat_alt)
qed

lemma nibbles_lt: "drop_bit 4 (b :: u8) < 16" "(b :: u8) AND 15 < 16"
proof -
  have "unat (drop_bit 4 b) < 16"
    unfolding unat_drop_bit_eq using unsigned_less [where 'a = nat, of b] by (simp add: drop_bit_eq_div)
  then show "drop_bit 4 b < 16" by (simp add: word_less_nat_alt)
  have "b AND 15 \<le> 15" by (rule word_and_le1)
  then show "b AND 15 < 16" by (rule order.strict_trans1) simp
qed

lemma hex_byte_no_colon:
  "filter (\<lambda>c. c \<noteq> CHR '':'') (map tolower_c (hex_byte b)) = map tolower_c (hex_byte b)"
  using nibbles_lt hex_digit_char by (simp add: hex_byte_def)

lemma filter_mac_string:
  assumes "length mac = 6"
  shows "filter (\<lambda>c. c \<noteq> CHR '':'') (map tolower_c (mac_string mac)) = concat (map (map tolower_c \<circ> hex_byte) mac)"
proof -
  have c: "tolower_c (CHR '':'') = CHR '':''" by code_simp
  show ?thesis
    using assms by (auto simp: mac_string_def numeral_eq_Suc length_Suc_conv c hex_byte_no_colon)
qed

text \<open>
  For the text of a six-byte hardware address \<^verbatim>\<open>m0:...:m5\<close> the test neither throws nor rejects
  the address as too short: it looks in the address text, without colons and in lower case, for the
  fourteen hexadecimal digits of \<^verbatim>\<open>m1 m2 ff fe m3 m4 m5\<close>.
\<close>

theorem mac_based_spec:
  "check_global_v6_based_macaddress ipv6 (mac_string [m0, m1, m2, m3, m4, m5]) =
     Val (contains (filter (\<lambda>c. c \<noteq> CHR '':'') (map tolower_c ipv6))
            (concat (map (map tolower_c \<circ> hex_byte) [m1, m2, 0xff, 0xfe, m3, m4, m5])))"
proof -
  let ?mac = "[m0, m1, m2, m3, m4, m5]"
  have e: "map tolower_c (hex_byte 0xff) = ''ff''" "map tolower_c (hex_byte 0xfe) = ''fe''"
    by code_simp+
  have l: "length (mac_string ?mac) = 17" by (simp add: length_mac_string)
  have f: "filter (\<lambda>c. c \<noteq> CHR '':'') (map tolower_c (mac_string ?mac))
      = concat (map (map tolower_c \<circ> hex_byte) ?mac)"
    by (rule filter_mac_string) simp
  have "mac_string ?mac \<noteq> []" using l by auto
  then show ?thesis
    unfolding check_global_v6_based_macaddress_def f Let_def using l e by (simp add: hex_byte_def)
qed

text \<open>
  The test misses addresses that were derived from the hardware address but whose text drops a
  leading zero of a 16-bit group, as every canonical IPv6 text does.
\<close>

theorem mac_based_misses_short_group:
  "check_global_v6_based_macaddress ''2601:a40:300:164:aa11:fcff:fefd:1e8d'' ''A8:11:FC:FD:1E:8D'' = Val True \<and>
   check_global_v6_based_macaddress ''2601:a40:300:164:aa11:cff:fefd:1e8d'' ''A8:11:0C:FD:1E:8D'' = Val False"
  by code_simp

section \<open>The list of interface types\<close>

lemma dev_file_loop_result:
  "dev_file_loop g dev ts = (ok, ty) \<Longrightarrow> if ok then ty \<in> {''ETHERNET'', ''MOCA'', ''WIFI''} else ty = dev"
  by (induction g dev ts rule: dev_file_loop.induct) (auto simp: Let_def split: if_splits)

lemma readDevFile_result:
  "readDevFile g env dev = (ok, ty) \<Longrightarrow> if ok then ty \<in> {''ETHERNET'', ''MOCA'', ''WIFI''} else ty = dev"
  unfolding readDevFile_def
  by (cases "os_file env ''//etc/device.properties''") (auto dest: dev_file_loop_result)

definition type_lists :: "string list list" where
  "type_lists = filter distinct
     (concat (map (\<lambda>n. List.n_lists n [''ETHERNET'', ''MOCA'', ''WIFI'']) [0..<4]))"

lemma type_lists_complete:
  assumes "distinct ts" and "set ts \<subseteq> {''ETHERNET'', ''MOCA'', ''WIFI''}"
  shows "ts \<in> set type_lists"
proof -
  have "card (set ts) \<le> card {''ETHERNET'', ''MOCA'', ''WIFI''}"
    by (rule card_mono) (use assms in auto)
  then have "length ts < 4" using assms(1) distinct_card [of ts] by simp
  then show ?thesis using assms by (auto simp: type_lists_def set_n_lists)
qed

lemma type_lists_facts:
  "list_all (\<lambda>ts. length (join_char (CHR '','') ts) < 50 \<and>
     list_all (\<lambda>ty. contains (join_char (CHR '','') ts) ty \<longleftrightarrow> ty \<in> set ts) [''ETHERNET'', ''MOCA'', ''WIFI'']) type_lists"
  by code_simp

lemma type_list_contains:
  assumes "distinct ts" and "set ts \<subseteq> {''ETHERNET'', ''MOCA'', ''WIFI''}"
  shows "length (join_char (CHR '','') ts) < 50"
    and "ty \<in> {''ETHERNET'', ''MOCA'', ''WIFI''} \<Longrightarrow> contains (join_char (CHR '','') ts) ty \<longleftrightarrow> ty \<in> set ts"
  using type_lists_complete [OF assms] type_lists_facts by (auto simp: list_all_iff)

lemma join_char_snoc: "ps \<noteq> [] \<Longrightarrow> join_char d (ps @ [p]) = join_char d ps @ d # p"
  by (induction d ps rule: join_char.induct) auto

definition listed :: "glib \<Rightarrow> os \<Rightarrow> (string \<times> bool) list \<Rightarrow> string set" where
  "listed g env ifs = {ty. \<exists>n. (n, True) \<in> set ifs \<and> n \<noteq> ''sit0'' \<and> n \<noteq> ''lo'' \<and> readDevFile g env n = (True, ty)}"

lemma listed_Cons:
  "listed g env ((n, a) # ifs) =
     (if a \<and> n \<noteq> ''sit0'' \<and> n \<noteq> ''lo'' \<and> fst (readDevFile g env n)
      then insert (snd (readDevFile g env n)) (listed g env ifs) else listed g env ifs)"
  by (cases "readDevFile g env n") (auto simp: listed_def)

lemma all_interfaces_loop_spec:
  assumes g: "g_strrstr g = contains" and names: "\<forall>(n, a)\<in>set ifs. length n < 10"
    and ts: "distinct ts" "set ts \<subseteq> {''ETHERNET'', ''MOCA'', ''WIFI''}"
  shows "\<exists>ts'. distinct ts' \<and> set ts' = set ts \<union> listed g env ifs \<and>
    all_interfaces_loop g env ifs (join_char (CHR '','') ts, ts \<noteq> [], of_nat (length ts))
      = Val (join_char (CHR '','') ts', of_nat (length ts'))"
  using names ts
proof (induction ifs arbitrary: ts)
  case Nil
  then show ?case by (auto simp: listed_def)
next
  case (Cons p ifs)
  obtain n a where p: "p = (n, a)" by (cases p)
  obtain ok ty where r: "readDevFile g env n = (ok, ty)" by (cases "readDevFile g env n")
  have n: "length n < 10" and names: "\<forall>(n, a)\<in>set ifs. length n < 10"
    using Cons.prems p by auto
  have ty: "ok \<Longrightarrow> ty \<in> {''ETHERNET'', ''MOCA'', ''WIFI''}"
    using readDevFile_result [OF r] by simp
  let ?use = "a \<and> n \<noteq> ''sit0'' \<and> n \<noteq> ''lo'' \<and> ok"
  have step: "all_interfaces_loop g env (p # ifs) (join_char (CHR '','') ts, ts \<noteq> [], of_nat (length ts)) =
    all_interfaces_loop g env ifs
      (let ts' = (if ?use \<and> ty \<notin> set ts then ts @ [ty] else ts)
       in (join_char (CHR '','') ts', ts' \<noteq> [], of_nat (length ts')))"
    using n p r g ty type_list_contains(2) [OF Cons.prems(2,3), of ty]
    by (cases "ts = []") (auto simp: strcpy_to_def join_char_snoc add.commute)
  let ?ts = "if ?use \<and> ty \<notin> set ts then ts @ [ty] else ts"
  have "distinct ?ts" and "set ?ts \<subseteq> {''ETHERNET'', ''MOCA'', ''WIFI''}"
    using Cons.prems ty by auto
  from Cons.IH [OF names this] obtain ts' where ts': "distinct ts'" "set ts' = set ?ts \<union> listed g env ifs"
    "all_interfaces_loop g env ifs (join_char (CHR '','') ?ts, ?ts \<noteq> [], of_nat (length ?ts))
       = Val (join_char (CHR '','') ts', of_nat (length ts'))"
    by blast
  moreover have "set ts' = set ts \<union> listed g env (p # ifs)"
    using ts'(2) p r by (auto simp: listed_Cons)
  ultimately show ?case unfolding step Let_def by blast
qed

text \<open>
  C32.  \<^verbatim>\<open>getAllNetworkInterface\<close>, with \<^verbatim>\<open>g_strrstr\<close> the substring search and interface names that fit
  their ten-character buffer: the result is the comma-separated list of exactly the types of the
  interfaces that have an address (other than \<^verbatim>\<open>lo\<close> and \<^verbatim>\<open>sit0\<close>), each once, with their number, and
  the copy into the 50-character reply never overflows.
\<close>

theorem getAllNetworkInterface_spec:
  assumes "g_strrstr g = contains" and "\<forall>(n, a)\<in>set (os_ifaddrs env). length n < 10"
  shows "\<exists>ts. distinct ts \<and> set ts = listed g env (os_ifaddrs env) \<and>
    getAllNetworkInterface g env = Val (of_nat (length ts), join_char (CHR '','') ts)"
proof -
  obtain ts where ts: "distinct ts" "set ts = listed g env (os_ifaddrs env)"
    "all_interfaces_loop g env (os_ifaddrs env) ([], False, 0) = Val (join_char (CHR '','') ts, of_nat (length ts))"
    using all_interfaces_loop_spec [OF assms, of "[]"] by auto
  have "set ts \<subseteq> {''ETHERNET'', ''MOCA'', ''WIFI''}"
    using ts(2) readDevFile_result by (fastforce simp: listed_def)
  then have "length (join_char (CHR '','') ts) < 50" using type_list_contains(1) ts(1) by blast
  then show ?thesis
    using ts by (intro exI [of _ ts]) (simp add: getAllNetworkInterface_def strcpy_to_def INTERFACE_LIST_def)
qed

definition sample_glib :: glib where
  "sample_glib = \<lparr> g_strsplit_set = (\<lambda>s ds. split_char (CHR 0x7c) (map (\<lambda>c. if c \<in> set ds then CHR 0x7c else c) s)),
     g_strstrip = (\<lambda>s. rev (dropWhile isspace_c (rev (dropWhile isspace_c s)))), g_strrstr = contains \<rparr>"

definition sample_props :: string where
  "sample_props = ''ETHERNET_INTERFACE=eth0'' @ [newline] @ ''WIFI_INTERFACE=wlan0'' @ [newline]"

theorem getAllNetworkInterface_spec_witness:
  "\<exists>ts. distinct ts \<and> set ts = listed sample_glib
       (sample_os \<lparr> os_file := (\<lambda>f. if f = ''//etc/device.properties'' then Some sample_props else None) \<rparr>)
       (os_ifaddrs sample_os) \<and>
     getAllNetworkInterface sample_glib
       (sample_os \<lparr> os_file := (\<lambda>f. if f = ''//etc/device.properties'' then Some sample_props else None) \<rparr>)
     = Val (of_nat (length ts), join_char (CHR '','') ts)"
  using getAllNetworkInterface_spec [of sample_glib
      "sample_os \<lparr> os_file := (\<lambda>f. if f = ''//etc/device.properties'' then Some sample_props else None) \<rparr>"]
  by (simp add: sample_glib_def sample_os_def)

section \<open>Results without an address\<close>

lemma address_loop_all_skipped:
  assumes "\<forall>s\<in>set ss. select_address env family mac count s = Val None"
  shows "address_loop env family mac count ss ip = Val ip"
  using assms by (induction ss) simp_all

text \<open>
  \<^verbatim>\<open>getInterfaceConfig\<close> reports success whenever the interface has some address, even if every
  one of them is skipped; the address buffer is then left as it was (uninitialised for its callers).
\<close>

theorem getInterfaceConfig_all_skipped:
  assumes "os_getIpaddr env i family = ss" and "ss \<noteq> []"
    and "\<forall>s\<in>set ss. select_address env family (snd (getMacAddress_IfName env (Some i) [])) (length ss) s = Val None"
    and "os_socket env \<le> 0"
  shows "getInterfaceConfig env i family ip nm = Val (True, ip, nm)"
  using assms address_loop_all_skipped
  by (simp add: getInterfaceConfig_def getNetMask_IfName_def)

theorem getInterfaceConfig_all_skipped_witness:
  "getInterfaceConfig (sample_os \<lparr> os_socket := 0, os_getIpaddr := (\<lambda>_ _. [''169.254.3.4/16'']) \<rparr>)
     ''eth0'' AF_INET None None = Val (True, None, None)"
proof (rule getInterfaceConfig_all_skipped)
  show "\<forall>s\<in>set [''169.254.3.4/16'']. select_address (sample_os \<lparr> os_socket := 0, os_getIpaddr := (\<lambda>_ _. [''169.254.3.4/16'']) \<rparr>)
      AF_INET (snd (getMacAddress_IfName (sample_os \<lparr> os_socket := 0, os_getIpaddr := (\<lambda>_ _. [''169.254.3.4/16'']) \<rparr>)
        (Some ''eth0'') [])) (length [''169.254.3.4/16'']) s = Val None"
    by code_simp
qed simp_all

text \<open>
  \<^verbatim>\<open>currentActiveInterface\<close>: without both environment variables it fails; with only
  \<^verbatim>\<open>MOCA_INTERFACE\<close> that one is taken; with both, the MoCA interface when its operational state is up
  and the WiFi interface otherwise; with only \<^verbatim>\<open>WIFI_INTERFACE\<close> it succeeds with the empty name.
\<close>

theorem currentActiveInterface_cases:
  assumes "0 < sz"
  shows "(os_getenv env ''WIFI_INTERFACE'' = None \<and> os_getenv env ''MOCA_INTERFACE'' = None \<longrightarrow>
      currentActiveInterface env sz d = Val (False, d)) \<and>
    (os_getenv env ''WIFI_INTERFACE'' = None \<and> os_getenv env ''MOCA_INTERFACE'' = Some m \<and> length m < sz \<longrightarrow>
      currentActiveInterface env sz d = Val (True, m)) \<and>
    (os_getenv env ''WIFI_INTERFACE'' = Some w \<and> os_getenv env ''MOCA_INTERFACE'' = Some m \<and>
      checkInterfaceActive env (Some m) = Val up \<and> length m < sz \<and> length w < sz \<longrightarrow>
      currentActiveInterface env sz d = Val (True, if up then m else w)) \<and>
    (os_getenv env ''WIFI_INTERFACE'' = Some w \<and> os_getenv env ''MOCA_INTERFACE'' = None \<longrightarrow>
      currentActiveInterface env sz d = Val (True, []))"
  using assms by (auto simp: currentActiveInterface_def strcpy_to_def)

theorem currentActiveInterface_cases_witness:
  "currentActiveInterface (sample_os \<lparr> os_getenv := (\<lambda>n. if n = ''WIFI_INTERFACE'' then Some ''wlan0'' else None) \<rparr>)
     INTERFACE_SIZE ''eth0'' = Val (True, [])"
  using currentActiveInterface_cases [of INTERFACE_SIZE
      "sample_os \<lparr> os_getenv := (\<lambda>n. if n = ''WIFI_INTERFACE'' then Some ''wlan0'' else None) \<rparr>"]
  by (simp add: INTERFACE_SIZE_def)

end
