(* ===== verification/Stun_Client.thy ===== *)
theory Stun_Client
  imports Stun_Codec Netsrv_Utils "HOL-Library.Multiset"
begin

text \<open>
  The STUN client of \<^verbatim>\<open>StunClient.cpp\<close>: name resolution, the UDP socket, one exchange, the loop of
  binding requests and \<^verbatim>\<open>client::bind\<close> with its cache.  The network and the clock are a record of
  functions whose first argument counts the calls made so far, so that two calls may answer
  differently.  A client carries a trace of what it did (names resolved, sockets opened and closed,
  packets sent).  An operation returns the new client together with its outcome, because a C++
  exception leaves the changes made before it.
\<close>

section \<open>State\<close>

datatype stun_event =
    Resolve string
  | Open int
  | Close int
  | Send sockaddr_storage buffer

record client =
  hostname :: string
  port :: u16
  m_protocol :: protocol
  m_interface :: string
  m_bind_timeout :: u16
  m_cache_timeout :: u16
  m_last_cache_time :: int
  m_last_result :: string
  m_fd :: int
  tick :: nat
  trace :: "stun_event list"

record stun_net =
  n_getaddrinfo :: "nat \<Rightarrow> string \<Rightarrow> string + sockaddr_storage list"
  n_inet_ntop :: "sockaddr_storage \<Rightarrow> string option"
  n_socket :: "nat \<Rightarrow> int \<Rightarrow> int"
  n_bind :: "nat \<Rightarrow> int \<Rightarrow> string \<Rightarrow> u16 \<Rightarrow> int"
  n_sendto :: "nat \<Rightarrow> int \<Rightarrow> sockaddr_storage \<Rightarrow> buffer \<Rightarrow> int"
  n_select :: "nat \<Rightarrow> int \<Rightarrow> int \<times> int \<Rightarrow> int"
  n_recvfrom :: "nat \<Rightarrow> int \<Rightarrow> buffer option"
  n_random :: "nat \<Rightarrow> buffer"
  n_clock :: "nat \<Rightarrow> int"
  n_getsockname :: "nat \<Rightarrow> int \<Rightarrow> (u16 \<times> u32) option"
  n_os :: os

definition new_client :: client where
  "new_client = \<lparr> hostname = [], port = 0, m_protocol = af_inet, m_interface = [], m_bind_timeout = 30,
     m_cache_timeout = 30, m_last_cache_time = 0, m_last_result = [], m_fd = -1, tick = 0, trace = [] \<rparr>"

text \<open>One more call to the outside, recorded in the trace.\<close>

definition emit :: "stun_event list \<Rightarrow> client \<Rightarrow> client" where
  "emit evs c = c \<lparr> tick := tick c + 1, trace := trace c @ evs \<rparr>"

type_synonym 'a outcome = "client \<times> 'a res"

definition and_then :: "'a outcome \<Rightarrow> (client \<Rightarrow> 'a \<Rightarrow> 'b outcome) \<Rightarrow> 'b outcome" where
  "and_then p f = (case p of (c, Val x) \<Rightarrow> f c x | (c, Throws e) \<Rightarrow> (c, Throws e) | (c, UB) \<Rightarrow> (c, UB))"

lemma and_then_simps [simp]:
  "and_then (c, Val x) f = f c x" "and_then (c, Throws e) f = (c, Throws e)" "and_then (c, UB) f = (c, UB)"
  by (simp_all add: and_then_def)

lemma and_then_Val: "snd p = Val x \<Longrightarrow> and_then p f = f (fst p) x"
  by (cases p) simp

section \<open>Addresses\<close>

definition family_to_string :: "int \<Rightarrow> string" where
  "family_to_string family =
     (if family = AF_INET then ''ipv4'' else if family = AF_INET6 then ''ipv6'' else ''unknown'')"

definition sockaddr_get_port :: "sockaddr_storage \<Rightarrow> u16 res" where
  "sockaddr_get_port addr =
     (case addr of
        Sockaddr_in p a \<Rightarrow> Val (htons p)
      | Sockaddr_in6 p a \<Rightarrow> Val (htons p)
      | Sockaddr_other f \<Rightarrow> Throws ''can't convert address with family to a string.'')"

definition sockaddr_to_string :: "stun_net \<Rightarrow> sockaddr_storage \<Rightarrow> string res" where
  "sockaddr_to_string net addr =
     (case addr of
        Sockaddr_other f \<Rightarrow> Throws ''can't convert address with family to a string.''
      | _ \<Rightarrow> (case n_inet_ntop net addr of
                Some s \<Rightarrow> Val s
              | None \<Rightarrow> Throws ''failed to convert address to string''))"

definition socket_length :: "sockaddr_storage \<Rightarrow> nat" where
  "socket_length addr = (case addr of Sockaddr_in p a \<Rightarrow> 16 | Sockaddr_in6 p a \<Rightarrow> 28 | _ \<Rightarrow> 0)"

definition protocol_family :: "protocol \<Rightarrow> int" where
  "protocol_family proto = (case proto of af_inet \<Rightarrow> AF_INET | af_inet6 \<Rightarrow> AF_INET6)"

fun set_port :: "u16 \<Rightarrow> sockaddr_storage \<Rightarrow> sockaddr_storage" where
  "set_port p (Sockaddr_in q a) = Sockaddr_in (htons p) a"
| "set_port p (Sockaddr_in6 q a) = Sockaddr_in6 (htons p) a"
| "set_port p (Sockaddr_other f) = Sockaddr_other f"

fun resolve_loop ::
    "stun_net \<Rightarrow> u16 \<Rightarrow> int \<Rightarrow> sockaddr_storage list \<Rightarrow> string list \<Rightarrow> sockaddr_storage list res" where
  "resolve_loop net prt fam [] seen = Val []"
| "resolve_loop net prt fam (a # as) seen =
     (if ss_family a \<noteq> AF_INET \<and> ss_family a \<noteq> AF_INET6 then resolve_loop net prt fam as seen
      else if ss_family a \<noteq> fam then resolve_loop net prt fam as seen
      else res_bind (sockaddr_to_string net a) (\<lambda>s.
        if s \<in> set seen then resolve_loop net prt fam as seen
        else res_bind (resolve_loop net prt fam as (s # seen)) (\<lambda>rest. Val (set_port prt a # rest))))"

definition resolve_hostname ::
    "stun_net \<Rightarrow> string \<Rightarrow> u16 \<Rightarrow> protocol \<Rightarrow> client \<Rightarrow> sockaddr_storage list outcome" where
  "resolve_hostname net host prt proto c =
     (case n_getaddrinfo net (tick c) host of
        Inl e \<Rightarrow> (emit [Resolve host] c, Throws (''getaddrinfo failed. '' @ e))
      | Inr addrs \<Rightarrow> (emit [Resolve host] c, resolve_loop net prt (protocol_family proto) addrs []))"

section \<open>Socket and exchange\<close>

definition close_fd :: "client \<Rightarrow> client" where
  "close_fd c = (if m_fd c \<noteq> -1 then emit [Close (m_fd c)] c else c)"

text \<open>
  \<^verbatim>\<open>create_udp_socket\<close>.  When the interface has no address the function returns early, with the new
  socket open and \<^verbatim>\<open>m_fd\<close> as it was.  An address buffer that was never written is read by
  \<^verbatim>\<open>inet_aton\<close>: undefined behaviour.
\<close>

definition create_udp_socket :: "stun_net \<Rightarrow> int \<Rightarrow> client \<Rightarrow> unit outcome" where
  "create_udp_socket net inet_family c =
     (if inet_family \<noteq> AF_INET \<and> inet_family \<noteq> AF_INET6 then (c, Throws ''invalid inet family'')
      else let soc = n_socket net (tick c) inet_family in
        if soc < 0 then (emit [] c, Throws ''error creating socket.'')
        else let c = emit [Open soc] c in
          if m_interface c = [] then ((close_fd c) \<lparr> m_fd := soc \<rparr>, Val ())
          else (case getInterfaceConfig (n_os net) (m_interface c) inet_family None None of
              UB \<Rightarrow> (c, UB)
            | Throws e \<Rightarrow> (c, Throws e)
            | Val (False, _, _) \<Rightarrow> (c, Val ())
            | Val (True, None, _) \<Rightarrow> (c, UB)
            | Val (True, Some ipaddress, _) \<Rightarrow>
                if n_bind net (tick c) soc ipaddress (htons (port c)) < 0
                then (emit [Close soc] c, Throws ''failed to bind socket to local address'')
                else let c = emit [] c in ((close_fd c) \<lparr> m_fd := soc \<rparr>, Val ())))"

text \<open>The \<^verbatim>\<open>timeval\<close> for \<^verbatim>\<open>select\<close>: seconds and microseconds of a wait in milliseconds.\<close>

definition select_timeout :: "int \<Rightarrow> int \<times> int" where
  "select_timeout wait_time =
     (let tv_usec = 1000 * wait_time in
      if tv_usec > 1000000
      then (tv_usec div 1000000, tv_usec - (tv_usec div 1000000) * 1000000)
      else (0, tv_usec))"

definition send_message ::
    "stun_net \<Rightarrow> sockaddr_storage \<Rightarrow> message \<Rightarrow> int \<Rightarrow> client \<Rightarrow> message option outcome" where
  "send_message net remote_addr req wait_time c =
     (if m_fd c < 0 then (c, Val None)
      else let bytes = encode req;
               n = n_sendto net (tick c) (m_fd c) remote_addr bytes;
               c = emit [Send remote_addr bytes] c in
        if n < 0 then (c, Throws ''failed to send packet.'')
        else let ret = n_select net (tick c) (m_fd c) (select_timeout wait_time);
                 c = emit [] c in
          if ret = 0 then (c, Val None)
          else (case n_recvfrom net (tick c) (m_fd c) of
              None \<Rightarrow> (emit [] c, Throws ''error receiving on socket.'')
            | Some received \<Rightarrow>
                (emit [] c, res_bind (decode_message (take 256 received) None) (\<lambda>(m, _). Val m))))"

definition send_binding_request_to ::
    "stun_net \<Rightarrow> sockaddr_storage \<Rightarrow> int \<Rightarrow> client \<Rightarrow> message option outcome" where
  "send_binding_request_to net addr wait_time c =
     and_then (create_udp_socket net (ss_family addr) c) (\<lambda>c _.
       send_message net addr (create_binding_request (n_random net (tick c))) wait_time (emit [] c))"

definition binding_requests_wait_time_max :: int where
  "binding_requests_wait_time_max = 1600"

fun binding_request_loop ::
    "stun_net \<Rightarrow> sockaddr_storage list \<Rightarrow> int \<Rightarrow> client \<Rightarrow> (message \<times> sockaddr_storage) option outcome" where
  "binding_request_loop net [] wait_time c = (c, Val None)"
| "binding_request_loop net (addr # addrs) wait_time c =
     and_then (send_binding_request_to net addr wait_time c) (\<lambda>c response.
       case response of
         Some m \<Rightarrow> (c, Val (Some (m, addr)))
       | None \<Rightarrow> binding_request_loop net addrs (min (wait_time * 2) binding_requests_wait_time_max) c)"

definition send_binding_request :: "stun_net \<Rightarrow> int \<Rightarrow> client \<Rightarrow> message option outcome" where
  "send_binding_request net wait_time c =
     and_then (resolve_hostname net (hostname c) (port c) (m_protocol c) c) (\<lambda>c addrs.
     and_then (binding_request_loop net addrs wait_time c) (\<lambda>c r. (c, Val (map_option fst r))))"

text \<open>
  The local endpoint is read as an IPv4 address (the code sets its family), so \<^verbatim>\<open>getsockname\<close> gives
  the port and the four bytes of the address.
\<close>

definition discover_network_access_type ::
    "stun_net \<Rightarrow> string \<Rightarrow> u16 \<Rightarrow> client \<Rightarrow> network_access_type outcome" where
  "discover_network_access_type net host prt c =
     and_then (resolve_hostname net host prt (m_protocol c) c) (\<lambda>c addrs.
     and_then (binding_request_loop net addrs 250 c) (\<lambda>c r.
       case r of
         None \<Rightarrow> (c, Val udp_blocked)
       | Some _ \<Rightarrow>
           (case n_getsockname net (tick c) (m_fd c) of
              None \<Rightarrow> (emit [] c, Throws ''failed to get local socket name'')
            | Some (p, a) \<Rightarrow>
                (emit [] c, res_bind (sockaddr_to_string net (Sockaddr_in p a)) (\<lambda>_. Val network_unknown)))))"

section \<open>Binding\<close>

definition STUN_DEFAULT_WAIT_INTERVAL :: int where "STUN_DEFAULT_WAIT_INTERVAL = 2000"
definition STUN_DEFAULT_MAX_ATTEMPTS :: nat where "STUN_DEFAULT_MAX_ATTEMPTS = 30"

text \<open>
  What one response does: the mapped address becomes the result and the cached result.  The state
  is the client, the caller's \<^verbatim>\<open>result\<close> and \<^verbatim>\<open>ret_ok\<close>.
\<close>

type_synonym bind_state = "client \<times> string \<times> bool"

definition handle_response :: "stun_net \<Rightarrow> message option \<Rightarrow> bind_state \<Rightarrow> bind_state \<times> unit res" where
  "handle_response net response s =
     (case s of (c, result, ret_ok) \<Rightarrow>
       (case response of
          None \<Rightarrow> (s, Val ())
        | Some m \<Rightarrow>
           (case find_attribute m mapped_address_type of
              None \<Rightarrow> (s, Val ())
            | Some attr \<Rightarrow>
               (case res_bind (decode_address attr) (sockaddr_to_string net) of
                  Val ip \<Rightarrow>
                    ((emit [] c \<lparr> m_last_result := ip, m_last_cache_time := n_clock net (tick c) \<rparr>, ip, True), Val ())
                | Throws e \<Rightarrow> (s, Throws e)
                | UB \<Rightarrow> (s, UB)))))"

text \<open>
  The attempts of \<^verbatim>\<open>bind\<close>: attempt number, total time and sleep time are the loop variables;
  the break drops the response of the attempt it happens in.
\<close>

function bind_loop ::
    "stun_net \<Rightarrow> nat \<Rightarrow> int \<Rightarrow> int \<Rightarrow> bind_state \<Rightarrow> bind_state \<times> unit res" where
  "bind_loop net i total_time sleep_time (c, result, ret_ok) =
     (if i < STUN_DEFAULT_MAX_ATTEMPTS \<and> total_time < int (unat (m_bind_timeout c))
      then (case send_binding_request net STUN_DEFAULT_WAIT_INTERVAL c of
          (c, Throws e) \<Rightarrow> ((c, result, ret_ok), Throws e)
        | (c, UB) \<Rightarrow> ((c, result, ret_ok), UB)
        | (c, Val response) \<Rightarrow>
            let timeout = int (unat (m_bind_timeout c));
                total = total_time + STUN_DEFAULT_WAIT_INTERVAL;
                slp = (if i > 0 \<and> total + sleep_time > timeout then timeout - total else sleep_time) in
            if i > 0 \<and> slp < 0 then ((c, result, ret_ok), Val ())
            else (case handle_response net response (c, result, ret_ok) of
                (s, Val _) \<Rightarrow>
                  bind_loop net (i + 1) (if i > 0 then total + slp else total)
                    (if i > 0 \<and> slp < 32 then slp * 2 else slp) s
              | (s, Throws e) \<Rightarrow> (s, Throws e)
              | (s, UB) \<Rightarrow> (s, UB)))
      else ((c, result, ret_ok), Val ()))"
  by pat_completeness auto
termination
  by (relation "measure (\<lambda>(net, i, t, sl, s). STUN_DEFAULT_MAX_ATTEMPTS - i)") auto

declare bind_loop.simps [simp del]

definition bind_settings ::
    "string \<Rightarrow> u16 \<Rightarrow> string \<Rightarrow> protocol \<Rightarrow> u16 \<Rightarrow> u16 \<Rightarrow> client \<Rightarrow> client" where
  "bind_settings h p i proto bt ct c =
     c \<lparr> hostname := h, port := p, m_interface := i, m_protocol := proto, m_bind_timeout := bt,
         m_cache_timeout := ct \<rparr>"

definition bind_dirty ::
    "string \<Rightarrow> u16 \<Rightarrow> string \<Rightarrow> protocol \<Rightarrow> u16 \<Rightarrow> u16 \<Rightarrow> client \<Rightarrow> bool" where
  "bind_dirty h p i proto bt ct c \<longleftrightarrow>
     hostname c \<noteq> h \<or> port c \<noteq> p \<or> m_interface c \<noteq> i \<or> m_protocol c \<noteq> proto
     \<or> m_bind_timeout c \<noteq> bt \<or> m_cache_timeout c \<noteq> ct"

text \<open>The part of \<^verbatim>\<open>bind\<close> after the cache: the attempts, the caught exception, closing the socket.\<close>

definition bind_network :: "stun_net \<Rightarrow> client \<Rightarrow> string \<Rightarrow> (bool \<times> string) outcome" where
  "bind_network net c result =
     (case bind_loop net 0 0 1 (c, result, False) of
        ((c, result, ret_ok), UB) \<Rightarrow> (c, UB)
      | ((c, result, ret_ok), _) \<Rightarrow>
          ((close_fd c) \<lparr> m_fd := -1 \<rparr>, Val (ret_ok, if ret_ok then result else [])))"

definition bind ::
    "stun_net \<Rightarrow> string \<Rightarrow> u16 \<Rightarrow> string \<Rightarrow> protocol \<Rightarrow> u16 \<Rightarrow> u16 \<Rightarrow> string \<Rightarrow> client \<Rightarrow> (bool \<times> string) outcome" where
  "bind net h p i proto bt ct result c0 =
     (let dirty = bind_dirty h p i proto bt ct c0;
          c = bind_settings h p i proto bt ct c0 in
      if unat (m_cache_timeout c) > 0 \<and> \<not> dirty \<and> m_last_result c \<noteq> []
      then let time_in_cache = (n_clock net (tick c) - m_last_cache_time c) div 1000;
               c = emit [] c in
        if time_in_cache < int (unat (m_cache_timeout c)) then (c, Val (True, m_last_result c))
        else bind_network net c result
      else bind_network net c result)"

section \<open>Relations that the exchanges keep\<close>

text \<open>
  A reflexive and transitive relation between the client before and after, kept by the socket
  operations, is kept by the loop over the addresses; if resolving a name keeps it too, a whole
  binding request does.
\<close>

lemma fst_resolve_hostname: "fst (resolve_hostname net h p proto c) = emit [Resolve h] c"
  by (simp add: resolve_hostname_def split: sum.splits)

locale exchange_relation =
  fixes R :: "client \<Rightarrow> client \<Rightarrow> bool"
  assumes R_refl: "R c c"
    and R_trans: "R c1 c2 \<Longrightarrow> R c2 c3 \<Longrightarrow> R c1 c3"
    and R_tick: "R c (emit [] c)"
    and R_send: "R c (emit [Send a bs] c)"
    and R_socket: "R c (fst (create_udp_socket net fam c))"
begin

lemma R_send_message: "R c (fst (send_message net addr req w c))"
proof -
  let ?c1 = "emit [Send addr (encode req)] c"
  have "R c (emit [] ?c1)" by (rule R_trans [OF R_send R_tick])
  moreover from this have "R c (emit [] (emit [] ?c1))" by (rule R_trans [OF _ R_tick])
  ultimately show ?thesis
    unfolding send_message_def Let_def by (auto split: option.splits intro: R_refl R_send)
qed

lemma R_request_to: "R c (fst (send_binding_request_to net addr w c))"
proof (cases "create_udp_socket net (ss_family addr) c")
  case (Pair c' r)
  have s: "R c c'" using R_socket [of c net "ss_family addr"] Pair by simp
  then show ?thesis
    using Pair R_send_message [of "emit [] c'"] R_tick [of c']
    by (cases r) (auto simp: send_binding_request_to_def intro: R_trans)
qed

lemma R_request_loop: "R c (fst (binding_request_loop net addrs w c))"
proof (induction net addrs w c rule: binding_request_loop.induct)
  case (1 net w c)
  then show ?case by (simp add: R_refl)
next
  case (2 net addr addrs w c)
  obtain c' r where p: "send_binding_request_to net addr w c = (c', r)" by fastforce
  have s: "R c c'" using R_request_to [of c net addr w] p by simp
  show ?case
  proof (cases r)
    case (Val x)
    then show ?thesis using 2 s p by (cases x) (auto intro: R_trans)
  qed (use s p in auto)
qed

end

locale request_relation = exchange_relation +
  assumes R_resolve: "R c (emit [Resolve h] c)"
begin

lemma R_send_binding_request: "R c (fst (send_binding_request net w c))"
proof -
  let ?c = "emit [Resolve (hostname c)] c"
  obtain r where p: "resolve_hostname net (hostname c) (port c) (m_protocol c) c = (?c, r)"
    using fst_resolve_hostname by (metis prod.collapse)
  show ?thesis
  proof (cases r)
    case (Val addrs)
    obtain c' q where l: "binding_request_loop net addrs w ?c = (c', q)" by fastforce
    have "R ?c c'" using R_request_loop [of ?c net addrs w] l by simp
    then show ?thesis
      using p Val l R_resolve by (cases q) (auto simp: send_binding_request_def intro: R_trans)
  qed (use p R_resolve in \<open>auto simp: send_binding_request_def\<close>)
qed

end

text \<open>An exchange changes neither the settings nor the cached result.\<close>

definition same_settings :: "client \<Rightarrow> client \<Rightarrow> bool" where
  "same_settings c c' \<longleftrightarrow> hostname c' = hostname c \<and> port c' = port c \<and> m_protocol c' = m_protocol c \<and>
     m_interface c' = m_interface c \<and> m_bind_timeout c' = m_bind_timeout c \<and>
     m_cache_timeout c' = m_cache_timeout c"

definition same_cache :: "client \<Rightarrow> client \<Rightarrow> bool" where
  "same_cache c c' \<longleftrightarrow> m_last_cache_time c' = m_last_cache_time c \<and> m_last_result c' = m_last_result c"

lemma create_udp_socket_frame:
  "same_settings c (fst (create_udp_socket net fam c)) \<and> same_cache c (fst (create_udp_socket net fam c))"
  by (auto simp: create_udp_socket_def same_settings_def same_cache_def close_fd_def emit_def Let_def
      split: res.splits prod.splits bool.splits option.splits)

interpretation frame: request_relation "\<lambda>c c'. same_settings c c' \<and> same_cache c c'"
  by unfold_locales
    (use create_udp_socket_frame in \<open>auto simp: same_settings_def same_cache_def emit_def\<close>)

text \<open>The descriptors that a trace leaves open.\<close>

fun fds_after :: "int multiset \<Rightarrow> stun_event \<Rightarrow> int multiset" where
  "fds_after M (Open fd) = add_mset fd M"
| "fds_after M (Close fd) = M - {#fd#}"
| "fds_after M (Resolve h) = M"
| "fds_after M (Send a bs) = M"

definition open_fds :: "client \<Rightarrow> int multiset" where
  "open_fds c = foldl fds_after {#} (trace c)"

definition holds_own_fd :: "int multiset \<Rightarrow> client \<Rightarrow> bool" where
  "holds_own_fd M c \<longleftrightarrow> open_fds c = M + (if m_fd c = -1 then {#} else {#m_fd c#})"

lemma open_fds_emit [simp]: "open_fds (emit evs c) = foldl fds_after (open_fds c) evs"
  by (simp add: open_fds_def emit_def)

lemma emit_fields [simp]:
  "m_fd (emit evs c) = m_fd c" "m_interface (emit evs c) = m_interface c" "trace (emit evs c) = trace c @ evs"
  "m_bind_timeout (emit evs c) = m_bind_timeout c" "m_cache_timeout (emit evs c) = m_cache_timeout c"
  "m_last_result (emit evs c) = m_last_result c" "m_last_cache_time (emit evs c) = m_last_cache_time c"
  "hostname (emit evs c) = hostname c" "port (emit evs c) = port c" "m_protocol (emit evs c) = m_protocol c"
  by (simp_all add: emit_def)

lemma open_fds_update [simp]: "open_fds (c \<lparr> m_fd := n \<rparr>) = open_fds c"
  by (simp add: open_fds_def)

lemma close_fd_releases: "holds_own_fd M c \<Longrightarrow> open_fds (close_fd c) = M"
  by (auto simp: holds_own_fd_def close_fd_def)

lemma close_fd_open:
  "open_fds c = add_mset soc (M + (if m_fd c = -1 then {#} else {#m_fd c#})) \<Longrightarrow> open_fds (close_fd c) = add_mset soc M"
  by (auto simp: close_fd_def)

lemma create_udp_socket_fd:
  assumes "m_interface c = []" and "holds_own_fd M c"
  shows "holds_own_fd M (fst (create_udp_socket net fam c))"
proof -
  have "holds_own_fd M ((close_fd (emit [Open soc] c)) \<lparr> m_fd := soc \<rparr>)" if "\<not> soc < 0" for soc
    using close_fd_open [of "emit [Open soc] c" soc M] assms(2) that by (auto simp: holds_own_fd_def)
  then show ?thesis
    using assms by (auto simp: create_udp_socket_def Let_def holds_own_fd_def)
qed

interpretation fd: request_relation
  "\<lambda>c c'. m_interface c' = m_interface c \<and> (m_interface c = [] \<longrightarrow> (\<forall>M. holds_own_fd M c \<longrightarrow> holds_own_fd M c'))"
  by unfold_locales
    (use create_udp_socket_fd create_udp_socket_frame in \<open>auto simp: holds_own_fd_def same_settings_def\<close>)

text \<open>The names resolved so far count the binding requests; the exchanges resolve no name.\<close>

fun is_resolve :: "stun_event \<Rightarrow> bool" where
  "is_resolve (Resolve h) \<longleftrightarrow> True"
| "is_resolve _ \<longleftrightarrow> False"

definition requests :: "client \<Rightarrow> nat" where
  "requests c = length (filter is_resolve (trace c))"

lemma requests_emit [simp]: "requests (emit evs c) = requests c + length (filter is_resolve evs)"
  by (simp add: requests_def)

lemma requests_update [simp]:
  "requests (c \<lparr> m_fd := n \<rparr>) = requests c" "requests (close_fd c) = requests c"
  by (simp_all add: requests_def close_fd_def)

interpretation count: exchange_relation "\<lambda>c c'. requests c' = requests c"
  by unfold_locales
    (auto simp: create_udp_socket_def Let_def split: res.splits prod.splits bool.splits option.splits)

lemma send_binding_request_counts: "requests (fst (send_binding_request net w c)) = requests c + 1"
proof -
  let ?c = "emit [Resolve (hostname c)] c"
  obtain r where p: "resolve_hostname net (hostname c) (port c) (m_protocol c) c = (?c, r)"
    using fst_resolve_hostname by (metis prod.collapse)
  show ?thesis
  proof (cases r)
    case (Val addrs)
    obtain c' q where l: "binding_request_loop net addrs w ?c = (c', q)" by fastforce
    have "requests c' = requests ?c" using count.R_request_loop [of net addrs w ?c] l by simp
    then show ?thesis using p Val l by (cases q) (auto simp: send_binding_request_def)
  qed (use p in \<open>auto simp: send_binding_request_def\<close>)
qed

section \<open>Invariants of the attempts\<close>

text \<open>
  The induction rule of the loop: a property of the attempt number and the loop state that a binding
  request (which moves on to the next attempt) and the treatment of a response keep holds at the end,
  after at most thirty attempts.
\<close>

lemma bind_loop_induct:
  assumes request: "\<And>i c r ok. P i (c, r, ok) \<Longrightarrow>
      P (i + 1) (fst (send_binding_request net STUN_DEFAULT_WAIT_INTERVAL c), r, ok)"
    and response: "\<And>i m s. P i s \<Longrightarrow> P i (fst (handle_response net m s))"
    and start: "P i s" and "i \<le> STUN_DEFAULT_MAX_ATTEMPTS"
  shows "\<exists>j\<le>STUN_DEFAULT_MAX_ATTEMPTS. P j (fst (bind_loop net i t sl s))"
  using start \<open>i \<le> STUN_DEFAULT_MAX_ATTEMPTS\<close>
proof (induction "STUN_DEFAULT_MAX_ATTEMPTS - i" arbitrary: i t sl s rule: less_induct)
  case less
  obtain c r ok where s: "s = (c, r, ok)" by (cases s)
  note unf = bind_loop.simps [of net i t sl c r ok]
  show ?case
  proof (cases "i < STUN_DEFAULT_MAX_ATTEMPTS \<and> t < int (unat (m_bind_timeout c))")
    case False
    then show ?thesis using less.prems s unf by auto
  next
    case True
    obtain c' q where q: "send_binding_request net STUN_DEFAULT_WAIT_INTERVAL c = (c', q)" by fastforce
    have p: "P (i + 1) (c', r, ok)" using request [of i c r ok] less.prems s q by simp
    have le: "i + 1 \<le> STUN_DEFAULT_MAX_ATTEMPTS" using True by simp
    show ?thesis
    proof (cases q)
      case (Val m)
      obtain s' u where h: "handle_response net m (c', r, ok) = (s', u)" by fastforce
      have p': "P (i + 1) s'" using response [OF p, of m] h by simp
      have IH: "\<exists>j\<le>STUN_DEFAULT_MAX_ATTEMPTS. P j (fst (bind_loop net (i + 1) t' sl' s'))" for t' sl'
        by (rule less.hyps) (use True p' le in auto)
      show ?thesis
        unfolding s unf using True q Val h p p' le IH
        by (cases u) (auto simp: Let_def split: if_splits)
    qed (use True q p le s unf in auto)
  qed
qed

lemma handle_response_cases:
  "fst (handle_response net m (c, r, ok)) = (c, r, ok) \<or>
   (\<exists>ip. fst (handle_response net m (c, r, ok)) =
      (emit [] c \<lparr> m_last_result := ip, m_last_cache_time := n_clock net (tick c) \<rparr>, ip, True))"
  by (auto simp: handle_response_def split: option.splits res.splits)

definition bind_inv :: "client \<Rightarrow> string \<Rightarrow> nat \<Rightarrow> bind_state \<Rightarrow> bool" where
  "bind_inv c0 r0 i s \<longleftrightarrow> (case s of (c, r, ok) \<Rightarrow> same_settings c0 c \<and> requests c = requests c0 + i \<and>
     (if ok then r = m_last_result c else r = r0 \<and> same_cache c0 c))"

lemma bind_loop_inv:
  "\<exists>j\<le>STUN_DEFAULT_MAX_ATTEMPTS. bind_inv c0 r0 j (fst (bind_loop net 0 0 1 (c0, r0, False)))"
proof (rule bind_loop_induct)
  fix i c r ok
  assume "bind_inv c0 r0 i (c, r, ok)"
  moreover note frame.R_send_binding_request [of c net STUN_DEFAULT_WAIT_INTERVAL]
    send_binding_request_counts [of net STUN_DEFAULT_WAIT_INTERVAL c]
  ultimately show "bind_inv c0 r0 (i + 1) (fst (send_binding_request net STUN_DEFAULT_WAIT_INTERVAL c), r, ok)"
    by (auto simp: bind_inv_def same_settings_def same_cache_def split: if_splits)
next
  fix i m s
  assume a: "bind_inv c0 r0 i s"
  obtain c r ok where s: "s = (c, r, ok)" by (cases s)
  show "bind_inv c0 r0 i (fst (handle_response net m s))"
    using a handle_response_cases [of net m c r ok] unfolding s
    by (auto simp: bind_inv_def same_settings_def requests_def)
qed (simp_all add: bind_inv_def same_settings_def same_cache_def)

lemma bind_loop_fd:
  assumes "m_interface c0 = []" and "holds_own_fd M c0"
  shows "holds_own_fd M (fst (fst (bind_loop net 0 0 1 (c0, r0, False))))"
proof -
  let ?P = "\<lambda>(i :: nat) (s :: bind_state). m_interface (fst s) = [] \<and> holds_own_fd M (fst s)"
  have "\<exists>j\<le>STUN_DEFAULT_MAX_ATTEMPTS. ?P j (fst (bind_loop net 0 0 1 (c0, r0, False)))"
  proof (rule bind_loop_induct)
    fix i m s
    assume a: "?P i s"
    obtain c r ok where s: "s = (c, r, ok)" by (cases s)
    show "?P i (fst (handle_response net m s))"
      using a handle_response_cases [of net m c r ok] unfolding s
      by (auto simp: holds_own_fd_def open_fds_def)
  qed (use fd.R_send_binding_request assms in auto)
  then show ?thesis by auto
qed

lemma bind_network_Val:
  assumes "bind_network net c r0 = (c', Val (ok, result))"
  shows "m_fd c' = -1 \<and> same_settings c c' \<and> requests c' \<le> requests c + STUN_DEFAULT_MAX_ATTEMPTS \<and>
    (if ok then result = m_last_result c' else result = [] \<and> same_cache c c')"
proof -
  obtain j where j: "j \<le> STUN_DEFAULT_MAX_ATTEMPTS" "bind_inv c r0 j (fst (bind_loop net 0 0 1 (c, r0, False)))"
    using bind_loop_inv by blast
  obtain c1 r1 ok1 u where l: "bind_loop net 0 0 1 (c, r0, False) = ((c1, r1, ok1), u)"
    by (metis prod.exhaust)
  have cl: "same_settings c1 (close_fd c1)" "same_cache c1 (close_fd c1)"
    by (simp_all add: close_fd_def same_settings_def same_cache_def)
  have c': "c' = (close_fd c1) \<lparr> m_fd := -1 \<rparr>" "ok = ok1" "result = (if ok1 then r1 else [])"
    using assms l by (auto simp: bind_network_def split: res.splits)
  then show ?thesis
    using j l cl by (auto simp: bind_inv_def same_settings_def same_cache_def requests_def close_fd_def)
qed

lemma bind_loop_expired:
  "int (unat (m_bind_timeout c)) \<le> t \<Longrightarrow> bind_loop net i t sl (c, r, ok) = ((c, r, ok), Val ())"
  by (simp add: bind_loop.simps)

lemma handle_response_timeout:
  "handle_response net m (c, r, ok) = ((c', r', ok'), u) \<Longrightarrow> m_bind_timeout c' = m_bind_timeout c"
  using handle_response_cases [of net m c r ok] by auto

text \<open>The interval of an attempt is 2000, so a time-out of at most 2000 is used up by the first attempt.\<close>

lemma bind_loop_single_attempt:
  assumes "0 < unat (m_bind_timeout c)" and "unat (m_bind_timeout c) \<le> 2000"
  shows "bind_loop net 0 0 1 (c, r, ok) =
    (case send_binding_request net STUN_DEFAULT_WAIT_INTERVAL c of
       (c', Val m) \<Rightarrow> handle_response net m (c', r, ok)
     | (c', Throws e) \<Rightarrow> ((c', r, ok), Throws e)
     | (c', UB) \<Rightarrow> ((c', r, ok), UB))"
proof -
  have pos: "0 < int (unat (m_bind_timeout c))" using assms(1) by (simp only: of_nat_0_less_iff)
  have le: "int (unat (m_bind_timeout c)) \<le> int 2000" using assms(2) by (simp only: of_nat_le_iff)
  obtain c' q where q: "send_binding_request net STUN_DEFAULT_WAIT_INTERVAL c = (c', q)" by fastforce
  have t: "m_bind_timeout c' = m_bind_timeout c"
    using frame.R_send_binding_request [of c net STUN_DEFAULT_WAIT_INTERVAL] q by (simp add: same_settings_def)
  show ?thesis
  proof (cases q)
    case (Val m)
    obtain c2 r2 ok2 u where h: "handle_response net m (c', r, ok) = ((c2, r2, ok2), u)" by (metis prod.exhaust)
    have "bind_loop net 1 2000 1 (c2, r2, ok2) = ((c2, r2, ok2), Val ())"
      by (rule bind_loop_expired) (use handle_response_timeout [OF h] t le in simp)
    then show ?thesis
      using q Val h pos t
      by (cases u) (simp_all add: bind_loop.simps [of net 0] STUN_DEFAULT_MAX_ATTEMPTS_def STUN_DEFAULT_WAIT_INTERVAL_def)
  qed (use q pos in \<open>simp_all add: bind_loop.simps STUN_DEFAULT_MAX_ATTEMPTS_def\<close>)
qed

section \<open>A sample network\<close>

definition sample_net :: stun_net where
  "sample_net = \<lparr> n_getaddrinfo = (\<lambda>k h. if h = ''stun'' then Inr [Sockaddr_in 0 7, Sockaddr_other 1, Sockaddr_in 0 7]
       else Inl ''unknown''),
     n_inet_ntop = (\<lambda>a. Some (if sockaddr_storage.case_sockaddr_storage (\<lambda>p x. x = 7) (\<lambda>_ _. True) (\<lambda>_. True) a
       then ''10.0.0.1'' else ''203.0.113.7'')),
     n_socket = (\<lambda>k f. 3), n_bind = (\<lambda>k fd ip p. 0), n_sendto = (\<lambda>k fd a bs. int (length bs)),
     n_select = (\<lambda>k fd tv. 1), n_recvfrom = (\<lambda>k fd. Some (encode sample_response)),
     n_random = (\<lambda>k. replicate 16 0), n_clock = (\<lambda>k. int k), n_getsockname = (\<lambda>k fd. None), n_os = sample_os \<rparr>"

definition sample_settings :: client where
  "sample_settings = bind_settings ''stun'' 3478 [] af_inet 30 30 new_client"

definition sample_client :: client where
  "sample_client = fst (bind_network sample_net sample_settings [])"

lemma sample_response_mapped:
  "find_attribute sample_decoded mapped_address_type
     = Some \<lparr> attr_type = 1, attr_length = 8, attr_value = [0, 1, 0x12, 0x34, 203, 0, 113, 7] \<rparr>"
  by (simp add: find_attribute_def sample_decoded_def sample_response_def mapped_address_type_def)

lemma sample_send:
  "0 \<le> m_fd c \<Longrightarrow> snd (send_message sample_net a req w c) = Val (Some sample_decoded)"
  using sample_response_facts(4)
  by (simp add: send_message_def sample_net_def decode_sample_response)

lemma sample_resolve:
  "resolve_hostname sample_net ''stun'' p af_inet c = (emit [Resolve ''stun''] c, Val [Sockaddr_in (htons p) 7])"
  by (simp add: resolve_hostname_def sample_net_def protocol_family_def sockaddr_to_string_def AF_INET_def AF_INET6_def)

lemma sample_request:
  "snd (send_binding_request sample_net w sample_settings) = Val (Some sample_decoded)"
proof -
  have settings: "hostname sample_settings = ''stun''" "m_protocol sample_settings = af_inet"
    by (simp_all add: sample_settings_def bind_settings_def)
  obtain c' where c': "create_udp_socket sample_net AF_INET (emit [Resolve ''stun''] sample_settings) = (c', Val ())" "m_fd c' = 3"
    by (simp add: create_udp_socket_def sample_net_def sample_settings_def bind_settings_def new_client_def Let_def)
  have "snd (send_message sample_net a req w (emit [] c')) = Val (Some sample_decoded)" for a req
    using sample_send [of "emit [] c'"] c'(2) by simp
  then have "snd (send_binding_request_to sample_net (Sockaddr_in p 7) w (emit [Resolve ''stun''] sample_settings))
      = Val (Some sample_decoded)" for p
    using c'(1) by (simp add: send_binding_request_to_def)
  then have "snd (binding_request_loop sample_net [Sockaddr_in p 7] w (emit [Resolve ''stun''] sample_settings))
      = Val (Some (sample_decoded, Sockaddr_in p 7))" for p
    by (simp add: and_then_Val)
  then show ?thesis
    using settings by (simp add: send_binding_request_def sample_resolve and_then_Val del: binding_request_loop.simps)
qed

lemma sample_bind_network:
  "bind_network sample_net sample_settings [] = (sample_client, Val (True, ''203.0.113.7''))"
proof -
  obtain c where c: "send_binding_request sample_net STUN_DEFAULT_WAIT_INTERVAL sample_settings = (c, Val (Some sample_decoded))"
    using sample_request by (metis prod.collapse)
  have "load32 203 0 113 7 \<noteq> load32 7 0 0 0" by simp
  then have "load32 203 0 113 7 \<noteq> 7" by (simp add: load32_def)
  then have "snd (handle_response sample_net (Some sample_decoded) (c, [], False)) = Val () \<and>
      snd (fst (handle_response sample_net (Some sample_decoded) (c, [], False))) = (''203.0.113.7'', True)"
    using sample_response_mapped
    by (simp add: handle_response_def decode_address_v4 sockaddr_to_string_def sample_net_def)
  moreover have "bind_loop sample_net 0 0 1 (sample_settings, [], False)
      = handle_response sample_net (Some sample_decoded) (c, [], False)"
    using bind_loop_single_attempt [of sample_settings sample_net "[]" False] c
    by (simp add: sample_settings_def bind_settings_def)
  ultimately have "snd (bind_loop sample_net 0 0 1 (sample_settings, [], False)) = Val () \<and>
      snd (fst (bind_loop sample_net 0 0 1 (sample_settings, [], False))) = (''203.0.113.7'', True)"
    by simp
  then show ?thesis
    by (cases "bind_loop sample_net 0 0 1 (sample_settings, [], False)")
      (auto simp: bind_network_def sample_client_def)
qed

section \<open>Properties of the client\<close>

lemma bind_unchanged_settings:
  "\<not> bind_dirty h p i proto bt ct c \<Longrightarrow> bind_settings h p i proto bt ct c = c"
  by (simp add: bind_dirty_def bind_settings_def)

lemma bind_cached:
  assumes "\<not> bind_dirty h p i proto bt ct c" and "0 < unat ct" and "m_last_result c \<noteq> []"
    and "(n_clock net (tick c) - m_last_cache_time c) div 1000 < int (unat ct)"
  shows "bind net h p i proto bt ct result c = (emit [] c, Val (True, m_last_result c))"
proof -
  have "m_cache_timeout c = ct" using assms(1) by (simp add: bind_dirty_def)
  then show ?thesis
    using assms by (simp add: bind_def Let_def bind_unchanged_settings del: of_nat_unat)
qed

text \<open>
  A cache hit: with unchanged settings, caching enabled and a cached result that has not
  expired, \<^verbatim>\<open>bind\<close> answers with the cached address and produces no traffic.
\<close>

theorem bind_cache_hit:
  assumes "\<not> bind_dirty h p i proto bt ct c" and "0 < unat ct" and "m_last_result c \<noteq> []"
    and "(n_clock net (tick c) - m_last_cache_time c) div 1000 < int (unat ct)"
  shows "\<exists>c'. bind net h p i proto bt ct result c = (c', Val (True, m_last_result c)) \<and>
    trace c' = trace c \<and> m_fd c' = m_fd c \<and> same_settings c c' \<and> same_cache c c'"
  using bind_cached [OF assms] by (simp add: same_settings_def same_cache_def)

theorem bind_cache_hit_witness:
  "\<exists>c'. bind sample_net ''stun'' 3478 [] af_inet 30 30 []
      (sample_settings \<lparr> m_last_result := ''203.0.113.7'' \<rparr>) = (c', Val (True, ''203.0.113.7'')) \<and> trace c' = []"
  using bind_cache_hit [of "''stun''" 3478 "[]" af_inet 30 30 "sample_settings \<lparr> m_last_result := ''203.0.113.7'' \<rparr>" sample_net "[]"]
  by (auto simp: bind_dirty_def sample_settings_def bind_settings_def new_client_def sample_net_def)

lemma bind_Val:
  assumes "bind net h p i proto bt ct r0 c = (c', Val (ok, result))"
  shows "same_settings (bind_settings h p i proto bt ct c) c' \<and>
    requests c' \<le> requests c + STUN_DEFAULT_MAX_ATTEMPTS \<and>
    (m_fd c = -1 \<longrightarrow> m_fd c' = -1) \<and>
    (if ok then result = m_last_result c' else result = [] \<and> same_cache c c')"
proof -
  let ?c = "bind_settings h p i proto bt ct c"
  have eq: "requests ?c = requests c" "same_cache c ?c" "m_fd ?c = m_fd c"
    by (simp_all add: bind_settings_def requests_def same_cache_def)
  from assms consider (hit) "c' = emit [] ?c" "ok" "result = m_last_result ?c"
    | (net) c1 where "c1 = ?c \<or> c1 = emit [] ?c" "bind_network net c1 r0 = (c', Val (ok, result))"
    by (auto simp: bind_def Let_def simp del: of_nat_unat split: if_splits)
  then show ?thesis
  proof cases
    case hit
    then show ?thesis using eq by (simp add: same_settings_def same_cache_def)
  next
    case net
    then show ?thesis
      using eq bind_network_Val [OF net(2)] by (auto simp: same_settings_def same_cache_def split: if_splits)
  qed
qed


lemma sample_bind:
  "bind sample_net ''stun'' 3478 [] af_inet 30 30 [] new_client = (sample_client, Val (True, ''203.0.113.7''))"
  using sample_bind_network by (simp add: bind_def Let_def bind_dirty_def new_client_def sample_settings_def bind_settings_def)


text \<open>
  A failed \<^verbatim>\<open>bind\<close> does not invalidate the cached result although it stores the new settings: the
  next call with the same arguments answers, without any traffic, with the address that was found
  under the settings used before.
\<close>

theorem bind_stale_cache:
  assumes "bind net h p i proto bt ct r0 c = (c', Val (False, result))"
    and "m_last_result c \<noteq> []" and "0 < unat ct"
    and "(n_clock net (tick c') - m_last_cache_time c) div 1000 < int (unat ct)"
  shows "bind net h p i proto bt ct r1 c' = (emit [] c', Val (True, m_last_result c))"
proof -
  have f: "same_settings (bind_settings h p i proto bt ct c) c'" "same_cache c c'"
    using bind_Val [OF assms(1)] by simp_all
  then have "\<not> bind_dirty h p i proto bt ct c'"
    by (simp add: bind_dirty_def same_settings_def bind_settings_def)
  then show ?thesis
    using f(2) assms(2-4) bind_cached [of h p i proto bt ct c' net r1] by (simp add: same_cache_def)
qed

definition failed_client :: client where
  "failed_client = fst (bind sample_net ''other'' 3478 [] af_inet 30 30 [] (sample_settings \<lparr> m_last_result := ''203.0.113.7'' \<rparr>))"

lemma sample_bind_fails:
  "bind sample_net ''other'' 3478 [] af_inet 30 30 [] (sample_settings \<lparr> m_last_result := ''203.0.113.7'' \<rparr>)
     = (failed_client, Val (False, [])) \<and> tick failed_client < 1000"
  by (simp add: failed_client_def bind_def Let_def bind_dirty_def bind_settings_def sample_settings_def new_client_def
      bind_network_def bind_loop_single_attempt send_binding_request_def resolve_hostname_def sample_net_def
      close_fd_def emit_def)

theorem bind_stale_cache_witness:
  "bind sample_net ''other'' 3478 [] af_inet 30 30 [] failed_client = (emit [] failed_client, Val (True, ''203.0.113.7''))"
proof -
  have "(int (tick failed_client) - 0) div 1000 < 30" using sample_bind_fails by simp
  then show ?thesis
    using bind_stale_cache [OF conjunct1 [OF sample_bind_fails]]
    by (simp add: sample_settings_def bind_settings_def new_client_def sample_net_def)
qed

text \<open>
  The time-out is compared with a sum of milliseconds: every time-out from 1 to 2000 allows
  exactly one binding request, and a time-out of 0 none.
\<close>

theorem bind_attempts:
  "(unat (m_bind_timeout c) = 0 \<longrightarrow> requests (fst (bind_network net c r)) = requests c) \<and>
   (0 < unat (m_bind_timeout c) \<and> unat (m_bind_timeout c) \<le> 2000 \<longrightarrow>
      requests (fst (bind_network net c r)) = requests c + 1)"
proof (intro conjI impI)
  assume "unat (m_bind_timeout c) = 0"
  then show "requests (fst (bind_network net c r)) = requests c"
    by (simp add: bind_network_def bind_loop_expired)
next
  assume a: "0 < unat (m_bind_timeout c) \<and> unat (m_bind_timeout c) \<le> 2000"
  obtain c' q where q: "send_binding_request net STUN_DEFAULT_WAIT_INTERVAL c = (c', q)" by fastforce
  have n: "requests c' = requests c + 1"
    using send_binding_request_counts [of net STUN_DEFAULT_WAIT_INTERVAL c] q by simp
  have "requests (fst (fst (handle_response net m (c', r, False)))) = requests c'" for m
    using handle_response_cases [of net m c' r False] by (auto simp: requests_def)
  then have "requests (fst (fst (bind_loop net 0 0 1 (c, r, False)))) = requests c + 1"
    using bind_loop_single_attempt [of c net r False] a q n by (cases q) auto
  then show "requests (fst (bind_network net c r)) = requests c + 1"
    by (auto simp: bind_network_def split: res.splits prod.splits)
qed

theorem bind_attempts_witness: "requests (fst (bind_network sample_net sample_settings [])) = requests sample_settings + 1"
  using bind_attempts [of sample_settings sample_net "[]"] by (simp add: sample_settings_def bind_settings_def)

text \<open>
  C25.  Without a configured interface every socket that \<^verbatim>\<open>bind\<close> opens is closed again, on success, on
  failure and after an exception: the descriptors open at the end are those open at the start.
\<close>

theorem bind_releases_sockets:
  assumes "bind_network net c r0 = (c', Val (ok, result))" and "m_interface c = []" and "m_fd c = -1"
  shows "open_fds c' = open_fds c \<and> m_fd c' = -1"
proof -
  have "holds_own_fd (open_fds c) (fst (fst (bind_loop net 0 0 1 (c, r0, False))))"
    by (rule bind_loop_fd) (use assms in \<open>simp_all add: holds_own_fd_def\<close>)
  then show ?thesis
    using assms(1) close_fd_releases by (auto simp: bind_network_def split: res.splits prod.splits)
qed

theorem bind_releases_sockets_witness: "open_fds sample_client = open_fds sample_settings"
  using bind_releases_sockets [OF sample_bind_network] by (simp add: sample_settings_def bind_settings_def new_client_def)

text \<open>
  With a configured interface that has no address, \<^verbatim>\<open>create_udp_socket\<close> returns normally with the
  freshly opened socket neither stored nor closed.
\<close>

theorem create_udp_socket_leaks:
  assumes "m_interface c \<noteq> []" and "os_getIpaddr (n_os net) (m_interface c) fam = []"
    and "fam = AF_INET \<or> fam = AF_INET6" and "0 \<le> n_socket net (tick c) fam"
  shows "create_udp_socket net fam c = (emit [Open (n_socket net (tick c) fam)] c, Val ()) \<and>
    open_fds (fst (create_udp_socket net fam c)) = add_mset (n_socket net (tick c) fam) (open_fds c) \<and>
    m_fd (fst (create_udp_socket net fam c)) = m_fd c"
  using assms by (auto simp: create_udp_socket_def getInterfaceConfig_def Let_def)

theorem create_udp_socket_leaks_witness:
  "create_udp_socket sample_net AF_INET (sample_settings \<lparr> m_interface := ''wlan0'' \<rparr>)
     = (emit [Open 3] (sample_settings \<lparr> m_interface := ''wlan0'' \<rparr>), Val ())"
  using create_udp_socket_leaks [of "sample_settings \<lparr> m_interface := ''wlan0'' \<rparr>" sample_net AF_INET]
  by (simp add: sample_net_def sample_os_def)

definition resolved ::
    "stun_net \<Rightarrow> int \<Rightarrow> sockaddr_storage list \<Rightarrow> string list \<Rightarrow> sockaddr_storage list \<Rightarrow> bool" where
  "resolved net fam as seen src \<longleftrightarrow> set src \<subseteq> {a \<in> set as. ss_family a = fam} \<and>
     distinct (map (sockaddr_to_string net) src) \<and>
     (\<forall>a\<in>set src. sockaddr_to_string net a \<notin> Val ` set seen) \<and>
     (\<forall>a\<in>set as. ss_family a = fam \<longrightarrow>
        sockaddr_to_string net a \<in> sockaddr_to_string net ` set src \<union> Val ` set seen)"

lemma resolve_loop_spec:
  assumes "resolve_loop net prt fam as seen = Val rs" and fam: "fam = AF_INET \<or> fam = AF_INET6"
  shows "\<exists>src. rs = map (set_port prt) src \<and> resolved net fam as seen src"
  using assms(1)
proof (induction "as" arbitrary: seen rs)
  case Nil
  then show ?case by (simp add: resolved_def)
next
  case (Cons a as)
  show ?case
  proof (cases "ss_family a = fam")
    case False
    then have "resolve_loop net prt fam as seen = Val rs" using Cons.prems by (simp split: if_splits)
    from Cons.IH [OF this] show ?thesis using False by (auto simp: resolved_def)
  next
    case True
    then obtain s where s: "sockaddr_to_string net a = Val s"
      using Cons.prems fam by (auto simp: res_bind_Val_iff)
    show ?thesis
    proof (cases "s \<in> set seen")
      case seen: True
      then have "resolve_loop net prt fam as seen = Val rs" using Cons.prems True fam s by auto
      from Cons.IH [OF this] obtain src where "rs = map (set_port prt) src" "resolved net fam as seen src" by blast
      then show ?thesis using s seen by (intro exI [of _ src]) (auto simp: resolved_def)
    next
      case new: False
      then obtain rest where rest: "resolve_loop net prt fam as (s # seen) = Val rest" "rs = set_port prt a # rest"
        using Cons.prems True fam s by (auto simp: res_bind_Val_iff)
      from Cons.IH [OF rest(1)] obtain src where "rest = map (set_port prt) src" "resolved net fam as (s # seen) src" by blast
      then show ?thesis
        using s new True rest(2) by (intro exI [of _ "a # src"]) (auto simp: resolved_def)
    qed
  qed
qed

text \<open>
  Name resolution keeps exactly one address per distinct text among the addresses of the wanted
  family, each with the server's port in network order.
\<close>

theorem resolve_hostname_spec:
  assumes "resolve_hostname net host prt proto c = (c', Val rs)"
  shows "\<exists>as src. n_getaddrinfo net (tick c) host = Inr as \<and> rs = map (set_port prt) src \<and>
    set src \<subseteq> {a \<in> set as. ss_family a = protocol_family proto} \<and>
    distinct (map (sockaddr_to_string net) src) \<and>
    sockaddr_to_string net ` set src = sockaddr_to_string net ` {a \<in> set as. ss_family a = protocol_family proto}"
proof -
  have fam: "protocol_family proto = AF_INET \<or> protocol_family proto = AF_INET6"
    by (cases proto) (simp_all add: protocol_family_def)
  obtain as where "as": "n_getaddrinfo net (tick c) host = Inr as"
    "resolve_loop net prt (protocol_family proto) as [] = Val rs"
    using assms by (auto simp: resolve_hostname_def split: sum.splits)
  from resolve_loop_spec [OF as(2) fam] obtain src where
    "rs = map (set_port prt) src" "resolved net (protocol_family proto) as [] src" by blast
  then show ?thesis using as(1) by (intro exI [of _ "as"] exI [of _ src]) (auto simp: resolved_def)
qed

theorem resolve_hostname_spec_witness:
  "\<exists>src. [Sockaddr_in (htons 3478) 7] = map (set_port 3478) src \<and> distinct (map (sockaddr_to_string sample_net) src)"
  using resolve_hostname_spec [OF sample_resolve [of 3478 new_client]]
  by (elim exE conjE) (intro exI conjI)

text \<open>
  The timeval handed to \<^verbatim>\<open>select\<close> is the waiting time: the microseconds stay within one second
  and both parts together are the milliseconds given.
\<close>

theorem select_timeout_exact:
  assumes "0 \<le> wait_time" and "select_timeout wait_time = (sec, usec)"
  shows "sec * 1000000 + usec = 1000 * wait_time \<and> 0 \<le> usec \<and> usec \<le> 1000000 \<and> 0 \<le> sec"
  using assms by (auto simp: select_timeout_def Let_def minus_div_mult_eq_mod split: if_splits)

theorem select_timeout_exact_witness: "2 * 1000000 + 0 = 1000 * (2000 :: int) \<and> select_timeout 2000 = (2, 0)"
  using select_timeout_exact [of 2000 2 0] by (simp add: select_timeout_def)

end
