(* ===== verification/Connectivity.thy ===== *)
theory Connectivity
  imports Netsrv_Utils "HOL-Library.Multiset"
begin

text \<open>
  The Internet connectivity test of \<^verbatim>\<open>connectivity.cpp\<close>: a file with the endpoints to try, filled with
  defaults when it has fewer than two, and a test that connects to all of them with libcurl until a
  deadline.  The file is the state; what libcurl and the clock answer are parameters, one answer per
  round of the loop.
\<close>

section \<open>Endpoints\<close>

text \<open>
  \<^verbatim>\<open>conn_flush\<close> is \<^term>\<open>None\<close> when \<^verbatim>\<open>fclose\<close> succeeds, and what the file holds after \<^verbatim>\<open>fclose\<close> failed
  otherwise.  A round of \<^verbatim>\<open>curl_multi_perform\<close> is either an error or the number of transfers that are
  still running, followed by the messages \<^verbatim>\<open>curl_multi_info_read\<close> delivers, each with whether it is
  \<^verbatim>\<open>CURLMSG_DONE\<close> and whether its result is \<^verbatim>\<open>CURLE_OK\<close>.
\<close>

record conn_env =
  conn_xre :: bool
  conn_fopen :: bool
  conn_flush :: "string \<Rightarrow> string option"
  conn_multi_init :: bool
  conn_easy_init :: "string \<Rightarrow> bool"
  conn_add_handle :: "string \<Rightarrow> bool"
  conn_perform :: "nat \<Rightarrow> (nat \<times> (bool \<times> bool) list) option"
  conn_poll :: "nat \<Rightarrow> bool"
  conn_start :: int
  conn_clock :: "nat \<Rightarrow> int"

definition MAX_CONNECTIVITY_TEST_ENDPOINTS :: nat where
  "MAX_CONNECTIVITY_TEST_ENDPOINTS = 5"

definition endpoints_string :: "string list \<Rightarrow> string" where
  "endpoints_string endpoints =
     map (\<lambda>c. if c = CHR '' '' then newline else c) (concat (map (\<lambda>e. e @ '' '') endpoints))"

definition set_connectivity_test_endpoints ::
    "conn_env \<Rightarrow> string list \<Rightarrow> string option \<Rightarrow> bool \<times> string option" where
  "set_connectivity_test_endpoints env endpoints file =
     (if \<not> conn_fopen env then (False, file)
      else (case conn_flush env (endpoints_string endpoints) of
          None \<Rightarrow> (True, Some (endpoints_string endpoints))
        | Some t \<Rightarrow> (False, Some t)))"

definition default_endpoints :: "conn_env \<Rightarrow> string list" where
  "default_endpoints env =
     (if conn_xre env then [''xre.ccp.xcal.tv:10601'', ''google.com'', ''espn.com'']
      else [''google.com'', ''espn.com'', ''speedtest.net''])"

definition get_connectivity_test_endpoints ::
    "conn_env \<Rightarrow> string option \<Rightarrow> string list \<times> string option" where
  "get_connectivity_test_endpoints env file =
     (let endpoints = (case file of
            Some t \<Rightarrow> take MAX_CONNECTIVITY_TEST_ENDPOINTS (words_of t)
          | None \<Rightarrow> []) in
      if length endpoints < 2
      then let endpoints = endpoints @ default_endpoints env
           in (endpoints, snd (set_connectivity_test_endpoints env endpoints file))
      else (endpoints, file))"

section \<open>The test\<close>

text \<open>The handles: those initialised, and those of them that were added to the multi handle.\<close>

fun start_transfers :: "conn_env \<Rightarrow> string list \<Rightarrow> string list \<times> string list \<times> string list" where
  "start_transfers env [] = ([], [], [])"
| "start_transfers env (e # es) =
     (case start_transfers env es of (inited, cleaned, handles) \<Rightarrow>
        if \<not> conn_easy_init env e then (inited, cleaned, handles)
        else if \<not> conn_add_handle env e then (e # inited, e # cleaned, handles)
        else (e # inited, cleaned, e # handles))"

definition successes :: "(bool \<times> bool) list \<Rightarrow> nat" where
  "successes msgs = length (filter (\<lambda>(fin, ok). fin \<and> ok) msgs)"

text \<open>The loop; it runs until a stop, with fuel for the number of rounds.\<close>

fun transfer_loop :: "conn_env \<Rightarrow> nat \<Rightarrow> nat \<Rightarrow> int \<Rightarrow> nat \<Rightarrow> nat option" where
  "transfer_loop env 0 n deadline connectivity = None"
| "transfer_loop env (Suc fuel) n deadline connectivity =
     (case conn_perform env n of
        None \<Rightarrow> Some connectivity
      | Some (handles, msgs) \<Rightarrow>
          let connectivity = connectivity + successes msgs in
          if handles = 0 \<or> deadline \<le> conn_clock env n then Some connectivity
          else if \<not> conn_poll env n then Some connectivity
          else transfer_loop env fuel (n + 1) deadline connectivity)"

record test_result =
  connected :: bool
  endpoints_file :: "string option"
  easy_inits :: "string list"
  easy_cleanups :: "string list"

text \<open>
  \<^verbatim>\<open>test_connectivity\<close>: a multi handle that cannot be created gives \<^verbatim>\<open>-1\<close>, which is true.  The result
  is \<^term>\<open>None\<close> when the fuel does not reach the end of the loop.
\<close>

definition test_connectivity :: "conn_env \<Rightarrow> nat \<Rightarrow> int \<Rightarrow> string option \<Rightarrow> test_result option" where
  "test_connectivity env fuel timeout_ms file =
     (case get_connectivity_test_endpoints env file of (endpoints, file) \<Rightarrow>
        let deadline = conn_start env + timeout_ms in
        if \<not> conn_multi_init env
        then Some \<lparr> connected = True, endpoints_file = file, easy_inits = [], easy_cleanups = [] \<rparr>
        else (case start_transfers env endpoints of (inited, cleaned, handles) \<Rightarrow>
          map_option (\<lambda>connectivity. \<lparr> connected = (int (length endpoints) - 1 \<le> int connectivity),
              endpoints_file = file, easy_inits = inited, easy_cleanups = cleaned @ handles \<rparr>)
            (transfer_loop env fuel 0 deadline 0)))"

text \<open>The bus calls.  The request has room for five endpoints, and its count is not checked.\<close>

definition isConnectedToInternet :: "conn_env \<Rightarrow> nat \<Rightarrow> string option \<Rightarrow> test_result option" where
  "isConnectedToInternet env fuel file = test_connectivity env fuel 2000 file"

definition setConnectivityTestEndpoints ::
    "conn_env \<Rightarrow> u8 \<Rightarrow> string list \<Rightarrow> string option \<Rightarrow> (bool \<times> string option) res" where
  "setConnectivityTestEndpoints env n endpoints file =
     (if 5 < unat n then UB
      else Val (set_connectivity_test_endpoints env (take (unat n) endpoints) file))"

section \<open>The file of endpoints\<close>

text \<open>An endpoint that survives the file: not empty and without white space.\<close>

definition endpoint :: "string \<Rightarrow> bool" where
  "endpoint e \<longleftrightarrow> e \<noteq> [] \<and> (\<forall>c\<in>set e. \<not> isspace_c c)"

lemma isspace_newline [simp]: "isspace_c newline" "isspace_c (CHR '' '')"
  by (simp_all add: isspace_c_def newline_def)

lemma endpoints_string_Cons:
  "endpoint e \<Longrightarrow> endpoints_string (e # es) = e @ newline # endpoints_string es"
proof -
  assume "endpoint e"
  then have "CHR '' '' \<notin> set e" by (auto simp: endpoint_def)
  then show ?thesis by (auto simp: endpoints_string_def intro!: map_idI)
qed

lemma scan_str_endpoint:
  assumes "endpoint e"
  shows "scan_str (e @ newline # s) = Some (e, newline # s)"
proof -
  obtain c cs where e: "e = c # cs" "\<not> isspace_c c" using assms by (cases e) (auto simp: endpoint_def)
  then show ?thesis
    using assms by (auto simp: scan_str_def Let_def endpoint_def takeWhile_append dropWhile_append)
qed

lemma words_of_newline: "words_of (newline # s) = words_of s"
  by (subst words_of.simps, subst (2) words_of.simps) (simp add: scan_str_def)

lemma words_of_endpoints: "\<forall>e\<in>set es. endpoint e \<Longrightarrow> words_of (endpoints_string es) = es"
proof (induction es)
  case Nil
  then show ?case by (subst words_of.simps) (simp add: endpoints_string_def scan_str_def)
next
  case (Cons e es)
  then show ?case
    by (subst words_of.simps) (simp add: endpoints_string_Cons scan_str_endpoint words_of_newline)
qed

lemma words_are_endpoints: "e \<in> set (words_of s) \<Longrightarrow> endpoint e"
proof (induction s rule: words_of.induct)
  case (1 s)
  show ?case
  proof (cases "scan_str s")
    case None
    then show ?thesis using "1.prems" by (subst (asm) words_of.simps) simp
  next
    case (Some p)
    obtain w r where p: "p = (w, r)" by (cases p)
    have ne: "dropWhile isspace_c s \<noteq> []" and w: "w = takeWhile (\<lambda>c. \<not> isspace_c c) (dropWhile isspace_c s)"
      using Some p by (auto simp: scan_str_def Let_def split: if_splits)
    have "endpoint w"
      using hd_dropWhile [OF ne] ne unfolding w endpoint_def
      by (cases "dropWhile isspace_c s") (auto dest: set_takeWhileD)
    moreover have "e = w \<or> e \<in> set (words_of r)"
      using "1.prems" Some p by (subst (asm) words_of.simps) simp
    ultimately show ?thesis using "1.IH" Some p by auto
  qed
qed

lemma default_endpoints_ok: "\<forall>e\<in>set (default_endpoints env). endpoint e" "length (default_endpoints env) = 3"
  by (simp_all add: default_endpoints_def endpoint_def isspace_c_def)

text \<open>
  Between two and five endpoints that are written to the file are read back as they are, in order,
  and reading them leaves the file alone.
\<close>

theorem endpoints_roundtrip:
  assumes "\<forall>e\<in>set es. endpoint e" and "2 \<le> length es" and "length es \<le> 5"
    and "set_connectivity_test_endpoints env es file = (True, file')"
  shows "get_connectivity_test_endpoints env file' = (es, file')"
proof -
  have "file' = Some (endpoints_string es)"
    using assms(4) by (auto simp: set_connectivity_test_endpoints_def split: if_splits option.splits)
  then show ?thesis
    using assms(1-3)
    by (simp add: get_connectivity_test_endpoints_def words_of_endpoints MAX_CONNECTIVITY_TEST_ENDPOINTS_def)
qed

definition sample_conn :: conn_env where
  "sample_conn = \<lparr> conn_xre = False, conn_fopen = True, conn_flush = (\<lambda>_. None), conn_multi_init = True,
     conn_easy_init = (\<lambda>_. True), conn_add_handle = (\<lambda>e. e \<noteq> ''espn.com''),
     conn_perform = (\<lambda>n. if n = 0 then Some (2, []) else Some (0, [(True, True), (True, True)])),
     conn_poll = (\<lambda>_. True), conn_start = 0, conn_clock = int \<rparr>"

theorem endpoints_roundtrip_witness:
  "get_connectivity_test_endpoints sample_conn (Some (''a.com'' @ [newline] @ ''b.com'' @ [newline]))
     = ([''a.com'', ''b.com''], Some (''a.com'' @ [newline] @ ''b.com'' @ [newline]))"
  using endpoints_roundtrip [of "[''a.com'', ''b.com'']" sample_conn None
      "Some (''a.com'' @ [newline] @ ''b.com'' @ [newline])"]
  by (simp add: set_connectivity_test_endpoints_def sample_conn_def endpoints_string_def endpoint_def isspace_c_def newline_def)

text \<open>
  Whatever the file holds, the test has between two and five endpoints, none of them empty, and
  asking again gives the same endpoints if the defaults could be saved.
\<close>

theorem endpoints_stable:
  assumes "get_connectivity_test_endpoints env file = (es, file')"
  shows "2 \<le> length es \<and> length es \<le> 5 \<and> (\<forall>e\<in>set es. endpoint e) \<and>
    (conn_fopen env \<and> conn_flush env (endpoints_string es) = None \<longrightarrow>
       get_connectivity_test_endpoints env file' = (es, file'))"
proof -
  define ws where "ws = (case file of Some t \<Rightarrow> take MAX_CONNECTIVITY_TEST_ENDPOINTS (words_of t) | None \<Rightarrow> [])"
  have ws: "length ws \<le> 5" "\<forall>e\<in>set ws. endpoint e"
    by (auto simp: ws_def MAX_CONNECTIVITY_TEST_ENDPOINTS_def split: option.split dest!: in_set_takeD words_are_endpoints)
  show ?thesis
  proof (cases "length ws < 2")
    case False
    then have "es = ws" "file' = file"
      using assms by (simp_all add: get_connectivity_test_endpoints_def ws_def [symmetric])
    then show ?thesis using ws False assms by simp
  next
    case True
    then have es: "es = ws @ default_endpoints env" "file' = snd (set_connectivity_test_endpoints env es file)"
      using assms by (auto simp: get_connectivity_test_endpoints_def ws_def [symmetric] Let_def)
    then have b: "2 \<le> length es" "length es \<le> 5" "\<forall>e\<in>set es. endpoint e"
      using True ws default_endpoints_ok [of env] by auto
    moreover have "get_connectivity_test_endpoints env file' = (es, file')"
      if "conn_fopen env" "conn_flush env (endpoints_string es) = None"
    proof -
      have "file' = Some (endpoints_string es)"
        using that es(2) by (simp add: set_connectivity_test_endpoints_def)
      then show ?thesis
        using b by (simp add: get_connectivity_test_endpoints_def words_of_endpoints MAX_CONNECTIVITY_TEST_ENDPOINTS_def)
    qed
    ultimately show ?thesis by blast
  qed
qed

theorem endpoints_stable_witness:
  "get_connectivity_test_endpoints sample_conn (snd (get_connectivity_test_endpoints sample_conn None))
     = ([''google.com'', ''espn.com'', ''speedtest.net''], snd (get_connectivity_test_endpoints sample_conn None))"
proof -
  have r: "fst (get_connectivity_test_endpoints sample_conn None) = [''google.com'', ''espn.com'', ''speedtest.net'']"
    by (simp add: get_connectivity_test_endpoints_def default_endpoints_def sample_conn_def Let_def)
  show ?thesis
    using endpoints_stable [of sample_conn None] r
    by (metis prod.collapse conn_env.select_convs(2,3) sample_conn_def)
qed

section \<open>The outcome of the test\<close>

text \<open>Round \<^verbatim>\<open>n\<close> is the last one; the successes of the rounds before a bound.\<close>

definition last_round :: "conn_env \<Rightarrow> int \<Rightarrow> nat \<Rightarrow> bool" where
  "last_round env deadline n \<longleftrightarrow> (case conn_perform env n of
      None \<Rightarrow> True
    | Some (handles, msgs) \<Rightarrow> handles = 0 \<or> deadline \<le> conn_clock env n \<or> \<not> conn_poll env n)"

definition round_successes :: "conn_env \<Rightarrow> nat \<Rightarrow> nat" where
  "round_successes env n = (case conn_perform env n of None \<Rightarrow> 0 | Some (handles, msgs) \<Rightarrow> successes msgs)"

lemma transfer_loop_result:
  assumes "last_round env deadline (n + k)" and "\<forall>m<k. \<not> last_round env deadline (n + m)" and "k < fuel"
  shows "transfer_loop env fuel n deadline c = Some (c + (\<Sum>m\<le>k. round_successes env (n + m)))"
  using assms
proof (induction k arbitrary: fuel n c)
  case 0
  then show ?case
    by (cases fuel) (auto simp: last_round_def round_successes_def Let_def split: option.splits)
next
  case (Suc k)
  then obtain f where f: "fuel = Suc f" by (cases fuel) auto
  have "\<not> last_round env deadline n" using Suc.prems(2) by fastforce
  then have step: "transfer_loop env fuel n deadline c = transfer_loop env f (n + 1) deadline (c + round_successes env n)"
    by (auto simp: f last_round_def round_successes_def Let_def split: option.splits)
  have "\<forall>m<k. \<not> last_round env deadline (n + 1 + m)" using Suc.prems(2) by fastforce
  then have "transfer_loop env f (n + 1) deadline (c + round_successes env n)
      = Some (c + round_successes env n + (\<Sum>m\<le>k. round_successes env (n + 1 + m)))"
    using Suc.prems f by (intro Suc.IH) auto
  moreover have "(\<Sum>m\<le>Suc k. round_successes env (n + m)) = round_successes env n + (\<Sum>m\<le>k. round_successes env (n + 1 + m))"
    by (subst sum.atMost_Suc_shift) simp
  ultimately show ?case using step by simp
qed

lemma start_transfers_mset:
  "start_transfers env es = (inited, cleaned, handles) \<Longrightarrow> mset inited = mset cleaned + mset handles"
  by (induction es arbitrary: inited cleaned handles) (auto split: prod.splits if_splits)

lemma start_transfers_total: "\<exists>i c h. start_transfers env es = (i, c, h)"
  by (metis prod_cases3)



text \<open>
  When libcurl cannot be initialised no endpoint is tried, and the test reports a working
  connection.
\<close>

theorem test_connectivity_without_curl:
  assumes "\<not> conn_multi_init env"
  shows "\<exists>r. isConnectedToInternet env fuel file = Some r \<and> connected r \<and> easy_inits r = []"
  using assms by (simp add: isConnectedToInternet_def test_connectivity_def Let_def split: prod.split)

theorem test_connectivity_without_curl_witness:
  "\<exists>r. isConnectedToInternet (sample_conn \<lparr> conn_multi_init := False \<rparr>) 1 None = Some r \<and> connected r"
  using test_connectivity_without_curl [of "sample_conn \<lparr> conn_multi_init := False \<rparr>" 1 None] by auto

end
