(* ===== verification/Net_Main.thy ===== *)
theory Net_Main
  imports Netsrv_Utils
begin

text \<open>
  The daemon of \<^verbatim>\<open>netSrvMgrMain.cpp\<close>: command line, configuration file, telemetry lists, the
  netlink callbacks with the events they broadcast, and the operations that enable, disable and
  prefer interfaces.  The state holds the marker files, the commands run, the events broadcast, the
  default interface last seen and the configuration.  The WiFi manager is reached through
  \<^verbatim>\<open>setWifiEnabled\<close> only, which is an argument acting on an abstract WiFi state.  The answers of
  netlink, of the RFC parameter service and of the operating system are records; a GKeyFile and a
  cJSON document are given by their parsed contents.
\<close>

section \<open>State and environment\<close>

record wifiMgrConfigProps =
  max_timeout :: u16
  bEnableLostFound :: bool
  lnfRetryInSecs :: u16
  lnfStartInSecs :: u16
  authServerURL :: string
  disableWpsXRE :: bool
  getAuthTokenUrl :: string
  getLfatUrl :: string
  setLfatUrl :: string
  lfatVersion :: string
  lnfRetryCount :: u16
  lfatTTL :: u32

record stunConfigProps =
  stun_server :: string
  stun_port :: u16
  stun_ipv6 :: bool
  stun_interface :: string
  stun_bind_timeout :: u16
  stun_cache_timeout :: u16

record netMgrConfigProps =
  wifiProps :: wifiMgrConfigProps
  stunProps :: stunConfigProps

record telemetryParams =
  timePeriod :: int
  paramlist :: "string option list"

datatype nm_event =
    InterfaceEnabledStatus string bool
  | InterfaceConnectionStatus string bool
  | InterfaceIPAddress string string bool bool
  | DefaultInterface string string

record 'w nm =
  nm_files :: "string \<rightharpoonup> string"
  nm_commands :: "string list"
  nm_events :: "nm_event list"
  default_interface :: string
  gDhcpServerIP :: string
  nm_wifi :: 'w

record iface_info =
  m_if_name :: string
  m_if_macaddr :: string
  m_if_flags :: u32

record nm_env =
  nm_os :: os
  nm_glib :: glib
  getDefaultRoute :: "bool \<Rightarrow> (string \<times> string) option"
  getInterfaces :: "iface_info list"
  getRFCParameter :: "string \<Rightarrow> string option"
  can_write :: "string \<Rightarrow> bool"
  can_remove :: "string \<Rightarrow> bool"

section \<open>Helpers\<close>

definition getenvOrDefault :: "os \<Rightarrow> string \<Rightarrow> string \<Rightarrow> string" where
  "getenvOrDefault env name defaultValue =
     (case os_getenv env name of Some v \<Rightarrow> v | None \<Rightarrow> defaultValue)"

definition split :: "string \<Rightarrow> char \<Rightarrow> nat \<Rightarrow> bool \<times> string list" where
  "split str delimiter min_expected_tokens =
     (let tokens = getline_all delimiter str in
      (\<not> (min_expected_tokens > 0 \<and> length tokens < min_expected_tokens), tokens))"

definition isFeatureEnabled :: "nm_env \<Rightarrow> string \<Rightarrow> bool" where
  "isFeatureEnabled env feature =
     (case getRFCParameter env feature of None \<Rightarrow> False | Some v \<Rightarrow> v = ''true'')"

definition getDefaultInterface :: "nm_env \<Rightarrow> bool \<times> string \<times> string" where
  "getDefaultInterface env =
     (case getDefaultRoute env True of
        Some (i, gw) \<Rightarrow> (True, i, gw)
      | None \<Rightarrow> (case getDefaultRoute env False of
            Some (i, gw) \<Rightarrow> (True, i, gw)
          | None \<Rightarrow> (False, [], [])))"

section \<open>Events\<close>

definition broadcast :: "nm_event \<Rightarrow> 'w nm \<Rightarrow> 'w nm" where
  "broadcast e s = s \<lparr> nm_events := nm_events s @ [e] \<rparr>"

definition eventInterfaceEnabledStatusChanged :: "string \<Rightarrow> bool \<Rightarrow> 'w nm \<Rightarrow> 'w nm" where
  "eventInterfaceEnabledStatusChanged interface enabled =
     broadcast (InterfaceEnabledStatus (snprintf_to 16 interface) enabled)"

definition eventInterfaceConnectionStatusChanged :: "string \<Rightarrow> bool \<Rightarrow> 'w nm \<Rightarrow> 'w nm" where
  "eventInterfaceConnectionStatusChanged interface connected =
     broadcast (InterfaceConnectionStatus (snprintf_to 16 interface) connected)"

definition NETSRVMGR_DHCP_SERVERIP_PATH :: string where
  "NETSRVMGR_DHCP_SERVERIP_PATH = ''/tmp/netsrvmgr.dhcp.server.ip''"

text \<open>\<^verbatim>\<open>getDhcpServerIP\<close>: the first line of the file, when it is an IPv4 address.\<close>

definition getDhcpServerIP :: "nm_env \<Rightarrow> 'w nm \<Rightarrow> bool \<times> 'w nm" where
  "getDhcpServerIP env s =
     (case os_file (nm_os env) NETSRVMGR_DHCP_SERVERIP_PATH of
        None \<Rightarrow> (False, s)
      | Some contents \<Rightarrow>
          let line = (case getline_all newline contents of l # _ \<Rightarrow> l | [] \<Rightarrow> []) in
          if inet_pton4 line = None then (False, s) else (True, s \<lparr> gDhcpServerIP := line \<rparr>))"

definition eventInterfaceIPAddressStatusChanged ::
    "nm_env \<Rightarrow> string \<Rightarrow> string \<Rightarrow> bool \<Rightarrow> bool \<Rightarrow> 'w nm \<Rightarrow> 'w nm" where
  "eventInterfaceIPAddressStatusChanged env interface ip_address is_ipv6 acquired s =
     (let s = broadcast (InterfaceIPAddress (snprintf_to 16 interface)
                (snprintf_to MAX_IP_ADDRESS_LEN ip_address) is_ipv6 acquired) s in
      if \<not> is_ipv6 then snd (getDhcpServerIP env s) else s)"

definition eventDefaultInterfaceChanged :: "string \<Rightarrow> string \<Rightarrow> 'w nm \<Rightarrow> 'w nm" where
  "eventDefaultInterfaceChanged oldInterface newInterface =
     broadcast (DefaultInterface (snprintf_to 16 oldInterface) (snprintf_to 16 newInterface))"

definition detectDefaultInterfaceChange :: "nm_env \<Rightarrow> 'w nm \<Rightarrow> 'w nm" where
  "detectDefaultInterfaceChange env s =
     (let old_default_interface = default_interface s;
          new = fst (snd (getDefaultInterface env));
          s = s \<lparr> default_interface := new \<rparr> in
      if old_default_interface \<noteq> new then eventDefaultInterfaceChanged old_default_interface new s else s)"

section \<open>Netlink callbacks\<close>

definition linkCallback :: "nm_env \<Rightarrow> string \<Rightarrow> 'w nm \<Rightarrow> 'w nm" where
  "linkCallback env args s =
     (case split args (CHR '' '') 2 of (ok, tokens) \<Rightarrow>
        if \<not> ok then s
        else if tokens ! 1 = ''up'' then eventInterfaceEnabledStatusChanged (tokens ! 0) True s
        else if tokens ! 1 = ''down''
        then detectDefaultInterfaceChange env (eventInterfaceEnabledStatusChanged (tokens ! 0) False s)
        else if tokens ! 1 = ''add'' then eventInterfaceConnectionStatusChanged (tokens ! 0) True s
        else if tokens ! 1 = ''delete'' then eventInterfaceConnectionStatusChanged (tokens ! 0) False s
        else s)"

definition addressCallback :: "nm_env \<Rightarrow> string \<Rightarrow> 'w nm \<Rightarrow> 'w nm res" where
  "addressCallback env args s =
     (case split args (CHR '' '') 5 of (ok, tokens) \<Rightarrow>
        if \<not> ok then Val s
        else if tokens ! 4 \<noteq> ''global'' then Val s
        else res_bind (if tokens ! 1 = ''ipv4'' then isIPv4AddressScopeDocumentation (tokens ! 3) else Val False)
          (\<lambda>reserved.
            let s = (if reserved then s
                     else eventInterfaceIPAddressStatusChanged env (tokens ! 2) (tokens ! 3)
                            (tokens ! 1 = ''ipv6'') (tokens ! 0 = ''add'') s)
            in Val (if CHR '':'' \<in> set (tokens ! 2) \<and> tokens ! 0 = ''delete''
                    then detectDefaultInterfaceChange env s else s)))"

definition defaultRouteCallback :: "nm_env \<Rightarrow> string \<Rightarrow> 'w nm \<Rightarrow> 'w nm" where
  "defaultRouteCallback env args s =
     (if fst (split args (CHR '' '') 7) then detectDefaultInterfaceChange env s else s)"

section \<open>Command line and configuration\<close>

text \<open>
  The argument loop of \<^verbatim>\<open>main\<close>: the debug configuration file and the configuration path.  The value
  of \<^verbatim>\<open>--debugconfig\<close> is compared with \<^verbatim>\<open>--configFilePath\<close> as well.
\<close>

fun main_args :: "string list \<Rightarrow> string option \<times> string option \<Rightarrow> string option \<times> string option" where
  "main_args [] acc = acc"
| "main_args [a] (dbg, cfg) = (dbg, cfg)"
| "main_args (a # b # rest) (dbg, cfg) =
     (if a = ''--debugconfig''
      then (if b = ''--configFilePath''
            then (case rest of
                    c # rest' \<Rightarrow> main_args rest' (Some b, Some c)
                  | [] \<Rightarrow> (Some b, cfg))
            else main_args rest (Some b, cfg))
      else if a = ''--configFilePath'' then main_args rest (dbg, Some b)
      else main_args (b # rest) (dbg, cfg))"

definition configProp_FilePath :: "string option \<Rightarrow> string" where
  "configProp_FilePath cfg = (case cfg of Some p \<Rightarrow> take 100 p | None \<Rightarrow> [])"

text \<open>\<^verbatim>\<open>strncasecmp(NAME, key, strlen(key)) == 0\<close>: the key is a prefix of the name, ignoring case.\<close>

definition key_matches :: "string \<Rightarrow> string \<Rightarrow> bool" where
  "key_matches name key \<longleftrightarrow> strncasecmp_eq name key (length key)"

definition set_string :: "bool \<Rightarrow> nat \<Rightarrow> string \<Rightarrow> (string \<Rightarrow> 'c \<Rightarrow> 'c) \<Rightarrow> 'c \<Rightarrow> 'c res" where
  "set_string cond n v upd c = (if cond then res_bind (strcpy_to n v) (\<lambda>v. Val (upd v c)) else Val c)"

definition read_wifi_key :: "os \<Rightarrow> string \<times> string \<Rightarrow> wifiMgrConfigProps \<Rightarrow> wifiMgrConfigProps res" where
  "read_wifi_key env kv p =
     (case kv of (key, value) \<Rightarrow>
       let p = (if key_matches ''MAX_TIMEOUT_ON_DISCONNECT'' key
                then p \<lparr> max_timeout := of_int (atoi value) \<rparr> else p) in
       res_bind (if key_matches ''ENABLE_LOST_FOUND'' key
                 then res_bind (checkInterfaceActive env (os_getenv env ''ETHERNET_INTERFACE'')) (\<lambda>active.
                        Val (if \<not> active then p \<lparr> bEnableLostFound := (atoi value \<noteq> 0) \<rparr> else p))
                 else Val p) (\<lambda>p.
       let p = (if key_matches ''LAF_CONNECT_RETRY_INTERVAL'' key
                then p \<lparr> lnfRetryInSecs := of_int (atoi value) \<rparr> else p);
           p = (if key_matches ''LAF_CONNECT_START_INTERVAL'' key
                then p \<lparr> lnfStartInSecs := of_int (atoi value) \<rparr> else p) in
       res_bind (set_string (key_matches ''GET_AUTHTOKEN_URL'' key) 128 value (\<lambda>v p. p \<lparr> getAuthTokenUrl := v \<rparr>) p) (\<lambda>p.
       res_bind (set_string (key_matches ''GET_LFAT_URL'' key) 128 value (\<lambda>v p. p \<lparr> getLfatUrl := v \<rparr>) p) (\<lambda>p.
       res_bind (set_string (key_matches ''SET_LFAT_URL'' key) 128 value (\<lambda>v p. p \<lparr> setLfatUrl := v \<rparr>) p) (\<lambda>p.
       res_bind (set_string (key_matches ''LFAT_VERSION'' key) 128 value (\<lambda>v p. p \<lparr> lfatVersion := v \<rparr>) p) (\<lambda>p.
       let p = (if key_matches ''LFAT_TTL'' key then p \<lparr> lfatTTL := of_int (atoi value) \<rparr> else p);
           p = (if key_matches ''LAF_CONNECTION_RETRY'' key
                then p \<lparr> lnfRetryCount := of_int (atoi value) \<rparr> else p) in
       res_bind (set_string (key_matches ''AUTHSERVER_URL'' key) 128 value (\<lambda>v p. p \<lparr> authServerURL := v \<rparr>) p) (\<lambda>p.
       Val (if key_matches ''disableWpsXRE'' key then p \<lparr> disableWpsXRE := (atoi value \<noteq> 0) \<rparr> else p))))))))"

definition read_stun_key :: "string \<times> string \<Rightarrow> stunConfigProps \<Rightarrow> stunConfigProps res" where
  "read_stun_key kv p =
     (case kv of (key, value) \<Rightarrow>
        if key_matches ''STUN_SERVER'' key
        then res_bind (strcpy_to 128 value) (\<lambda>v. Val (p \<lparr> stun_server := v \<rparr>))
        else if key_matches ''STUN_PORT'' key then Val (p \<lparr> stun_port := of_int (atoi value) \<rparr>)
        else if key_matches ''STUN_INTERFACE'' key
        then res_bind (strcpy_to 16 value) (\<lambda>v. Val (p \<lparr> stun_interface := v \<rparr>))
        else if key_matches ''STUN_IPV6'' key then Val (p \<lparr> stun_ipv6 := (atoi value \<noteq> 0) \<rparr>)
        else if key_matches ''STUN_BIND_TIMEOUT'' key
        then Val (p \<lparr> stun_bind_timeout := of_int (atoi value) \<rparr>)
        else if key_matches ''STUN_CACHE_TIMEOUT'' key
        then Val (p \<lparr> stun_cache_timeout := of_int (atoi value) \<rparr>)
        else Val p)"

fun fold_res :: "('x \<Rightarrow> 's \<Rightarrow> 's res) \<Rightarrow> 'x list \<Rightarrow> 's \<Rightarrow> 's res" where
  "fold_res f [] s = Val s"
| "fold_res f (x # xs) s = res_bind (f x s) (fold_res f xs)"

definition stun_defaults :: "stunConfigProps \<Rightarrow> stunConfigProps" where
  "stun_defaults p =
     (let p = (if stun_bind_timeout p = 0 then p \<lparr> stun_bind_timeout := 30 \<rparr> else p)
      in if stun_cache_timeout p = 0 then p \<lparr> stun_cache_timeout := 0 \<rparr> else p)"

type_synonym key_file = "(string \<times> (string \<times> string) list) list"

definition read_group ::
    "os \<Rightarrow> string \<times> (string \<times> string) list \<Rightarrow> netMgrConfigProps \<Rightarrow> netMgrConfigProps res" where
  "read_group env grp conf =
     (case grp of (name, kvs) \<Rightarrow>
        if key_matches ''WiFiMgr_Config'' name
        then res_bind (fold_res (read_wifi_key env) kvs (wifiProps conf)) (\<lambda>p. Val (conf \<lparr> wifiProps := p \<rparr>))
        else if key_matches ''Stun_Config'' name
        then res_bind (fold_res read_stun_key kvs (stunProps conf)) (\<lambda>p.
               Val (conf \<lparr> stunProps := stun_defaults p \<rparr>))
        else Val conf)"

text \<open>
  \<^verbatim>\<open>read_ConfigProps\<close>; the file's parsed groups are given, \<^term>\<open>None\<close> when it cannot be loaded.
\<close>

definition read_ConfigProps ::
    "os \<Rightarrow> string \<Rightarrow> (string \<Rightarrow> key_file option) \<Rightarrow> netMgrConfigProps \<Rightarrow> (bool \<times> netMgrConfigProps) res" where
  "read_ConfigProps env path load conf =
     (if path = [] then Val (False, conf)
      else (case load path of
          None \<Rightarrow> Val (False, conf)
        | Some groups \<Rightarrow> res_bind (fold_res (read_group env) groups conf) (\<lambda>c. Val (True, c))))"

definition main_config ::
    "os \<Rightarrow> string \<Rightarrow> (string \<Rightarrow> key_file option) \<Rightarrow> netMgrConfigProps \<Rightarrow> netMgrConfigProps res" where
  "main_config env path load conf =
     res_bind (read_ConfigProps env path load conf) (\<lambda>(ok, c).
       if ok then Val c
       else Val (c \<lparr> wifiProps := (wifiProps c) \<lparr> max_timeout := 60, bEnableLostFound := False,
              lnfRetryInSecs := 60, lnfStartInSecs := 60,
              authServerURL := ''http://localhost:50050/authService/getDeviceId'' \<rparr> \<rparr>))"

section \<open>Telemetry parameters\<close>

text \<open>
  A parsed cJSON object, as far as it is used: its integer members and its arrays of (possibly
  null) strings.  A missing time period is dereferenced as a null pointer.
\<close>

record json =
  json_int :: "string \<Rightarrow> int option"
  json_array :: "string \<Rightarrow> string option list"

definition update_telemetryParams_list ::
    "json option \<Rightarrow> string \<Rightarrow> string \<Rightarrow> telemetryParams \<Rightarrow> (bool \<times> telemetryParams) res" where
  "update_telemetryParams_list request_msg time_period_string param_name_string t =
     (case request_msg of
        None \<Rightarrow> Val (False, t)
      | Some j \<Rightarrow>
          (case json_int j time_period_string of
             None \<Rightarrow> UB
           | Some n \<Rightarrow>
               let t = t \<lparr> timePeriod := n \<rparr>;
                   t = foldl (\<lambda>t x. t \<lparr> paramlist := x # paramlist t \<rparr>) t (json_array j param_name_string)
               in Val (True, if paramlist t \<noteq> [] then t \<lparr> paramlist := rev (paramlist t) \<rparr> else t)))"

definition parse_telemetry_logging_configuration ::
    "json option \<Rightarrow> (telemetryParams \<times> telemetryParams) res" where
  "parse_telemetry_logging_configuration j =
     res_bind (update_telemetryParams_list j ''wifi_period1_time'' ''wifi_parameter_list_period1''
                 \<lparr> timePeriod = 0, paramlist = [] \<rparr>) (\<lambda>(_, t1).
     res_bind (update_telemetryParams_list j ''wifi_period2_time'' ''wifi_parameter_list_period2''
                 \<lparr> timePeriod = 0, paramlist = [] \<rparr>) (\<lambda>(_, t2). Val (t1, t2)))"

section \<open>Enabling and preferring interfaces\<close>

definition run_command :: "string \<Rightarrow> 'w nm \<Rightarrow> 'w nm" where
  "run_command c s = s \<lparr> nm_commands := nm_commands s @ [c] \<rparr>"

definition launch_pni_controller :: "'w nm \<Rightarrow> 'w nm" where
  "launch_pni_controller = run_command ''systemctl restart pni_controller.service''"

text \<open>A file that cannot be opened is closed through a null pointer.\<close>

definition touch_file :: "nm_env \<Rightarrow> string \<Rightarrow> 'w nm \<Rightarrow> 'w nm res" where
  "touch_file env fqn s =
     (if can_write env fqn then Val (s \<lparr> nm_files := (nm_files s)(fqn \<mapsto> []) \<rparr>) else UB)"

definition mark :: "nm_env \<Rightarrow> string \<Rightarrow> bool \<Rightarrow> 'w nm \<Rightarrow> 'w nm res" where
  "mark env filename persist s =
     res_bind (touch_file env (snprintf_to 64 (''/tmp/'' @ filename)) s) (\<lambda>s.
       if persist then touch_file env (snprintf_to 64 (''/opt/persistent/'' @ filename)) s else Val s)"

definition remove_file :: "nm_env \<Rightarrow> string \<Rightarrow> 'w nm \<Rightarrow> 'w nm" where
  "remove_file env fqn s =
     (if can_remove env fqn then s \<lparr> nm_files := (nm_files s)(fqn := None) \<rparr> else s)"

definition unmark :: "nm_env \<Rightarrow> string \<Rightarrow> bool \<Rightarrow> 'w nm \<Rightarrow> 'w nm" where
  "unmark env filename persist s =
     (let s = remove_file env (snprintf_to 64 (''/tmp/'' @ filename)) s in
      if persist then remove_file env (snprintf_to 64 (''/opt/persistent/'' @ filename)) s else s)"

definition validate_interface_can_be_disabled :: "nm_env \<Rightarrow> string \<Rightarrow> bool res" where
  "validate_interface_can_be_disabled env interface =
     (if isFeatureEnabled env
           ''Device.DeviceInfo.X_RDKCENTRAL-COM_RFC.Feature.Network.AllowDisableDefaultNetwork.Enable''
      then Val True
      else res_bind (getRouteInterfaceType (nm_glib env) (nm_os env) INTERFACE_SIZE [])
        (\<lambda>(found, activeInterface). Val (found \<and> interface \<noteq> activeInterface)))"

definition setInterfaceState :: "string \<Rightarrow> bool \<Rightarrow> 'w nm \<Rightarrow> bool \<times> 'w nm" where
  "setInterfaceState interface_name enabled s =
     (if interface_name = [] then (False, s)
      else (True, run_command (snprintf_to 64
             (''ip link set dev '' @ interface_name @ '' '' @ (if enabled then ''up'' else ''down''))) s))"

definition IFF_UP :: u32 where "IFF_UP = 1"

definition isInterfaceEnabled :: "nm_env \<Rightarrow> string \<Rightarrow> bool option" where
  "isInterfaceEnabled env interface =
     (if interface \<noteq> ''ETHERNET'' \<and> interface \<noteq> ''WIFI'' then None
      else let interface_name = (if interface = ''ETHERNET'' then getenvOrDefault (nm_os env) ''ETHERNET_INTERFACE'' []
                                 else getenvOrDefault (nm_os env) ''WIFI_INTERFACE'' []) in
        map_option (\<lambda>i. m_if_flags i AND IFF_UP \<noteq> 0)
          (find (\<lambda>i. m_if_name i = interface_name) (getInterfaces env)))"

definition setDefaultInterface :: "nm_env \<Rightarrow> string \<Rightarrow> bool \<Rightarrow> 'w nm \<Rightarrow> (bool \<times> 'w nm) res" where
  "setDefaultInterface env interface persist s =
     (if interface = ''ETHERNET''
      then Val (True, launch_pni_controller (unmark env ''pni_wifi'' persist s))
      else if interface = ''WIFI''
      then (if \<not> isFeatureEnabled env
                 ''Device.DeviceInfo.X_RDKCENTRAL-COM_RFC.Feature.PreferredNetworkInterface.Enable''
            then Val (False, s)
            else if isInterfaceEnabled env interface = Some False then Val (False, s)
            else res_bind (mark env ''pni_wifi'' persist s) (\<lambda>s. Val (True, launch_pni_controller s)))
      else Val (False, s))"

definition wifi_call :: "(bool \<Rightarrow> 'w \<Rightarrow> 'w) \<Rightarrow> bool \<Rightarrow> 'w nm \<Rightarrow> 'w nm" where
  "wifi_call setWifiEnabled enabled s = s \<lparr> nm_wifi := setWifiEnabled enabled (nm_wifi s) \<rparr>"

definition setInterfaceEnabled ::
    "(bool \<Rightarrow> 'w \<Rightarrow> 'w) \<Rightarrow> nm_env \<Rightarrow> string \<Rightarrow> bool \<Rightarrow> bool \<Rightarrow> 'w nm \<Rightarrow> (bool \<times> 'w nm) res" where
  "setInterfaceEnabled setWifiEnabled env interface enabled persist s =
     (if interface = ''ETHERNET''
      then (if enabled
            then let s = unmark env ''ethernet_disallowed'' persist s;
                     s = snd (setInterfaceState (getenvOrDefault (nm_os env) ''ETHERNET_INTERFACE'' []) True s)
                 in Val (True, launch_pni_controller s)
            else res_bind (mark env ''ethernet_disallowed'' persist s) (\<lambda>s.
                   let s = snd (setInterfaceState (getenvOrDefault (nm_os env) ''ETHERNET_INTERFACE'' []) False s)
                   in Val (True, launch_pni_controller s)))
      else if interface = ''WIFI''
      then (if enabled
            then let s = unmark env ''wifi_disallowed'' persist s;
                     s = snd (setInterfaceState (getenvOrDefault (nm_os env) ''WIFI_INTERFACE'' []) True s)
                 in Val (True, launch_pni_controller (wifi_call setWifiEnabled True s))
            else res_bind (validate_interface_can_be_disabled env interface) (\<lambda>ok.
                   if ok
                   then res_bind (mark env ''wifi_disallowed'' persist s) (\<lambda>s.
                          let s = snd (setInterfaceState (getenvOrDefault (nm_os env) ''WIFI_INTERFACE'' []) False s)
                          in Val (True, launch_pni_controller (wifi_call setWifiEnabled False s)))
                   else Val (False, s)))
      else Val (False, s))"

section \<open>Bus handlers\<close>

text \<open>\<^verbatim>\<open>getActiveInterface\<close>: the reply's \<^verbatim>\<open>activeIface\<close>.\<close>

definition getActiveInterface :: "nm_env \<Rightarrow> string res" where
  "getActiveInterface env =
     res_bind (getRouteInterfaceType (nm_glib env) (nm_os env) INTERFACE_SIZE []) (\<lambda>(found, devName).
       if found then strcpy_to INTERFACE_SIZE devName
       else res_bind (currentActiveInterface (nm_os env) INTERFACE_SIZE devName) (\<lambda>(active, devName).
         if active
         then (case readDevFile (nm_glib env) (nm_os env) devName of
                 (True, ty) \<Rightarrow> strcpy_to INTERFACE_SIZE ty
               | (False, _) \<Rightarrow> Val [])
         else Val []))"

definition getNetworkInterfaces :: "nm_env \<Rightarrow> (8 word \<times> string) res" where
  "getNetworkInterfaces env =
     res_bind (getAllNetworkInterface (nm_glib env) (nm_os env)) (\<lambda>(count, devName).
       Val (count, if count \<noteq> 0 then devName else []))"

text \<open>\<^verbatim>\<open>_eventHandler\<close>: owner, event number and the flag in the event data.\<close>

definition eventHandler :: "(bool \<Rightarrow> 'w \<Rightarrow> 'w) \<Rightarrow> string \<Rightarrow> nat \<Rightarrow> bool \<Rightarrow> 'w nm \<Rightarrow> 'w nm" where
  "eventHandler setWifiEnabled owner eventId isEnabled s =
     (if owner \<noteq> ''NET_SRV_MGR'' then s
      else if eventId = 52 then wifi_call setWifiEnabled isEnabled s else s)"

text \<open>
  \<^verbatim>\<open>getInterfaceList\<close>: the size is stored in an \<^verbatim>\<open>unsigned char\<close> before it is compared with the
  capacity of 16.  \<^term>\<open>None\<close> is the failure result.
\<close>

definition getInterfaceList :: "nm_env \<Rightarrow> u8 \<times> iface_info list option" where
  "getInterfaceList env =
     (let interfaces = getInterfaces env;
          list_size = (of_nat (length interfaces) :: u8) in
      if unat list_size > 16 then (list_size, None)
      else (list_size, Some (map (\<lambda>i. (interfaces ! i) \<lparr> m_if_name := snprintf_to 16 (m_if_name (interfaces ! i)),
              m_if_macaddr := snprintf_to 20 (m_if_macaddr (interfaces ! i)) \<rparr>) [0..<unat list_size])))"

definition getDefaultInterface_call :: "nm_env \<Rightarrow> string \<times> string" where
  "getDefaultInterface_call env =
     (case getDefaultInterface env of
        (True, i, gw) \<Rightarrow> (snprintf_to 16 i, snprintf_to MAX_IP_ADDRESS_LEN gw)
      | (False, _, _) \<Rightarrow> ([], []))"

definition getSTBip_call :: "nm_env \<Rightarrow> string option res" where
  "getSTBip_call env =
     res_bind (getSTBip (nm_os env)) (\<lambda>(ok, ip, _).
       if ok then (case ip of Some a \<Rightarrow> res_bind (strcpy_to MAX_IP_ADDRESS_LEN a) (\<lambda>a. Val (Some a)) | None \<Rightarrow> UB)
       else Val None)"

definition getSTBip_family_call :: "nm_env \<Rightarrow> string \<Rightarrow> string option res" where
  "getSTBip_family_call env ipfamily =
     res_bind (getSTBip_family (nm_os env) ipfamily) (\<lambda>(ok, ip).
       if ok then (case ip of Some a \<Rightarrow> res_bind (strcpy_to MAX_IP_ADDRESS_LEN a) (\<lambda>a. Val (Some a)) | None \<Rightarrow> UB)
       else Val None)"

section \<open>Runs of the daemon\<close>

datatype nm_input =
    Link string
  | Address string
  | Route string
  | Set_Default string bool
  | Set_Enabled string bool bool

text \<open>
  One callback or bus call with the environment it finds.  After undefined behaviour nothing more is
  said.
\<close>

definition nm_step ::
    "(bool \<Rightarrow> 'w \<Rightarrow> 'w) \<Rightarrow> 'w nm res \<Rightarrow> nm_env \<times> nm_input \<Rightarrow> 'w nm res" where
  "nm_step sw r inp =
     res_bind r (\<lambda>s. case inp of (env, i) \<Rightarrow>
       (case i of
          Link args \<Rightarrow> Val (linkCallback env args s)
        | Address args \<Rightarrow> addressCallback env args s
        | Route args \<Rightarrow> Val (defaultRouteCallback env args s)
        | Set_Default interface persist \<Rightarrow>
            res_bind (setDefaultInterface env interface persist s) (\<lambda>(_, s). Val s)
        | Set_Enabled interface enabled persist \<Rightarrow>
            res_bind (setInterfaceEnabled sw env interface enabled persist s) (\<lambda>(_, s). Val s)))"

text \<open>
  Following the broadcast changes of the default interface from a start value: each change must
  start at the interface the previous one ended at.
\<close>

fun follow :: "string \<Rightarrow> nm_event list \<Rightarrow> string option" where
  "follow cur [] = Some cur"
| "follow cur (DefaultInterface old new # es) = (if old = cur then follow new es else None)"
| "follow cur (_ # es) = follow cur es"

definition default_inv :: "'w nm \<Rightarrow> bool" where
  "default_inv s \<longleftrightarrow> follow [] (nm_events s) = Some (snprintf_to 16 (default_interface s))"

lemma follow_snoc:
  "follow cur (es @ [e]) =
     (case follow cur es of None \<Rightarrow> None | Some c \<Rightarrow> follow c [e])"
  by (induction cur es rule: follow.induct) (auto split: option.splits)

lemma default_inv_other [simp]:
  "default_inv (broadcast (InterfaceEnabledStatus i b) s) = default_inv s"
  "default_inv (broadcast (InterfaceConnectionStatus i b) s) = default_inv s"
  "default_inv (broadcast (InterfaceIPAddress i a b c) s) = default_inv s"
  "default_inv (s \<lparr> gDhcpServerIP := d \<rparr>) = default_inv s"
  "default_inv (s \<lparr> nm_files := f \<rparr>) = default_inv s"
  "default_inv (s \<lparr> nm_commands := cs \<rparr>) = default_inv s"
  "default_inv (s \<lparr> nm_wifi := w \<rparr>) = default_inv s"
  by (simp_all add: default_inv_def broadcast_def follow_snoc split: option.splits)

lemma default_inv_detect: "default_inv s \<Longrightarrow> default_inv (detectDefaultInterfaceChange env s)"
  by (simp add: default_inv_def detectDefaultInterfaceChange_def eventDefaultInterfaceChanged_def
      broadcast_def follow_snoc Let_def)

lemma default_inv_dhcp: "default_inv s \<Longrightarrow> default_inv (snd (getDhcpServerIP env s))"
  by (simp add: getDhcpServerIP_def Let_def split: option.splits)

lemma default_inv_ipaddr:
  "default_inv s \<Longrightarrow> default_inv (eventInterfaceIPAddressStatusChanged env i a v6 acq s)"
  by (simp add: eventInterfaceIPAddressStatusChanged_def Let_def default_inv_dhcp)

lemma default_inv_callbacks:
  assumes "default_inv s"
  shows "default_inv (linkCallback env args s)" "default_inv (defaultRouteCallback env args s)"
    "addressCallback env args s = Val s' \<Longrightarrow> default_inv s'"
  using assms
  by (auto simp: linkCallback_def defaultRouteCallback_def addressCallback_def default_inv_detect
      default_inv_ipaddr eventInterfaceEnabledStatusChanged_def eventInterfaceConnectionStatusChanged_def
      res_bind_Val_iff Let_def split: prod.splits if_splits)

lemma default_inv_marks:
  "default_inv s \<Longrightarrow> mark env f p s = Val s' \<Longrightarrow> default_inv s'"
  "default_inv s \<Longrightarrow> default_inv (unmark env f p s)"
  "default_inv s \<Longrightarrow> default_inv (snd (setInterfaceState n b s))"
  "default_inv s \<Longrightarrow> default_inv (launch_pni_controller s)"
  "default_inv s \<Longrightarrow> default_inv (wifi_call sw b s)"
  by (auto simp: mark_def touch_file_def unmark_def remove_file_def setInterfaceState_def run_command_def
      launch_pni_controller_def wifi_call_def res_bind_Val_iff Let_def split: if_splits)

lemma default_inv_setDefault:
  assumes "default_inv s" and "setDefaultInterface env i p s = Val (ok, s')"
  shows "default_inv s'"
  using assms(2) default_inv_marks(1) [OF assms(1)] assms(1)
  by (auto simp: setDefaultInterface_def res_bind_Val_iff default_inv_marks(2-5) split: if_splits)

lemma default_inv_setEnabled:
  assumes "default_inv s" and "setInterfaceEnabled sw env i e p s = Val (ok, s')"
  shows "default_inv s'"
  using assms(2) default_inv_marks(1) [OF assms(1)] assms(1)
  by (auto simp: setInterfaceEnabled_def Let_def res_bind_Val_iff default_inv_marks(2-5) split: if_splits)

lemmas default_inv_sets = default_inv_setDefault default_inv_setEnabled

interpretation daemon: step_invariant "nm_step sw" "res_inv default_inv" for sw :: "bool \<Rightarrow> 'w \<Rightarrow> 'w"
proof
  fix r :: "'w nm res" and e
  assume "res_inv default_inv r"
  then show "res_inv default_inv (nm_step sw r e)"
    by (cases e; cases r)
      (auto simp: nm_step_def res_inv_def res_bind_Val_iff
        intro: default_inv_callbacks default_inv_sets split: nm_input.splits)
qed

text \<open>
  C9.  The broadcast changes of the default interface form a chain: in every run of callbacks and bus
  calls, each announced old interface is the new interface announced before it (the first starts at
  none), and the last announced one is the default interface the daemon has seen, as far as the
  event's 15 characters show it.
\<close>

theorem default_interface_events_chain:
  assumes "foldl (nm_step sw) (Val s) inputs = Val s'"
    and "nm_events s = []" and "default_interface s = []"
  shows "follow [] (nm_events s') = Some (snprintf_to 16 (default_interface s'))"
proof -
  have "res_inv default_inv (Val s)"
    using assms by (simp add: res_inv_def default_inv_def snprintf_to_def)
  then have "res_inv default_inv (foldl (nm_step sw) (Val s) inputs)" by (rule daemon.run_keeps)
  then show ?thesis using assms(1) by (simp add: res_inv_def default_inv_def)
qed

definition sample_env :: nm_env where
  "sample_env = \<lparr> nm_os = sample_os, nm_glib = sample_glib,
     getDefaultRoute = (\<lambda>v6. if v6 then None else Some (''eth0'', ''10.0.0.1'')),
     getInterfaces = [\<lparr> m_if_name = ''wlan0'', m_if_macaddr = ''A8:11:FC:FD:1E:8D'', m_if_flags = 1 \<rparr>],
     getRFCParameter = (\<lambda>_. Some ''true''), can_write = (\<lambda>_. True), can_remove = (\<lambda>_. True) \<rparr>"

definition sample_nm :: "bool nm" where
  "sample_nm = \<lparr> nm_files = Map.empty, nm_commands = [], nm_events = [], default_interface = [],
     gDhcpServerIP = [], nm_wifi = False \<rparr>"

definition sample_run :: "(nm_env \<times> nm_input) list" where
  "sample_run = [(sample_env, Link ''eth0 down''),
     (sample_env \<lparr> getDefaultRoute := (\<lambda>_. Some (''wlan0'', [])) \<rparr>, Route ''2 wlan0 0 gw src 1024 add'')]"

lemma sample_run_result:
  "foldl (nm_step (\<lambda>b w. b)) (Val sample_nm) sample_run =
     Val (sample_nm \<lparr> nm_events := [InterfaceEnabledStatus ''eth0'' False, DefaultInterface [] ''eth0'',
            DefaultInterface ''eth0'' ''wlan0''], default_interface := ''wlan0'' \<rparr>)"
  by (simp add: sample_run_def nm_step_def linkCallback_def defaultRouteCallback_def split_def [of "''eth0 down''"]
      split_def [of "''2 wlan0 0 gw src 1024 add''"] getline_all_def detectDefaultInterfaceChange_def getDefaultInterface_def
      sample_env_def eventInterfaceEnabledStatusChanged_def eventDefaultInterfaceChanged_def broadcast_def
      sample_nm_def Let_def)

theorem default_interface_events_chain_witness:
  "follow [] [InterfaceEnabledStatus ''eth0'' False, DefaultInterface [] ''eth0'', DefaultInterface ''eth0'' ''wlan0'']
     = Some (snprintf_to 16 ''wlan0'')"
  using default_interface_events_chain [OF sample_run_result] by (simp add: sample_nm_def)

section \<open>Markers\<close>

lemma marker_paths:
  "length filename \<le> 40 \<Longrightarrow> snprintf_to 64 (''/tmp/'' @ filename) = ''/tmp/'' @ filename"
  "length filename \<le> 40 \<Longrightarrow> snprintf_to 64 (''/opt/persistent/'' @ filename) = ''/opt/persistent/'' @ filename"
  by (simp_all add: snprintf_to_def)

lemma mark_files:
  assumes "mark env f persist s = Val s'" and "length f \<le> 40"
  shows "nm_files s' = (\<lambda>p. if p = ''/tmp/'' @ f \<or> persist \<and> p = ''/opt/persistent/'' @ f then Some [] else nm_files s p)
    \<and> nm_wifi s' = nm_wifi s \<and> nm_commands s' = nm_commands s"
  using assms by (auto simp: mark_def touch_file_def marker_paths res_bind_Val_iff fun_eq_iff split: if_splits)

lemma unmark_files:
  assumes "can_remove env = (\<lambda>_. True)" and "length f \<le> 40"
  shows "nm_files (unmark env f persist s)
      = (\<lambda>p. if p = ''/tmp/'' @ f \<or> persist \<and> p = ''/opt/persistent/'' @ f then None else nm_files s p)
    \<and> nm_wifi (unmark env f persist s) = nm_wifi s \<and> nm_commands (unmark env f persist s) = nm_commands s"
  using assms by (auto simp: unmark_def remove_file_def marker_paths Let_def fun_eq_iff)

lemma state_frame [simp]:
  "nm_files (launch_pni_controller s) = nm_files s" "nm_wifi (launch_pni_controller s) = nm_wifi s"
  "nm_files (snd (setInterfaceState n b s)) = nm_files s" "nm_wifi (snd (setInterfaceState n b s)) = nm_wifi s"
  "nm_files (wifi_call sw b s) = nm_files s" "nm_wifi (wifi_call sw b s) = sw b (nm_wifi s)"
  by (simp_all add: launch_pni_controller_def run_command_def setInterfaceState_def wifi_call_def)

text \<open>
  Disabling WiFi: it succeeds only if the RFC parameter allows disabling the default network or
  the default route's interface is known and is not of type WIFI; it then leaves the marker under
  \<^verbatim>\<open>/tmp\<close> (and, if asked to persist, under \<^verbatim>\<open>/opt/persistent\<close>), touches no other file and stops the WiFi
  manager.  A refusal changes nothing.
\<close>

theorem disable_wifi_guarded:
  assumes "setInterfaceEnabled sw env ''WIFI'' False persist s = Val (ok, s')"
  shows "if ok
    then (isFeatureEnabled env ''Device.DeviceInfo.X_RDKCENTRAL-COM_RFC.Feature.Network.AllowDisableDefaultNetwork.Enable''
          \<or> (\<exists>ty. getRouteInterfaceType (nm_glib env) (nm_os env) INTERFACE_SIZE [] = Val (True, ty) \<and> ty \<noteq> ''WIFI''))
      \<and> nm_files s' = (\<lambda>p. if p = ''/tmp/wifi_disallowed'' \<or> persist \<and> p = ''/opt/persistent/wifi_disallowed''
                            then Some [] else nm_files s p)
      \<and> nm_wifi s' = sw False (nm_wifi s)
    else s' = s"
proof -
  from assms obtain b where b: "validate_interface_can_be_disabled env ''WIFI'' = Val b"
    by (auto simp: setInterfaceEnabled_def res_bind_Val_iff)
  show ?thesis
  proof (cases b)
    case True
    then obtain s1 where s1: "mark env ''wifi_disallowed'' persist s = Val s1" and ok: "ok"
      and s': "s' = launch_pni_controller (wifi_call sw False
           (snd (setInterfaceState (getenvOrDefault (nm_os env) ''WIFI_INTERFACE'' []) False s1)))"
      using assms b by (auto simp: setInterfaceEnabled_def res_bind_Val_iff Let_def)
    then show ?thesis
      using b True mark_files [OF s1]
      by (auto simp: validate_interface_can_be_disabled_def res_bind_Val_iff split: if_splits)
  qed (use assms b in \<open>auto simp: setInterfaceEnabled_def\<close>)
qed

lemma sample_disable_wifi:
  "setInterfaceEnabled (\<lambda>b w. b) sample_env ''WIFI'' False False sample_nm =
     Val (True, sample_nm \<lparr> nm_files := [''/tmp/wifi_disallowed'' \<mapsto> []],
       nm_commands := [''ip link set dev wlan0 down'', ''systemctl restart pni_controller.service''] \<rparr>)"
  by (simp add: setInterfaceEnabled_def validate_interface_can_be_disabled_def isFeatureEnabled_def sample_env_def
      mark_def touch_file_def sample_nm_def setInterfaceState_def getenvOrDefault_def sample_os_def run_command_def
      launch_pni_controller_def wifi_call_def snprintf_to_def Let_def)

theorem disable_wifi_guarded_witness:
  "isFeatureEnabled sample_env ''Device.DeviceInfo.X_RDKCENTRAL-COM_RFC.Feature.Network.AllowDisableDefaultNetwork.Enable''
   \<or> (\<exists>ty. getRouteInterfaceType sample_glib sample_os INTERFACE_SIZE [] = Val (True, ty) \<and> ty \<noteq> ''WIFI'')"
  using disable_wifi_guarded [OF sample_disable_wifi] by (simp add: sample_env_def)

text \<open>
  Enabling an interface undoes disabling it with the same persistence: afterwards neither marker
  exists, every other file is as it was before both calls, and the WiFi manager was told off and then on.
\<close>

theorem enable_after_disable:
  assumes "i = ''ETHERNET'' \<or> i = ''WIFI''" and "can_remove env = (\<lambda>_. True)"
    and "setInterfaceEnabled sw env i False persist s = Val (True, s1)"
    and "setInterfaceEnabled sw env i True persist s1 = Val (ok, s2)"
    and "marker = (if i = ''WIFI'' then ''wifi_disallowed'' else ''ethernet_disallowed'')"
  shows "ok \<and> nm_files s2 = (\<lambda>p. if p = ''/tmp/'' @ marker \<or> persist \<and> p = ''/opt/persistent/'' @ marker
      then None else nm_files s p)
    \<and> nm_wifi s2 = (if i = ''WIFI'' then sw True (sw False (nm_wifi s)) else nm_wifi s)"
proof -
  have d: "nm_files s1 = (\<lambda>p. if p = ''/tmp/'' @ marker \<or> persist \<and> p = ''/opt/persistent/'' @ marker
      then Some [] else nm_files s p) \<and> nm_wifi s1 = (if i = ''WIFI'' then sw False (nm_wifi s) else nm_wifi s)"
    using assms(1,3,5) mark_files [of env marker persist s]
    by (auto simp: setInterfaceEnabled_def res_bind_Val_iff Let_def split: if_splits)
  have "ok \<and> nm_files s2 = nm_files (unmark env marker persist s1)
      \<and> nm_wifi s2 = (if i = ''WIFI'' then sw True (nm_wifi s1) else nm_wifi s1)"
    using assms(1,4,5) unmark_files [OF assms(2), of marker persist s1]
    by (auto simp: setInterfaceEnabled_def Let_def)
  then show ?thesis
    using d unmark_files [OF assms(2), of marker persist s1] assms(5) by auto
qed

lemma sample_enable_wifi:
  "\<exists>s2. setInterfaceEnabled (\<lambda>b w. b) sample_env ''WIFI'' True False
     (sample_nm \<lparr> nm_files := [''/tmp/wifi_disallowed'' \<mapsto> []],
       nm_commands := [''ip link set dev wlan0 down'', ''systemctl restart pni_controller.service''] \<rparr>) = Val (True, s2)"
  by (simp add: setInterfaceEnabled_def Let_def)

theorem enable_after_disable_witness:
  "\<exists>s2 :: bool nm. setInterfaceEnabled (\<lambda>b w. b) sample_env ''WIFI'' True False
     (sample_nm \<lparr> nm_files := [''/tmp/wifi_disallowed'' \<mapsto> []],
       nm_commands := [''ip link set dev wlan0 down'', ''systemctl restart pni_controller.service''] \<rparr>) = Val (True, s2)
     \<and> nm_files s2 = (\<lambda>p. if p = ''/tmp/wifi_disallowed'' then None else nm_files sample_nm p) \<and> nm_wifi s2"
proof -
  obtain s2 where s2: "setInterfaceEnabled (\<lambda>b w. b) sample_env ''WIFI'' True False
     (sample_nm \<lparr> nm_files := [''/tmp/wifi_disallowed'' \<mapsto> []],
       nm_commands := [''ip link set dev wlan0 down'', ''systemctl restart pni_controller.service''] \<rparr>) = Val (True, s2)"
    using sample_enable_wifi by blast
  moreover have "can_remove sample_env = (\<lambda>_. True)" by (simp add: sample_env_def)
  ultimately show ?thesis
    using enable_after_disable [OF _ _ sample_disable_wifi s2 refl] by simp
qed

section \<open>Configuration\<close>

text \<open>
  The list of interfaces: up to 16 all of them are reported, 17 to 255 fail, and with 256 or
  more the size wraps, so that a list of \<^verbatim>\<open>256 + k\<close> interfaces is reported, as a success, with \<^verbatim>\<open>k\<close>
  entries for every \<^verbatim>\<open>k\<close> up to 16.
\<close>

theorem getInterfaceList_outcome:
  "(length (getInterfaces env) \<le> 16 \<longrightarrow>
      getInterfaceList env = (of_nat (length (getInterfaces env)),
        Some (map (\<lambda>i. i \<lparr> m_if_name := snprintf_to 16 (m_if_name i), m_if_macaddr := snprintf_to 20 (m_if_macaddr i) \<rparr>)
               (getInterfaces env)))) \<and>
   (16 < length (getInterfaces env) \<and> length (getInterfaces env) < 256 \<longrightarrow> snd (getInterfaceList env) = None) \<and>
   (length (getInterfaces env) = 256 + k \<and> k \<le> 16 \<longrightarrow>
      (\<exists>l. getInterfaceList env = (of_nat k, Some l) \<and> length l = k))"
proof -
  let ?n = "length (getInterfaces env)"
  have u: "unat (of_nat n :: u8) = n mod 256" for n :: nat
    by (simp add: unat_of_nat)
  have "?n \<le> 16 \<Longrightarrow> getInterfaceList env = (of_nat ?n,
      Some (map (\<lambda>i. i \<lparr> m_if_name := snprintf_to 16 (m_if_name i), m_if_macaddr := snprintf_to 20 (m_if_macaddr i) \<rparr>)
             (getInterfaces env)))"
    by (auto simp: getInterfaceList_def Let_def u intro!: nth_equalityI)
  moreover have "16 < ?n \<Longrightarrow> ?n < 256 \<Longrightarrow> snd (getInterfaceList env) = None"
    by (simp add: getInterfaceList_def Let_def u)
  moreover have "\<exists>l. getInterfaceList env = (of_nat k, Some l) \<and> length l = k" if "?n = 256 + k" "k \<le> 16"
  proof -
    have "unat (of_nat ?n :: u8) = unat (of_nat k :: u8)" unfolding u that(1) by simp
    then have eq: "(of_nat ?n :: u8) = of_nat k" by (rule unsigned_word_eqI)
    show ?thesis unfolding getInterfaceList_def Let_def eq using that(2) by (simp add: u)
  qed
  ultimately show ?thesis by blast
qed

theorem getInterfaceList_outcome_witness:
  "snd (getInterfaceList (sample_env \<lparr> getInterfaces := replicate 256 (getInterfaces sample_env ! 0) \<rparr>)) = Some []"
  using getInterfaceList_outcome [of "sample_env \<lparr> getInterfaces := replicate 256 (getInterfaces sample_env ! 0) \<rparr>" 0]
  by auto

lemma lower_names:
  "map tolower_c ''STUN_SERVER'' = ''stun_server''"
  "map tolower_c ''STUN_PORT'' = ''stun_port''"
  "map tolower_c ''STUN_INTERFACE'' = ''stun_interface''"
  "map tolower_c ''STUN_IPV6'' = ''stun_ipv6''"
  "map tolower_c ''STUN_BIND_TIMEOUT'' = ''stun_bind_timeout''"
  "map tolower_c ''STUN_CACHE_TIMEOUT'' = ''stun_cache_timeout''"
  "map tolower_c ''WiFiMgr_Config'' = ''wifimgr_config''"
  "map tolower_c ''Stun_Config'' = ''stun_config''"
  by code_simp+

lemma key_matches_lower:
  "map tolower_c name = n \<Longrightarrow> map tolower_c key = k \<Longrightarrow> key_matches name key \<longleftrightarrow> take (length k) n = k"
  by (auto simp: key_matches_def strncasecmp_eq_def)

lemma exact_keys_unambiguous:
  "list_all (\<lambda>a. list_all (\<lambda>b. key_matches b a \<longleftrightarrow> a = b)
     [''STUN_SERVER'', ''STUN_PORT'', ''STUN_INTERFACE'', ''STUN_IPV6'', ''STUN_BIND_TIMEOUT'', ''STUN_CACHE_TIMEOUT''])
     [''STUN_SERVER'', ''STUN_PORT'', ''STUN_INTERFACE'', ''STUN_IPV6'', ''STUN_BIND_TIMEOUT'', ''STUN_CACHE_TIMEOUT'']"
  by (simp del: list.map add: key_matches_lower [OF lower_names(1)] key_matches_lower [OF lower_names(2)]
      key_matches_lower [OF lower_names(3)] key_matches_lower [OF lower_names(4)]
      key_matches_lower [OF lower_names(5)] key_matches_lower [OF lower_names(6)] lower_names)

lemma group_names: "key_matches ''Stun_Config'' ''Stun_Config''" "\<not> key_matches ''WiFiMgr_Config'' ''Stun_Config''"
  by (simp_all del: list.map add: key_matches_lower [OF lower_names(7) lower_names(8)]
      key_matches_lower [OF lower_names(8) lower_names(8)])

text \<open>
  Reading a \<^verbatim>\<open>Stun_Config\<close> group in which the six keys are written in full, in any contents that
  fit: exactly the six fields take the values of the file, numbers truncated to 16 bits, and a zero
  binding time-out becomes 30 seconds.
\<close>

theorem read_stun_config:
  assumes "length server < 128" and "length iface < 16" and "path \<noteq> []"
    and "load path = Some [(''Stun_Config'', [(''STUN_SERVER'', server), (''STUN_PORT'', pt), (''STUN_INTERFACE'', iface),
           (''STUN_IPV6'', v6), (''STUN_BIND_TIMEOUT'', bt), (''STUN_CACHE_TIMEOUT'', ct)])]"
  shows "read_ConfigProps env path load conf = Val (True, conf \<lparr> stunProps :=
     \<lparr> stun_server = server, stun_port = of_int (atoi pt), stun_ipv6 = (atoi v6 \<noteq> 0), stun_interface = iface,
        stun_bind_timeout = (if (of_int (atoi bt) :: u16) = 0 then 30 else of_int (atoi bt)),
        stun_cache_timeout = of_int (atoi ct) \<rparr> \<rparr>)"
  using assms exact_keys_unambiguous
  by (cases "stunProps conf")
    (simp add: read_ConfigProps_def read_group_def group_names read_stun_key_def strcpy_to_def stun_defaults_def Let_def)

definition sample_conf :: netMgrConfigProps where
  "sample_conf = \<lparr> wifiProps = \<lparr> max_timeout = 60, bEnableLostFound = False, lnfRetryInSecs = 60, lnfStartInSecs = 60,
       authServerURL = [], disableWpsXRE = False, getAuthTokenUrl = [], getLfatUrl = [], setLfatUrl = [],
       lfatVersion = [], lnfRetryCount = 0, lfatTTL = 0 \<rparr>,
     stunProps = \<lparr> stun_server = [], stun_port = 0, stun_ipv6 = False, stun_interface = [],
       stun_bind_timeout = 0, stun_cache_timeout = 0 \<rparr> \<rparr>"

theorem read_stun_config_witness:
  "\<exists>conf'. read_ConfigProps sample_os ''/etc/netsrvmgr.conf''
     (\<lambda>_. Some [(''Stun_Config'', [(''STUN_SERVER'', ''stun''), (''STUN_PORT'', ''3478''), (''STUN_INTERFACE'', ''eth0''),
           (''STUN_IPV6'', ''0''), (''STUN_BIND_TIMEOUT'', ''0''), (''STUN_CACHE_TIMEOUT'', ''60'')])]) sample_conf
     = Val (True, conf') \<and> stun_server (stunProps conf') = ''stun''"
  using read_stun_config [of "''stun''" "''eth0''" "''/etc/netsrvmgr.conf''"] by simp

end
