(* ===== verification/Ip_Settings.thy ===== *)
theory Ip_Settings
  imports Net_Main
begin

text \<open>
  Manual and automatic IP settings of \<^verbatim>\<open>netSrvMgrMain.cpp\<close>: the name servers, the settings file and
  its reader, the validation of a netmask, \<^verbatim>\<open>setIPSettings\<close> and \<^verbatim>\<open>getIPSettings\<close>.  The settings file
  lives among the files of the daemon's state; a null pointer given to \<^verbatim>\<open>strcmp\<close> or printed with
  \<^verbatim>\<open>%s\<close> is undefined behaviour.
\<close>

section \<open>Settings\<close>

datatype ip_errcode =
    NETWORK_IPADDRESS_ACQUIRED | NETWORK_IPADDRESS_NOTFOUND | NETWORK_NO_ROUTE_INTERFACE
  | NETWORK_NO_DEFAULT_ROUTE | NETWORK_DNS_NOT_CONFIGURED | NETWORK_INVALID_IPADDRESS

record iface_settings =
  s_interface :: string
  s_ipversion :: string
  s_autoconfig :: bool
  s_ipaddress :: string
  s_netmask :: string
  s_gateway :: string
  s_dhcp_server :: string
  s_primarydns :: string
  s_secondarydns :: string
  s_isSupported :: bool
  s_errCode :: ip_errcode

section \<open>Name servers\<close>

definition inet_pton :: "os \<Rightarrow> int \<Rightarrow> string \<Rightarrow> bool" where
  "inet_pton env family s =
     (if family = AF_INET then inet_pton4 s \<noteq> None
      else if family = AF_INET6 then os_inet_pton6 env s \<noteq> None else False)"

text \<open>
  The loop of \<^verbatim>\<open>getDNSip\<close>.  A failed extraction leaves \<^verbatim>\<open>keyword\<close> and \<^verbatim>\<open>value\<close> with the contents
  they had, so both are carried from line to line.
\<close>

fun dns_loop :: "os \<Rightarrow> int \<Rightarrow> string \<Rightarrow> string \<Rightarrow> string list \<Rightarrow> string list \<Rightarrow> string list res" where
  "dns_loop env family keyword val [] dns = Val dns"
| "dns_loop env family keyword val (line # ls) dns =
     (if 2 \<le> length dns then Val dns
      else let (keyword, rest) = (case scan_str line of Some (w, r) \<Rightarrow> (w, r) | None \<Rightarrow> (keyword, [])) in
        if keyword = ''nameserver''
        then let val = (case scan_str rest of Some (w, _) \<Rightarrow> w | None \<Rightarrow> val) in
          if inet_pton env family val
          then res_bind (strcpy_to INET6_ADDRSTRLEN val) (\<lambda>v. dns_loop env family keyword val ls (dns @ [v]))
          else dns_loop env family keyword val ls dns
        else dns_loop env family keyword val ls dns)"

text \<open>The result and the two output buffers (\<^term>\<open>None\<close>: not written).\<close>

definition getDNSip :: "os \<Rightarrow> int \<Rightarrow> (bool \<times> string option \<times> string option) res" where
  "getDNSip env family =
     (case os_file env ''/etc/resolv.dnsmasq'' of
        None \<Rightarrow> Val (False, None, None)
      | Some contents \<Rightarrow>
          res_bind (dns_loop env family [] [] (getline_all newline contents) []) (\<lambda>dns.
            Val (True, if 0 < length dns then Some (dns ! 0) else None,
                       if 1 < length dns then Some (dns ! 1) else None)))"

section \<open>The settings file\<close>

definition ip_settings_compare :: "iface_settings \<Rightarrow> iface_settings \<Rightarrow> bool" where
  "ip_settings_compare a b \<longleftrightarrow>
     s_ipaddress a = s_ipaddress b \<and> s_netmask a = s_netmask b \<and> s_gateway a = s_gateway b \<and>
     s_primarydns a = s_primarydns b \<and> s_secondarydns a = s_secondarydns b"

definition read_entry :: "string \<Rightarrow> iface_settings \<Rightarrow> iface_settings res" where
  "read_entry name_value_entry p =
     (case strtok_all [CHR ''='', newline] name_value_entry of
        [] \<Rightarrow> UB
      | key # vals \<Rightarrow>
          if key \<notin> {''ipaddress'', ''netmask'', ''gateway'', ''primarydns'', ''secondarydns''} then Val p
          else (case vals of
              [] \<Rightarrow> UB
            | val # _ \<Rightarrow>
                let v = snprintf_to INET6_ADDRSTRLEN val in
                if key = ''ipaddress'' then Val (p \<lparr> s_ipaddress := v \<rparr>)
                else if key = ''netmask'' then Val (p \<lparr> s_netmask := v \<rparr>)
                else if key = ''gateway'' then Val (p \<lparr> s_gateway := v \<rparr>)
                else if key = ''primarydns'' then Val (p \<lparr> s_primarydns := v \<rparr>)
                else Val (p \<lparr> s_secondarydns := v \<rparr>)))"

definition ip_settings_file_read ::
    "(string \<rightharpoonup> string) \<Rightarrow> string \<Rightarrow> iface_settings \<Rightarrow> (bool \<times> iface_settings) res" where
  "ip_settings_file_read files filename p =
     (case files filename of
        None \<Rightarrow> Val (False, p)
      | Some contents \<Rightarrow> res_bind (fold_res read_entry (fgets_all 510 contents) p) (\<lambda>p. Val (True, p)))"

definition settings_text :: "iface_settings \<Rightarrow> string" where
  "settings_text p = concat (map (\<lambda>(k, v). k @ ''='' @ v @ [newline])
     [(''ipaddress'', s_ipaddress p), (''netmask'', s_netmask p), (''gateway'', s_gateway p),
      (''primarydns'', s_primarydns p), (''secondarydns'', s_secondarydns p)])"

definition ip_settings_file_write :: "nm_env \<Rightarrow> string \<Rightarrow> iface_settings \<Rightarrow> 'w nm \<Rightarrow> bool \<times> 'w nm" where
  "ip_settings_file_write env filename p s =
     (if can_write env filename then (True, s \<lparr> nm_files := (nm_files s)(filename \<mapsto> settings_text p) \<rparr>)
      else (False, s))"

definition ipv4_reconfigure_interface :: "nm_env \<Rightarrow> string \<Rightarrow> 'w nm \<Rightarrow> 'w nm" where
  "ipv4_reconfigure_interface env interface s =
     (case getDefaultInterface env of (found, dflt, _) \<Rightarrow>
        if found \<and> interface \<noteq> dflt then s
        else run_command (snprintf_to 128
               (''/lib/rdk/pni_controller.sh ipv4_reconfigure_interface '' @ interface)) s)"

definition valid_ipv4_netmask :: "u32 \<Rightarrow> bool" where
  "valid_ipv4_netmask m = (if m = 0 then False else let x = NOT m; y = x + 1 in x AND y = 0)"

section \<open>Changing the settings\<close>

definition remove_ok :: "nm_env \<Rightarrow> string \<Rightarrow> 'w nm \<Rightarrow> bool" where
  "remove_ok env filename s \<longleftrightarrow> can_remove env filename \<and> nm_files s filename \<noteq> None"

definition valid_settings :: "iface_settings \<Rightarrow> bool" where
  "valid_settings p \<longleftrightarrow>
     inet_pton4 (s_ipaddress p) \<noteq> None \<and>
     (case inet_pton4 (s_netmask p) of None \<Rightarrow> False | Some m \<Rightarrow> valid_ipv4_netmask (htonl m)) \<and>
     inet_pton4 (s_gateway p) \<noteq> None \<and>
     inet_pton4 (s_primarydns p) \<noteq> None \<and>
     (s_secondarydns p = [] \<or> inet_pton4 (s_secondarydns p) \<noteq> None)"

definition RFC_MANUALIP_ENABLE :: string where
  "RFC_MANUALIP_ENABLE = ''Device.DeviceInfo.X_RDKCENTRAL-COM_RFC.Feature.Network.ManualIPSettings.Enable''"

definition empty_settings :: iface_settings where
  "empty_settings = \<lparr> s_interface = [], s_ipversion = [], s_autoconfig = False, s_ipaddress = [], s_netmask = [],
     s_gateway = [], s_dhcp_server = [], s_primarydns = [], s_secondarydns = [], s_isSupported = False,
     s_errCode = NETWORK_IPADDRESS_ACQUIRED \<rparr>"

definition settings_file :: "bool \<Rightarrow> string" where
  "settings_file ethernet = (if ethernet then ''/opt/persistent/ip.eth0.0'' else ''/opt/persistent/ip.wifi.0'')"

text \<open>The branch for manual settings.\<close>

definition set_manual ::
    "nm_env \<Rightarrow> string \<Rightarrow> string \<Rightarrow> iface_settings \<Rightarrow> 'w nm \<Rightarrow> (bool \<times> iface_settings \<times> 'w nm) res" where
  "set_manual env interface file p s =
     (if \<not> isFeatureEnabled env RFC_MANUALIP_ENABLE then Val (False, p \<lparr> s_isSupported := False \<rparr>, s)
      else if \<not> strcasecmp_eq (s_ipversion p) ''ipv4'' then Val (False, p \<lparr> s_isSupported := False \<rparr>, s)
      else if \<not> valid_settings p then Val (False, p, s)
      else res_bind (if nm_files s file \<noteq> None
                     then res_bind (ip_settings_file_read (nm_files s) file empty_settings)
                            (\<lambda>(ok, current). Val (ok \<and> ip_settings_compare current p))
                     else Val False) (\<lambda>same.
        if same then Val (True, p, s)
        else (case ip_settings_file_write env file p s of
            (False, s) \<Rightarrow> Val (False, p, ipv4_reconfigure_interface env interface (remove_file env file s))
          | (True, s) \<Rightarrow> Val (True, p, ipv4_reconfigure_interface env interface s))))"

definition setIPSettings ::
    "nm_env \<Rightarrow> iface_settings \<Rightarrow> 'w nm \<Rightarrow> (bool \<times> iface_settings \<times> 'w nm) res" where
  "setIPSettings env p s =
     (if \<not> strcasecmp_eq (s_interface p) ''WIFI'' \<and> \<not> strcasecmp_eq (s_interface p) ''ETHERNET''
      then Val (False, p, s)
      else let ethernet = (\<not> strcasecmp_eq (s_interface p) ''WIFI'') in
        (case os_getenv (nm_os env) (if ethernet then ''ETHERNET_INTERFACE'' else ''WIFI_INTERFACE'') of
           None \<Rightarrow> Val (False, p, s)
         | Some interface \<Rightarrow>
             let file = settings_file ethernet in
             if s_autoconfig p
             then let p = p \<lparr> s_isSupported := True \<rparr> in
               if nm_files s file = None then Val (True, p, s)
               else if \<not> remove_ok env file s then Val (False, p, s)
               else Val (True, p, ipv4_reconfigure_interface env interface (remove_file env file s))
             else set_manual env interface file p s))"

section \<open>Reading the settings\<close>

text \<open>\<^verbatim>\<open>access\<close> and \<^verbatim>\<open>stat\<close> of a settings file: automatic when it is absent or empty.\<close>

definition file_autoconfig :: "'w nm \<Rightarrow> bool \<Rightarrow> bool" where
  "file_autoconfig s ethernet = (case nm_files s (settings_file ethernet) of None \<Rightarrow> True | Some t \<Rightarrow> t = [])"

definition settings_interface ::
    "nm_env \<Rightarrow> iface_settings \<Rightarrow> 'w nm \<Rightarrow> (string option \<times> iface_settings) res" where
  "settings_interface env p s =
     (if strcasecmp_eq (s_interface p) ''WIFI''
      then Val (Some (snprintf_to 16 (getenvOrDefault (nm_os env) ''WIFI_INTERFACE'' [])),
                p \<lparr> s_autoconfig := file_autoconfig s False \<rparr>)
      else if strcasecmp_eq (s_interface p) ''ETHERNET''
      then Val (Some (snprintf_to 16 (getenvOrDefault (nm_os env) ''ETHERNET_INTERFACE'' [])),
                p \<lparr> s_autoconfig := file_autoconfig s True \<rparr>)
      else res_bind (currentActiveInterface (nm_os env) 16 []) (\<lambda>(found, interface).
        if \<not> found then Val (None, p \<lparr> s_errCode := NETWORK_NO_ROUTE_INTERFACE \<rparr>)
        else (case os_getenv (nm_os env) ''ETHERNET_INTERFACE'' of
            None \<Rightarrow> UB
          | Some e \<Rightarrow>
              if strcasecmp_eq interface e
              then Val (Some interface, p \<lparr> s_interface := ''ETHERNET'', s_autoconfig := file_autoconfig s True \<rparr>)
              else (case os_getenv (nm_os env) ''WIFI_INTERFACE'' of
                  None \<Rightarrow> UB
                | Some w \<Rightarrow>
                    if strcasecmp_eq interface w
                    then Val (Some interface, p \<lparr> s_interface := ''WIFI'', s_autoconfig := file_autoconfig s False \<rparr>)
                    else Val (Some interface, p)))))"

text \<open>One query of the interface, which writes the address and the netmask into the reply.\<close>

definition config_into :: "nm_env \<Rightarrow> string \<Rightarrow> int \<Rightarrow> iface_settings \<Rightarrow> (bool \<times> iface_settings) res" where
  "config_into env interface family p =
     res_bind (getInterfaceConfig (nm_os env) interface family (Some (s_ipaddress p)) (Some (s_netmask p)))
       (\<lambda>(ok, ip, nmask). Val (ok, p \<lparr> s_ipaddress := (case ip of Some a \<Rightarrow> a | None \<Rightarrow> s_ipaddress p), s_netmask := (case nmask of Some a \<Rightarrow> a | None \<Rightarrow> s_netmask p) \<rparr>))"

text \<open>
  The choice of the address family: found or not, whether IPv6 is meant, and the updated reply.
\<close>

definition settings_family ::
    "nm_env \<Rightarrow> string \<Rightarrow> iface_settings \<Rightarrow> (bool \<times> bool \<times> iface_settings) res" where
  "settings_family env interface p =
     (if strcasecmp_eq (s_ipversion p) ''IPV6''
      then res_bind (config_into env interface AF_INET6 p) (\<lambda>(ok, p). Val (ok, True, p))
      else if strcasecmp_eq (s_ipversion p) ''IPV4''
      then res_bind (config_into env interface AF_INET p) (\<lambda>(ok, p). Val (ok, False, p))
      else res_bind (config_into env interface AF_INET6 p) (\<lambda>(ok6, p).
        if ok6 then Val (True, True, p \<lparr> s_ipversion := ''IPV6'' \<rparr>)
        else res_bind (config_into env interface AF_INET p) (\<lambda>(ok4, p).
          if ok4 then Val (True, False, p \<lparr> s_ipversion := ''IPV4'' \<rparr>) else Val (False, True, p))))"

definition getIPSettings ::
    "nm_env \<Rightarrow> iface_settings \<Rightarrow> 'w nm \<Rightarrow> (bool \<times> iface_settings) res" where
  "getIPSettings env p s =
     res_bind (settings_interface env (p \<lparr> s_errCode := NETWORK_IPADDRESS_ACQUIRED \<rparr>) s) (\<lambda>(intf, p).
       case intf of
         None \<Rightarrow> Val (False, p)
       | Some interface \<Rightarrow>
           res_bind (settings_family env interface p) (\<lambda>(ok, is_ipv6, p).
             if \<not> ok then Val (True, p \<lparr> s_errCode := NETWORK_IPADDRESS_NOTFOUND \<rparr>)
             else let p = (case getDefaultRoute env is_ipv6 of
                             Some (_, gateway) \<Rightarrow> p \<lparr> s_gateway := snprintf_to INET6_ADDRSTRLEN gateway \<rparr>
                           | None \<Rightarrow> p \<lparr> s_errCode := NETWORK_NO_DEFAULT_ROUTE \<rparr>);
                      p = p \<lparr> s_dhcp_server := (if s_autoconfig p \<and> \<not> is_ipv6
                                then snprintf_to INET6_ADDRSTRLEN (gDhcpServerIP s) else []) \<rparr> in
               res_bind (getDNSip (nm_os env) (if is_ipv6 then AF_INET6 else AF_INET)) (\<lambda>(ok, d1, d2).
                 if ok
                 then Val (True, p \<lparr> s_primarydns := (case d1 of Some d \<Rightarrow> d | None \<Rightarrow> []),
                                      s_secondarydns := (case d2 of Some d \<Rightarrow> d | None \<Rightarrow> []) \<rparr>)
                 else Val (True, p \<lparr> s_errCode := NETWORK_DNS_NOT_CONFIGURED \<rparr>))))"

section \<open>Netmasks\<close>

lemma nat_and_Suc_zero: "n AND Suc n = 0 \<Longrightarrow> \<exists>k. n = 2 ^ k - 1" for n :: nat
proof (induction n rule: less_induct)
  case (less n)
  show ?case
  proof (cases "even n")
    case True
    then obtain m where n: "n = 2 * m" by blast
    have "n AND Suc n = 2 * (m AND m)"
      unfolding n by (subst and_nat_rec) (simp add: n)
    then have "m = 0" using less.prems by simp
    then show ?thesis using n by (intro exI [of _ 0]) simp
  next
    case False
    then obtain m where n: "n = Suc (2 * m)" by (metis oddE Suc_eq_plus1)
    have "n AND Suc n = 2 * (m AND Suc m)"
      unfolding n by (subst and_nat_rec) simp
    then have "m AND Suc m = 0" using less.prems by simp
    moreover have "m < n" using n by simp
    ultimately obtain k where "m = 2 ^ k - 1" using less.IH by blast
    moreover have "(1 :: nat) \<le> 2 ^ k" by simp
    ultimately have "n = 2 ^ Suc k - 1" using n unfolding power_Suc by linarith
    then show ?thesis by blast
  qed
qed

lemma word_and_inc_zero:
  fixes x :: u32
  assumes "x AND (x + 1) = 0" and "x \<noteq> -1"
  shows "\<exists>k<32. x = mask k"
proof -
  have "unat x \<noteq> unat (-1 :: u32)" using assms(2) unsigned_word_eqI by blast
  moreover have "unat (-1 :: u32) = 2 ^ 32 - 1" by (simp add: unsigned_minus_1_eq_mask mask_eq_exp_minus_1)
  moreover have "unat x < 2 ^ 32" using unsigned_less [where 'a = nat, of x] by simp
  ultimately have lt: "unat x < 2 ^ 32 - 1" by linarith
  then have s: "unat (x + 1) = Suc (unat x)"
    using unat_add_lem [of x 1] by simp
  have "unat x AND Suc (unat x) = 0"
    using assms(1) s by (metis unsigned_0 unsigned_and_eq)
  then obtain k where k: "unat x = 2 ^ k - 1" using nat_and_Suc_zero by blast
  have "(2 :: nat) ^ k < 2 ^ 32" using lt k by (metis diff_less_mono2 less_diff_conv2 linorder_not_less one_le_numeral one_le_power diff_le_mono)
  then have k32: "k < 32" by (simp only: power_strict_increasing_iff)
  have "x = of_nat (unat x)" by simp
  also have "\<dots> = of_nat (2 ^ k - 1)" by (simp only: k)
  also have "\<dots> = 2 ^ k - 1" by (simp add: of_nat_diff)
  finally show ?thesis using k32 by (auto simp: mask_eq_exp_minus_1)
qed

lemma word_mask_inc: "k < 32 \<Longrightarrow> (mask k :: u32) AND (mask k + 1) = 0"
proof -
  have "(mask k :: u32) + 1 = 2 ^ k" by (simp add: mask_eq_exp_minus_1)
  then show ?thesis by (auto intro!: bit_word_eqI simp: bit_simps)
qed

text \<open>
  C21.  The bit trick of \<^verbatim>\<open>valid_ipv4_netmask\<close> accepts exactly the words that consist of one bits
  followed by fewer than 32 zero bits.
\<close>

theorem valid_ipv4_netmask_iff:
  "valid_ipv4_netmask m \<longleftrightarrow> (\<exists>k<32. m = NOT (mask k))"
proof
  assume v: "valid_ipv4_netmask m"
  then have "NOT m AND (NOT m + 1) = 0" and "m \<noteq> 0"
    by (auto simp: valid_ipv4_netmask_def Let_def split: if_splits)
  moreover from this(2) have "NOT m \<noteq> - 1" by (metis bit.compl_one bit.double_compl)
  ultimately have "NOT m AND (NOT m + 1) = 0" "NOT m \<noteq> - 1" by simp_all
  from word_and_inc_zero [OF this] show "\<exists>k<32. m = NOT (mask k)" by (metis bit.double_compl)
next
  assume "\<exists>k<32. m = NOT (mask k)"
  then obtain k where k: "k < 32" "m = NOT (mask k)" by blast
  have "bit m 31" using k by (simp add: bit_simps)
  then have "m \<noteq> 0" by auto
  then show "valid_ipv4_netmask m" using k word_mask_inc by (simp add: valid_ipv4_netmask_def Let_def)
qed
section \<open>The settings file round trip\<close>

lemma dec_octet_digits: "dec_octet s = Some x \<Longrightarrow> s \<noteq> [] \<and> length s \<le> 3 \<and> list_all isdigit_c s"
  by (auto simp: dec_octet_def split: if_splits)

lemma inet_pton4_split:
  assumes "inet_pton4 s = Some x"
  obtains a b c d where "split_char (CHR ''.'') s = [a, b, c, d]"
    and "\<forall>p\<in>{a, b, c, d}. p \<noteq> [] \<and> length p \<le> 3 \<and> list_all isdigit_c p"
  using assms unfolding inet_pton4_def
  by (auto split: list.splits option.splits dest!: dec_octet_digits)

lemma inet_pton4_text:
  assumes "inet_pton4 s = Some x"
  shows "s \<noteq> []" and "length s \<le> 15" and "\<And>c. c \<in> set s \<Longrightarrow> isdigit_c c \<or> c = CHR ''.''"
proof -
  obtain a b c d where sp: "split_char (CHR ''.'') s = [a, b, c, d]"
    and p: "\<forall>p\<in>{a, b, c, d}. p \<noteq> [] \<and> length p \<le> 3 \<and> list_all isdigit_c p"
    using inet_pton4_split [OF assms] by blast
  have s: "s = a @ ''.'' @ b @ ''.'' @ c @ ''.'' @ d"
    using join_split_char [of "CHR ''.''" s] sp by simp
  show "s \<noteq> []" "length s \<le> 15" using s p by auto
  show "c \<in> set s \<Longrightarrow> isdigit_c c \<or> c = CHR ''.''" for c using s p by (auto simp: list_all_iff)
qed

lemma valid_text_no_delims:
  assumes "inet_pton4 s = Some x"
  shows "set s \<inter> set [CHR ''='', newline] = {}"
proof -
  have "\<not> isdigit_c (CHR ''='')" "\<not> isdigit_c newline" "newline \<noteq> CHR ''.''"
    by (simp_all add: isdigit_c_def newline_def)
  then show ?thesis using inet_pton4_text(3) [OF assms] by auto
qed

text \<open>A line of the settings file is read back when the value is a non-empty text without delimiters.\<close>

definition plain_value :: "string \<Rightarrow> bool" where
  "plain_value v \<longleftrightarrow> v \<noteq> [] \<and> length v < 46 \<and> set v \<inter> set [CHR ''='', newline] = {}"

lemma valid_text_plain: "inet_pton4 s = Some x \<Longrightarrow> plain_value s"
  using inet_pton4_text [of s x] valid_text_no_delims [of s x] by (auto simp: plain_value_def)

lemma strtok_entry:
  assumes "plain_value v" and "k \<noteq> []" and "set k \<inter> set [CHR ''='', newline] = {}"
  shows "strtok_all [CHR ''='', newline] (k @ ''='' @ v @ [newline]) = [k, v]"
proof -
  have "strtok_all [CHR ''='', newline] (k @ CHR ''='' # (v @ newline # [])) = k # strtok_all [CHR ''='', newline] (v @ newline # [])"
    by (rule strtok_all_append) (use assms in auto)
  also have "strtok_all [CHR ''='', newline] (v @ newline # []) = v # strtok_all [CHR ''='', newline] []"
    by (rule strtok_all_append) (use assms in \<open>auto simp: plain_value_def\<close>)
  finally show ?thesis by simp
qed

definition plain_settings :: "iface_settings \<Rightarrow> bool" where
  "plain_settings p \<longleftrightarrow> plain_value (s_ipaddress p) \<and> plain_value (s_netmask p) \<and> plain_value (s_gateway p) \<and>
     plain_value (s_primarydns p) \<and> plain_value (s_secondarydns p)"

lemma key_no_delims:
  "set ''ipaddress'' \<inter> set [CHR ''='', newline] = {}" "set ''netmask'' \<inter> set [CHR ''='', newline] = {}"
  "set ''gateway'' \<inter> set [CHR ''='', newline] = {}" "set ''primarydns'' \<inter> set [CHR ''='', newline] = {}"
  "set ''secondarydns'' \<inter> set [CHR ''='', newline] = {}"
  by (simp_all add: newline_def)

lemma fgets_entry:
  assumes "plain_value v" and "length k \<le> 20" and "set k \<inter> set [CHR ''='', newline] = {}"
  shows "fgets_all 510 (k @ ''='' @ v @ [newline] @ rest) = (k @ ''='' @ v @ [newline]) # fgets_all 510 rest"
proof -
  have "newline \<noteq> CHR ''=''" by (simp add: newline_def)
  then show ?thesis
    using fgets_all_line [of "k @ ''='' @ v" 510 rest] assms by (auto simp: plain_value_def)
qed

lemma snprintf_plain: "plain_value v \<Longrightarrow> snprintf_to INET6_ADDRSTRLEN v = v"
  by (simp add: plain_value_def INET6_ADDRSTRLEN_def)

lemma read_entry_plain:
  assumes "plain_value v"
  shows "read_entry (''ipaddress'' @ ''='' @ v @ [newline]) p = Val (p \<lparr> s_ipaddress := v \<rparr>)"
    "read_entry (''netmask'' @ ''='' @ v @ [newline]) p = Val (p \<lparr> s_netmask := v \<rparr>)"
    "read_entry (''gateway'' @ ''='' @ v @ [newline]) p = Val (p \<lparr> s_gateway := v \<rparr>)"
    "read_entry (''primarydns'' @ ''='' @ v @ [newline]) p = Val (p \<lparr> s_primarydns := v \<rparr>)"
    "read_entry (''secondarydns'' @ ''='' @ v @ [newline]) p = Val (p \<lparr> s_secondarydns := v \<rparr>)"
  using strtok_entry [OF assms] key_no_delims
  by (simp_all add: read_entry_def snprintf_plain [OF assms] Let_def del: strtok_all.simps append.simps)

lemma read_entry_no_value: "read_entry (''secondarydns'' @ ''='' @ [newline]) p = UB"
  by (simp add: read_entry_def newline_def)

text \<open>The first four lines of a settings file, followed by any text.\<close>

lemma read_settings_prefix:
  assumes "plain_value (s_ipaddress p)" "plain_value (s_netmask p)" "plain_value (s_gateway p)" "plain_value (s_primarydns p)"
  shows "fold_res read_entry (fgets_all 510 (settings_text p)) q =
    fold_res read_entry (fgets_all 510 (''secondarydns'' @ ''='' @ s_secondarydns p @ [newline]))
      (q \<lparr> s_ipaddress := s_ipaddress p, s_netmask := s_netmask p, s_gateway := s_gateway p, s_primarydns := s_primarydns p \<rparr>)"
proof -
  let ?line = "\<lambda>k v. k @ ''='' @ v @ [newline]"
  have "fgets_all 510 (settings_text p) = ?line ''ipaddress'' (s_ipaddress p) # ?line ''netmask'' (s_netmask p) #
      ?line ''gateway'' (s_gateway p) # ?line ''primarydns'' (s_primarydns p) #
      fgets_all 510 (?line ''secondarydns'' (s_secondarydns p))"
    using fgets_entry [OF assms(1) _ key_no_delims(1)] fgets_entry [OF assms(2) _ key_no_delims(2)]
      fgets_entry [OF assms(3) _ key_no_delims(3)] fgets_entry [OF assms(4) _ key_no_delims(4)]
    by (simp add: settings_text_def)
  then show ?thesis
    using read_entry_plain(1) [OF assms(1)] read_entry_plain(2) [OF assms(2)] read_entry_plain(3) [OF assms(3)]
      read_entry_plain(4) [OF assms(4)] by simp
qed

lemma read_settings_text:
  assumes "plain_settings p"
  shows "fold_res read_entry (fgets_all 510 (settings_text p)) q = Val (q \<lparr> s_ipaddress := s_ipaddress p,
     s_netmask := s_netmask p, s_gateway := s_gateway p, s_primarydns := s_primarydns p, s_secondarydns := s_secondarydns p \<rparr>)"
proof -
  have pv: "plain_value (s_ipaddress p)" "plain_value (s_netmask p)" "plain_value (s_gateway p)"
    "plain_value (s_primarydns p)" "plain_value (s_secondarydns p)"
    using assms by (simp_all add: plain_settings_def)
  show ?thesis
    using read_settings_prefix [OF pv(1-4)] fgets_entry [OF pv(5) _ key_no_delims(5), of "[]"]
      read_entry_plain(5) [OF pv(5)] by simp
qed

lemma read_settings_no_secondary:
  assumes "plain_value (s_ipaddress p)" "plain_value (s_netmask p)" "plain_value (s_gateway p)" "plain_value (s_primarydns p)"
    and "s_secondarydns p = []"
  shows "fold_res read_entry (fgets_all 510 (settings_text p)) q = UB"
proof -
  have "fgets_all 510 (''secondarydns='' @ newline # []) = (''secondarydns='' @ [newline]) # fgets_all 510 []"
    by (rule fgets_all_line) (simp_all add: newline_def)
  then show ?thesis
    using read_settings_prefix [OF assms(1-4), of q] assms(5) read_entry_no_value by simp
qed


definition sample_settings_ip :: iface_settings where
  "sample_settings_ip = empty_settings \<lparr> s_interface := ''WIFI'', s_ipversion := ''ipv4'', s_ipaddress := ''10.0.0.7'',
     s_netmask := ''255.255.255.0'', s_gateway := ''10.0.0.1'', s_primarydns := ''1.1.1.1'', s_secondarydns := ''8.8.8.8'' \<rparr>"

lemma sample_plain: "plain_settings sample_settings_ip"
  by (simp add: sample_settings_ip_def plain_settings_def plain_value_def newline_def empty_settings_def)


section \<open>Setting manual and automatic addresses\<close>

lemma valid_settings_plain:
  assumes "valid_settings p"
  shows "plain_value (s_ipaddress p)" "plain_value (s_netmask p)" "plain_value (s_gateway p)" "plain_value (s_primarydns p)"
    and "s_secondarydns p \<noteq> [] \<Longrightarrow> plain_settings p"
  using assms valid_text_plain by (auto simp: valid_settings_def plain_settings_def split: option.splits)

lemma reconfigure_files [simp]: "nm_files (ipv4_reconfigure_interface env i s) = nm_files s"
  by (simp add: ipv4_reconfigure_interface_def run_command_def split: prod.splits)

lemma set_manual_result:
  assumes "set_manual env interface file p s = Val (True, p', s')"
  shows "isFeatureEnabled env RFC_MANUALIP_ENABLE \<and> valid_settings p \<and> p' = p \<and>
    (s' = s \<and> (\<exists>cur. ip_settings_file_read (nm_files s) file empty_settings = Val (True, cur) \<and> ip_settings_compare cur p) \<or>
     nm_files s' = (nm_files s)(file \<mapsto> settings_text p))"
  using assms by (auto simp: set_manual_def res_bind_Val_iff ip_settings_file_write_def split: if_splits)

lemma set_manual_same:
  assumes "isFeatureEnabled env RFC_MANUALIP_ENABLE" and "strcasecmp_eq (s_ipversion p) ''ipv4''" and "valid_settings p"
    and "nm_files s file = Some (settings_text p)" and "s_secondarydns p \<noteq> []"
  shows "set_manual env interface file p s = Val (True, p, s)"
proof -
  have "fold_res read_entry (fgets_all 510 (settings_text p)) empty_settings = Val (empty_settings \<lparr> s_ipaddress := s_ipaddress p,
     s_netmask := s_netmask p, s_gateway := s_gateway p, s_primarydns := s_primarydns p, s_secondarydns := s_secondarydns p \<rparr>)"
    by (rule read_settings_text) (rule valid_settings_plain(5) [OF assms(3,5)])
  then show ?thesis
    using assms by (simp add: set_manual_def ip_settings_file_read_def ip_settings_compare_def)
qed


lemma netmask_24: "valid_ipv4_netmask (htonl (load32 255 255 255 0))"
proof -
  have "htonl (load32 255 255 255 0) = load32 0 255 255 255" by simp
  also have "\<dots> = 0xffffff00" by (simp add: load32_def)
  finally show ?thesis by (simp add: valid_ipv4_netmask_def)
qed

lemma sample_valid: "valid_settings sample_settings_ip"
proof -
  have d: "''10.0.0.7'' = dotted 10 0 0 7" "''255.255.255.0'' = dotted 255 255 255 0" "''10.0.0.1'' = dotted 10 0 0 1"
    "''1.1.1.1'' = dotted 1 1 1 1" "''8.8.8.8'' = dotted 8 8 8 8"
    by code_simp+
  show ?thesis
    unfolding valid_settings_def sample_settings_ip_def d using netmask_24 by simp
qed

lemma set_manual_fresh:
  assumes "isFeatureEnabled env RFC_MANUALIP_ENABLE" and "strcasecmp_eq (s_ipversion p) ''ipv4''" and "valid_settings p"
    and "nm_files s file = None" and "can_write env file"
  shows "set_manual env i file p s
    = Val (True, p, ipv4_reconfigure_interface env i (s \<lparr> nm_files := (nm_files s)(file \<mapsto> settings_text p) \<rparr>))"
  using assms by (simp add: set_manual_def ip_settings_file_write_def)

lemma setIPSettings_wifi:
  assumes "s_interface p = ''WIFI''" and "os_getenv (nm_os env) ''WIFI_INTERFACE'' = Some i" and "\<not> s_autoconfig p"
  shows "setIPSettings env p s = set_manual env i (settings_file False) p s"
  using assms by (simp add: setIPSettings_def)

lemma sample_set_fresh:
  assumes "s_interface p = ''WIFI''" and "s_ipversion p = ''ipv4''" and "\<not> s_autoconfig p" and "valid_settings p"
  shows "\<exists>s'. setIPSettings sample_env p sample_nm = Val (True, p, s')"
proof -
  have "os_getenv (nm_os sample_env) ''WIFI_INTERFACE'' = Some ''wlan0''" by (simp add: sample_env_def sample_os_def)
  then have "setIPSettings sample_env p sample_nm = set_manual sample_env ''wlan0'' (settings_file False) p sample_nm"
    using setIPSettings_wifi assms by blast
  moreover have "isFeatureEnabled sample_env RFC_MANUALIP_ENABLE" "can_write sample_env (settings_file False)"
    "nm_files sample_nm (settings_file False) = None"
    by (simp_all add: sample_env_def isFeatureEnabled_def sample_nm_def)
  ultimately show ?thesis using set_manual_fresh assms by force
qed

lemma sample_set: "\<exists>s'. setIPSettings sample_env sample_settings_ip sample_nm = Val (True, sample_settings_ip, s')"
  by (rule sample_set_fresh [OF _ _ _ sample_valid]) (simp_all add: sample_settings_ip_def empty_settings_def)


text \<open>
  Setting the same manual settings again does nothing when a secondary name server is given: the
  second call succeeds with the state unchanged (no write, no command).
\<close>

theorem setIPSettings_idempotent:
  fixes s :: "'w nm"
  assumes "setIPSettings env p s = Val (True, p', s')" and "\<not> s_autoconfig p" and "s_secondarydns p \<noteq> []"
  shows "setIPSettings env p s' = Val (True, p, s')"
proof -
  let ?file = "settings_file (\<not> strcasecmp_eq (s_interface p) ''WIFI'')"
  obtain i where i: "set_manual env i ?file p s = Val (True, p', s')"
    and u: "\<And>t :: 'w nm. setIPSettings env p t = set_manual env i ?file p t"
    using assms by (auto simp: setIPSettings_def Let_def split: if_splits option.splits)
  have v: "strcasecmp_eq (s_ipversion p) ''ipv4''"
    using i by (auto simp: set_manual_def split: if_splits)
  show ?thesis
  proof (cases "s' = s")
    case True
    then show ?thesis using i u set_manual_result [OF i] by simp
  next
    case False
    then have "nm_files s' ?file = Some (settings_text p)" using set_manual_result [OF i] by auto
    then show ?thesis unfolding u
      by (intro set_manual_same) (use v set_manual_result [OF i] assms(3) in simp_all)
  qed
qed

theorem setIPSettings_idempotent_witness:
  "\<exists>s'. setIPSettings sample_env sample_settings_ip sample_nm = Val (True, sample_settings_ip, s') \<and>
     setIPSettings sample_env sample_settings_ip s' = Val (True, sample_settings_ip, s')"
proof -
  obtain s' where s': "setIPSettings sample_env sample_settings_ip sample_nm = Val (True, sample_settings_ip, s')"
    using sample_set by blast
  have "\<not> s_autoconfig sample_settings_ip" "s_secondarydns sample_settings_ip \<noteq> []"
    by (simp_all add: sample_settings_ip_def empty_settings_def)
  from setIPSettings_idempotent [OF s' this] s' show ?thesis by blast
qed

text \<open>
  Without a secondary name server the second call with the same settings hands a null pointer
  to \<^verbatim>\<open>snprintf\<close>: the line \<^verbatim>\<open>secondarydns=\<close> it wrote has no second token.
\<close>

theorem setIPSettings_null_secondary:
  fixes s :: "'w nm"
  assumes "setIPSettings env p s = Val (True, p', s')" and "\<not> s_autoconfig p" and "s_secondarydns p = []"
    and "nm_files s (settings_file (\<not> strcasecmp_eq (s_interface p) ''WIFI'')) = None"
  shows "setIPSettings env p s' = UB"
proof -
  let ?file = "settings_file (\<not> strcasecmp_eq (s_interface p) ''WIFI'')"
  obtain i where i: "set_manual env i ?file p s = Val (True, p', s')"
    and u: "\<And>t :: 'w nm. setIPSettings env p t = set_manual env i ?file p t"
    using assms by (auto simp: setIPSettings_def Let_def split: if_splits option.splits)
  have r: "isFeatureEnabled env RFC_MANUALIP_ENABLE" "valid_settings p" "nm_files s' ?file = Some (settings_text p)"
    using set_manual_result [OF i] assms(4) by (auto simp: ip_settings_file_read_def)
  have "strcasecmp_eq (s_ipversion p) ''ipv4''" using i by (auto simp: set_manual_def split: if_splits)
  then show ?thesis
    using u r read_settings_no_secondary [OF valid_settings_plain(1-4) [OF r(2)] assms(3)]
    by (simp add: set_manual_def ip_settings_file_read_def)
qed

theorem setIPSettings_null_secondary_witness:
  "\<exists>s' :: bool nm. setIPSettings sample_env (sample_settings_ip \<lparr> s_secondarydns := [] \<rparr>) s' = UB"
proof -
  let ?p = "sample_settings_ip \<lparr> s_secondarydns := [] \<rparr>"
  have v: "valid_settings ?p" using sample_valid by (simp add: valid_settings_def)
  have "\<exists>s'. setIPSettings sample_env ?p sample_nm = Val (True, ?p, s')"
    by (rule sample_set_fresh [OF _ _ _ v]) (simp_all add: sample_settings_ip_def empty_settings_def)
  then obtain s' where s': "setIPSettings sample_env ?p sample_nm = Val (True, ?p, s')" by blast
  have "setIPSettings sample_env ?p s' = UB"
    by (rule setIPSettings_null_secondary [OF s'])
      (simp_all add: sample_settings_ip_def empty_settings_def sample_nm_def)
  then show ?thesis by blast
qed

section \<open>Name servers\<close>

lemma newline_pieces:
  "getline_all newline (''nameserver 1.1.1.1'' @ [newline, newline] @ ''nameserver 8.8.8.8'' @ [newline])
     = [''nameserver 1.1.1.1'', [], ''nameserver 8.8.8.8'']"
  using getline_all_lines [of "[''nameserver 1.1.1.1'', [], ''nameserver 8.8.8.8'']" newline]
  by (simp add: newline_def)

text \<open>
  An empty line between two name servers makes \<^verbatim>\<open>getDNSip\<close> report the first one twice: the failed
  extraction keeps the keyword and the address of the line before.
\<close>

theorem getDNSip_repeats_first:
  assumes "os_file env ''/etc/resolv.dnsmasq'' =
    Some (''nameserver 1.1.1.1'' @ [newline, newline] @ ''nameserver 8.8.8.8'' @ [newline])"
  shows "getDNSip env AF_INET = Val (True, Some ''1.1.1.1'', Some ''1.1.1.1'')"
proof -
  have "''1.1.1.1'' = dotted 1 1 1 1" by code_simp
  then have p: "inet_pton env AF_INET ''1.1.1.1''" unfolding inet_pton_def by (metis inet_pton4_dotted option.distinct(1))
  have s: "scan_str ''nameserver 1.1.1.1'' = Some (''nameserver'', '' 1.1.1.1'')"
    "scan_str '' 1.1.1.1'' = Some (''1.1.1.1'', [])" "scan_str [] = None"
    by code_simp+
  show ?thesis
    unfolding getDNSip_def assms option.case newline_pieces
    by (simp add: s p strcpy_to_def INET6_ADDRSTRLEN_def Let_def)
qed

theorem getDNSip_repeats_first_witness:
  "getDNSip (sample_os \<lparr> os_file := (\<lambda>f. Some (''nameserver 1.1.1.1'' @ [newline, newline] @ ''nameserver 8.8.8.8'' @ [newline])) \<rparr>)
     AF_INET = Val (True, Some ''1.1.1.1'', Some ''1.1.1.1'')"
  by (rule getDNSip_repeats_first) simp

end
