(* ===== verification/Public_Ip.thy ===== *)
theory Public_Ip
  imports Net_Main Stun_Client Connectivity
begin

text \<open>
  The public address of \<^verbatim>\<open>getPublicIP\<close> in \<^verbatim>\<open>netSrvMgrMain.cpp\<close>, which puts the connectivity test, the
  choice of an interface, the configuration and the STUN client together.
\<close>

record stun_request =
  req_server :: string
  req_port :: u16
  req_ipv6 :: bool
  req_interface :: string
  req_bind_timeout :: u16
  req_cache_timeout :: u16
  req_public_ip :: string

definition INTERFACE_SIZE :: nat where "INTERFACE_SIZE = 10"
definition MAX_IP_ADDRESS_LEN :: nat where "MAX_IP_ADDRESS_LEN = 46"

text \<open>The interface of a request: \<^term>\<open>None\<close> is the early return.\<close>

definition public_interface :: "os \<Rightarrow> string \<Rightarrow> string option res" where
  "public_interface env ifc =
     (if strcasecmp_eq ifc ''WIFI'' then Val (Some (getenvOrDefault env ''WIFI_INTERFACE'' []))
      else if strcasecmp_eq ifc ''ETHERNET'' then Val (Some (getenvOrDefault env ''ETHERNET_INTERFACE'' []))
      else if strcasecmp_eq ifc ''MOCA'' then Val (Some (getenvOrDefault env ''MOCA_INTERFACE'' []))
      else if ifc = [] then
        res_bind (getRouteInterface env INTERFACE_SIZE []) (\<lambda>(found, active).
          if found then Val (Some active)
          else res_bind (currentActiveInterface env INTERFACE_SIZE active) (\<lambda>(found, active).
            Val (if found then Some active else None)))
      else Val None)"

text \<open>
  The state is the STUN client and the file of endpoints; \<^term>\<open>None\<close> stands for fuel that does not
  reach the end of the connectivity test.
\<close>

definition getPublicIP ::
    "os \<Rightarrow> conn_env \<Rightarrow> nat \<Rightarrow> stun_net \<Rightarrow> stunConfigProps \<Rightarrow> stun_request \<Rightarrow> client \<times> string option \<Rightarrow>
     ((client \<times> string option) \<times> (bool \<times> stun_request) res) option" where
  "getPublicIP env cenv fuel net props param st =
     (case st of (c, file) \<Rightarrow>
       let host = (if req_server param \<noteq> [] then req_server param else stun_server props);
           pt = (if req_port param \<noteq> 0 then req_port param else stun_port props);
           proto = (if req_ipv6 param then af_inet6 else af_inet);
           bindtm = (if req_bind_timeout param \<noteq> 0 then req_bind_timeout param else stun_bind_timeout props);
           cachetm = (if req_cache_timeout param \<noteq> 0 then req_cache_timeout param else stun_cache_timeout props) in
       map_option (\<lambda>t.
           if \<not> connected t then ((c, endpoints_file t), Val (False, param))
           else (case public_interface env (req_interface param) of
               UB \<Rightarrow> ((c, endpoints_file t), UB)
             | Throws e \<Rightarrow> ((c, endpoints_file t), Throws e)
             | Val None \<Rightarrow> ((c, endpoints_file t), Val (False, param))
             | Val (Some ifc) \<Rightarrow>
                 let iface = (if req_interface param \<noteq> [] then ifc else stun_interface props) in
                 (case bind net host pt iface proto bindtm cachetm [] c of
                    (c, UB) \<Rightarrow> ((c, endpoints_file t), UB)
                  | (c, Throws e) \<Rightarrow> ((c, endpoints_file t), Throws e)
                  | (c, Val (ok, result)) \<Rightarrow>
                      ((c, endpoints_file t),
                       Val (ok, if ok then param \<lparr> req_public_ip := take MAX_IP_ADDRESS_LEN result \<rparr> else param)))))
         (test_connectivity cenv fuel 2000 file))"

section \<open>Properties\<close>

text \<open>
  A request without an interface never uses the active interface it looks up: with working
  connectivity and some active interface the address is asked for on the configured STUN interface.
\<close>

theorem public_ip_configured_interface:
  assumes "req_interface param = []" and "public_interface env [] = Val (Some active)"
    and "test_connectivity cenv fuel 2000 file = Some t" and "connected t"
    and "getPublicIP env cenv fuel net props param (c, file) = Some ((c', file'), Val (ok, param'))"
  shows "m_interface c' = stun_interface props"
  using assms bind_Val
  by (auto simp: getPublicIP_def Let_def same_settings_def bind_settings_def split: prod.splits res.splits)


definition sample_stun :: stunConfigProps where
  "sample_stun = \<lparr> stun_server = ''stun'', stun_port = 3478, stun_ipv6 = False, stun_interface = [],
     stun_bind_timeout = 30, stun_cache_timeout = 30 \<rparr>"

definition sample_request :: stun_request where
  "sample_request = \<lparr> req_server = [], req_port = 0, req_ipv6 = False, req_interface = [], req_bind_timeout = 0,
     req_cache_timeout = 0, req_public_ip = [] \<rparr>"

definition idle_os :: os where
  "idle_os = sample_os \<lparr> os_getenv := (\<lambda>n. if n = ''MOCA_INTERFACE'' then Some ''eth0'' else None) \<rparr>"

lemma sample_public_interface: "public_interface idle_os [] = Val (Some ''eth0'')"
  by (simp add: public_interface_def strcasecmp_eq_def getRouteInterface_def getIPv6RouteInterface_def getIPv4RouteInterface_def
      currentActiveInterface_def idle_os_def sample_os_def INTERFACE_SIZE_def strcpy_to_def)

lemma sample_test: "\<exists>t. test_connectivity sample_conn 10 2000 None = Some t \<and> connected t"
  by (simp add: test_connectivity_def get_connectivity_test_endpoints_def default_endpoints_def sample_conn_def Let_def
      eval_nat_numeral successes_def)

lemma sample_public_ip: "\<exists>file' param'. getPublicIP idle_os sample_conn 10 sample_net sample_stun sample_request (new_client, None)
   = Some ((sample_client, file'), Val (True, param'))"
proof -
  obtain t where "test_connectivity sample_conn 10 2000 None = Some t" "connected t" using sample_test by blast
  then show ?thesis
    using sample_bind by (simp add: getPublicIP_def Let_def sample_request_def sample_stun_def sample_public_interface)
qed


theorem public_ip_configured_interface_witness: "m_interface sample_client = []"
proof -
  obtain t where t: "test_connectivity sample_conn 10 2000 None = Some t" "connected t" using sample_test by blast
  obtain file' param' where r: "getPublicIP idle_os sample_conn 10 sample_net sample_stun sample_request (new_client, None)
     = Some ((sample_client, file'), Val (True, param'))" using sample_public_ip by blast
  from public_ip_configured_interface [OF _ sample_public_interface t r] show ?thesis
    by (simp add: sample_request_def sample_stun_def)
qed

end
