(* ===== verification/Route_Mgr.thy ===== *)
theory Route_Mgr
  imports Netsrv_Utils
begin

text \<open>
  The route manager of \<^verbatim>\<open>routeSrvMgr.cpp\<close>: it fetches the gateways announced over UPnP, removes the
  routes whose gateway is gone, sets routes for the new gateways with a shell script, and keeps the
  list of routes it has set.  A \<^verbatim>\<open>GList\<close> pointer is either null or a position in a list, because the
  code moves \<^verbatim>\<open>gwRouteInfo\<close> inside the list.  Shell commands, broadcast events and netlink requests go
  to a trace.  The parsed JSON document, the exit codes of commands and the GLib string functions are
  parameters.
\<close>

section \<open>Doubly linked lists\<close>

text \<open>A pointer to a node: the list it belongs to and the index of the node; \<^term>\<open>None\<close> is null.\<close>

type_synonym 'a glist = "('a list \<times> nat) option"

definition g_list_of :: "'a list \<Rightarrow> 'a glist" where
  "g_list_of xs = (if xs = [] then None else Some (xs, 0))"

definition g_list_first :: "'a glist \<Rightarrow> 'a glist" where
  "g_list_first p = (case p of None \<Rightarrow> None | Some (xs, i) \<Rightarrow> Some (xs, 0))"

definition g_list_next :: "'a glist \<Rightarrow> 'a glist" where
  "g_list_next p = (case p of None \<Rightarrow> None
     | Some (xs, i) \<Rightarrow> if i + 1 < length xs then Some (xs, i + 1) else None)"

definition g_list_length :: "'a glist \<Rightarrow> nat" where
  "g_list_length p = (case p of None \<Rightarrow> 0 | Some (xs, i) \<Rightarrow> length xs - i)"

text \<open>The first node from the pointer on whose data the comparison accepts.\<close>

fun find_index :: "('a \<Rightarrow> bool) \<Rightarrow> 'a list \<Rightarrow> nat option" where
  "find_index P [] = None"
| "find_index P (x # xs) = (if P x then Some 0 else map_option Suc (find_index P xs))"

definition g_list_find_custom :: "'a glist \<Rightarrow> ('a \<Rightarrow> bool) \<Rightarrow> 'a glist" where
  "g_list_find_custom p P = (case p of None \<Rightarrow> None
     | Some (xs, i) \<Rightarrow> map_option (\<lambda>j. (xs, i + j)) (find_index P (drop i xs)))"

definition g_list_prepend :: "'a glist \<Rightarrow> 'a \<Rightarrow> 'a glist" where
  "g_list_prepend p x = (case p of None \<Rightarrow> Some ([x], 0) | Some (xs, i) \<Rightarrow> Some (x # xs, 0))"

text \<open>Removing the node at an index from a list whose first node is given.\<close>

definition g_list_remove_at :: "'a list \<Rightarrow> nat \<Rightarrow> 'a glist" where
  "g_list_remove_at xs j = g_list_of (take j xs @ drop (Suc j) xs)"

section \<open>State\<close>

record gwyDeviceData =
  serial_num :: string
  gwyip :: string
  gwyipv6 :: string
  ipv6prefix :: string
  isRouteSet :: bool
  dnsconfig :: string
  devicetype :: string

record routeInfo =
  r_isIPv4 :: bool
  r_ipStr :: string
  r_ipv6Pfix :: string

datatype rt_event =
    System string
  | Route_Data string bool string
  | Delete_Ips string
  | Delete_Routes string
  | Truncate string

record rt =
  gwList :: "gwyDeviceData list"
  gwRouteInfo :: "routeInfo glist"
  lastRouteSetV4 :: bool
  routeIf :: string
  gwSelected :: bool
  xb3Selected :: bool
  upnpGwyLost :: bool
  signalUpnpDataReady :: bool
  messageLength :: nat
  rt_trace :: "rt_event list"

record gw_entry =
  e_isgateway :: "string option"
  e_dnsconfig :: "string option"
  e_gatewayip :: "string option"
  e_gatewayipv6 :: "string option"
  e_sno :: "string option"
  e_ipv6Prefix :: "string option"
  e_DevType :: "string option"

text \<open>
  The document: \<^term>\<open>None\<close> when it does not parse, then the array of gateways if it has one, in which
  an item may be null.
\<close>

type_synonym gw_json = "gw_entry option list option option"

record rt_env =
  rt_os :: os
  rt_glib :: glib
  rt_gateways :: "gw_json option"
  rt_system :: "string \<Rightarrow> int"
  rt_popen :: "string \<Rightarrow> string option"
  rt_ifaddrs :: "(string \<times> int) list"
  rt_dhcp_flag :: bool

definition rt_emit :: "rt_event list \<Rightarrow> rt \<Rightarrow> rt" where
  "rt_emit es s = s \<lparr> rt_trace := rt_trace s @ es \<rparr>"

definition initial_rt :: rt where
  "initial_rt = \<lparr> gwList = [], gwRouteInfo = None, lastRouteSetV4 = False, routeIf = [], gwSelected = False,
     xb3Selected = False, upnpGwyLost = True, signalUpnpDataReady = True, messageLength = 0, rt_trace = [] \<rparr>"

text \<open>\<^verbatim>\<open>system\<close> followed by \<^verbatim>\<open>WEXITSTATUS\<close> unless the call failed.\<close>

definition SYSTEM_COMMAND_ERROR :: int where "SYSTEM_COMMAND_ERROR = -1"
definition SYSTEM_COMMAND_SHELL_NOT_FOUND :: int where "SYSTEM_COMMAND_SHELL_NOT_FOUND = 127"
definition SYSTEM_COMMAND_SHELL_SUCESS :: int where "SYSTEM_COMMAND_SHELL_SUCESS = 23"

definition shell :: "rt_env \<Rightarrow> string \<Rightarrow> rt \<Rightarrow> int \<times> rt" where
  "shell env cmd s =
     (let r = rt_system env cmd in
      (if r = SYSTEM_COMMAND_ERROR then r else (r div 256) mod 256, rt_emit [System cmd] s))"

section \<open>Start and events\<close>

definition Start :: "os \<Rightarrow> rt \<Rightarrow> rt" where
  "Start env s =
     (case os_file env ''/opt/prefered-gateway'' of
        None \<Rightarrow> s
      | Some t \<Rightarrow> (case scan_str t of
            Some (prefgw, _) \<Rightarrow> if prefgw = ''XB3'' then s \<lparr> xb3Selected := True \<rparr> else s
          | None \<Rightarrow> s))"

text \<open>The handler compares the owner with the name of the system manager and the event number.\<close>

definition evtHandler :: "string \<Rightarrow> nat \<Rightarrow> string \<Rightarrow> nat \<Rightarrow> nat \<Rightarrow> rt \<Rightarrow> rt" where
  "evtHandler sysmgr upnp_event owner eventId len s =
     (if owner = sysmgr \<and> eventId = upnp_event
      then s \<lparr> signalUpnpDataReady := True, messageLength := len \<rparr> else s)"

section \<open>Validation\<close>

definition checkvalidip :: "rt_env \<Rightarrow> string \<Rightarrow> bool" where
  "checkvalidip env ip =
     (let validip4 = (inet_pton4 ip \<noteq> None);
          validip6 = (os_inet_pton6 (rt_os env) ip \<noteq> None);
          stripped = g_strstrip (rt_glib env) ip in
      if g_strrstr (rt_glib env) stripped ''null'' \<or> stripped = [] then True
      else validip4 \<or> validip6)"

definition checkvalidhostname :: "rt_env \<Rightarrow> string \<Rightarrow> bool" where
  "checkvalidhostname env hostname =
     (let stripped = g_strstrip (rt_glib env) hostname in
      if g_strrstr (rt_glib env) stripped ''null'' \<or> stripped = [] then True
      else list_ex (checkvalidip env) (g_strsplit_set (rt_glib env) stripped ([CHR '' '', CHR '';'', newline])))"

definition checkIpMode :: "rt_env \<Rightarrow> string \<Rightarrow> bool" where
  "checkIpMode env v6Prefix =
     (let stripped = g_strstrip (rt_glib env) v6Prefix in
      \<not> (g_strrstr (rt_glib env) stripped ''null'' \<or> stripped = []))"

section \<open>The current route\<close>

definition route_query :: "rt \<Rightarrow> string" where
  "route_query s =
     (if lastRouteSetV4 s
      then ''route -n | grep 'UG[ '' @ [tab] @ '']' | grep '' @ routeIf s @ '' | awk '{print $2}' | grep 169.254 | sed -n '1p'' @ [CHR 0x27]
      else '' ip -6 route | grep '' @ routeIf s @ '' | awk '/default/ { print $3 }' '')"

definition getCurrentRoute :: "rt_env \<Rightarrow> rt \<Rightarrow> (string \<times> bool) option" where
  "getCurrentRoute env s =
     (case rt_popen env (route_query s) of
        None \<Rightarrow> None
      | Some out \<Rightarrow> Some (g_strstrip (rt_glib env) (fst (fgets 100 out)), lastRouteSetV4 s))"

definition sendCurrentRouteData :: "rt_env \<Rightarrow> rt \<Rightarrow> rt" where
  "sendCurrentRouteData env s =
     (case getCurrentRoute env s of
        Some (routeIp, isIpv4) \<Rightarrow> rt_emit [Route_Data (take 46 routeIp) isIpv4 (take 10 (routeIf s))] s
      | None \<Rightarrow> rt_emit [Route_Data [] False []] s)"

text \<open>
  The reply to \<^verbatim>\<open>getCurrentRouteData\<close>: the route and its interface, or a failure.  The route is copied
  into a field of 46 characters.
\<close>

definition getCurrentRouteData :: "rt_env \<Rightarrow> rt \<Rightarrow> (string \<times> bool \<times> string) option res" where
  "getCurrentRouteData env s =
     (case getCurrentRoute env s of
        None \<Rightarrow> Val None
      | Some (ip, v4) \<Rightarrow> res_bind (strcpy_to 46 ip) (\<lambda>ip. Val (Some (ip, v4, take 10 (routeIf s)))))"

section \<open>The list of routes\<close>

definition find_ip :: "rt_env \<Rightarrow> string \<Rightarrow> routeInfo \<Rightarrow> bool" where
  "find_ip env ip r \<longleftrightarrow> g_strstrip (rt_glib env) (r_ipStr r) = g_strstrip (rt_glib env) ip"

definition find_gw :: "rt_env \<Rightarrow> string \<Rightarrow> gwyDeviceData \<Rightarrow> bool" where
  "find_gw env ip g \<longleftrightarrow>
     g_strstrip (rt_glib env) (gwyip g) = g_strstrip (rt_glib env) ip \<or>
     g_strstrip (rt_glib env) (gwyipv6 g) = g_strstrip (rt_glib env) ip"

definition addRouteToList :: "string \<Rightarrow> bool \<Rightarrow> string \<Rightarrow> rt \<Rightarrow> rt" where
  "addRouteToList ipAddr isIPv4 ipv6Pfix s =
     s \<lparr> gwRouteInfo := g_list_prepend (gwRouteInfo s)
           \<lparr> r_isIPv4 = isIPv4, r_ipStr = ipAddr, r_ipv6Pfix = ipv6Pfix \<rparr> \<rparr>"

definition checkAddRouteInfo :: "rt_env \<Rightarrow> string \<Rightarrow> bool \<Rightarrow> string \<Rightarrow> rt \<Rightarrow> rt" where
  "checkAddRouteInfo env ipAddr isIPv4 ipv6Pfix s =
     (let s = s \<lparr> gwRouteInfo := g_list_first (gwRouteInfo s) \<rparr> in
      case g_list_find_custom (gwRouteInfo s) (find_ip env ipAddr) of
        None \<Rightarrow> addRouteToList ipAddr isIPv4 ipv6Pfix (s \<lparr> lastRouteSetV4 := isIPv4 \<rparr>)
      | Some (xs, j) \<Rightarrow>
          if \<not> isIPv4 \<and> g_strstrip (rt_glib env) (r_ipv6Pfix (xs ! j)) \<noteq> ipv6Pfix
          then addRouteToList ipAddr isIPv4 ipv6Pfix (s \<lparr> lastRouteSetV4 := isIPv4 \<rparr>)
          else s)"

definition del_command :: "string \<Rightarrow> bool \<Rightarrow> string" where
  "del_command ipAddr isIPv4 =
     (if isIPv4 then ''route del default gw '' @ ipAddr else ''ip -6 route del default via '' @ ipAddr)"

text \<open>
  \<^verbatim>\<open>checkRemoveRouteInfo\<close> with \<^verbatim>\<open>removeRouteFromList\<close>: the search result replaces \<^verbatim>\<open>gwRouteInfo\<close>, so
  that an address that is not found leaves a null pointer.
\<close>

definition checkRemoveRouteInfo :: "rt_env \<Rightarrow> string \<Rightarrow> bool \<Rightarrow> rt \<Rightarrow> bool \<times> rt" where
  "checkRemoveRouteInfo env ipAddr isIPv4 s =
     (let s = s \<lparr> gwRouteInfo := g_list_first (gwRouteInfo s) \<rparr> in
      if g_list_length (gwRouteInfo s) = 0 then (False, s)
      else (case g_list_find_custom (gwRouteInfo s) (find_ip env ipAddr) of
          None \<Rightarrow> (False, s \<lparr> gwRouteInfo := None \<rparr>)
        | Some (xs, j) \<Rightarrow>
            (case shell env (del_command (g_strstrip (rt_glib env) ipAddr) isIPv4) (s \<lparr> gwRouteInfo := Some (xs, j) \<rparr>) of (rc, s) \<Rightarrow>
              let s = sendCurrentRouteData env s in
              (rc \<noteq> SYSTEM_COMMAND_ERROR \<and> rc \<noteq> SYSTEM_COMMAND_SHELL_NOT_FOUND,
               s \<lparr> gwRouteInfo := g_list_remove_at xs j \<rparr>))))"

text \<open>
  The loop of \<^verbatim>\<open>delRouteList\<close>: after a removal \<^verbatim>\<open>gwRouteInfo\<close> is the head of the remaining list, and
  the loop moves on to the node after it.
\<close>

fun del_route_loop :: "rt_env \<Rightarrow> nat \<Rightarrow> rt \<Rightarrow> rt" where
  "del_route_loop env 0 s = s"
| "del_route_loop env (Suc n) s =
     (case gwRouteInfo s of
        None \<Rightarrow> s
      | Some (xs, i) \<Rightarrow>
          let s = snd (checkRemoveRouteInfo env (r_ipStr (xs ! i)) (r_isIPv4 (xs ! i)) s)
          in del_route_loop env n (s \<lparr> gwRouteInfo := g_list_next (gwRouteInfo s) \<rparr>))"

definition delRouteList :: "rt_env \<Rightarrow> rt \<Rightarrow> rt" where
  "delRouteList env s =
     (let s = s \<lparr> gwRouteInfo := g_list_first (gwRouteInfo s) \<rparr>;
          n = g_list_length (gwRouteInfo s) in
      if n > 0 then (del_route_loop env n s) \<lparr> gwRouteInfo := None \<rparr> else s)"

text \<open>
  The loop of \<^verbatim>\<open>checkExistingRouteValid\<close> runs over the nodes of the list as it was at the start; the
  removals take nodes already passed.  (Its copy of an address into a 46-character buffer is taken to
  fit.)
\<close>

fun valid_loop :: "rt_env \<Rightarrow> routeInfo list \<Rightarrow> rt \<Rightarrow> rt" where
  "valid_loop env [] s = s"
| "valid_loop env (r # rs) s =
     (let s = (case find (find_gw env (r_ipStr r)) (gwList s) of
            None \<Rightarrow> snd (checkRemoveRouteInfo env (r_ipStr r) (r_isIPv4 r) s)
          | Some g \<Rightarrow>
              if \<not> r_isIPv4 r \<and> g_strstrip (rt_glib env) (r_ipv6Pfix r) \<noteq> g_strstrip (rt_glib env) (ipv6prefix g)
              then snd (checkRemoveRouteInfo env (r_ipStr r) (r_isIPv4 r) s)
              else s)
      in valid_loop env rs s)"

definition checkExistingRouteValid :: "rt_env \<Rightarrow> rt \<Rightarrow> bool \<times> rt" where
  "checkExistingRouteValid env s =
     (let s = s \<lparr> gwRouteInfo := g_list_first (gwRouteInfo s) \<rparr>;
          n = g_list_length (gwRouteInfo s);
          s = (case gwRouteInfo s of None \<Rightarrow> s | Some (xs, i) \<Rightarrow> valid_loop env xs s) in
      (\<not> (g_list_length (gwRouteInfo s) \<noteq> 0 \<and> g_list_length (gwRouteInfo s) \<noteq> n), s))"

section \<open>Gateways\<close>

definition delGatewayList :: "rt \<Rightarrow> rt" where
  "delGatewayList s = s \<lparr> gwList := [] \<rparr>"

definition opt_string :: "string option \<Rightarrow> string" where
  "opt_string x = (case x of Some v \<Rightarrow> v | None \<Rightarrow> [])"

definition valid_gateway :: "rt_env \<Rightarrow> gw_entry \<Rightarrow> bool" where
  "valid_gateway env e \<longleftrightarrow>
     (case e_isgateway e of None \<Rightarrow> False
      | Some y \<Rightarrow> g_strrstr (rt_glib env) (g_strstrip (rt_glib env) y) ''yes'') \<and>
     (case e_dnsconfig e of None \<Rightarrow> False | Some d \<Rightarrow> checkvalidhostname env d) \<and>
     (case e_gatewayip e of None \<Rightarrow> False | Some i \<Rightarrow> checkvalidip env i) \<and>
     (case e_gatewayipv6 e of None \<Rightarrow> False | Some i \<Rightarrow> checkvalidip env i)"

definition gateway_of :: "rt_env \<Rightarrow> gw_entry \<Rightarrow> gwyDeviceData" where
  "gateway_of env e =
     \<lparr> serial_num = opt_string (e_sno e),
       gwyip = g_strstrip (rt_glib env) (opt_string (e_gatewayip e)),
       gwyipv6 = g_strstrip (rt_glib env) (opt_string (e_gatewayipv6 e)),
       ipv6prefix = opt_string (e_ipv6Prefix e), isRouteSet = False,
       dnsconfig = g_strstrip (rt_glib env) (opt_string (e_dnsconfig e)),
       devicetype = opt_string (e_DevType e) \<rparr>"

definition parse_store_gateway_data :: "rt_env \<Rightarrow> gw_json \<Rightarrow> rt \<Rightarrow> bool \<times> rt" where
  "parse_store_gateway_data env root s =
     (let s = delGatewayList s in
      case root of
        None \<Rightarrow> (False, s)
      | Some None \<Rightarrow> (False, snd (checkExistingRouteValid env s))
      | Some (Some items) \<Rightarrow>
          let entries = filter (valid_gateway env) (map the (filter (\<lambda>x. x \<noteq> None) items));
              s = s \<lparr> gwList := map (gateway_of env) entries \<rparr>
          in if gwList s = [] then (False, delRouteList env s) else (True, s))"

definition storeRouteDetails :: "rt_env \<Rightarrow> rt \<Rightarrow> bool \<times> rt" where
  "storeRouteDetails env s =
     (case rt_gateways env of
        None \<Rightarrow> (False, s)
      | Some doc \<Rightarrow> parse_store_gateway_data env doc s)"

section \<open>Setting routes\<close>

text \<open>
  \<^verbatim>\<open>readDevFile\<close> of the route manager fills the two interface names and succeeds in every case, since
  both pointers are never null; a name that does not fit ten characters overflows.
\<close>

fun route_dev_loop :: "glib \<Rightarrow> string list \<Rightarrow> nat \<Rightarrow> string \<times> string \<Rightarrow> (string \<times> string) res" where
  "route_dev_loop g [] counter ifs = Val ifs"
| "route_dev_loop g (t # ts) counter (moca, wifi) =
     (let key = g_strstrip g t;
          nxt = (case ts of n # _ \<Rightarrow> Some (g_strstrip g n) | [] \<Rightarrow> None) in
      res_bind (if g_strrstr g key ''MOCA_INTERFACE''
                then (case nxt of Some n \<Rightarrow> res_bind (strcpy_to 10 n) (\<lambda>m. Val (counter + 1, m)) | None \<Rightarrow> Val (counter, moca))
                else Val (counter, moca)) (\<lambda>(counter1, moca).
        if g_strrstr g key ''MOCA_INTERFACE'' \<and> counter1 = 2 then Val (moca, wifi)
        else res_bind (if g_strrstr g key ''WIFI_INTERFACE''
                then (case nxt of Some n \<Rightarrow> res_bind (strcpy_to 10 n) (\<lambda>w. Val (counter1 + 1, w)) | None \<Rightarrow> Val (counter1, wifi))
                else Val (counter1, wifi)) (\<lambda>(counter2, wifi).
          if g_strrstr g key ''WIFI_INTERFACE'' \<and> counter2 = 2 then Val (moca, wifi)
          else route_dev_loop g ts counter2 (moca, wifi))))"

definition route_readDevFile :: "rt_env \<Rightarrow> (bool \<times> string \<times> string) res" where
  "route_readDevFile env =
     (case os_file (rt_os env) ''//etc//device.properties'' of
        None \<Rightarrow> Val (True, [], [])
      | Some t \<Rightarrow>
          res_bind (route_dev_loop (rt_glib env)
              (g_strsplit_set (rt_glib env) t ([CHR '','', CHR ''='', CHR 0x27, newline, CHR 0x27])) 0 ([], []))
            (\<lambda>(moca, wifi). Val (True, moca, wifi)))"

definition getipaddress4 :: "rt_env \<Rightarrow> string \<Rightarrow> bool" where
  "getipaddress4 env ifname \<longleftrightarrow> (ifname, AF_INET) \<in> set (rt_ifaddrs env)"

definition route_getRouteInterface :: "rt_env \<Rightarrow> rt \<Rightarrow> rt res" where
  "route_getRouteInterface env s =
     res_bind (route_readDevFile env) (\<lambda>(ok, mocaIf, wifiIf).
       if \<not> ok then Val s
       else if getipaddress4 env mocaIf then Val (s \<lparr> routeIf := mocaIf \<rparr>)
       else if getipaddress4 env wifiIf then Val (s \<lparr> routeIf := wifiIf \<rparr>)
       else Val s)"

definition slaac_interfaces :: "rt_env \<Rightarrow> string list" where
  "slaac_interfaces env =
     filter (\<lambda>i. i \<noteq> []) (map opt_string [os_getenv (rt_os env) ''WIFI_INTERFACE'', os_getenv (rt_os env) ''MOCA_INTERFACE''])"

definition disable_autoconf :: "string \<Rightarrow> rt_event" where
  "disable_autoconf i = System (''/lib/rdk/disableIpv6Autoconf.sh '' @ i)"

definition enable_autoconf :: "string \<Rightarrow> rt_event" where
  "enable_autoconf i = System (''/lib/rdk/enableIpv6Autoconf.sh '' @ i)"

definition disable_slaac :: "rt_env \<Rightarrow> rt \<Rightarrow> rt" where
  "disable_slaac env s =
     (if \<not> gwSelected s \<and> \<not> xb3Selected s
      then rt_emit (concat (map (\<lambda>i. [disable_autoconf i, Delete_Ips i, Delete_Routes i])
             (slaac_interfaces env))) (s \<lparr> gwSelected := True \<rparr>)
      else s)"

definition gw_command :: "gwyDeviceData \<Rightarrow> string \<Rightarrow> string" where
  "gw_command g ifc =
     ''/lib/rdk/gwSetup.sh'' @ concat (map (\<lambda>a. CHR '' '' # CHR 0x22 # a @ [CHR 0x22])
       [gwyip g, dnsconfig g, ifc, ''50'', ipv6prefix g, gwyipv6 g, devicetype g])"

text \<open>
  The loop of \<^verbatim>\<open>setRoute\<close>.  Neither the flag \<^verbatim>\<open>setRoute\<close> nor \<^verbatim>\<open>retType\<close> is reset between gateways;
  once the flag is set, the script runs for every gateway.  (The \<^verbatim>\<open>isRouteSet\<close> field it sets is never
  read.)  The arguments are the two "first" flags,
  the flag, the last exit code and the result.
\<close>

fun set_route_loop ::
    "rt_env \<Rightarrow> gwyDeviceData list \<Rightarrow> bool \<Rightarrow> bool \<Rightarrow> bool \<Rightarrow> int \<Rightarrow> bool \<Rightarrow> rt \<Rightarrow> bool \<times> rt" where
  "set_route_loop env [] first1 first2 flag retType retVal s = (retVal, s)"
| "set_route_loop env (g # gs) first1 first2 flag retType retVal s =
     (let xg2 = (devicetype g = ''XG2'');
          flag = (if xg2 then flag \<or> first2 else flag \<or> first1);
          first2 = (if xg2 then False else first2);
          first1 = (if xg2 then first1 else False);
          (retType, s) = (if flag then shell env (gw_command g (routeIf s)) (disable_slaac env (s \<lparr> upnpGwyLost := False \<rparr>))
                          else (retType, s)) in
      if retType = SYSTEM_COMMAND_SHELL_SUCESS
      then let pfx = g_strstrip (rt_glib env) (ipv6prefix g);
               s = (if checkIpMode env (ipv6prefix g)
                    then checkAddRouteInfo env (gwyipv6 g) False pfx s
                    else checkAddRouteInfo env (gwyip g) True pfx s)
           in set_route_loop env gs first1 first2 flag retType True s
      else set_route_loop env gs first1 first2 flag retType retVal s)"

definition setRoute :: "rt_env \<Rightarrow> rt \<Rightarrow> (bool \<times> rt) res" where
  "setRoute env s =
     res_bind (route_getRouteInterface env s) (\<lambda>s.
       Val (set_route_loop env (gwList s) True True False 0 False s))"

section \<open>The worker thread\<close>

definition enable_slaac :: "rt_env \<Rightarrow> rt \<Rightarrow> rt" where
  "enable_slaac env s =
     (if gwSelected s
      then rt_emit (concat (map (\<lambda>i. [Delete_Ips i, Delete_Routes i, enable_autoconf i])
             (slaac_interfaces env))) (s \<lparr> gwSelected := False \<rparr>)
      else s)"

definition no_gateway_left :: "rt_env \<Rightarrow> rt \<Rightarrow> rt" where
  "no_gateway_left env s =
     (let s = (if \<not> upnpGwyLost s \<and> \<not> xb3Selected s
               then rt_emit [System (triggerDhcpRenew None)] (s \<lparr> upnpGwyLost := True \<rparr>) else s);
          s = rt_emit [Truncate ''/tmp/resolv.dnsmasq.upnp''] s
      in enable_slaac env s)"

text \<open>One round of \<^verbatim>\<open>getGatewayRouteDataThrd\<close>, once the data is signalled ready.\<close>

definition gateway_round :: "rt_env \<Rightarrow> rt \<Rightarrow> rt res" where
  "gateway_round env s =
     (if \<not> signalUpnpDataReady s then Val s
      else let s = s \<lparr> signalUpnpDataReady := False \<rparr> in
        res_bind (case storeRouteDetails env s of
            (True, s) \<Rightarrow>
              (case checkExistingRouteValid env s of
                 (True, s) \<Rightarrow>
                   res_bind (setRoute env s) (\<lambda>(ok, s). Val (if ok then sendCurrentRouteData env s else s))
               | (False, s) \<Rightarrow> Val s)
          | (False, s) \<Rightarrow> Val (delRouteList env s)) (\<lambda>s.
          let s = s \<lparr> gwRouteInfo := g_list_first (gwRouteInfo s) \<rparr> in
          Val (if g_list_length (gwRouteInfo s) = 0 \<and> \<not> rt_dhcp_flag env then no_gateway_left env s else s)))"

section \<open>Removing routes\<close>

text \<open>The commands in a trace, and the commands that delete a list of routes.\<close>

fun systems :: "rt_event list \<Rightarrow> string list" where
  "systems [] = []"
| "systems (System c # es) = c # systems es"
| "systems (_ # es) = systems es"

lemma systems_append [simp]: "systems (xs @ ys) = systems xs @ systems ys"
  by (induction xs rule: systems.induct) auto

definition dels :: "rt_env \<Rightarrow> routeInfo list \<Rightarrow> string list" where
  "dels env xs = map (\<lambda>r. del_command (g_strstrip (rt_glib env) (r_ipStr r)) (r_isIPv4 r)) xs"

definition distinct_ips :: "rt_env \<Rightarrow> routeInfo list \<Rightarrow> bool" where
  "distinct_ips env xs \<longleftrightarrow> distinct (map (\<lambda>r. g_strstrip (rt_glib env) (r_ipStr r)) xs)"

lemma dels_simps [simp]: "dels env [] = []"
  "dels env (x # xs) = del_command (g_strstrip (rt_glib env) (r_ipStr x)) (r_isIPv4 x) # dels env xs"
  by (simp_all add: dels_def)

lemma systems_emit [simp]: "systems (rt_trace (rt_emit es s)) = systems (rt_trace s) @ systems es"
  by (simp add: rt_emit_def)

lemma rt_emit_fields [simp]:
  "gwRouteInfo (rt_emit es s) = gwRouteInfo s" "gwList (rt_emit es s) = gwList s"
  "gwSelected (rt_emit es s) = gwSelected s" "xb3Selected (rt_emit es s) = xb3Selected s"
  "upnpGwyLost (rt_emit es s) = upnpGwyLost s" "rt_trace (rt_emit es s) = rt_trace s @ es"
  by (simp_all add: rt_emit_def)

lemma send_route_data_emit: "\<exists>ip v4 i. sendCurrentRouteData env s = rt_emit [Route_Data ip v4 i] s"
  by (auto simp: sendCurrentRouteData_def split: option.splits)

lemma send_fields [simp]:
  "gwRouteInfo (sendCurrentRouteData env s) = gwRouteInfo s" "gwList (sendCurrentRouteData env s) = gwList s"
  "gwSelected (sendCurrentRouteData env s) = gwSelected s" "xb3Selected (sendCurrentRouteData env s) = xb3Selected s"
  "systems (rt_trace (sendCurrentRouteData env s)) = systems (rt_trace s)"
  using send_route_data_emit [of env s] by auto

lemma find_index_middle:
  "distinct_ips env (xs @ r # ys) \<Longrightarrow> find_index (find_ip env (r_ipStr r)) (xs @ r # ys) = Some (length xs)"
proof (induction xs)
  case Nil
  then show ?case by (simp add: find_ip_def)
next
  case (Cons x xs)
  then show ?case by (auto simp: distinct_ips_def find_ip_def)
qed

lemma remove_found:
  assumes "gwRouteInfo s = Some (xs @ r # ys, i)" and "distinct_ips env (xs @ r # ys)"
  shows "gwRouteInfo (snd (checkRemoveRouteInfo env (r_ipStr r) (r_isIPv4 r) s)) = g_list_of (xs @ ys)
    \<and> systems (rt_trace (snd (checkRemoveRouteInfo env (r_ipStr r) (r_isIPv4 r) s)))
        = systems (rt_trace s) @ dels env [r]
    \<and> gwList (snd (checkRemoveRouteInfo env (r_ipStr r) (r_isIPv4 r) s)) = gwList s"
  using assms find_index_middle [OF assms(2)]
  by (simp add: checkRemoveRouteInfo_def Let_def g_list_first_def g_list_length_def g_list_find_custom_def
      shell_def g_list_remove_at_def)

lemma distinct_ips_drop: "distinct_ips env (xs @ r # ys) \<Longrightarrow> distinct_ips env (xs @ ys)"
  by (auto simp: distinct_ips_def)

lemma del_route_loop_second:
  assumes "gwRouteInfo s = (if ys = [] then None else Some (b # ys, 1))" and "distinct_ips env (b # ys)" and "length ys \<le> n"
  shows "systems (rt_trace (del_route_loop env n s)) = systems (rt_trace s) @ dels env ys"
  using assms
proof (induction ys arbitrary: n s)
  case Nil
  then show ?case by (cases n) simp_all
next
  case (Cons r ys)
  then obtain m where n: "n = Suc m" by (cases n) auto
  let ?s = "snd (checkRemoveRouteInfo env (r_ipStr r) (r_isIPv4 r) s)"
  let ?t = "?s \<lparr> gwRouteInfo := g_list_next (gwRouteInfo ?s) \<rparr>"
  have rem: "gwRouteInfo ?s = g_list_of (b # ys)" "systems (rt_trace ?s) = systems (rt_trace s) @ dels env [r]"
    using remove_found [of s "[b]" r ys 1 env] Cons.prems by simp_all
  have "systems (rt_trace (del_route_loop env m ?t)) = systems (rt_trace ?t) @ dels env ys"
    by (rule Cons.IH) (use rem Cons.prems n distinct_ips_drop [of env "[b]" r ys] in
        \<open>auto simp: g_list_of_def g_list_next_def\<close>)
  then show ?case using n Cons.prems(1) rem by simp
qed

text \<open>
  \<^verbatim>\<open>delRouteList\<close>, meant to delete every route, issues the delete commands of all routes except
  the second one, and then forgets the whole list: with two or more routes the second stays in the
  routing table without a record.
\<close>

theorem delRouteList_skips_second:
  assumes "gwRouteInfo s = Some (a # b # rest, i)" and "distinct_ips env (a # b # rest)"
  shows "systems (rt_trace (delRouteList env s)) = systems (rt_trace s) @ dels env (a # rest) \<and>
    gwRouteInfo (delRouteList env s) = None"
proof -
  let ?start = "s \<lparr> gwRouteInfo := Some (a # b # rest, 0) \<rparr>"
  let ?s = "snd (checkRemoveRouteInfo env (r_ipStr a) (r_isIPv4 a) ?start)"
  let ?t = "?s \<lparr> gwRouteInfo := g_list_next (gwRouteInfo ?s) \<rparr>"
  have rem: "gwRouteInfo ?s = g_list_of (b # rest)" "systems (rt_trace ?s) = systems (rt_trace s) @ dels env [a]"
    using remove_found [of ?start "[]" a "b # rest" 0 env] assms(2) by simp_all
  have "systems (rt_trace (del_route_loop env (Suc (length rest)) ?t)) = systems (rt_trace ?t) @ dels env rest"
    by (rule del_route_loop_second) (use rem assms(2) in \<open>auto simp: g_list_of_def g_list_next_def distinct_ips_def\<close>)
  moreover have "del_route_loop env (Suc (Suc (length rest))) ?start = del_route_loop env (Suc (length rest)) ?t"
    by (subst del_route_loop.simps(2)) (simp add: Let_def del: del_route_loop.simps)
  ultimately show ?thesis
    using assms(1) rem(2)
    by (simp add: delRouteList_def Let_def g_list_first_def g_list_length_def del: del_route_loop.simps)
qed

definition keep :: "rt_env \<Rightarrow> gwyDeviceData list \<Rightarrow> routeInfo \<Rightarrow> bool" where
  "keep env gws r = (case find (find_gw env (r_ipStr r)) gws of
      None \<Rightarrow> False
    | Some g \<Rightarrow> r_isIPv4 r \<or> g_strstrip (rt_glib env) (r_ipv6Pfix r) = g_strstrip (rt_glib env) (ipv6prefix g))"

lemma valid_loop_spec:
  assumes "gwRouteInfo s = g_list_of (done @ rs)" and "distinct_ips env (done @ rs)" and "gwList s = gws"
  shows "gwRouteInfo (valid_loop env rs s) = g_list_of (done @ filter (keep env gws) rs)
    \<and> systems (rt_trace (valid_loop env rs s)) = systems (rt_trace s) @ dels env (filter (\<lambda>r. \<not> keep env gws r) rs)
    \<and> gwList (valid_loop env rs s) = gws"
  using assms
proof (induction rs arbitrary: s "done")
  case Nil
  then show ?case by simp
next
  case (Cons r rs)
  show ?case
  proof (cases "keep env gws r")
    case True
    then have "valid_loop env (r # rs) s = valid_loop env rs s"
      using Cons.prems(3) by (auto simp: keep_def split: option.splits)
    then show ?thesis using Cons.IH [of s "done @ [r]"] Cons.prems True by simp
  next
    case False
    let ?s = "snd (checkRemoveRouteInfo env (r_ipStr r) (r_isIPv4 r) s)"
    have v: "valid_loop env (r # rs) s = valid_loop env rs ?s"
      using False Cons.prems(3) by (auto simp: keep_def split: option.splits)
    have "gwRouteInfo s = Some (done @ r # rs, 0)" using Cons.prems(1) by (simp add: g_list_of_def)
    from remove_found [OF this Cons.prems(2)]
    have rem: "gwRouteInfo ?s = g_list_of (done @ rs)" "systems (rt_trace ?s) = systems (rt_trace s) @ dels env [r]"
      "gwList ?s = gws" using Cons.prems(3) by simp_all
    from Cons.IH [OF rem(1) distinct_ips_drop [OF Cons.prems(2)] rem(3)] show ?thesis
      using v rem(2) False by simp
  qed
qed


section \<open>Witnesses for the list operations\<close>

definition sample_rt_env :: rt_env where
  "sample_rt_env = \<lparr> rt_os = sample_os, rt_glib = sample_glib, rt_gateways = None, rt_system = (\<lambda>_. 23 * 256),
     rt_popen = (\<lambda>_. None), rt_ifaddrs = [(''eth0'', AF_INET)], rt_dhcp_flag = False \<rparr>"

definition sample_route :: "string \<Rightarrow> routeInfo" where
  "sample_route ip = \<lparr> r_isIPv4 = True, r_ipStr = ip, r_ipv6Pfix = [] \<rparr>"

definition sample_gateway :: "string \<Rightarrow> gwyDeviceData" where
  "sample_gateway ip = \<lparr> serial_num = [], gwyip = ip, gwyipv6 = ''fe80::1'', ipv6prefix = [], isRouteSet = False,
     dnsconfig = ''1.1.1.1'', devicetype = ''XG1'' \<rparr>"

lemma sample_strip:
  "g_strstrip (rt_glib sample_rt_env) ''10.0.0.1'' = ''10.0.0.1''" "g_strstrip (rt_glib sample_rt_env) ''10.0.0.2'' = ''10.0.0.2''"
  "g_strstrip (rt_glib sample_rt_env) ''fe80::1'' = ''fe80::1''"
  by (simp_all add: sample_rt_env_def sample_glib_def isspace_c_def)

theorem delRouteList_skips_second_witness:
  "systems (rt_trace (delRouteList sample_rt_env (initial_rt \<lparr> gwRouteInfo := Some ([sample_route ''10.0.0.1'', sample_route ''10.0.0.2''], 0) \<rparr>)))
     = [''route del default gw 10.0.0.1'']"
  using delRouteList_skips_second [of "initial_rt \<lparr> gwRouteInfo := Some ([sample_route ''10.0.0.1'', sample_route ''10.0.0.2''], 0) \<rparr>"
      "sample_route ''10.0.0.1''" "sample_route ''10.0.0.2''" "[]" 0 sample_rt_env]
  by (simp add: distinct_ips_def sample_route_def sample_strip del_command_def initial_rt_def)


section \<open>Invariants of the worker\<close>

text \<open>
  What every round keeps: \<^verbatim>\<open>gwRouteInfo\<close> is null or points to the head of its list, and a gateway is
  selected only if the XB3 gateway is not preferred.
\<close>

definition rt_wf :: "rt \<Rightarrow> bool" where
  "rt_wf s \<longleftrightarrow> (\<exists>xs. gwRouteInfo s = g_list_of xs) \<and> (gwSelected s \<longrightarrow> \<not> xb3Selected s)"

text \<open>
  The state of IPv6 autoconfiguration according to the scripts in the trace: switched off by the last
  script that touched it.
\<close>

definition slaac_script :: "rt_event \<Rightarrow> bool option" where
  "slaac_script e = (case e of
      System c \<Rightarrow> if starts_with ''/lib/rdk/disableIpv6Autoconf.sh '' c then Some True
                 else if starts_with ''/lib/rdk/enableIpv6Autoconf.sh '' c then Some False else None
    | _ \<Rightarrow> None)"

definition slaac_off :: "rt_event list \<Rightarrow> bool" where
  "slaac_off es = foldl (\<lambda>b e. case slaac_script e of Some x \<Rightarrow> x | None \<Rightarrow> b) False es"

definition slaac_inv :: "rt \<Rightarrow> bool" where
  "slaac_inv s \<longleftrightarrow> rt_wf s \<and> slaac_off (rt_trace s) = gwSelected s"

lemma slaac_off_append:
  "slaac_off (es @ fs) = foldl (\<lambda>b e. case slaac_script e of Some x \<Rightarrow> x | None \<Rightarrow> b) (slaac_off es) fs"
  by (simp add: slaac_off_def)

lemma slaac_other:
  "slaac_script (Route_Data a b c) = None" "slaac_script (Delete_Ips i) = None" "slaac_script (Delete_Routes i) = None"
  "slaac_script (Truncate f) = None" "slaac_script (System (del_command ip v4)) = None"
  "slaac_script (System (gw_command g i)) = None" "slaac_script (System (triggerDhcpRenew None)) = None"
  "slaac_script (disable_autoconf i) = Some True"
  "slaac_script (enable_autoconf i) = Some False"
  by (simp_all add: slaac_script_def disable_autoconf_def enable_autoconf_def del_command_def gw_command_def triggerDhcpRenew_def triggerDhcpLease_def
      snprintf_to_def starts_with_def)

lemma slaac_off_snoc: "slaac_script e = None \<Longrightarrow> slaac_off (es @ [e]) = slaac_off es"
  by (simp add: slaac_off_append)

lemma g_list_of_ops [simp]:
  "g_list_first (g_list_of xs) = g_list_of xs" "g_list_length (g_list_of xs) = length xs"
  "g_list_prepend (g_list_of xs) x = g_list_of (x # xs)"
  by (simp_all add: g_list_of_def g_list_first_def g_list_length_def g_list_prepend_def)

lemma send_slaac_off [simp]: "slaac_off (rt_trace (sendCurrentRouteData env s)) = slaac_off (rt_trace s)"
  using send_route_data_emit [of env s] by (auto simp: slaac_off_snoc slaac_other)

lemma slaac_off_emit [simp]:
  "slaac_off (rt_trace s @ [System (del_command ip v4)]) = slaac_off (rt_trace s)"
  "slaac_off (rt_trace s @ [System (gw_command g i)]) = slaac_off (rt_trace s)"
  by (simp_all add: slaac_off_snoc slaac_other)

lemma glist_none: "None = g_list_of []"
  by (simp add: g_list_of_def)

text \<open>The part of the invariant that does not look at the list, which \<^verbatim>\<open>delRouteList\<close> walks through.\<close>

definition slaac_base :: "rt \<Rightarrow> bool" where
  "slaac_base s \<longleftrightarrow> (gwSelected s \<longrightarrow> \<not> xb3Selected s) \<and> slaac_off (rt_trace s) = gwSelected s"

definition at_head :: "'a glist \<Rightarrow> bool" where
  "at_head p \<longleftrightarrow> (\<exists>xs. p = g_list_of xs)"

lemma at_head_simps [simp]: "at_head None" "at_head (g_list_of xs)" "at_head (g_list_remove_at xs j)"
  "at_head p \<Longrightarrow> g_list_first p = p" "at_head p \<Longrightarrow> at_head (g_list_prepend p x)"
  unfolding at_head_def g_list_remove_at_def by (blast intro: glist_none, auto simp: at_head_def)

lemma slaac_inv_base: "slaac_inv s \<longleftrightarrow> at_head (gwRouteInfo s) \<and> slaac_base s"
  by (auto simp: slaac_inv_def rt_wf_def slaac_base_def at_head_def)

lemma slaac_base_update [simp]:
  "slaac_base (s \<lparr> gwRouteInfo := p \<rparr>) = slaac_base s" "slaac_base (s \<lparr> gwList := l \<rparr>) = slaac_base s"
  "slaac_base (s \<lparr> upnpGwyLost := b \<rparr>) = slaac_base s" "slaac_base (s \<lparr> signalUpnpDataReady := b \<rparr>) = slaac_base s"
  "slaac_base (s \<lparr> routeIf := i \<rparr>) = slaac_base s" "slaac_base (s \<lparr> lastRouteSetV4 := b \<rparr>) = slaac_base s"
  "slaac_base (s \<lparr> messageLength := n \<rparr>) = slaac_base s" "slaac_base (sendCurrentRouteData env s) = slaac_base s"
  by (simp_all add: slaac_base_def)

lemma remove_keeps:
  assumes "at_head (gwRouteInfo s)"
  shows "at_head (gwRouteInfo (snd (checkRemoveRouteInfo env ip v4 s)))"
  using assms by (auto simp: checkRemoveRouteInfo_def Let_def shell_def split: option.splits)

lemma remove_base: "slaac_base s \<Longrightarrow> slaac_base (snd (checkRemoveRouteInfo env ip v4 s))"
  by (auto simp: checkRemoveRouteInfo_def Let_def shell_def slaac_base_def split: option.splits)

lemma del_route_loop_base: "slaac_base s \<Longrightarrow> slaac_base (del_route_loop env n s)"
  by (induction env n s rule: del_route_loop.induct) (auto simp: Let_def remove_base split: option.splits)

lemma delRouteList_keeps: "slaac_inv s \<Longrightarrow> slaac_inv (delRouteList env s)"
  by (auto simp: delRouteList_def Let_def slaac_inv_base del_route_loop_base)

lemma valid_loop_keeps: "slaac_inv s \<Longrightarrow> slaac_inv (valid_loop env rs s)"
  by (induction env rs s rule: valid_loop.induct)
    (auto simp: Let_def slaac_inv_base remove_base remove_keeps split: option.splits)

lemma checkExistingRouteValid_keeps: "slaac_inv s \<Longrightarrow> slaac_inv (snd (checkExistingRouteValid env s))"
  using valid_loop_keeps [of s env]
  by (auto simp: checkExistingRouteValid_def Let_def slaac_inv_base split: option.splits)

lemma parse_store_keeps: "slaac_inv s \<Longrightarrow> slaac_inv (snd (parse_store_gateway_data env doc s))"
  by (auto simp: parse_store_gateway_data_def delGatewayList_def Let_def slaac_inv_base
      checkExistingRouteValid_keeps [unfolded slaac_inv_base] delRouteList_keeps [unfolded slaac_inv_base]
      split: option.splits)

lemma checkAddRouteInfo_keeps: "slaac_inv s \<Longrightarrow> slaac_inv (checkAddRouteInfo env ip v4 pfx s)"
  by (auto simp: checkAddRouteInfo_def addRouteToList_def Let_def slaac_inv_base split: option.splits)

lemma slaac_fold:
  "is \<noteq> [] \<Longrightarrow> slaac_off (es @ concat (map (\<lambda>i. [disable_autoconf i, Delete_Ips i, Delete_Routes i]) is))"
  "is \<noteq> [] \<Longrightarrow> \<not> slaac_off (es @ concat (map (\<lambda>i. [Delete_Ips i, Delete_Routes i, enable_autoconf i]) is))"
  by (induction "is" rule: rev_induct) (simp_all add: slaac_off_append slaac_other split: option.splits)

lemma disable_slaac_keeps:
  "slaac_interfaces env \<noteq> [] \<Longrightarrow> slaac_inv s \<Longrightarrow> slaac_inv (disable_slaac env s)"
  using slaac_fold(1) by (auto simp: disable_slaac_def slaac_inv_base slaac_base_def)

lemma enable_slaac_keeps:
  "slaac_interfaces env \<noteq> [] \<Longrightarrow> slaac_inv s \<Longrightarrow> slaac_inv (enable_slaac env s)"
  using slaac_fold(2) by (auto simp: enable_slaac_def slaac_inv_base slaac_base_def)

lemma gw_shell_keeps:
  assumes "slaac_interfaces env \<noteq> []" and "slaac_inv s"
  shows "slaac_inv (snd (if flag then shell env (gw_command g i) (disable_slaac env (s \<lparr> upnpGwyLost := False \<rparr>))
    else (r, s)))"
proof -
  have "slaac_inv (disable_slaac env (s \<lparr> upnpGwyLost := False \<rparr>))"
    by (rule disable_slaac_keeps) (use assms in \<open>simp_all add: slaac_inv_base\<close>)
  then show ?thesis using assms(2) by (simp add: shell_def Let_def slaac_inv_base slaac_base_def)
qed

lemma set_route_loop_keeps:
  assumes "slaac_interfaces env \<noteq> []" and "slaac_inv s"
  shows "slaac_inv (snd (set_route_loop env gs first1 first2 flag retType retVal s))"
  using assms(2)
proof (induction gs arbitrary: first1 first2 flag retType retVal s)
  case (Cons g gs)
  define flag1 where "flag1 = (if devicetype g = ''XG2'' then flag \<or> first2 else flag \<or> first1)"
  define p where "p = (if flag1 then shell env (gw_command g (routeIf s)) (disable_slaac env (s \<lparr> upnpGwyLost := False \<rparr>))
    else (retType, s))"
  have "slaac_inv (snd p)" unfolding p_def by (rule gw_shell_keeps [OF assms(1) Cons.prems])
  moreover obtain r s1 where rs: "p = (r, s1)" by fastforce
  ultimately have s1: "slaac_inv s1" by simp
  show ?case
    unfolding set_route_loop.simps Let_def flag1_def [symmetric] p_def [symmetric] rs
    by (simp add: Cons.IH s1 checkAddRouteInfo_keeps)
qed simp

lemma setRoute_keeps:
  assumes "slaac_interfaces env \<noteq> []" and "slaac_inv s"
  shows "res_inv (\<lambda>p. slaac_inv (snd p)) (setRoute env s)"
  unfolding setRoute_def
proof (rule res_inv_bind)
  show "res_inv slaac_inv (route_getRouteInterface env s)"
    unfolding route_getRouteInterface_def
    by (rule res_inv_bind [where I = "\<lambda>_. True"])
      (use assms(2) in \<open>auto simp: res_inv_def slaac_inv_base split: if_splits\<close>)
qed (simp add: set_route_loop_keeps [OF assms(1)])

lemma no_gateway_left_keeps:
  assumes "slaac_interfaces env \<noteq> []" and "slaac_inv s"
  shows "slaac_inv (no_gateway_left env s)"
  unfolding no_gateway_left_def Let_def
  by (rule enable_slaac_keeps [OF assms(1)])
    (use assms(2) in \<open>simp add: slaac_inv_base slaac_base_def slaac_off_append slaac_other\<close>)

lemma slaac_first: "slaac_inv s \<Longrightarrow> slaac_inv (s \<lparr> gwRouteInfo := g_list_first (gwRouteInfo s) \<rparr>)"
  by (simp add: slaac_inv_base)

lemma gateway_round_keeps:
  assumes "slaac_interfaces env \<noteq> []" and "slaac_inv s"
  shows "res_inv slaac_inv (gateway_round env s)"
proof -
  let ?s = "s \<lparr> signalUpnpDataReady := False \<rparr>"
  have s: "slaac_inv ?s" using assms(2) by (simp add: slaac_inv_base)
  obtain ok s1 where st: "storeRouteDetails env ?s = (ok, s1)" by fastforce
  have s1: "slaac_inv s1"
    using parse_store_keeps [OF s, of env] s st by (metis storeRouteDetails_def snd_conv option.exhaust option.simps(4,5))
  obtain ok2 s2 where v: "checkExistingRouteValid env s1 = (ok2, s2)" by fastforce
  have s2: "slaac_inv s2" using checkExistingRouteValid_keeps [OF s1, of env] v by simp
  have set: "res_inv slaac_inv (res_bind (setRoute env s2) (\<lambda>(ok, s). Val (if ok then sendCurrentRouteData env s else s)))"
    by (rule res_inv_bind [OF setRoute_keeps [OF assms(1) s2]]) (auto simp: slaac_inv_base)
  have "res_inv slaac_inv (case storeRouteDetails env ?s of
            (True, s) \<Rightarrow>
              (case checkExistingRouteValid env s of
                 (True, s) \<Rightarrow>
                   res_bind (setRoute env s) (\<lambda>(ok, s). Val (if ok then sendCurrentRouteData env s else s))
               | (False, s) \<Rightarrow> Val s)
          | (False, s) \<Rightarrow> Val (delRouteList env s))"
    using set s2 delRouteList_keeps [OF s1] by (simp add: st v split: bool.split)
  then have "res_inv slaac_inv (res_bind \<dots> (\<lambda>s. let s = s \<lparr> gwRouteInfo := g_list_first (gwRouteInfo s) \<rparr> in
      Val (if g_list_length (gwRouteInfo s) = 0 \<and> \<not> rt_dhcp_flag env then no_gateway_left env s else s)))"
    by (rule res_inv_bind) (simp add: Let_def slaac_first no_gateway_left_keeps [OF assms(1)])
  then show ?thesis using assms(2) unfolding gateway_round_def Let_def by simp
qed

section \<open>Runs of the route manager\<close>

text \<open>
  What moves the route manager: an event from the bus, and a round of the worker thread with what the
  network answers in it.
\<close>

datatype rt_input = Upnp_Event string nat nat | Round rt_env

definition route_step :: "string \<Rightarrow> nat \<Rightarrow> rt res \<Rightarrow> rt_input \<Rightarrow> rt res" where
  "route_step sysmgr upnp_event r i = res_bind r (\<lambda>s. case i of
      Upnp_Event owner eventId len \<Rightarrow> Val (evtHandler sysmgr upnp_event owner eventId len s)
    | Round env \<Rightarrow> gateway_round env s)"

fun has_slaac_interface :: "rt_input \<Rightarrow> bool" where
  "has_slaac_interface (Upnp_Event _ _ _) = True"
| "has_slaac_interface (Round env) = (slaac_interfaces env \<noteq> [])"

interpretation worker: guarded_invariant "route_step sysmgr upnp_event" "res_inv slaac_inv" has_slaac_interface
proof
  fix r i assume "res_inv slaac_inv r" and "has_slaac_interface i"
  then show "res_inv slaac_inv (route_step sysmgr upnp_event r i)"
    unfolding route_step_def
    by (cases i) (auto intro!: res_inv_bind gateway_round_keeps simp: evtHandler_def slaac_inv_base)
qed

lemma Start_slaac: "slaac_inv (Start env initial_rt)"
  by (auto simp: Start_def initial_rt_def slaac_inv_def rt_wf_def slaac_off_def g_list_of_def split: option.splits)

text \<open>
  C12.  In every run of the route manager from its start, as long as the environment names an interface
  for autoconfiguration: IPv6 autoconfiguration was last switched off by a script exactly while a
  gateway is selected, a gateway is never selected when the XB3 is the preferred one, and the route
  pointer is null or at the head of its list between rounds.
\<close>

theorem route_manager_slaac:
  assumes "\<forall>i\<in>set is. has_slaac_interface i"
    and "foldl (route_step sysmgr upnp_event) (Val (Start env initial_rt)) is = Val s"
  shows "slaac_off (rt_trace s) = gwSelected s \<and> (gwSelected s \<longrightarrow> \<not> xb3Selected s) \<and>
    (\<exists>xs. gwRouteInfo s = g_list_of xs)"
proof -
  have "res_inv slaac_inv (Val (Start env initial_rt))" using Start_slaac by simp
  from worker.guarded_run [OF this assms(1), of sysmgr upnp_event] have "slaac_inv s" unfolding assms(2) by simp
  then show ?thesis by (simp add: slaac_inv_def rt_wf_def)
qed

definition sample_round_env :: rt_env where
  "sample_round_env = sample_rt_env \<lparr> rt_os := sample_os \<lparr> os_file := (\<lambda>_. None) \<rparr>,
     rt_gateways := Some (Some (Some [Some \<lparr> e_isgateway = Some ''yes'', e_dnsconfig = Some [], e_gatewayip = Some [],
       e_gatewayipv6 = Some [], e_sno = None, e_ipv6Prefix = None, e_DevType = Some ''XG1'' \<rparr>])) \<rparr>"

lemma sample_round: "\<exists>s. gateway_round sample_round_env initial_rt = Val s \<and> gwSelected s"
  by (simp add: gateway_round_def sample_round_env_def sample_rt_env_def initial_rt_def storeRouteDetails_def sample_glib_def
      parse_store_gateway_data_def delGatewayList_def Let_def valid_gateway_def checkvalidhostname_def checkvalidip_def
      isspace_c_def gateway_of_def opt_string_def checkExistingRouteValid_def g_list_first_def g_list_length_def
      setRoute_def route_getRouteInterface_def route_readDevFile_def getipaddress4_def shell_def disable_slaac_def
      SYSTEM_COMMAND_ERROR_def SYSTEM_COMMAND_SHELL_SUCESS_def checkIpMode_def checkAddRouteInfo_def
      g_list_find_custom_def addRouteToList_def g_list_prepend_def contains_def strstr.simps starts_with_def)

theorem route_manager_slaac_witness:
  "\<exists>s. foldl (route_step ''sysmgr'' 3) (Val (Start (rt_os sample_round_env) initial_rt)) [Round sample_round_env] = Val s \<and>
     gwSelected s \<and> slaac_off (rt_trace s)"
proof -
  have start: "Start (rt_os sample_round_env) initial_rt = initial_rt"
    by (simp add: Start_def sample_round_env_def)
  obtain s where s: "gateway_round sample_round_env initial_rt = Val s" "gwSelected s" using sample_round by blast
  then have run: "foldl (route_step ''sysmgr'' 3) (Val (Start (rt_os sample_round_env) initial_rt)) [Round sample_round_env] = Val s"
    by (simp add: route_step_def start)
  have "\<forall>i\<in>set [Round sample_round_env]. has_slaac_interface i"
    by (simp add: sample_round_env_def slaac_interfaces_def sample_os_def opt_string_def)
  from route_manager_slaac [OF this run] show ?thesis using run s(2) by blast
qed

section \<open>Setting routes runs the script for every gateway\<close>

definition setups :: "rt \<Rightarrow> string list" where
  "setups s = filter (starts_with ''/lib/rdk/gwSetup.sh'') (systems (rt_trace s))"

lemma setups_simps [simp]:
  "setups (s \<lparr> gwRouteInfo := p \<rparr>) = setups s" "setups (s \<lparr> upnpGwyLost := b \<rparr>) = setups s"
  "setups (s \<lparr> lastRouteSetV4 := b \<rparr>) = setups s" "setups (s \<lparr> gwSelected := b \<rparr>) = setups s"
  by (simp_all add: setups_def)

lemma checkAdd_setups [simp]:
  "setups (checkAddRouteInfo env ip v4 pfx s) = setups s" "routeIf (checkAddRouteInfo env ip v4 pfx s) = routeIf s"
  by (auto simp: checkAddRouteInfo_def Let_def addRouteToList_def split: option.splits)

lemma disable_setups [simp]: "setups (disable_slaac env s) = setups s" "routeIf (disable_slaac env s) = routeIf s"
proof -
  have "filter (starts_with ''/lib/rdk/gwSetup.sh'') (systems (concat (map (\<lambda>i. [disable_autoconf i, Delete_Ips i, Delete_Routes i]) is))) = []"
    for "is" by (induction "is") (simp_all add: disable_autoconf_def starts_with_def)
  then show "setups (disable_slaac env s) = setups s" by (simp add: disable_slaac_def setups_def)
qed (simp add: disable_slaac_def rt_emit_def)

lemma gw_shell_setups:
  "setups (snd (shell env (gw_command g i) s)) = setups s @ [gw_command g i]" "routeIf (snd (shell env c s)) = routeIf s"
  by (simp_all add: shell_def Let_def setups_def gw_command_def starts_with_def rt_emit_def)

lemma set_route_loop_setups:
  "setups (snd (set_route_loop env gs first1 first2 True retType retVal s)) = setups s @ map (\<lambda>g. gw_command g (routeIf s)) gs"
proof (induction gs arbitrary: first1 first2 retType retVal s)
  case (Cons g gs)
  define p where "p = shell env (gw_command g (routeIf s)) (disable_slaac env (s \<lparr> upnpGwyLost := False \<rparr>))"
  obtain r s1 where rs: "p = (r, s1)" by fastforce
  have "setups (snd p) = setups s @ [gw_command g (routeIf s)]" "routeIf (snd p) = routeIf s"
    by (simp_all add: p_def gw_shell_setups)
  then show ?case
    by (simp add: Let_def p_def [symmetric] rs Cons.IH)
qed simp

text \<open>
  \<^verbatim>\<open>setRoute\<close> runs the gateway script once for every gateway of the list, in order, with the
  chosen interface: the guards that single out the first gateway of each device type have no effect,
  because the flag they set is never reset.
\<close>

theorem setRoute_all_gateways:
  assumes "route_getRouteInterface env s = Val s0" and "setRoute env s = Val (ok, s')"
  shows "setups s' = setups s0 @ map (\<lambda>g. gw_command g (routeIf s0)) (gwList s0)"
proof (cases "gwList s0")
  case Nil
  then show ?thesis using assms by (simp add: setRoute_def)
next
  case (Cons g gs)
  have "set_route_loop env (g # gs) True True False 0 False s0 = set_route_loop env (g # gs) True True True 0 False s0"
    by simp
  then have "snd (set_route_loop env (gwList s0) True True True 0 False s0) = s'"
    using assms Cons by (simp add: setRoute_def del: set_route_loop.simps)
  then show ?thesis using set_route_loop_setups [of env "gwList s0" True True 0 False s0] by simp
qed

theorem setRoute_all_gateways_witness:
  "\<exists>ok s'. setRoute sample_round_env (initial_rt \<lparr> gwList := [sample_gateway ''10.0.0.1'', sample_gateway ''10.0.0.2''] \<rparr>) = Val (ok, s') \<and>
     length (setups s') = 2"
proof -
  let ?s = "initial_rt \<lparr> gwList := [sample_gateway ''10.0.0.1'', sample_gateway ''10.0.0.2''] \<rparr>"
  have i: "route_getRouteInterface sample_round_env ?s = Val ?s"
    by (simp add: route_getRouteInterface_def route_readDevFile_def sample_round_env_def sample_rt_env_def getipaddress4_def)
  obtain ok s' where r: "setRoute sample_round_env ?s = Val (ok, s')"
    using i by (fastforce simp: setRoute_def simp del: set_route_loop.simps)
  from setRoute_all_gateways [OF i r] show ?thesis using r by (simp add: setups_def initial_rt_def)
qed

end
