(* ===== verification/Wifi_State.thy ===== *)
theory Wifi_State
  imports Net_Main
begin

text \<open>
  The connection state of \<^verbatim>\<open>wifiHalUtiles.cpp\<close>: the adapter status and the Lost and Found flags kept in
  global variables, the callback \<^verbatim>\<open>wifi_status_action\<close> through which the wireless HAL drives them, the
  requests to connect (by name, by push button, by PIN) and to disconnect, and the credentials.

  The HAL, the manufacturer library, the other daemons on the bus and the Lost and Found library are
  parameters: a call takes its answer from \<^verbatim>\<open>wifi_env\<close> at the current tick of the state, and what it
  does to the outside is recorded in the trace.  While the code sleeps, callbacks of the HAL arrive.
\<close>

section \<open>Codes\<close>

datatype WiFiStatusCode = WIFI_UNINSTALLED | WIFI_DISABLED | WIFI_DISCONNECTED | WIFI_PAIRING
  | WIFI_CONNECTING | WIFI_CONNECTED | WIFI_FAILED

datatype WiFiLNFStatusCode = LNF_UNITIALIZED | LNF_IN_PROGRESS | CONNECTED_LNF | CONNECTED_PRIVATE
  | DISCONNECTED_NO_LNF_GATEWAY_DETECTED | DISCONNECTED_GET_LFAT_FAILED | DISCONNECTED_CANT_CONNECT_TO_PRIVATE

datatype WiFiConnectionTypeCode = WIFI_CON_UNKNOWN | WIFI_CON_WPS | WIFI_CON_MANUAL | WIFI_CON_LNF | WIFI_CON_PRIVATE

datatype WiFiErrorCode = WIFI_SSID_CHANGED | WIFI_CONNECTION_LOST | WIFI_CONNECTION_FAILED
  | WIFI_CONNECTION_INTERRUPTED | WIFI_INVALID_CREDENTIALS | WIFI_NO_SSID | WIFI_UNKNOWN | WIFI_AUTH_FAILED

datatype SsidSecurity = NET_WIFI_SECURITY_NONE | NET_WIFI_SECURITY_WEP_64 | NET_WIFI_SECURITY_WEP_128
  | NET_WIFI_SECURITY_WPA_PSK_TKIP | NET_WIFI_SECURITY_WPA_PSK_AES
  | NET_WIFI_SECURITY_WPA2_PSK_TKIP | NET_WIFI_SECURITY_WPA2_PSK_AES
  | NET_WIFI_SECURITY_WPA_ENTERPRISE_TKIP | NET_WIFI_SECURITY_WPA_ENTERPRISE_AES
  | NET_WIFI_SECURITY_WPA2_ENTERPRISE_TKIP | NET_WIFI_SECURITY_WPA2_ENTERPRISE_AES
  | NET_WIFI_SECURITY_WPA_WPA2_PSK | NET_WIFI_SECURITY_WPA_WPA2_ENTERPRISE
  | NET_WIFI_SECURITY_WPA3_PSK_AES | NET_WIFI_SECURITY_WPA3_SAE | NET_WIFI_SECURITY_NOT_SUPPORTED

text \<open>The codes of the HAL that the callback tells apart; any other code takes the default branch.\<close>

datatype hal_code = WIFI_HAL_SUCCESS | WIFI_HAL_CONNECTING | WIFI_HAL_DISCONNECTING | WIFI_HAL_ERROR_NOT_FOUND
  | WIFI_HAL_ERROR_TIMEOUT_EXPIRED | WIFI_HAL_ERROR_DEV_DISCONNECT | WIFI_HAL_ERROR_SSID_CHANGED
  | WIFI_HAL_ERROR_CONNECTION_LOST | WIFI_HAL_ERROR_CONNECTION_FAILED | WIFI_HAL_ERROR_CONNECTION_INTERRUPTED
  | WIFI_HAL_ERROR_INVALID_CREDENTIALS | WIFI_HAL_ERROR_AUTH_FAILED | WIFI_HAL_UNRECOVERABLE_ERROR
  | WIFI_HAL_ERROR_UNKNOWN | HAL_Other int

datatype hal_action = ACTION_ON_CONNECT | ACTION_ON_DISCONNECT

section \<open>Security modes\<close>

definition wifi_securityModesMap_Netapp :: "(SsidSecurity \<times> string) list" where
  "wifi_securityModesMap_Netapp =
    [(NET_WIFI_SECURITY_NONE, ''No Security''), (NET_WIFI_SECURITY_WEP_64, ''WEP (Open & Shared)''),
     (NET_WIFI_SECURITY_WPA_PSK_AES, ''WPA-Personal, AES encryp.''), (NET_WIFI_SECURITY_WPA_PSK_TKIP, ''WPA-Personal, TKIP encryp.''),
     (NET_WIFI_SECURITY_WPA2_PSK_AES, ''WPA2-Personal, AES encryp.''), (NET_WIFI_SECURITY_WPA2_PSK_TKIP, ''WPA2-Personal, TKIP encryp.''),
     (NET_WIFI_SECURITY_WPA_ENTERPRISE_TKIP, ''WPA-ENTERPRISE, TKIP''), (NET_WIFI_SECURITY_WPA_ENTERPRISE_AES, ''WPA-ENTERPRISE, AES''),
     (NET_WIFI_SECURITY_WPA2_ENTERPRISE_TKIP, ''WPA2-ENTERPRISE, TKIP''), (NET_WIFI_SECURITY_WPA2_ENTERPRISE_AES, ''WPA2-ENTERPRISE, AES''),
     (NET_WIFI_SECURITY_WPA_WPA2_PSK, ''WPA-WPA2-Personal''), (NET_WIFI_SECURITY_WPA_WPA2_ENTERPRISE, ''WPA-WPA2-ENTERPRISE''),
     (NET_WIFI_SECURITY_WPA3_SAE, ''WPA3''), (NET_WIFI_SECURITY_WPA3_PSK_AES, ''WPA2-WPA3''),
     (NET_WIFI_SECURITY_NOT_SUPPORTED, ''Security format not supported'')]"

definition wifi_securityModesMap :: "(SsidSecurity \<times> string) list" where
  "wifi_securityModesMap =
    [(NET_WIFI_SECURITY_NONE, ''None''), (NET_WIFI_SECURITY_WEP_64, ''WEP''),
     (NET_WIFI_SECURITY_WPA_PSK_TKIP, ''WPA''), (NET_WIFI_SECURITY_WPA_PSK_AES, ''WPA''),
     (NET_WIFI_SECURITY_WPA2_PSK_TKIP, ''WPA2''), (NET_WIFI_SECURITY_WPA2_PSK_AES, ''WPA2''),
     (NET_WIFI_SECURITY_WPA_ENTERPRISE_TKIP, ''WPA-ENTERPRISE''), (NET_WIFI_SECURITY_WPA_ENTERPRISE_AES, ''WPA-ENTERPRISE''),
     (NET_WIFI_SECURITY_WPA2_ENTERPRISE_TKIP, ''WPA2-ENTERPRISE''), (NET_WIFI_SECURITY_WPA2_ENTERPRISE_AES, ''WPA2-ENTERPRISE''),
     (NET_WIFI_SECURITY_WPA_WPA2_PSK, ''WPA-WPA2''), (NET_WIFI_SECURITY_WPA_WPA2_ENTERPRISE, ''WPA-WPA2-ENTERPRISE''),
     (NET_WIFI_SECURITY_WPA3_SAE, ''WPA3''), (NET_WIFI_SECURITY_WPA3_PSK_AES, ''WPA2-WPA3''),
     (NET_WIFI_SECURITY_NOT_SUPPORTED, ''Security format not supported'')]"

definition WIFI_HAL_VERSION :: string where "WIFI_HAL_VERSION = ''1.0.0''"

text \<open>
  The search from the end of the table.  The argument is the number of entries still to look at; the
  entry before the first one does not exist.
\<close>

fun mode_from_end :: "string \<Rightarrow> string \<Rightarrow> nat \<Rightarrow> SsidSecurity res" where
  "mode_from_end sec enc 0 = Val NET_WIFI_SECURITY_NOT_SUPPORTED"
| "mode_from_end sec enc (Suc i) =
     (if strcasestr sec (snd (wifi_securityModesMap ! i))
      then if strcasestr enc ''AES'' \<or> strcasestr sec ''WEP'' then Val (fst (wifi_securityModesMap ! i))
           else if i = 0 then UB else Val (fst (wifi_securityModesMap ! (i - 1)))
      else mode_from_end sec enc i)"

definition get_wifiSecurityModeFromString :: "string \<Rightarrow> string option \<Rightarrow> string option \<Rightarrow> SsidSecurity res" where
  "get_wifiSecurityModeFromString halver secModeString encryptionType =
     (case (secModeString, encryptionType) of
        (Some sec, Some enc) \<Rightarrow>
          if sec = [] \<and> enc = [] then Val NET_WIFI_SECURITY_NONE
          else if halver = WIFI_HAL_VERSION
          then (case find (\<lambda>(m, s). strcasestr sec s) wifi_securityModesMap_Netapp of
              Some (m, _) \<Rightarrow> Val m
            | None \<Rightarrow> Val NET_WIFI_SECURITY_NOT_SUPPORTED)
          else mode_from_end sec enc (length wifi_securityModesMap)
      | _ \<Rightarrow> Val NET_WIFI_SECURITY_NONE)"

section \<open>State\<close>

definition SSID_SIZE :: nat where "SSID_SIZE = 33"
definition BSSID_BUFF :: nat where "BSSID_BUFF = 20"
definition PASSPHRASE_BUFF :: nat where "PASSPHRASE_BUFF = 385"
definition BUFF_LENGTH_64 :: nat where "BUFF_LENGTH_64 = 65"

text \<open>The part of a stored connection the code reads.\<close>

record WiFiConnection =
  ssid :: string
  bssid :: string
  security :: string
  passphrase :: string
  security_mode :: SsidSecurity
  security_WEPKey :: string

definition no_connection :: WiFiConnection where
  "no_connection = \<lparr> ssid = [], bssid = [], security = [], passphrase = [],
     security_mode = NET_WIFI_SECURITY_NONE, security_WEPKey = [] \<rparr>"

record pairedSSIDInfo =
  ap_ssid :: string
  ap_passphrase :: string
  ap_bssid :: string
  ap_security :: string
  ap_wep_key :: string

datatype hostif_type = hostIf_StringType | hostIf_DateTimeType | hostIf_IntegerType | hostIf_UnsignedIntType
  | hostIf_BooleanType | hostIf_OtherType

text \<open>What the code does to the outside.\<close>

datatype wifi_out =
    StateChanged WiFiStatusCode
  | OnError WiFiErrorCode
  | SSIDsChanged
  | SetHostif string "hostif_type option" buffer
  | DeleteInterfaceIp string
  | DeleteInterfaceRoutes string
  | WSystem string
  | ConnectEndpoint string SsidSecurity string bool
  | DisconnectEndpoint string
  | ClearSSIDInfo
  | WpsButtonPush
  | WpsEnrolleePin string
  | MfrStore string string SsidSecurity
  | MfrErase
  | CollectAPDetails
  | InitializeDiscovery
  | SignalMonitor

record wifi =
  gWifiAdopterStatus :: WiFiStatusCode
  gWifiConnectionType :: WiFiConnectionTypeCode
  connCode_prev_state :: hal_code
  wifiConnData_ssid :: string
  savedWiFiConnList :: WiFiConnection
  gWifiLNFStatus :: WiFiLNFStatusCode
  bDeviceActivated :: bool
  bLnfActivationLoop :: bool
  bLNFConnect :: bool
  bStopLNFWhileDisconnected :: bool
  isLAFCurrConnectedssid :: bool
  bIsStopLNFWhileDisconnected :: bool
  bAutoSwitchToPrivateEnabled :: bool
  bSwitch2Private :: bool
  bPrivConnectionLost :: bool
  startLAF :: bool
  switchLnf2Priv :: bool
  switchPriv2Lnf :: bool
  deviceModel :: string
  deviceMake :: string
  deviceMACAddr :: string
  bShutdownWifi :: bool
  w_tick :: nat
  w_trace :: "wifi_out list"

text \<open>The values the globals start with; the HAL's success code is 0, the value of the zeroed static.\<close>

definition initial_wifi :: wifi where
  "initial_wifi = \<lparr> gWifiAdopterStatus = WIFI_UNINSTALLED, gWifiConnectionType = WIFI_CON_UNKNOWN,
     connCode_prev_state = WIFI_HAL_SUCCESS, wifiConnData_ssid = [], savedWiFiConnList = no_connection,
     gWifiLNFStatus = LNF_UNITIALIZED, bDeviceActivated = False, bLnfActivationLoop = False, bLNFConnect = False,
     bStopLNFWhileDisconnected = False, isLAFCurrConnectedssid = False, bIsStopLNFWhileDisconnected = False,
     bAutoSwitchToPrivateEnabled = True, bSwitch2Private = False, bPrivConnectionLost = False, startLAF = False,
     switchLnf2Priv = False, switchPriv2Lnf = False, deviceModel = [], deviceMake = [], deviceMACAddr = [],
     bShutdownWifi = False, w_tick = 0, w_trace = [] \<rparr>"

text \<open>
  A callback of the HAL: the code, the name of the access point and the action.  The events of the bus
  that the service listens to, with their payload.
\<close>

type_synonym hal_callback = "hal_code \<times> string \<times> hal_action"

datatype bus_event =
    Auth_Switch_To_Private int
  | Switch_To_Private int
  | Stop_LNF_While_Disconnected bool
  | Auto_Switch_To_Private_Enabled bool

datatype arrival = Hal hal_callback | Bus bus_event

text \<open>
  The outside: answers are indexed by the tick.  \<^verbatim>\<open>w_arrivals\<close> are the callbacks and events that arrive
  during a sleep; \<^verbatim>\<open>w_mfr_get\<close> are the stored credentials, with the security mode or \<^verbatim>\<open>-1\<close> (\<^term>\<open>None\<close>).
\<close>

record wifi_env =
  w_os :: os
  w_conf :: wifiMgrConfigProps
  laf_is_lnfssid :: "string \<Rightarrow> bool"
  w_connectEndpoint :: "nat \<Rightarrow> string \<Rightarrow> int"
  w_disconnectEndpoint :: "nat \<Rightarrow> string \<Rightarrow> int"
  w_lastConnected :: "nat \<Rightarrow> pairedSSIDInfo option"
  w_wpsPush :: "nat \<Rightarrow> int"
  w_wpsPin :: "nat \<Rightarrow> string \<Rightarrow> int"
  w_mfr_pin :: "string option"
  w_mfr_get :: "nat \<Rightarrow> (string \<times> string \<times> SsidSecurity option) option"
  w_mfr_set :: "nat \<Rightarrow> bool"
  w_arrivals :: "nat \<Rightarrow> arrival list"

definition RETURN_OK :: int where "RETURN_OK = 0"

definition out :: "wifi_out list \<Rightarrow> wifi \<Rightarrow> wifi" where
  "out es w = w \<lparr> w_tick := w_tick w + 1, w_trace := w_trace w @ es \<rparr>"

section \<open>Small operations\<close>

definition set_WiFiStatusCode :: "WiFiStatusCode \<Rightarrow> wifi \<Rightarrow> wifi" where
  "set_WiFiStatusCode status w = w \<lparr> gWifiAdopterStatus := status \<rparr>"

definition get_WiFiStatusCodeAsString :: "WiFiStatusCode \<Rightarrow> string" where
  "get_WiFiStatusCodeAsString code = (case code of
      WIFI_UNINSTALLED \<Rightarrow> ''UNINSTALLED'' | WIFI_DISABLED \<Rightarrow> ''DISABLED'' | WIFI_DISCONNECTED \<Rightarrow> ''DISCONNECTED''
    | WIFI_PAIRING \<Rightarrow> ''PAIRING'' | WIFI_CONNECTING \<Rightarrow> ''CONNECTING'' | WIFI_CONNECTED \<Rightarrow> ''CONNECTED''
    | WIFI_FAILED \<Rightarrow> ''FAILED'')"

definition get_CurrentSsidInfo :: "wifi \<Rightarrow> string \<times> bool" where
  "get_CurrentSsidInfo w = (take SSID_SIZE (wifiConnData_ssid w), gWifiAdopterStatus w = WIFI_CONNECTED)"

definition set_WiFiConnectionType :: "WiFiConnectionTypeCode \<Rightarrow> wifi \<Rightarrow> wifi" where
  "set_WiFiConnectionType v w = w \<lparr> gWifiConnectionType := v \<rparr>"

definition setLNFState :: "WiFiLNFStatusCode \<Rightarrow> wifi \<Rightarrow> wifi" where
  "setLNFState status w = w \<lparr> gWifiLNFStatus := status \<rparr>"

definition signalStartLAF :: "wifi \<Rightarrow> wifi" where
  "signalStartLAF w = w \<lparr> startLAF := True \<rparr>"

definition lnfConnectPrivCredentials :: "wifi \<Rightarrow> wifi" where
  "lnfConnectPrivCredentials w = (if bLnfActivationLoop w then w else signalStartLAF w)"

definition isWifiConnected :: "wifi \<Rightarrow> bool" where
  "isWifiConnected w \<longleftrightarrow> gWifiAdopterStatus w = WIFI_CONNECTED"

definition isWiFiCapable :: "wifi \<Rightarrow> bool \<times> wifi" where
  "isWiFiCapable w = (True, set_WiFiStatusCode WIFI_DISCONNECTED w)"

text \<open>
  The status of \<^verbatim>\<open>wpa_supplicant\<close>, from the first line a command prints; the state names are matched
  as prefixes.
\<close>

definition wpa_prefix :: "string \<Rightarrow> string \<Rightarrow> bool" where
  "wpa_prefix buff st \<longleftrightarrow> strncasecmp_eq buff st (length st)"

definition wpa_state_of :: "string \<Rightarrow> WiFiStatusCode" where
  "wpa_state_of buff =
     (if wpa_prefix buff ''SCANNING'' then WIFI_PAIRING
      else if wpa_prefix buff ''AUTHENTICATING'' \<or> wpa_prefix buff ''ASSOCIATING'' \<or> wpa_prefix buff ''ASSOCIATED''
        \<or> wpa_prefix buff ''4WAY_HANDSHAKE'' \<or> wpa_prefix buff ''GROUP_HANDSHAKE'' then WIFI_CONNECTING
      else if wpa_prefix buff ''COMPLETED'' then WIFI_CONNECTED
      else if wpa_prefix buff ''INTERFACE_DISABLED'' then WIFI_DISABLED
      else WIFI_DISCONNECTED)"

definition getWpaStatus :: "os \<Rightarrow> WiFiStatusCode" where
  "getWpaStatus env =
     (case os_popen env ''wpa_cli status | grep -i wpa_state | cut -d = -f 2'' of
        None \<Rightarrow> WIFI_DISCONNECTED
      | Some text \<Rightarrow> if text = [] then WIFI_DISCONNECTED else wpa_state_of (fst (fgets 512 text)))"

definition chop_newline :: "string \<Rightarrow> string" where
  "chop_newline buff = (if buff \<noteq> [] \<and> last buff = newline then butlast buff else buff)"

text \<open>The reply holds the name and whether it is connected; both may be left as they were.\<close>

definition getWpaSsid :: "os \<Rightarrow> string \<times> bool \<Rightarrow> string \<times> bool" where
  "getWpaSsid env info =
     (if getWpaStatus env = WIFI_CONNECTED
      then (case os_popen env ''wpa_cli status | grep -i '^ssid' | cut -d = -f 2'' of
          None \<Rightarrow> info
        | Some text \<Rightarrow> if text = [] then info
            else (take SSID_SIZE (chop_newline (fst (fgets 512 text))), True))
      else (fst info, False))"

definition getWifiStatsLogInterval :: "string option \<Rightarrow> int" where
  "getWifiStatsLogInterval rfc =
     (case rfc of
        Some v \<Rightarrow> if 120 \<le> atoi v \<and> atoi v \<le> 3600 then atoi v else 300
      | None \<Rightarrow> 300)"

section \<open>Stored connections\<close>

definition paired_security_mode :: "string \<Rightarrow> string \<Rightarrow> SsidSecurity" where
  "paired_security_mode sec wep =
     (if contains sec ''WPA-PSK'' \<or> contains sec ''SAE'' then NET_WIFI_SECURITY_WPA3_SAE
      else if sec = ''WPA-EAP'' then NET_WIFI_SECURITY_WPA2_ENTERPRISE_AES
      else if wep \<noteq> [] then
        (if length wep = 26 \<or> length wep = 13 then NET_WIFI_SECURITY_WEP_128 else NET_WIFI_SECURITY_WEP_64)
      else NET_WIFI_SECURITY_NONE)"

definition paired_connection :: "pairedSSIDInfo \<Rightarrow> WiFiConnection" where
  "paired_connection p =
     (let sec = snprintf_to BUFF_LENGTH_64 (ap_security p); wep = snprintf_to PASSPHRASE_BUFF (ap_wep_key p) in
      \<lparr> ssid = snprintf_to SSID_SIZE (ap_ssid p), bssid = snprintf_to BSSID_BUFF (ap_bssid p), security = sec,
        passphrase = snprintf_to PASSPHRASE_BUFF (ap_passphrase p), security_mode = paired_security_mode sec wep,
        security_WEPKey = wep \<rparr>)"

text \<open>\<^verbatim>\<open>lastConnectedSSID\<close> on a connection: it is left alone when the HAL has none.\<close>

definition lastConnectedSSID :: "wifi_env \<Rightarrow> nat \<Rightarrow> WiFiConnection \<Rightarrow> bool \<times> WiFiConnection" where
  "lastConnectedSSID env t c =
     (case w_lastConnected env t of None \<Rightarrow> (False, c) | Some p \<Rightarrow> (True, paired_connection p))"

definition fetch_saved :: "wifi_env \<Rightarrow> wifi \<Rightarrow> bool \<times> wifi" where
  "fetch_saved env w =
     (case lastConnectedSSID env (w_tick w) (savedWiFiConnList w) of (ok, c) \<Rightarrow> (ok, out [] (w \<lparr> savedWiFiConnList := c \<rparr>)))"

definition mfr_matches :: "(string \<times> string \<times> SsidSecurity option) \<Rightarrow> WiFiConnection \<Rightarrow> bool" where
  "mfr_matches m c \<longleftrightarrow> (case m of (s, p, mode) \<Rightarrow> s = ssid c \<and> p = passphrase c \<and> (mode = Some (security_mode c) \<or> mode = None))"

definition storeMfrWifiCredentials :: "wifi_env \<Rightarrow> wifi \<Rightarrow> bool \<times> wifi" where
  "storeMfrWifiCredentials env w =
     (case fetch_saved env w of (ok, w) \<Rightarrow>
       if \<not> ok then (False, w)
       else let saved = savedWiFiConnList w; got = w_mfr_get env (w_tick w); w = out [] w in
         if (case got of Some m \<Rightarrow> mfr_matches m saved | None \<Rightarrow> False) then (True, w)
         else let stored = w_mfr_set env (w_tick w);
                  w = out [MfrStore (ssid saved) (passphrase saved) (security_mode saved)] w in
           if \<not> stored then (False, w)
           else (case w_mfr_get env (w_tick w) of Some m \<Rightarrow> mfr_matches m saved | None \<Rightarrow> False, out [] w))"

definition eraseMfrWifiCredentials :: "wifi \<Rightarrow> wifi" where
  "eraseMfrWifiCredentials w = out [MfrErase] w"

section \<open>Parameters of other daemons\<close>

text \<open>
  \<^verbatim>\<open>setHostifParam\<close>: the type and the bytes of the message.  The case for integers runs on into the
  case for booleans.
\<close>

definition put_boolean :: "buffer \<Rightarrow> buffer \<Rightarrow> buffer" where
  "put_boolean val buf = take 1 val @ drop 1 buf"

definition hostif_message :: "hostif_type \<Rightarrow> buffer \<Rightarrow> hostif_type option \<times> buffer" where
  "hostif_message ty val = (case ty of
      hostIf_StringType \<Rightarrow> (Some hostIf_StringType, val)
    | hostIf_DateTimeType \<Rightarrow> (Some hostIf_StringType, val)
    | hostIf_IntegerType \<Rightarrow> (Some hostIf_BooleanType, put_boolean val val)
    | hostIf_UnsignedIntType \<Rightarrow> (Some hostIf_BooleanType, put_boolean val val)
    | hostIf_BooleanType \<Rightarrow> (Some hostIf_BooleanType, put_boolean val [])
    | hostIf_OtherType \<Rightarrow> (None, []))"

definition setHostifParam :: "string \<Rightarrow> hostif_type \<Rightarrow> buffer \<Rightarrow> wifi \<Rightarrow> wifi" where
  "setHostifParam name ty val w = (case hostif_message ty val of (t, b) \<Rightarrow> out [SetHostif name t b] w)"

definition XRE_REFRESH_SESSION_WITH_RR :: string where
  "XRE_REFRESH_SESSION_WITH_RR = ''Device.X_COMCAST-COM_Xcalibur.Client.XRE.xreRefreshXreSessionWithRR''"

definition xre_refresh :: "u32 \<Rightarrow> wifi \<Rightarrow> wifi" where
  "xre_refresh reason w = setHostifParam XRE_REFRESH_SESSION_WITH_RR hostIf_IntegerType (mem32 reason) w"

section \<open>The callback of the HAL\<close>

text \<open>
  A private network other than the saved one: the credentials are stored, the session refreshed with
  reason 20 and the addresses of the interface cleaned up.
\<close>

definition private_network_changed :: "wifi_env \<Rightarrow> wifi \<Rightarrow> wifi" where
  "private_network_changed env w =
     (let w = snd (storeMfrWifiCredentials env w); w = xre_refresh 20 w in
      case os_getenv (w_os env) ''WIFI_INTERFACE'' of
        None \<Rightarrow> w
      | Some i \<Rightarrow>
          let w = out [DeleteInterfaceIp i, DeleteInterfaceRoutes i] w in
          if os_file (w_os env) ''/tmp/ani_wifi'' \<noteq> None
          then out [WSystem (''/lib/rdk/enableIpv6Autoconf.sh '' @ i @ '' &'')] w else w)"

definition renew_lease :: "wifi_env \<Rightarrow> bool \<Rightarrow> wifi \<Rightarrow> wifi" where
  "renew_lease env sameSSid w =
     (if os_file (w_os env) ''/opt/persistent/ip.wifi.0'' \<noteq> None then w
      else if \<not> sameSSid then out [WSystem ''/bin/sh /lib/rdk/wifi_addr_reset.sh''] w
      else out [WSystem (triggerDhcpReleaseAndRenew (os_getenv (w_os env) ''WIFI_INTERFACE''))] w)"

definition connected_private :: "wifi_env \<Rightarrow> bool \<Rightarrow> wifi \<Rightarrow> wifi" where
  "connected_private env sameSSid w =
     (let w = w \<lparr> isLAFCurrConnectedssid := False, gWifiLNFStatus := CONNECTED_PRIVATE, bStopLNFWhileDisconnected := False \<rparr>;
          w = snd (fetch_saved env w);
          w = w \<lparr> switchPriv2Lnf := True \<rparr>;
          w = (if switchLnf2Priv w then (xre_refresh 21 w) \<lparr> switchLnf2Priv := False \<rparr> else w) in
      if \<not> sameSSid
      then out [CollectAPDetails, InitializeDiscovery] (w \<lparr> deviceModel := [], deviceMake := [], deviceMACAddr := [] \<rparr>)
      else w)"

definition connected_lnf :: "wifi \<Rightarrow> wifi" where
  "connected_lnf w = setLNFState CONNECTED_LNF
     (w \<lparr> isLAFCurrConnectedssid := True, switchLnf2Priv := True, switchPriv2Lnf := False \<rparr>)"

text \<open>
  The branch for a successful connection.  (The loop at its end tries to take the monitor's mutex until
  it succeeds or the service shuts down; it is taken to succeed.)
\<close>

definition on_connected :: "wifi_env \<Rightarrow> string \<Rightarrow> bool \<Rightarrow> wifi \<Rightarrow> wifi" where
  "on_connected env ap_SSID sameSSid w =
     (let w = set_WiFiStatusCode WIFI_CONNECTED w;
          w = (if \<not> laf_is_lnfssid env ap_SSID \<and> ssid (savedWiFiConnList w) \<noteq> ap_SSID
               then private_network_changed env w else w);
          w = renew_lease env sameSSid w;
          w = w \<lparr> wifiConnData_ssid := snprintf_to SSID_SIZE ap_SSID \<rparr>;
          w = (if \<not> laf_is_lnfssid env ap_SSID then connected_private env sameSSid w else connected_lnf w) in
      if bShutdownWifi w then w else out [SignalMonitor] w)"

definition on_disconnected :: "string \<Rightarrow> wifi \<Rightarrow> wifi" where
  "on_disconnected ap_SSID w =
     (set_WiFiStatusCode WIFI_DISCONNECTED w) \<lparr> wifiConnData_ssid := snprintf_to SSID_SIZE ap_SSID \<rparr>"

definition private_lost :: "wifi_env \<Rightarrow> wifi \<Rightarrow> wifi" where
  "private_lost env w =
     (if bEnableLostFound (w_conf env) then lnfConnectPrivCredentials (w \<lparr> bPrivConnectionLost := True \<rparr>) else w)"

text \<open>
  The state after a code, with the events still to be broadcast; first for the codes at the end of the
  switch: refused credentials, the unrecoverable error, and the unknown ones.
\<close>

definition refusal_branch :: "wifi_env \<Rightarrow> hal_code \<Rightarrow> wifi \<Rightarrow> wifi \<times> wifi_out list" where
  [simp]: "refusal_branch env connCode w =
     (let changed = (connCode_prev_state w \<noteq> connCode);
          disc = set_WiFiStatusCode WIFI_DISCONNECTED w in
      case connCode of
        WIFI_HAL_ERROR_INVALID_CREDENTIALS \<Rightarrow> (private_lost env disc, [OnError WIFI_INVALID_CREDENTIALS])
      | WIFI_HAL_ERROR_AUTH_FAILED \<Rightarrow> (private_lost env disc, [OnError WIFI_AUTH_FAILED])
      | WIFI_HAL_UNRECOVERABLE_ERROR \<Rightarrow>
          if changed then (set_WiFiStatusCode WIFI_FAILED w, [StateChanged WIFI_FAILED]) else (w, [])
      | _ \<Rightarrow> (w, if changed then [OnError WIFI_UNKNOWN] else []))"

definition status_branch :: "wifi_env \<Rightarrow> hal_code \<Rightarrow> string \<Rightarrow> hal_action \<Rightarrow> wifi \<Rightarrow> wifi \<times> wifi_out list" where
  "status_branch env connCode ap_SSID action w =
     (let sameSSid = (ssid (savedWiFiConnList w) = [] \<or> ssid (savedWiFiConnList w) = ap_SSID);
          changed = (connCode_prev_state w \<noteq> connCode);
          disc = set_WiFiStatusCode WIFI_DISCONNECTED w in
      case connCode of
        WIFI_HAL_SUCCESS \<Rightarrow>
          (case action of
             ACTION_ON_CONNECT \<Rightarrow> (on_connected env ap_SSID sameSSid w, [StateChanged WIFI_CONNECTED])
           | ACTION_ON_DISCONNECT \<Rightarrow> (on_disconnected ap_SSID w, [StateChanged WIFI_DISCONNECTED]))
      | WIFI_HAL_CONNECTING \<Rightarrow> (set_WiFiStatusCode WIFI_CONNECTING w, [StateChanged WIFI_CONNECTING])
      | WIFI_HAL_DISCONNECTING \<Rightarrow> (w, [])
      | WIFI_HAL_ERROR_NOT_FOUND \<Rightarrow> if changed then (private_lost env disc, [OnError WIFI_NO_SSID]) else (w, [])
      | WIFI_HAL_ERROR_TIMEOUT_EXPIRED \<Rightarrow> if changed then (disc, [OnError WIFI_UNKNOWN]) else (w, [])
      | WIFI_HAL_ERROR_DEV_DISCONNECT \<Rightarrow> if changed then (disc, [OnError WIFI_CONNECTION_LOST]) else (w, [])
      | WIFI_HAL_ERROR_SSID_CHANGED \<Rightarrow>
          if changed then (private_lost env disc, [SSIDsChanged, OnError WIFI_SSID_CHANGED]) else (w, [])
      | WIFI_HAL_ERROR_CONNECTION_LOST \<Rightarrow> if changed then (disc, [OnError WIFI_CONNECTION_LOST]) else (w, [])
      | WIFI_HAL_ERROR_CONNECTION_FAILED \<Rightarrow> if changed then (disc, [OnError WIFI_CONNECTION_FAILED]) else (w, [])
      | WIFI_HAL_ERROR_CONNECTION_INTERRUPTED \<Rightarrow> if changed then (disc, [OnError WIFI_CONNECTION_INTERRUPTED]) else (w, [])
      | _ \<Rightarrow> refusal_branch env connCode w)"

definition wifi_status_action :: "wifi_env \<Rightarrow> hal_code \<Rightarrow> string \<Rightarrow> hal_action \<Rightarrow> wifi \<Rightarrow> wifi" where
  "wifi_status_action env connCode ap_SSID action w =
     (case status_branch env connCode ap_SSID action w of (w, es) \<Rightarrow>
        let w = w \<lparr> connCode_prev_state := connCode \<rparr> in if es = [] then w else out es w)"

definition callback :: "wifi_env \<Rightarrow> wifi \<Rightarrow> hal_callback \<Rightarrow> wifi" where
  "callback env w c = (case c of (code, ap_SSID, action) \<Rightarrow> wifi_status_action env code ap_SSID action w)"

section \<open>Events of the bus\<close>

definition DEVICE_ACTIVATED :: int where "DEVICE_ACTIVATED = 1"

fun wifi_eventHandler :: "wifi_env \<Rightarrow> bus_event \<Rightarrow> wifi \<Rightarrow> wifi" where
  "wifi_eventHandler env (Auth_Switch_To_Private v) w =
     (if v = DEVICE_ACTIVATED then w \<lparr> bDeviceActivated := True \<rparr> else w)"
| "wifi_eventHandler env (Switch_To_Private v) w =
     (let w = (if \<not> bDeviceActivated w \<and> v = DEVICE_ACTIVATED then w \<lparr> bDeviceActivated := True \<rparr> else w) in
      if \<not> bAutoSwitchToPrivateEnabled w then lnfConnectPrivCredentials (w \<lparr> bSwitch2Private := True \<rparr>) else w)"
| "wifi_eventHandler env (Stop_LNF_While_Disconnected b) w =
     (if b = bStopLNFWhileDisconnected w then w
      else let w = w \<lparr> bStopLNFWhileDisconnected := b \<rparr> in
        if \<not> b \<and> bEnableLostFound (w_conf env) \<and> gWifiLNFStatus w \<noteq> CONNECTED_PRIVATE
        then lnfConnectPrivCredentials w else w)"
| "wifi_eventHandler env (Auto_Switch_To_Private_Enabled b) w =
     (if b = bAutoSwitchToPrivateEnabled w then w
      else let w = w \<lparr> bAutoSwitchToPrivateEnabled := b \<rparr> in
        if gWifiLNFStatus w \<noteq> CONNECTED_PRIVATE \<and> b then lnfConnectPrivCredentials w else w)"

definition deliver :: "wifi_env \<Rightarrow> wifi \<Rightarrow> arrival \<Rightarrow> wifi" where
  "deliver env w a = (case a of Hal c \<Rightarrow> callback env w c | Bus e \<Rightarrow> wifi_eventHandler env e w)"

text \<open>A sleep: what arrives during it.\<close>

definition wait_round :: "wifi_env \<Rightarrow> wifi \<Rightarrow> wifi" where
  "wait_round env w = foldl (deliver env) (out [] w) (w_arrivals env (w_tick w))"

section \<open>Requests\<close>

definition broadcast_state :: "WiFiStatusCode \<Rightarrow> wifi \<Rightarrow> wifi" where
  "broadcast_state st w = out [StateChanged st] w"

definition connect_withSSID ::
    "wifi_env \<Rightarrow> string \<Rightarrow> SsidSecurity \<Rightarrow> string \<Rightarrow> bool \<Rightarrow> WiFiConnectionTypeCode \<Rightarrow> wifi \<Rightarrow> bool \<times> wifi" where
  "connect_withSSID env ap_SSID mode key saveSSID conType w =
     (let w = set_WiFiConnectionType conType w;
          w = (if saveSSID then broadcast_state WIFI_CONNECTING (set_WiFiStatusCode WIFI_CONNECTING w) else w);
          ret = w_connectEndpoint env (w_tick w) ap_SSID;
          w = out [ConnectEndpoint ap_SSID mode key saveSSID] w in
      if ret \<noteq> 0 then (False, broadcast_state WIFI_FAILED w) else (True, w))"

text \<open>
  Leaving the current network before a WPS pairing: a disconnect request, one sleep, and at most thirty
  more sleeps while the adapter is still connected.
\<close>

fun wait_while_connected :: "wifi_env \<Rightarrow> nat \<Rightarrow> wifi \<Rightarrow> wifi" where
  "wait_while_connected env 0 w = w"
| "wait_while_connected env (Suc n) w =
     (if isWifiConnected w then wait_while_connected env n (wait_round env w) else w)"

definition leave_network :: "wifi_env \<Rightarrow> wifi \<Rightarrow> wifi" where
  "leave_network env w =
     (if isWifiConnected w
      then wait_while_connected env 30 (wait_round env (out [DisconnectEndpoint (wifiConnData_ssid w)] w))
      else w)"

definition connect_WpsPush :: "wifi_env \<Rightarrow> wifi \<Rightarrow> bool \<times> wifi" where
  "connect_WpsPush env w =
     (let w = set_WiFiConnectionType WIFI_CON_WPS (leave_network env w);
          ret = w_wpsPush env (w_tick w); w = out [WpsButtonPush] w in
      if ret = RETURN_OK then (True, w) else (False, broadcast_state WIFI_FAILED w))"

definition get_WpsPIN :: "wifi_env \<Rightarrow> string option" where
  "get_WpsPIN env = map_option (snprintf_to 9) (w_mfr_pin env)"

definition connect_WpsPin :: "wifi_env \<Rightarrow> string option \<Rightarrow> wifi \<Rightarrow> bool \<times> wifi" where
  "connect_WpsPin env wps_pin w =
     (case (case wps_pin of None \<Rightarrow> None | Some pin \<Rightarrow> if pin = ''xxxxxxxx'' then get_WpsPIN env else Some pin) of
        None \<Rightarrow> (False, w)
      | Some pin \<Rightarrow>
          let w = set_WiFiConnectionType WIFI_CON_WPS (leave_network env w);
              ret = w_wpsPin env (w_tick w) pin; w = out [WpsEnrolleePin pin] w in
          if ret = RETURN_OK then (True, w) else (False, broadcast_state WIFI_FAILED w))"

definition clearSSID_On_Disconnect_AP :: "wifi_env \<Rightarrow> wifi \<Rightarrow> bool \<times> wifi" where
  "clearSSID_On_Disconnect_AP env w =
     (let ap = ssid (savedWiFiConnList w); ret = w_disconnectEndpoint env (w_tick w) ap; w = out [DisconnectEndpoint ap] w in
      if ret \<noteq> RETURN_OK then (False, w)
      else let w = out [ClearSSIDInfo] w in
        (True, if \<not> isLAFCurrConnectedssid w then eraseMfrWifiCredentials (w \<lparr> savedWiFiConnList := no_connection \<rparr>) else w))"

definition disconnectFromCurrentSSID :: "wifi_env \<Rightarrow> wifi \<Rightarrow> bool \<times> wifi" where
  "disconnectFromCurrentSSID env w =
     (let ap = ssid (savedWiFiConnList w) in
      (w_disconnectEndpoint env (w_tick w) ap = RETURN_OK, out [DisconnectEndpoint ap] w))"

definition connectToMfrWifiCredentials :: "wifi_env \<Rightarrow> wifi \<Rightarrow> bool \<times> wifi" where
  "connectToMfrWifiCredentials env w =
     (case w_mfr_get env (w_tick w) of
        None \<Rightarrow> (False, out [] w)
      | Some (s, p, mode) \<Rightarrow>
          connect_withSSID env s (case mode of None \<Rightarrow> NET_WIFI_SECURITY_WPA_PSK_AES | Some m \<Rightarrow> m) p True WIFI_CON_PRIVATE (out [] w))"

section \<open>The table of security modes\<close>

lemma lower_facts:
  "tolower_c CHR ''W'' = CHR ''w''" "tolower_c CHR ''P'' = CHR ''p''" "tolower_c CHR ''A'' = CHR ''a''" "tolower_c CHR ''N'' = CHR ''n''"
  "tolower_c CHR ''E'' = CHR ''e''" "tolower_c CHR ''T'' = CHR ''t''" "tolower_c CHR ''R'' = CHR ''r''" "tolower_c CHR ''I'' = CHR ''i''"
  "tolower_c CHR ''S'' = CHR ''s''" "tolower_c CHR ''2'' = CHR ''2''" "tolower_c CHR ''3'' = CHR ''3''" "tolower_c CHR ''-'' = CHR ''-''"
  "tolower_c CHR '' '' = CHR '' ''" "tolower_c CHR ''o'' = CHR ''o''" "tolower_c CHR ''n'' = CHR ''n''" "tolower_c CHR ''e'' = CHR ''e''"
  "tolower_c CHR ''c'' = CHR ''c''" "tolower_c CHR ''u'' = CHR ''u''" "tolower_c CHR ''r'' = CHR ''r''" "tolower_c CHR ''i'' = CHR ''i''"
  "tolower_c CHR ''t'' = CHR ''t''" "tolower_c CHR ''y'' = CHR ''y''" "tolower_c CHR ''f'' = CHR ''f''" "tolower_c CHR ''m'' = CHR ''m''"
  "tolower_c CHR ''a'' = CHR ''a''" "tolower_c CHR ''s'' = CHR ''s''" "tolower_c CHR ''p'' = CHR ''p''" "tolower_c CHR ''d'' = CHR ''d''"
  by (simp_all add: tolower_c_def char_of_def bit_iff_odd)

lemma mode_matches:
  "map (\<lambda>e. strcasestr ''WPA'' (snd e)) wifi_securityModesMap
     = [False, False, True, True, False, False, False, False, False, False, False, False, False, False, False]"
  "map (\<lambda>e. strcasestr ''WPA2'' (snd e)) wifi_securityModesMap
     = [False, False, True, True, True, True, False, False, False, False, False, False, False, False, False]"
  "map (\<lambda>e. strcasestr ''WPA3'' (snd e)) wifi_securityModesMap
     = [False, False, True, True, False, False, False, False, False, False, False, False, True, False, False]"
  "map (\<lambda>e. strcasestr ''WPA-WPA2'' (snd e)) wifi_securityModesMap
     = [False, False, True, True, True, True, False, False, False, False, True, False, False, False, False]"
  "map (\<lambda>e. strcasestr ''WPA2-ENTERPRISE'' (snd e)) wifi_securityModesMap
     = [False, False, True, True, True, True, False, False, True, True, False, False, False, False, False]"
  "map (\<lambda>e. strcasestr ''None'' (snd e)) wifi_securityModesMap
     = [True, False, False, False, False, False, False, False, False, False, False, False, False, False, False]"
  "\<not> strcasestr ''WPA'' ''WEP''" "\<not> strcasestr ''WPA2'' ''WEP''" "\<not> strcasestr ''WPA3'' ''WEP''"
  "\<not> strcasestr ''WPA-WPA2'' ''WEP''" "\<not> strcasestr ''WPA2-ENTERPRISE'' ''WEP''" "\<not> strcasestr ''None'' ''WEP''"
  by (simp_all add: wifi_securityModesMap_def strcasestr_def lower_facts contains_def starts_with_def)

text \<open>The search with the modes and the matches of the entries given.\<close>

fun mode_search :: "SsidSecurity list \<Rightarrow> bool list \<Rightarrow> bool \<Rightarrow> nat \<Rightarrow> SsidSecurity res" where
  "mode_search ms bs aes 0 = Val NET_WIFI_SECURITY_NOT_SUPPORTED"
| "mode_search ms bs aes (Suc i) =
     (if bs ! i then if aes then Val (ms ! i) else if i = 0 then UB else Val (ms ! (i - 1))
      else mode_search ms bs aes i)"

lemma length_modes: "length wifi_securityModesMap = 15"
  by (simp add: wifi_securityModesMap_def)

lemma mode_from_end_search:
  assumes "map (\<lambda>e. strcasestr sec (snd e)) wifi_securityModesMap = bs" and "\<not> strcasestr sec ''WEP''"
  shows "n \<le> 15 \<Longrightarrow> mode_from_end sec enc n = mode_search (map fst wifi_securityModesMap) bs (strcasestr enc ''AES'') n"
proof (induction n)
  case (Suc i)
  note l = length_modes
  then have "bs ! i = strcasestr sec (snd (wifi_securityModesMap ! i))" using Suc.prems assms(1) by (auto simp: nth_map)
  then show ?case using Suc assms(2) l by (simp add: nth_map)
qed simp

lemma modes_of_map: "map fst wifi_securityModesMap =
    [NET_WIFI_SECURITY_NONE, NET_WIFI_SECURITY_WEP_64, NET_WIFI_SECURITY_WPA_PSK_TKIP, NET_WIFI_SECURITY_WPA_PSK_AES,
     NET_WIFI_SECURITY_WPA2_PSK_TKIP, NET_WIFI_SECURITY_WPA2_PSK_AES, NET_WIFI_SECURITY_WPA_ENTERPRISE_TKIP,
     NET_WIFI_SECURITY_WPA_ENTERPRISE_AES, NET_WIFI_SECURITY_WPA2_ENTERPRISE_TKIP, NET_WIFI_SECURITY_WPA2_ENTERPRISE_AES,
     NET_WIFI_SECURITY_WPA_WPA2_PSK, NET_WIFI_SECURITY_WPA_WPA2_ENTERPRISE, NET_WIFI_SECURITY_WPA3_SAE,
     NET_WIFI_SECURITY_WPA3_PSK_AES, NET_WIFI_SECURITY_NOT_SUPPORTED]"
  by (simp add: wifi_securityModesMap_def)

lemma mode_entries:
  "mode_from_end ''WPA'' enc 15 = Val (if strcasestr enc ''AES'' then NET_WIFI_SECURITY_WPA_PSK_AES else NET_WIFI_SECURITY_WPA_PSK_TKIP)"
  "mode_from_end ''WPA2'' enc 15 = Val (if strcasestr enc ''AES'' then NET_WIFI_SECURITY_WPA2_PSK_AES else NET_WIFI_SECURITY_WPA2_PSK_TKIP)"
  "mode_from_end ''WPA3'' enc 15 = Val (if strcasestr enc ''AES'' then NET_WIFI_SECURITY_WPA3_SAE else NET_WIFI_SECURITY_WPA_WPA2_ENTERPRISE)"
  "mode_from_end ''WPA-WPA2'' enc 15
     = Val (if strcasestr enc ''AES'' then NET_WIFI_SECURITY_WPA_WPA2_PSK else NET_WIFI_SECURITY_WPA2_ENTERPRISE_AES)"
  "mode_from_end ''WPA2-ENTERPRISE'' enc 15
     = Val (if strcasestr enc ''AES'' then NET_WIFI_SECURITY_WPA2_ENTERPRISE_AES else NET_WIFI_SECURITY_WPA2_ENTERPRISE_TKIP)"
  "mode_from_end ''None'' enc 15 = (if strcasestr enc ''AES'' then Val NET_WIFI_SECURITY_NONE else UB)"
  unfolding mode_matches(1) [THEN mode_from_end_search, OF mode_matches(7) le_refl] mode_matches(2) [THEN mode_from_end_search, OF mode_matches(8) le_refl]
    mode_matches(3) [THEN mode_from_end_search, OF mode_matches(9) le_refl] mode_matches(4) [THEN mode_from_end_search, OF mode_matches(10) le_refl]
    mode_matches(5) [THEN mode_from_end_search, OF mode_matches(11) le_refl] mode_matches(6) [THEN mode_from_end_search, OF mode_matches(12) le_refl]
    modes_of_map
  by (simp_all add: eval_nat_numeral)

text \<open>
  The security mode read from the strings of the HAL, except for the HAL 1.0.0: with AES in the
  encryption type the mode of the name; without it, the TKIP mode for WPA, WPA2 and WPA2-Enterprise,
  but a mode of another kind for WPA3 and WPA-WPA2, and for None a read before the start of the table.
\<close>

theorem security_mode_from_string:
  assumes "ver \<noteq> WIFI_HAL_VERSION" and "aes = strcasestr enc ''AES''"
  shows "get_wifiSecurityModeFromString ver (Some ''WPA'') (Some enc)
      = Val (if aes then NET_WIFI_SECURITY_WPA_PSK_AES else NET_WIFI_SECURITY_WPA_PSK_TKIP) \<and>
    get_wifiSecurityModeFromString ver (Some ''WPA2'') (Some enc)
      = Val (if aes then NET_WIFI_SECURITY_WPA2_PSK_AES else NET_WIFI_SECURITY_WPA2_PSK_TKIP) \<and>
    get_wifiSecurityModeFromString ver (Some ''WPA2-ENTERPRISE'') (Some enc)
      = Val (if aes then NET_WIFI_SECURITY_WPA2_ENTERPRISE_AES else NET_WIFI_SECURITY_WPA2_ENTERPRISE_TKIP) \<and>
    get_wifiSecurityModeFromString ver (Some ''WPA3'') (Some enc)
      = Val (if aes then NET_WIFI_SECURITY_WPA3_SAE else NET_WIFI_SECURITY_WPA_WPA2_ENTERPRISE) \<and>
    get_wifiSecurityModeFromString ver (Some ''WPA-WPA2'') (Some enc)
      = Val (if aes then NET_WIFI_SECURITY_WPA_WPA2_PSK else NET_WIFI_SECURITY_WPA2_ENTERPRISE_AES) \<and>
    get_wifiSecurityModeFromString ver (Some ''None'') (Some enc)
      = (if aes then Val NET_WIFI_SECURITY_NONE else UB)"
proof -
  have get: "get_wifiSecurityModeFromString ver (Some (c # sec)) (Some enc) = mode_from_end (c # sec) enc 15" for c sec
    using assms(1) by (simp add: get_wifiSecurityModeFromString_def length_modes del: mode_from_end.simps)
  show ?thesis
    unfolding get mode_entries assms(2) by simp
qed

lemma no_aes: "strcasestr ''TKIP'' ''AES'' = False" "strcasestr ''-'' ''AES'' = False"
  by code_simp+

theorem security_mode_from_string_witness:
  "get_wifiSecurityModeFromString ''2.0.0'' (Some ''WPA2'') (Some ''TKIP'') = Val NET_WIFI_SECURITY_WPA2_PSK_TKIP \<and>
   get_wifiSecurityModeFromString ''2.0.0'' (Some ''None'') (Some ''-'') = UB"
  using security_mode_from_string [of "''2.0.0''" False "''TKIP''"] security_mode_from_string [of "''2.0.0''" False "''-''"]
  by (simp add: WIFI_HAL_VERSION_def no_aes)

end
