(* ===== verification/Wifi_Status.thy ===== *)
theory Wifi_Status
  imports Wifi_State
begin

text \<open>
  The behaviour of the HAL callback over whole runs: what a listener of the broadcast events knows, how
  the adapter status and the Lost and Found flags move together, and an abstract state machine that the
  callback refines.
\<close>

section \<open>What the callback keeps\<close>

text \<open>
  The globals that say where the device is connected: only the branches for a finished connection or
  disconnection and the status changes touch them.
\<close>

definition link :: "wifi \<Rightarrow> WiFiStatusCode \<times> WiFiLNFStatusCode \<times> bool \<times> bool \<times> bool \<times> string" where
  "link w = (gWifiAdopterStatus w, gWifiLNFStatus w, isLAFCurrConnectedssid w, switchLnf2Priv w, switchPriv2Lnf w, wifiConnData_ssid w)"

text \<open>What a listener makes of the broadcast events, from the status it knew before.\<close>

fun listen :: "WiFiStatusCode \<Rightarrow> wifi_out \<Rightarrow> WiFiStatusCode" where
  "listen st (StateChanged s) = s"
| "listen st (OnError e) = WIFI_DISCONNECTED"
| "listen st _ = st"

definition reported :: "WiFiStatusCode \<Rightarrow> wifi_out list \<Rightarrow> WiFiStatusCode" where
  "reported st es = foldl listen st es"

lemma reported_simps [simp]:
  "reported st [] = st" "reported st (es @ fs) = reported (reported st es) fs" "reported st (e # es) = reported (listen st e) es"
  by (simp_all add: reported_def)

text \<open>A step of the code that reports nothing and leaves the link alone.\<close>

definition quiet :: "wifi \<Rightarrow> wifi \<Rightarrow> bool" where
  "quiet w w' \<longleftrightarrow> link w' = link w \<and> (\<exists>es. w_trace w' = w_trace w @ es \<and> (\<forall>st. reported st es = st)) \<and>
     bShutdownWifi w' = bShutdownWifi w"

lemma quiet_refl [simp]: "quiet w w"
  by (simp add: quiet_def)

lemma quiet_trans: "quiet a b \<Longrightarrow> quiet b c \<Longrightarrow> quiet a c"
  unfolding quiet_def by (metis append.assoc reported_simps(2))

lemma quiet_reported: "quiet w w' \<Longrightarrow> reported st (w_trace w') = reported st (w_trace w)"
  by (auto simp: quiet_def)

lemma quiet_out: "(\<And>st. reported st es = st) \<Longrightarrow> quiet w (out es w)"
  by (auto simp: quiet_def out_def link_def)

lemma quiet_update [simp]:
  "quiet w (w' \<lparr> savedWiFiConnList := c \<rparr>) = quiet w w'" "quiet w (w' \<lparr> bStopLNFWhileDisconnected := b \<rparr>) = quiet w w'"
  "quiet w (w' \<lparr> bPrivConnectionLost := b \<rparr>) = quiet w w'" "quiet w (w' \<lparr> startLAF := b \<rparr>) = quiet w w'"
  "quiet w (w' \<lparr> deviceModel := s \<rparr>) = quiet w w'" "quiet w (w' \<lparr> deviceMake := s \<rparr>) = quiet w w'"
  "quiet w (w' \<lparr> deviceMACAddr := s \<rparr>) = quiet w w'" "quiet w (w' \<lparr> connCode_prev_state := cd \<rparr>) = quiet w w'"
  "quiet w (w' \<lparr> gWifiConnectionType := ct \<rparr>) = quiet w w'"
  by (simp_all add: quiet_def link_def)

lemma quiet_fetch: "quiet w (snd (fetch_saved env w))"
  by (auto simp: fetch_saved_def split: prod.split intro!: quiet_trans [OF _ quiet_out])

lemma quiet_hostif: "quiet w (setHostifParam n ty v w)"
  by (auto simp: setHostifParam_def split: prod.split intro!: quiet_out)

lemma quiet_xre: "quiet w (xre_refresh r w)"
  by (simp add: xre_refresh_def quiet_hostif)

lemma quiet_store: "quiet w (snd (storeMfrWifiCredentials env w))"
proof -
  obtain ok w1 where f: "fetch_saved env w = (ok, w1)" by fastforce
  then have q: "quiet w w1" using quiet_fetch [of w env] by simp
  have "quiet w1 (out [] w1)" "quiet w1 (out [MfrStore a b c] (out [] w1))" "quiet w1 (out [] (out [MfrStore a b c] (out [] w1)))" for a b c
    by (auto intro!: quiet_trans [OF _ quiet_out] quiet_out)
  then show ?thesis using q f by (auto simp: storeMfrWifiCredentials_def Let_def intro: quiet_trans)
qed

lemma quiet_changed: "quiet w (private_network_changed env w)"
proof -
  have q: "quiet w (xre_refresh 20 (snd (storeMfrWifiCredentials env w)))"
    by (rule quiet_trans [OF quiet_store quiet_xre])
  have "quiet v (out [DeleteInterfaceIp i, DeleteInterfaceRoutes i] v)"
    "quiet v (out [WSystem c] (out [DeleteInterfaceIp i, DeleteInterfaceRoutes i] v))" for v i c
    by (auto intro!: quiet_trans [OF _ quiet_out] quiet_out)
  then show ?thesis using q
    by (auto simp: private_network_changed_def Let_def split: option.split intro: quiet_trans)
qed

lemma quiet_lease: "quiet w (renew_lease env same w)"
  by (auto simp: renew_lease_def intro!: quiet_out)

lemma quiet_lost: "quiet w (private_lost env w)"
  by (simp add: private_lost_def lnfConnectPrivCredentials_def signalStartLAF_def)

lemma link_fields:
  "quiet w w' \<Longrightarrow> gWifiAdopterStatus w' = gWifiAdopterStatus w \<and> gWifiLNFStatus w' = gWifiLNFStatus w \<and>
     isLAFCurrConnectedssid w' = isLAFCurrConnectedssid w \<and> switchLnf2Priv w' = switchLnf2Priv w \<and>
     switchPriv2Lnf w' = switchPriv2Lnf w \<and> wifiConnData_ssid w' = wifiConnData_ssid w"
  by (simp add: quiet_def link_def)

lemma connected_private_effect:
  "link (connected_private env same w)
     = (gWifiAdopterStatus w, CONNECTED_PRIVATE, False, False, True, wifiConnData_ssid w) \<and>
   reported st (w_trace (connected_private env same w)) = reported st (w_trace w)"
proof -
  let ?w0 = "w \<lparr> isLAFCurrConnectedssid := False, gWifiLNFStatus := CONNECTED_PRIVATE, bStopLNFWhileDisconnected := False \<rparr>"
  define w1 where "w1 = snd (fetch_saved env ?w0)"
  define w2 where "w2 = w1 \<lparr> switchPriv2Lnf := True \<rparr>"
  define w3 where "w3 = (if switchLnf2Priv w2 then (xre_refresh 21 w2) \<lparr> switchLnf2Priv := False \<rparr> else w2)"
  have q1: "quiet ?w0 w1" unfolding w1_def by (rule quiet_fetch)
  have "link w3 = (gWifiAdopterStatus w, CONNECTED_PRIVATE, False, False, True, wifiConnData_ssid w)"
    using link_fields [OF q1] link_fields [OF quiet_xre [of w2 21]] by (simp add: w3_def w2_def link_def)
  moreover have "reported st (w_trace w3) = reported st (w_trace w)"
    using quiet_reported [OF q1, of st] quiet_reported [OF quiet_xre [of w2 21], of st] by (simp add: w3_def w2_def)
  ultimately show ?thesis
    unfolding connected_private_def Let_def w1_def [symmetric] w2_def [symmetric] w3_def [symmetric]
    by (simp add: out_def link_def)
qed

lemma on_connected_effect:
  assumes "lnf = laf_is_lnfssid env ap"
  shows "link (on_connected env ap same w)
     = (WIFI_CONNECTED, if lnf then CONNECTED_LNF else CONNECTED_PRIVATE, lnf, lnf, \<not> lnf, snprintf_to SSID_SIZE ap) \<and>
   reported st (w_trace (on_connected env ap same w)) = reported st (w_trace w)"
proof -
  define w1 where "w1 = set_WiFiStatusCode WIFI_CONNECTED w"
  define w2 where "w2 = (if \<not> laf_is_lnfssid env ap \<and> ssid (savedWiFiConnList w1) \<noteq> ap then private_network_changed env w1 else w1)"
  define w3 where "w3 = renew_lease env same w2"
  define w4 where "w4 = w3 \<lparr> wifiConnData_ssid := snprintf_to SSID_SIZE ap \<rparr>"
  define w5 where "w5 = (if \<not> laf_is_lnfssid env ap then connected_private env same w4 else connected_lnf w4)"
  have q: "quiet w1 w3"
    unfolding w3_def by (rule quiet_trans [OF _ quiet_lease]) (simp add: w2_def quiet_changed)
  have "gWifiAdopterStatus w4 = WIFI_CONNECTED" "wifiConnData_ssid w4 = snprintf_to SSID_SIZE ap"
    "reported st (w_trace w4) = reported st (w_trace w)"
    using link_fields [OF q] quiet_reported [OF q, of st] by (simp_all add: w4_def w1_def set_WiFiStatusCode_def)
  then have "link w5 = (WIFI_CONNECTED, if lnf then CONNECTED_LNF else CONNECTED_PRIVATE, lnf, lnf, \<not> lnf, snprintf_to SSID_SIZE ap)"
    "reported st (w_trace w5) = reported st (w_trace w)"
    using connected_private_effect [of env same w4 st] assms
    by (simp_all add: w5_def connected_lnf_def setLNFState_def link_def)
  then show ?thesis
    unfolding on_connected_def Let_def w1_def [symmetric] w2_def [symmetric] w3_def [symmetric] w4_def [symmetric] w5_def [symmetric]
    by (simp add: out_def link_def)
qed

lemma wifi_status_action_link:
  "link (wifi_status_action env code ap action w) = link (fst (status_branch env code ap action w))"
  "w_trace (wifi_status_action env code ap action w)
     = w_trace (fst (status_branch env code ap action w)) @ snd (status_branch env code ap action w)"
  by (auto simp: wifi_status_action_def Let_def link_def out_def split: prod.split)

fun known_code :: "hal_code \<Rightarrow> bool" where
  "known_code WIFI_HAL_ERROR_UNKNOWN = False"
| "known_code (HAL_Other n) = False"
| "known_code _ = True"

text \<open>Other branches change at most the status, to the one that is reported.\<close>

lemma other_branches:
  assumes "known_code code" and "code \<noteq> WIFI_HAL_SUCCESS"
  shows "\<exists>st. link (fst (status_branch env code ap action w)) = link (w \<lparr> gWifiAdopterStatus := st \<rparr>) \<and> st \<noteq> WIFI_CONNECTED \<and>
       (\<forall>s. reported s (w_trace (fst (status_branch env code ap action w)) @ snd (status_branch env code ap action w)) = st)
     \<or> status_branch env code ap action w = (w, [])"
proof -
  have l: "link (private_lost env v) = link v" "reported s (w_trace (private_lost env v)) = reported s (w_trace v)" for v s
    using quiet_lost [of v env] quiet_reported [OF quiet_lost [of v env]] by (simp_all add: quiet_def)
  show ?thesis
    using assms by (cases code) (auto simp: status_branch_def Let_def l set_WiFiStatusCode_def)
qed

section \<open>Invariants of the callbacks\<close>

definition status_inv :: "WiFiStatusCode \<Rightarrow> wifi \<Rightarrow> bool" where
  "status_inv st0 w \<longleftrightarrow> reported st0 (w_trace w) = gWifiAdopterStatus w"

definition switch_inv :: "wifi \<Rightarrow> bool" where
  "switch_inv w \<longleftrightarrow> switchLnf2Priv w = isLAFCurrConnectedssid w"

definition network_inv :: "wifi_env \<Rightarrow> wifi \<Rightarrow> bool" where
  "network_inv env w \<longleftrightarrow> (gWifiAdopterStatus w = WIFI_CONNECTED \<longrightarrow>
     isLAFCurrConnectedssid w = laf_is_lnfssid env (wifiConnData_ssid w) \<and>
     gWifiLNFStatus w = (if isLAFCurrConnectedssid w then CONNECTED_LNF else CONNECTED_PRIVATE))"

text \<open>A callback either finishes a connection, finishes a disconnection, changes the status only, or is ignored.\<close>

lemma callback_cases:
  obtains (conn) ap where "c = (WIFI_HAL_SUCCESS, ap, ACTION_ON_CONNECT)"
    "link (callback env w c) = (WIFI_CONNECTED, if laf_is_lnfssid env ap then CONNECTED_LNF else CONNECTED_PRIVATE,
        laf_is_lnfssid env ap, laf_is_lnfssid env ap, \<not> laf_is_lnfssid env ap, snprintf_to SSID_SIZE ap)"
    "\<And>st. reported st (w_trace (callback env w c)) = WIFI_CONNECTED"
  | (disc) ap where "c = (WIFI_HAL_SUCCESS, ap, ACTION_ON_DISCONNECT)"
    "link (callback env w c) = link (w \<lparr> gWifiAdopterStatus := WIFI_DISCONNECTED, wifiConnData_ssid := snprintf_to SSID_SIZE ap \<rparr>)"
    "\<And>st. reported st (w_trace (callback env w c)) = WIFI_DISCONNECTED"
  | (status) st where "link (callback env w c) = link (w \<lparr> gWifiAdopterStatus := st \<rparr>)" "st \<noteq> WIFI_CONNECTED"
    "\<And>s. reported s (w_trace (callback env w c)) = st"
  | (none) "link (callback env w c) = link w" "\<not> known_code (fst c) \<or> w_trace (callback env w c) = w_trace w"
proof -
  obtain code ap act where c: "c = (code, ap, act)" by (cases c)
  note act = wifi_status_action_link [of env code ap act w]
  consider "code = WIFI_HAL_SUCCESS" | "known_code code" "code \<noteq> WIFI_HAL_SUCCESS" | "\<not> known_code code" by blast
  then show ?thesis
  proof cases
    case 1
    show ?thesis
    proof (cases act)
      case ACTION_ON_CONNECT
      then show ?thesis
        using 1 act on_connected_effect [OF refl, of env ap] c
        by (intro conn [of ap]) (simp_all add: callback_def status_branch_def Let_def)
    next
      case ACTION_ON_DISCONNECT
      then show ?thesis
        using 1 act c
        by (intro disc [of ap]) (simp_all add: callback_def status_branch_def Let_def on_disconnected_def set_WiFiStatusCode_def link_def)
    qed
  next
    case 2
    from other_branches [OF this, of env ap act w] show ?thesis
      using act c status none by (fastforce simp: callback_def)
  next
    case 3
    then have "fst (status_branch env code ap act w) = w" by (cases code) (simp_all add: status_branch_def Let_def)
    then show ?thesis using act c 3 none by (simp add: callback_def)
  qed
qed

interpretation report: guarded_invariant "callback env" "status_inv st0" "\<lambda>c. known_code (fst c)"
proof
  fix w and c :: hal_callback assume "status_inv st0 w" "known_code (fst c)"
  then show "status_inv st0 (callback env w c)"
    by (cases rule: callback_cases [of c env w]) (auto simp: status_inv_def link_def)
qed

interpretation switch: step_invariant "callback env" switch_inv
proof
  fix w c assume "switch_inv w"
  then show "switch_inv (callback env w c)"
    by (cases rule: callback_cases [of c env w]) (auto simp: switch_inv_def link_def)
qed

interpretation network: guarded_invariant "callback env" "network_inv env" "\<lambda>c. length (fst (snd c)) < SSID_SIZE"
proof
  fix w and c :: hal_callback assume "network_inv env w" "length (fst (snd c)) < SSID_SIZE"
  then show "network_inv env (callback env w c)"
    by (cases rule: callback_cases [of c env w]) (auto simp: network_inv_def link_def)
qed

section \<open>Properties of the callbacks\<close>


text \<open>
  After any sequence of HAL callbacks from the start of the service: while the adapter is
  connected, the Lost and Found state and its flag say whether the network connected to is the Lost
  and Found network.
\<close>

theorem connected_network_known:
  assumes "\<forall>c\<in>set cs. length (fst (snd c)) < SSID_SIZE" and "w = foldl (callback env) initial_wifi cs"
    and "gWifiAdopterStatus w = WIFI_CONNECTED"
  shows "isLAFCurrConnectedssid w = laf_is_lnfssid env (wifiConnData_ssid w) \<and>
    gWifiLNFStatus w = (if laf_is_lnfssid env (wifiConnData_ssid w) then CONNECTED_LNF else CONNECTED_PRIVATE)"
proof -
  have "network_inv env initial_wifi" by (simp add: network_inv_def initial_wifi_def)
  from network.guarded_run [OF this assms(1)] show ?thesis using assms(2,3) by (simp add: network_inv_def)
qed

text \<open>The refreshes of the session with a given reason.\<close>

definition xre_event :: "u32 \<Rightarrow> wifi_out" where
  "xre_event r = SetHostif XRE_REFRESH_SESSION_WITH_RR (Some hostIf_BooleanType) (mem32 r)"

definition refreshes :: "u32 \<Rightarrow> wifi \<Rightarrow> nat" where
  "refreshes r w = length (filter (\<lambda>e. e = xre_event r) (w_trace w))"

lemma xre_refresh_trace: "w_trace (xre_refresh r w) = w_trace w @ [xre_event r]"
  by (simp add: xre_refresh_def setHostifParam_def hostif_message_def put_boolean_def out_def xre_event_def)

lemma xre_event_inj: "xre_event 20 \<noteq> xre_event 21"
  by (simp add: xre_event_def mem32_def)

lemma refreshes_out [simp]: "xre_event r \<notin> set es \<Longrightarrow> refreshes r (out es w) = refreshes r w"
  by (auto simp: refreshes_def out_def filter_empty_conv)

lemma refreshes_more [simp]:
  "refreshes r (w \<lparr> savedWiFiConnList := c \<rparr>) = refreshes r w" "refreshes r (w \<lparr> connCode_prev_state := cd \<rparr>) = refreshes r w"
  "refreshes r (w \<lparr> wifiConnData_ssid := s \<rparr>) = refreshes r w" "refreshes r (w \<lparr> gWifiAdopterStatus := st \<rparr>) = refreshes r w"
  by (simp_all add: refreshes_def)

lemma refreshes_fetch [simp]: "refreshes r (snd (fetch_saved env w)) = refreshes r w"
  by (simp add: fetch_saved_def split: prod.split)

lemma refreshes_changed [simp]: "refreshes 21 (private_network_changed env w) = refreshes 21 w"
proof -
  obtain ok w1 where f: "fetch_saved env w = (ok, w1)" by fastforce
  then have "refreshes 21 w1 = refreshes 21 w" using refreshes_fetch [of 21 env w] by simp
  then have "refreshes 21 (snd (storeMfrWifiCredentials env w)) = refreshes 21 w"
    by (auto simp: storeMfrWifiCredentials_def f Let_def xre_event_def)
  moreover have "refreshes 21 (xre_refresh 20 v) = refreshes 21 v" for v
    using xre_event_inj by (auto simp: refreshes_def xre_refresh_trace)
  ultimately show ?thesis
    by (auto simp: private_network_changed_def Let_def xre_event_def split: option.split)
qed

lemma refreshes_lease [simp]: "refreshes r (renew_lease env same w) = refreshes r w"
  by (auto simp: renew_lease_def xre_event_def)

lemma refreshes_private:
  "refreshes 21 (connected_private env same w) = refreshes 21 w + (if switchLnf2Priv w then 1 else 0)"
proof -
  let ?w0 = "w \<lparr> isLAFCurrConnectedssid := False, gWifiLNFStatus := CONNECTED_PRIVATE, bStopLNFWhileDisconnected := False \<rparr>"
  define w1 where "w1 = (snd (fetch_saved env ?w0)) \<lparr> switchPriv2Lnf := True \<rparr>"
  have "refreshes 21 w1 = refreshes 21 w" "switchLnf2Priv w1 = switchLnf2Priv w"
    using refreshes_fetch [of 21 env ?w0] link_fields [OF quiet_fetch [of ?w0 env]] by (simp_all add: w1_def refreshes_def)
  moreover have "refreshes 21 ((xre_refresh 21 w1) \<lparr> switchLnf2Priv := False \<rparr>) = refreshes 21 w1 + 1"
    by (simp add: refreshes_def xre_refresh_trace)
  moreover have "refreshes 21 (out [CollectAPDetails, InitializeDiscovery] (v \<lparr> deviceModel := [], deviceMake := [], deviceMACAddr := [] \<rparr>)) = refreshes 21 v" for v
    by (simp add: refreshes_def out_def xre_event_def)
  ultimately show ?thesis
    unfolding connected_private_def Let_def w1_def [symmetric] by simp
qed

lemma refreshes_lnf: "refreshes r (connected_lnf w) = refreshes r w"
  by (simp add: connected_lnf_def setLNFState_def refreshes_def)

lemma refreshes_connected:
  "refreshes 21 (on_connected env ap same w) = refreshes 21 w + (if \<not> laf_is_lnfssid env ap \<and> switchLnf2Priv w then 1 else 0)"
proof -
  define w1 where "w1 = set_WiFiStatusCode WIFI_CONNECTED w"
  define w2 where "w2 = (if \<not> laf_is_lnfssid env ap \<and> ssid (savedWiFiConnList w1) \<noteq> ap then private_network_changed env w1 else w1)"
  define w4 where "w4 = (renew_lease env same w2) \<lparr> wifiConnData_ssid := snprintf_to SSID_SIZE ap \<rparr>"
  have "quiet w1 (renew_lease env same w2)" by (rule quiet_trans [OF _ quiet_lease]) (simp add: w2_def quiet_changed)
  then have "switchLnf2Priv w4 = switchLnf2Priv w" "refreshes 21 w4 = refreshes 21 w"
    by (simp_all add: w4_def w2_def w1_def set_WiFiStatusCode_def link_fields)
  then show ?thesis
    unfolding on_connected_def Let_def w1_def [symmetric] w2_def [symmetric] w4_def [symmetric]
    by (simp add: xre_event_def refreshes_private refreshes_lnf)
qed


text \<open>The codes the callback acts on only when they differ from the code before.\<close>

definition once_codes :: "hal_code list" where
  "once_codes = [WIFI_HAL_ERROR_NOT_FOUND, WIFI_HAL_ERROR_TIMEOUT_EXPIRED, WIFI_HAL_ERROR_DEV_DISCONNECT, WIFI_HAL_ERROR_SSID_CHANGED,
     WIFI_HAL_ERROR_CONNECTION_LOST, WIFI_HAL_ERROR_CONNECTION_FAILED, WIFI_HAL_ERROR_CONNECTION_INTERRUPTED, WIFI_HAL_UNRECOVERABLE_ERROR]"

text \<open>
  A failure that repeats after a new connection attempt is swallowed: if the last callback had one
  of the codes handled once, a saving connect request was accepted since, and the same code comes
  again, the status stays at connecting and nothing is broadcast.
\<close>

theorem repeated_failure_ignored:
  assumes "code \<in> set once_codes"
    and "connect_withSSID env s mode key True ct (wifi_status_action env code ap act w) = (True, w')"
  shows "gWifiAdopterStatus (wifi_status_action env code ap' act' w') = WIFI_CONNECTING \<and>
    w_trace (wifi_status_action env code ap' act' w') = w_trace w'"
proof -
  have "connCode_prev_state (wifi_status_action env code ap act w) = code"
    by (simp add: wifi_status_action_def Let_def out_def split: prod.split)
  then have "connCode_prev_state w' = code" "gWifiAdopterStatus w' = WIFI_CONNECTING"
    using assms(2) by (auto simp: connect_withSSID_def Let_def set_WiFiConnectionType_def broadcast_state_def
        set_WiFiStatusCode_def out_def split: if_splits)
  then show ?thesis
    using assms(1) by (auto simp: once_codes_def wifi_status_action_def status_branch_def Let_def)
qed

text \<open>
  A saving connect request that the HAL rejects announces the failed state, but the status of the
  adapter stays at connecting.
\<close>

theorem rejected_connect_status:
  assumes "connect_withSSID env s mode key True ct w = (False, w')"
  shows "reported st (w_trace w') = WIFI_FAILED \<and> gWifiAdopterStatus w' = WIFI_CONNECTING"
  using assms by (auto simp: connect_withSSID_def Let_def set_WiFiConnectionType_def broadcast_state_def
      set_WiFiStatusCode_def out_def split: if_splits)

text \<open>
  Storing credentials: they are written exactly when the stored ones differ from those of the last
  connection, and the result is true exactly when the stored ones were equal at the start or the write
  was accepted and reads back equal.
\<close>

theorem storeMfr_verified:
  assumes "w_lastConnected env (w_tick w) = Some p"
    and "same = (\<lambda>t. \<exists>m. w_mfr_get env t = Some m \<and> mfr_matches m (paired_connection p))"
    and "storeMfrWifiCredentials env w = (ok, w')"
  shows "ok = (same (w_tick w + 1) \<or> w_mfr_set env (w_tick w + 2) \<and> same (w_tick w + 3)) \<and>
    savedWiFiConnList w' = paired_connection p \<and>
    w_trace w' = w_trace w @ (if same (w_tick w + 1) then []
      else [MfrStore (ssid (paired_connection p)) (passphrase (paired_connection p)) (security_mode (paired_connection p))])"
proof -
  have f: "fetch_saved env w = (True, out [] (w \<lparr> savedWiFiConnList := paired_connection p \<rparr>))"
    using assms(1) by (simp add: fetch_saved_def lastConnectedSSID_def)
  show ?thesis
    using assms(3) unfolding assms(2) storeMfrWifiCredentials_def f Let_def
    by (auto simp: out_def eval_nat_numeral split: option.splits if_splits)
qed

section \<open>The abstract connection machine\<close>

text \<open>
  The promise of the callback without credentials, addresses and bookkeeping: the adapter status, the
  code handled last and whether the network connected last is the Lost and Found network.
\<close>

record radio =
  r_status :: WiFiStatusCode
  r_code :: hal_code
  r_on_lnf :: bool

fun status_after :: "hal_code \<Rightarrow> WiFiStatusCode option" where
  "status_after WIFI_HAL_CONNECTING = Some WIFI_CONNECTING"
| "status_after WIFI_HAL_UNRECOVERABLE_ERROR = Some WIFI_FAILED"
| "status_after WIFI_HAL_DISCONNECTING = None"
| "status_after WIFI_HAL_ERROR_UNKNOWN = None"
| "status_after (HAL_Other n) = None"
| "status_after WIFI_HAL_SUCCESS = None"
| "status_after _ = Some WIFI_DISCONNECTED"

definition radio_step :: "wifi_env \<Rightarrow> radio \<Rightarrow> hal_callback \<Rightarrow> radio" where
  "radio_step env r c = (case c of (code, ap, action) \<Rightarrow>
     let r' = r \<lparr> r_code := code \<rparr> in
     if code = WIFI_HAL_SUCCESS
     then (case action of
         ACTION_ON_CONNECT \<Rightarrow> r' \<lparr> r_status := WIFI_CONNECTED, r_on_lnf := laf_is_lnfssid env ap \<rparr>
       | ACTION_ON_DISCONNECT \<Rightarrow> r' \<lparr> r_status := WIFI_DISCONNECTED \<rparr>)
     else if code \<in> set once_codes \<and> r_code r = code then r'
     else (case status_after code of Some st \<Rightarrow> r' \<lparr> r_status := st \<rparr> | None \<Rightarrow> r'))"

definition radio_of :: "wifi \<Rightarrow> radio" where
  "radio_of w = \<lparr> r_status = gWifiAdopterStatus w, r_code = connCode_prev_state w, r_on_lnf = isLAFCurrConnectedssid w \<rparr>"

lemma radio_of_action:
  "radio_of (wifi_status_action env code ap act w)
     = (radio_of (fst (status_branch env code ap act w))) \<lparr> r_code := code \<rparr>"
  by (simp add: wifi_status_action_def radio_of_def Let_def out_def split: prod.split)

lemma private_lost_radio: "radio_of (private_lost env w) = radio_of w"
  by (simp add: private_lost_def lnfConnectPrivCredentials_def signalStartLAF_def radio_of_def)

lemma callback_radio: "radio_of (callback env w c) = radio_step env (radio_of w) c"
proof -
  obtain code ap act where c: "c = (code, ap, act)" by (cases c)
  show ?thesis
  proof (cases "code = WIFI_HAL_SUCCESS")
    case True
    have "radio_of (on_connected env ap same w) = \<lparr> r_status = WIFI_CONNECTED,
        r_code = connCode_prev_state (on_connected env ap same w), r_on_lnf = laf_is_lnfssid env ap \<rparr>" for same
      using on_connected_effect [OF refl, of env ap same w] by (simp add: link_def radio_of_def)
    moreover have "radio_of (on_disconnected ap w) = (radio_of w) \<lparr> r_status := WIFI_DISCONNECTED \<rparr>"
      by (simp add: radio_of_def on_disconnected_def set_WiFiStatusCode_def)
    ultimately show ?thesis
      using True c by (cases act) (simp_all add: callback_def radio_of_action status_branch_def radio_step_def Let_def)
  next
    case False
    have "radio_of (set_WiFiStatusCode st v) = (radio_of v) \<lparr> r_status := st \<rparr>" for st v
      by (simp add: radio_of_def set_WiFiStatusCode_def)
    moreover have "r_code (radio_of w) = connCode_prev_state w" by (simp add: radio_of_def)
    ultimately show ?thesis
      using False c by (cases code) (simp_all add: callback_def radio_of_action status_branch_def radio_step_def Let_def
          once_codes_def private_lost_radio)
  qed
qed

interpretation radio: simulation "callback env" "\<lambda>_. True" "radio_step env" radio_of
  by unfold_locales (simp_all add: callback_radio)

text \<open>
  C2.  The callback implements the abstract connection machine: along every sequence of HAL callbacks
  the status, the last code and the kind of network evolve as the machine says, whatever the
  credentials, files and other services do.
\<close>

theorem wifi_callback_refines:
  "radio_of (foldl (callback env) w cs) = foldl (radio_step env) (radio_of w) cs"
  by (rule radio.run_refines) simp

section \<open>Witnesses\<close>

definition sample_wifi_conf :: wifiMgrConfigProps where
  "sample_wifi_conf = wifiProps sample_conf"

definition sample_wifi_env :: wifi_env where
  "sample_wifi_env = \<lparr> w_os = sample_os, w_conf = sample_wifi_conf, laf_is_lnfssid = (\<lambda>s. s = ''LNF''),
     w_connectEndpoint = (\<lambda>_ s. if s = ''gone'' then -1 else 0), w_disconnectEndpoint = (\<lambda>_ _. 0),
     w_lastConnected = (\<lambda>_. Some \<lparr> ap_ssid = ''home'', ap_passphrase = ''secret'', ap_bssid = [], ap_security = ''WPA-PSK'', ap_wep_key = [] \<rparr>),
     w_wpsPush = (\<lambda>_. 0), w_wpsPin = (\<lambda>_ _. 0), w_mfr_pin = None,
     w_mfr_get = (\<lambda>t. if t < 2 then None else Some (''home'', ''secret'', None)), w_mfr_set = (\<lambda>_. True), w_arrivals = (\<lambda>_. []) \<rparr>"


theorem connected_network_known_witness:
  "gWifiLNFStatus (foldl (callback sample_wifi_env) initial_wifi [(WIFI_HAL_SUCCESS, ''LNF'', ACTION_ON_CONNECT)]) = CONNECTED_LNF"
proof -
  let ?w = "foldl (callback sample_wifi_env) initial_wifi [(WIFI_HAL_SUCCESS, ''LNF'', ACTION_ON_CONNECT)]"
  have "link (on_connected sample_wifi_env ''LNF'' same initial_wifi)
      = (WIFI_CONNECTED, CONNECTED_LNF, True, True, False, ''LNF'')" for same
    using on_connected_effect [of True sample_wifi_env "''LNF''" same initial_wifi]
    by (simp add: sample_wifi_env_def SSID_SIZE_def)
  then have "gWifiAdopterStatus ?w = WIFI_CONNECTED" "wifiConnData_ssid ?w = ''LNF''"
    using wifi_status_action_link(1) [of sample_wifi_env WIFI_HAL_SUCCESS "''LNF''" ACTION_ON_CONNECT initial_wifi]
    by (simp_all add: callback_def status_branch_def Let_def link_def)
  then show ?thesis
    using connected_network_known [OF _ refl, of "[(WIFI_HAL_SUCCESS, ''LNF'', ACTION_ON_CONNECT)]" sample_wifi_env]
    by (simp add: SSID_SIZE_def sample_wifi_env_def)
qed

theorem repeated_failure_ignored_witness:
  "\<exists>w'. connect_withSSID sample_wifi_env ''home'' NET_WIFI_SECURITY_WPA2_PSK_AES ''secret'' True WIFI_CON_PRIVATE
       (wifi_status_action sample_wifi_env WIFI_HAL_ERROR_CONNECTION_LOST ''home'' ACTION_ON_CONNECT initial_wifi) = (True, w') \<and>
     gWifiAdopterStatus (wifi_status_action sample_wifi_env WIFI_HAL_ERROR_CONNECTION_LOST ''home'' ACTION_ON_CONNECT w') = WIFI_CONNECTING"
proof -
  let ?w = "wifi_status_action sample_wifi_env WIFI_HAL_ERROR_CONNECTION_LOST ''home'' ACTION_ON_CONNECT initial_wifi"
  obtain w' where w': "connect_withSSID sample_wifi_env ''home'' NET_WIFI_SECURITY_WPA2_PSK_AES ''secret'' True WIFI_CON_PRIVATE ?w = (True, w')"
    by (simp add: connect_withSSID_def Let_def sample_wifi_env_def)
  show ?thesis
    using repeated_failure_ignored [OF _ w', of "''home''" ACTION_ON_CONNECT] w' by (auto simp: once_codes_def)
qed

theorem rejected_connect_status_witness:
  "\<exists>w'. connect_withSSID sample_wifi_env ''gone'' NET_WIFI_SECURITY_NONE [] True WIFI_CON_PRIVATE initial_wifi = (False, w') \<and>
     gWifiAdopterStatus w' = WIFI_CONNECTING"
proof -
  obtain w' where w': "connect_withSSID sample_wifi_env ''gone'' NET_WIFI_SECURITY_NONE [] True WIFI_CON_PRIVATE initial_wifi = (False, w')"
    by (simp add: connect_withSSID_def Let_def sample_wifi_env_def)
  show ?thesis using rejected_connect_status [OF w'] w' by blast
qed

theorem storeMfr_verified_witness:
  "\<exists>w'. storeMfrWifiCredentials sample_wifi_env initial_wifi = (True, w') \<and>
     w_trace w' = [MfrStore ''home'' ''secret'' NET_WIFI_SECURITY_WPA3_SAE]"
proof -
  let ?p = "\<lparr> ap_ssid = ''home'', ap_passphrase = ''secret'', ap_bssid = [], ap_security = ''WPA-PSK'', ap_wep_key = [] \<rparr>"
  have p: "ssid (paired_connection ?p) = ''home''" "passphrase (paired_connection ?p) = ''secret''"
    "security_mode (paired_connection ?p) = NET_WIFI_SECURITY_WPA3_SAE"
    by (simp_all add: paired_connection_def Let_def SSID_SIZE_def PASSPHRASE_BUFF_def BUFF_LENGTH_64_def paired_security_mode_def
        contains_def starts_with_def)
  have l: "w_lastConnected sample_wifi_env (w_tick initial_wifi) = Some ?p" by (simp add: sample_wifi_env_def)
  obtain ok w' where r: "storeMfrWifiCredentials sample_wifi_env initial_wifi = (ok, w')" by fastforce
  from storeMfr_verified [OF l refl r] show ?thesis
    using r p by (simp add: sample_wifi_env_def mfr_matches_def initial_wifi_def eval_nat_numeral)
qed

end
