(* ===== verification/Lost_Found.thy ===== *)
theory Lost_Found
  imports Complex_Main Wifi_Status
begin

text \<open>
  Lost and Found of \<^verbatim>\<open>wifiHalUtiles.cpp\<close>: a device without working credentials joins a special network,
  asks a server for the credentials of the private one and switches over.  The file models the two
  callbacks the Lost and Found library makes (connect and disconnect), a run of that library, the two
  worker threads with their loops, the start of the service and the activation state of the device.

  The library itself, its server, the authentication service and the manufacturer data are
  parameters.  A run of the library is the sequence of callbacks it makes and a result that depends on
  what they return; every sleep is a \<^term>\<open>wait_round\<close>, in which callbacks and events arrive.
\<close>

section \<open>State and environment\<close>

record laf_cred =
  cred_ssid :: string
  cred_passphrase :: string
  cred_mode :: SsidSecurity

datatype laf_call = Laf_Connect laf_cred | Laf_Disconnect

datatype LAF_REQUEST_TYPE = LAF_REQUEST_CONNECT_TO_LFSSID | LAF_REQUEST_CONNECT_TO_PRIV_WIFI | LAF_REQUEST_SWITCH_TO_PRIVATE

text \<open>
  The globals of Lost and Found beside those of the connection: the requested back-off in seconds, the
  time (seconds and nanoseconds) of the last contact with the server, the results kept for manual
  switching, whether the last run succeeded, and the device identity.
\<close>

record laf =
  laf_wifi :: wifi
  backoff :: real
  last_lnf_server_contact_time :: "int \<times> int"
  lstLnfPvtResults :: "(string \<times> u8) list"
  bLastLnfSuccess :: bool
  deviceID :: string
  partnerID :: string

record laf_env =
  l_wifi :: wifi_env
  l_glib :: glib
  l_malloc_ops :: "nat \<Rightarrow> bool"
  l_malloc_info :: "nat \<Rightarrow> bool"
  l_mfrData :: "string \<Rightarrow> string option"
  l_config_new :: "nat \<Rightarrow> int"
  l_client_new :: "nat \<Rightarrow> int"
  l_calls :: "nat \<Rightarrow> LAF_REQUEST_TYPE \<Rightarrow> laf_call list"
  l_start :: "nat \<Rightarrow> int list \<Rightarrow> int \<times> real"
  l_NO_RESPONSE :: int
  l_now :: "nat \<Rightarrow> int \<times> int"
  l_time :: "nat \<Rightarrow> string"
  l_curl :: "nat \<Rightarrow> string"
  l_warehouse :: bool

definition EPERM :: int where "EPERM = 1"

definition on_wifi :: "(wifi \<Rightarrow> wifi) \<Rightarrow> laf \<Rightarrow> laf" where
  "on_wifi f s = s \<lparr> laf_wifi := f (laf_wifi s) \<rparr>"

definition laf_wait :: "laf_env \<Rightarrow> laf \<Rightarrow> laf" where
  "laf_wait env s = on_wifi (wait_round (l_wifi env)) s"

definition laf_set :: "WiFiLNFStatusCode \<Rightarrow> laf \<Rightarrow> laf" where
  "laf_set st s = on_wifi (setLNFState st) s"

abbreviation lnf_status :: "laf \<Rightarrow> WiFiLNFStatusCode" where
  "lnf_status s \<equiv> gWifiLNFStatus (laf_wifi s)"

section \<open>The callbacks of the library\<close>

text \<open>
  Waiting for the connection: the argument is the number of rounds left, one more than the configured
  retries at the start.  When none is left the wait has failed, even if the last sleep brought the
  connection.
\<close>

fun connect_wait :: "wifi_env \<Rightarrow> nat \<Rightarrow> wifi \<Rightarrow> int \<times> wifi" where
  "connect_wait env 0 w = (EPERM, w)"
| "connect_wait env (Suc n) w =
     (if isWifiConnected w then (0, w)
      else if bStopLNFWhileDisconnected w then (EPERM, w)
      else connect_wait env n (wait_round env w))"

text \<open>The request before the wait: whether it was made or a saved network was found, and the state.\<close>

definition laf_request :: "wifi_env \<Rightarrow> laf_cred \<Rightarrow> wifi \<Rightarrow> bool \<times> wifi" where
  "laf_request env wificred w =
     (let lnf = laf_is_lnfssid env (cred_ssid wificred);
          (retVal, w) = (if lnf then (False, w \<lparr> bLNFConnect := True \<rparr>) else fetch_saved env (w \<lparr> bLNFConnect := False \<rparr>)) in
      if gWifiLNFStatus w \<noteq> CONNECTED_PRIVATE
      then let w = setLNFState LNF_IN_PROGRESS w;
               w = (if bLNFConnect w then out [DisconnectEndpoint (wifiConnData_ssid w)] w else w)
           in connect_withSSID env (cred_ssid wificred) (cred_mode wificred) (cred_passphrase wificred)
                (\<not> bLNFConnect w) (if bLNFConnect w then WIFI_CON_LNF else WIFI_CON_PRIVATE) w
      else (retVal, w))"

definition laf_wifi_connect :: "wifi_env \<Rightarrow> laf_cred \<Rightarrow> wifi \<Rightarrow> int \<times> wifi" where
  "laf_wifi_connect env wificred w =
     (let lnf = laf_is_lnfssid env (cred_ssid wificred) in
      if lnf \<and> isLAFCurrConnectedssid w \<and> isWifiConnected w then (0, w)
      else if bStopLNFWhileDisconnected w then (EPERM, w)
      else (case laf_request env wificred w of (retVal, w) \<Rightarrow>
        if \<not> retVal then (EPERM, w)
        else (case connect_wait env (unat (lnfRetryCount (w_conf env)) + 1) w of (r, w) \<Rightarrow>
          if r \<noteq> 0 then (r, w) else (0, if \<not> lnf then setLNFState CONNECTED_PRIVATE w else w))))"

fun disconnect_wait :: "wifi_env \<Rightarrow> nat \<Rightarrow> wifi \<Rightarrow> int \<times> wifi" where
  "disconnect_wait env 0 w = (EPERM, w)"
| "disconnect_wait env (Suc n) w =
     (if gWifiAdopterStatus w = WIFI_DISCONNECTED then (0, w)
      else if bStopLNFWhileDisconnected w then (EPERM, w)
      else disconnect_wait env n (wait_round env w))"

text \<open>The return code of the HAL, 0 for success, is stored in a \<^verbatim>\<open>bool\<close> and taken as failure when false.\<close>

definition laf_wifi_disconnect :: "wifi_env \<Rightarrow> wifi \<Rightarrow> int \<times> wifi" where
  "laf_wifi_disconnect env w =
     (if \<not> isLAFCurrConnectedssid w then (0, w)
      else if bStopLNFWhileDisconnected w then (EPERM, w)
      else
        let ap = ssid (savedWiFiConnList w);
            retVal = (w_disconnectEndpoint env (w_tick w) ap \<noteq> 0);
            w = setLNFState LNF_IN_PROGRESS (out [DisconnectEndpoint ap] w) in
        if \<not> retVal then (EPERM, w) else disconnect_wait env 31 w)"

section \<open>Activation and device information\<close>

definition DEVICEID_SIZE :: nat where "DEVICEID_SIZE = 512"
definition PARTNERID_SIZE :: nat where "PARTNERID_SIZE = 128"

definition SCRIPT_FILE_TO_GET_DEVICE_ID :: string where
  "SCRIPT_FILE_TO_GET_DEVICE_ID = ''/lib/rdk/getDeviceId.sh''"

text \<open>
  Fetching the identity until it is not empty, at most four times; \<^term>\<open>None\<close> inside is the early return
  when the script fails.
\<close>

fun fetch_device_id :: "laf_env \<Rightarrow> nat \<Rightarrow> laf \<Rightarrow> (bool \<times> laf) res" where
  "fetch_device_id env 0 s = Val (True, s)"
| "fetch_device_id env (Suc n) s =
     (if deviceID s \<noteq> [] then Val (True, s)
      else
        let t = w_tick (laf_wifi s);
            got = (if os_file (w_os (l_wifi env)) SCRIPT_FILE_TO_GET_DEVICE_ID \<noteq> None
                   then snd (getCommandOutput (w_os (l_wifi env)) SCRIPT_FILE_TO_GET_DEVICE_ID 512)
                   else Some (l_curl env t)) in
        (case got of
           None \<Rightarrow> Val (False, s)
         | Some text \<Rightarrow>
             res_bind (strcpy_to DEVICEID_SIZE text) (\<lambda>id.
               let s = s \<lparr> deviceID := id \<rparr> in
               if n = 0 then Val (True, s) else fetch_device_id env n (laf_wait env s))))"

text \<open>The token three places after each token that contains a key; the last one counts.\<close>

fun tokens_after :: "glib \<Rightarrow> string \<Rightarrow> string list \<Rightarrow> string list" where
  "tokens_after g key [] = []"
| "tokens_after g key (t # ts) =
     (if g_strrstr g (g_strstrip g t) key \<and> 2 < length ts
      then g_strstrip g (ts ! 2) # tokens_after g key ts else tokens_after g key ts)"

definition id_tokens :: "laf_env \<Rightarrow> string \<Rightarrow> string list" where
  "id_tokens env text = g_strsplit_set (l_glib env) text (''{}:,'' @ [CHR 0x22])"

definition getDeviceActivationState :: "laf_env \<Rightarrow> laf \<Rightarrow> (bool \<times> laf) res" where
  "getDeviceActivationState env s =
     res_bind (fetch_device_id env 4 s) (\<lambda>(ok, s).
       if \<not> ok then Val (bDeviceActivated (laf_wifi s), s)
       else
         let tokens = id_tokens env (deviceID s);
             ids = tokens_after (l_glib env) ''deviceId'' tokens;
             partners = tokens_after (l_glib env) ''partnerId'' tokens in
         if list_ex (\<lambda>p. PARTNERID_SIZE \<le> length p) partners then UB
         else
           let s = (if ids = [] then s else s \<lparr> deviceID := last ids \<rparr>);
               s = (if list_ex (\<lambda>i. i \<noteq> []) ids then on_wifi (\<lambda>w. w \<lparr> bDeviceActivated := True \<rparr>) s else s);
               s = (if partners = [] then s else s \<lparr> partnerID := last partners \<rparr>) in
           Val (bDeviceActivated (laf_wifi s), s))"

text \<open>The device information; its fields are handed to the library and not kept here.\<close>

definition getDeviceInfo :: "laf_env \<Rightarrow> laf \<Rightarrow> (bool \<times> laf) res" where
  "getDeviceInfo env s =
     res_bind (if partnerID s = [] then res_bind (getDeviceActivationState env s) (\<lambda>(_, s). Val s) else Val s) (\<lambda>s.
       Val (\<forall>k \<in> set [''SERIALNUMBER'', ''DEVICEMAC'', ''MODELNAME'']. l_mfrData env k \<noteq> None, s))"

section \<open>A run of the library\<close>

definition laf_call_step :: "wifi_env \<Rightarrow> int list \<times> wifi \<Rightarrow> laf_call \<Rightarrow> int list \<times> wifi" where
  "laf_call_step env p c = (case p of (rs, w) \<Rightarrow>
     (case (case c of Laf_Connect cred \<Rightarrow> laf_wifi_connect env cred w | Laf_Disconnect \<Rightarrow> laf_wifi_disconnect env w) of
        (r, w) \<Rightarrow> (rs @ [r], w)))"

definition addSwitchToPrivateResults :: "int \<Rightarrow> string \<Rightarrow> laf \<Rightarrow> laf" where
  "addSwitchToPrivateResults err currTime s = s \<lparr> lstLnfPvtResults := lstLnfPvtResults s @ [(currTime, word_of_int err)] \<rparr>"

definition clearSwitchToPrivateResults :: "laf \<Rightarrow> laf" where
  "clearSwitchToPrivateResults s = s \<lparr> lstLnfPvtResults := [] \<rparr>"

text \<open>An allocation that fails returns \<^verbatim>\<open>ENOMEM\<close> from a function of type \<^verbatim>\<open>bool\<close>.\<close>

definition triggerLostFound :: "laf_env \<Rightarrow> LAF_REQUEST_TYPE \<Rightarrow> laf \<Rightarrow> (bool \<times> laf) res" where
  "triggerLostFound env req s =
     (let t = w_tick (laf_wifi s) in
      if \<not> l_malloc_ops env t \<or> \<not> l_malloc_info env t then Val (True, s)
      else res_bind (getDeviceInfo env s) (\<lambda>(bRet, s).
        if l_config_new env t \<noteq> 0 \<or> l_client_new env t \<noteq> 0 then Val (False, s)
        else (case foldl (laf_call_step (l_wifi env)) ([], laf_wifi s) (l_calls env t req) of (rs, w) \<Rightarrow>
          let (err, bo) = l_start env t rs;
              s = s \<lparr> laf_wifi := w, backoff := bo \<rparr>;
              s = (if err \<noteq> l_NO_RESPONSE env then s \<lparr> last_lnf_server_contact_time := l_now env (w_tick w) \<rparr> else s);
              bRet = (bRet \<and> err = 0);
              s = (if bAutoSwitchToPrivateEnabled w then s
                   else
                     let s = (if \<not> bRet \<and> bLastLnfSuccess s
                              then (clearSwitchToPrivateResults s) \<lparr> bLastLnfSuccess := False \<rparr> else s);
                         s = (if bRet then s \<lparr> bLastLnfSuccess := True \<rparr> else s)
                     in addSwitchToPrivateResults err (l_time env t) s)
          in Val (bRet, s))))"

section \<open>The worker threads\<close>

text \<open>
  The rest of the requested back-off, in seconds and as the argument of \<^verbatim>\<open>usleep\<close>: a \<^verbatim>\<open>float\<close> (here a real
  number) converted to 32 bits, which is undefined when its integral part does not fit.
\<close>

definition since_contact :: "int \<times> int \<Rightarrow> int \<times> int \<Rightarrow> real" where
  "since_contact contact now = real_of_int (fst now - fst contact) + real_of_int (snd now - snd contact) / 1000000000"

definition seconds_remaining_to_wait :: "laf_env \<Rightarrow> laf \<Rightarrow> real" where
  "seconds_remaining_to_wait env s =
     (let r = backoff s - since_contact (last_lnf_server_contact_time s) (l_now env (w_tick (laf_wifi s))) in
      if r \<le> 0 then 0 else r)"

definition backoff_usec :: "laf_env \<Rightarrow> laf \<Rightarrow> nat res" where
  "backoff_usec env s =
     (let us = nat \<lfloor>seconds_remaining_to_wait env s * 1000000\<rfloor> in if us < 2 ^ 32 then Val us else UB)"

definition doLnFBackoff :: "laf_env \<Rightarrow> laf \<Rightarrow> laf res" where
  "doLnFBackoff env s =
     (if 0 < backoff s then res_bind (backoff_usec env s) (\<lambda>us. Val (if 0 < us then laf_wait env s else s)) else Val s)"

text \<open>The request of an iteration; asking for a switch consumes the flag.\<close>

definition priv_request :: "laf \<Rightarrow> LAF_REQUEST_TYPE \<times> laf" where
  "priv_request s =
     (if bSwitch2Private (laf_wifi s) then (LAF_REQUEST_SWITCH_TO_PRIVATE, on_wifi (\<lambda>w. w \<lparr> bSwitch2Private := False \<rparr>) s)
      else if bAutoSwitchToPrivateEnabled (laf_wifi s) then (LAF_REQUEST_CONNECT_TO_PRIV_WIFI, s)
      else (LAF_REQUEST_CONNECT_TO_LFSSID, laf_set LNF_IN_PROGRESS s))"

text \<open>After a failed run: the last network is tried, and the back-off gets its default.\<close>

definition manual_connect :: "laf_env \<Rightarrow> laf \<Rightarrow> laf" where
  "manual_connect env s =
     (case fetch_saved (l_wifi env) (laf_wifi s) of (ok, w) \<Rightarrow>
       let c = savedWiFiConnList w;
           w = (if ok \<and> ssid c \<noteq> []
                then snd (connect_withSSID (l_wifi env) (ssid c) (security_mode c) (passphrase c) True WIFI_CON_PRIVATE w) else w);
           s = s \<lparr> laf_wifi := w \<rparr> in
       if backoff s = 0 then s \<lparr> backoff := real (unat (lnfRetryInSecs (w_conf (l_wifi env)))) \<rparr> else s)"

text \<open>The body of the loop of \<^verbatim>\<open>lafConnPrivThread\<close>: whether it breaks, and the state.\<close>

definition priv_body :: "laf_env \<Rightarrow> laf \<Rightarrow> (bool \<times> laf) res" where
  "priv_body env s =
     (case priv_request s of (req, s) \<Rightarrow>
       if bStopLNFWhileDisconnected (laf_wifi s) then Val (True, laf_set LNF_UNITIALIZED s)
       else if isWifiConnected (laf_wifi s) \<and> \<not> isLAFCurrConnectedssid (laf_wifi s)
       then Val (True, laf_set CONNECTED_PRIVATE s)
       else
         res_bind (doLnFBackoff env (on_wifi (\<lambda>w. w \<lparr> bIsStopLNFWhileDisconnected := False \<rparr>) s)) (\<lambda>s.
         if lnf_status s = CONNECTED_PRIVATE \<and> isWifiConnected (laf_wifi s) then Val (True, s)
         else
           let s = (if lnf_status s = LNF_UNITIALIZED then laf_set LNF_IN_PROGRESS s else s) in
           res_bind (triggerLostFound env req s) (\<lambda>(ok, s).
             if \<not> ok
             then if bStopLNFWhileDisconnected (laf_wifi s) then Val (True, laf_set LNF_UNITIALIZED s)
                  else Val (False, laf_wait env (manual_connect env s))
             else Val (True, if req = LAF_REQUEST_CONNECT_TO_LFSSID then laf_set CONNECTED_LNF s else s))))"

fun priv_loop :: "laf_env \<Rightarrow> nat \<Rightarrow> laf \<Rightarrow> laf option res" where
  "priv_loop env 0 s = Val None"
| "priv_loop env (Suc fuel) s =
     res_bind (priv_body env s) (\<lambda>(brk, s).
       if brk \<or> lnf_status s = CONNECTED_PRIVATE \<or> \<not> bAutoSwitchToPrivateEnabled (laf_wifi s) then Val (Some s)
       else priv_loop env fuel s)"

text \<open>
  One turn of the thread, \<^term>\<open>None\<close> when the fuel does not reach the end of its loop.  A thread that is
  not signalled stays blocked.
\<close>

definition lafConnPrivThread :: "laf_env \<Rightarrow> nat \<Rightarrow> laf \<Rightarrow> laf option res" where
  "lafConnPrivThread env fuel s =
     (let s = (if lnf_status s = CONNECTED_PRIVATE \<and> isWifiConnected (laf_wifi s)
               then on_wifi (\<lambda>w. w \<lparr> startLAF := False \<rparr>) s else s) in
      if \<not> startLAF (laf_wifi s) then Val (Some s)
      else
        let s = on_wifi (\<lambda>w. w \<lparr> startLAF := False \<rparr>) s;
            s = (if lnf_status s \<noteq> CONNECTED_LNF then laf_set LNF_IN_PROGRESS s else s);
            s = (if bPrivConnectionLost (laf_wifi s)
                 then laf_wait env (on_wifi (\<lambda>w. w \<lparr> bPrivConnectionLost := False \<rparr>) s) else s) in
        res_bind (priv_loop env fuel s) (\<lambda>r.
          Val (map_option (on_wifi (\<lambda>w. w \<lparr> bIsStopLNFWhileDisconnected := True \<rparr>)) r)))"

text \<open>
  The activation thread.  Its inner loop ends by reaching the Lost and Found network, by leaving the loop,
  or by ending the thread (\<^term>\<open>True\<close>).
\<close>

fun activation_inner :: "laf_env \<Rightarrow> nat \<Rightarrow> laf \<Rightarrow> (bool \<times> laf) option res" where
  "activation_inner env 0 s = Val None"
| "activation_inner env (Suc fuel) s =
     (if lnf_status s = CONNECTED_LNF then Val (Some (False, s))
      else
        let s = on_wifi (\<lambda>w. w \<lparr> bIsStopLNFWhileDisconnected := False \<rparr>) s;
            quit = on_wifi (\<lambda>w. w \<lparr> bIsStopLNFWhileDisconnected := True, bLnfActivationLoop := False \<rparr>) in
        if isWifiConnected (laf_wifi s)
        then Val (Some (if isLAFCurrConnectedssid (laf_wifi s) then (False, s) else (True, quit (laf_set CONNECTED_PRIVATE s))))
        else if bStopLNFWhileDisconnected (laf_wifi s) then Val (Some (True, laf_set LNF_UNITIALIZED (quit s)))
        else
          res_bind (doLnFBackoff env s) (\<lambda>s.
          if lnf_status s = CONNECTED_PRIVATE then Val (Some (False, s))
          else res_bind (triggerLostFound env LAF_REQUEST_CONNECT_TO_LFSSID s) (\<lambda>(ok, s).
            if ok then Val (Some (False, laf_set CONNECTED_LNF s))
            else if bStopLNFWhileDisconnected (laf_wifi s) then Val (Some (True, quit s))
            else activation_inner env fuel (laf_wait env s))))"

text \<open>The outer loop runs until the device is activated.\<close>

fun activation_outer :: "laf_env \<Rightarrow> nat \<Rightarrow> laf \<Rightarrow> laf option res" where
  "activation_outer env 0 s = Val None"
| "activation_outer env (Suc fuel) s =
     (if bDeviceActivated (laf_wifi s)
      then Val (Some (let s = on_wifi (\<lambda>w. w \<lparr> bLnfActivationLoop := False \<rparr>) s in
        if lnf_status s = CONNECTED_LNF
        then on_wifi (\<lambda>w. lnfConnectPrivCredentials (w \<lparr> bPrivConnectionLost := False \<rparr>)) s else s))
      else res_bind (activation_inner env fuel (on_wifi (\<lambda>w. w \<lparr> bLnfActivationLoop := True \<rparr>) s)) (\<lambda>r.
        case r of
          None \<Rightarrow> Val None
        | Some (True, s) \<Rightarrow> Val (Some s)
        | Some (False, s) \<Rightarrow>
            let s = laf_wait env (on_wifi (\<lambda>w. w \<lparr> bIsStopLNFWhileDisconnected := False \<rparr>) s);
                s = (if lnf_status s \<noteq> CONNECTED_PRIVATE \<and> \<not> isLAFCurrConnectedssid (laf_wifi s) \<and> isWifiConnected (laf_wifi s)
                     then laf_set CONNECTED_PRIVATE s else s) in
            if bStopLNFWhileDisconnected (laf_wifi s)
            then Val (Some (on_wifi (\<lambda>w. w \<lparr> bLnfActivationLoop := False \<rparr>) s))
            else activation_outer env fuel s))"

definition lafConnThread :: "laf_env \<Rightarrow> nat \<Rightarrow> laf \<Rightarrow> laf option res" where
  "lafConnThread env fuel s = activation_outer env fuel (laf_set LNF_IN_PROGRESS s)"

section \<open>Starting Lost and Found\<close>

definition startLAFIfNecessary :: "laf_env \<Rightarrow> laf \<Rightarrow> laf" where
  "startLAFIfNecessary env s =
     (let s = on_wifi (\<lambda>w. snd (fetch_saved (l_wifi env) w)) s;
          s = (if ssid (savedWiFiConnList (laf_wifi s)) \<noteq> []
               then on_wifi (\<lambda>w. snd (fetch_saved (l_wifi env) w)) (laf_wait env s) else s) in
      if \<not> laf_is_lnfssid (l_wifi env) (ssid (savedWiFiConnList (laf_wifi s))) \<and> isWifiConnected (laf_wifi s) then s
      else if l_warehouse env then s
      else on_wifi (\<lambda>w. (signalStartLAF w) \<lparr> bPrivConnectionLost := True \<rparr>) s)"

text \<open>Which of the two threads is started.\<close>

datatype laf_thread = Activation_Thread | Start_If_Necessary

definition connectToLAF :: "laf_env \<Rightarrow> laf \<Rightarrow> (laf_thread \<times> laf) res" where
  "connectToLAF env s =
     res_bind (getDeviceActivationState env s) (\<lambda>(activated, s).
       Val (if \<not> activated \<and> \<not> l_warehouse env then Activation_Thread else Start_If_Necessary, s))"

section \<open>The callbacks: outcome\<close>

lemma EPERM_nonzero [simp]: "EPERM \<noteq> 0" "0 \<noteq> EPERM"
  by (simp_all add: EPERM_def)

text \<open>The connection came up within a number of sleeps, with no request to stop before.\<close>

definition comes_up :: "wifi_env \<Rightarrow> nat \<Rightarrow> wifi \<Rightarrow> bool" where
  "comes_up env n w \<longleftrightarrow> (\<exists>k<n. isWifiConnected ((wait_round env ^^ k) w) \<and>
     (\<forall>i<k. \<not> bStopLNFWhileDisconnected ((wait_round env ^^ i) w)))"

lemma comes_up_0 [simp]: "\<not> comes_up env 0 w"
  by (simp add: comes_up_def)

lemma comes_up_Suc:
  "comes_up env (Suc n) w \<longleftrightarrow> isWifiConnected w \<or> \<not> bStopLNFWhileDisconnected w \<and> comes_up env n (wait_round env w)"
proof
  assume "comes_up env (Suc n) w"
  then obtain k where k: "k < Suc n" "isWifiConnected ((wait_round env ^^ k) w)"
    "\<forall>i<k. \<not> bStopLNFWhileDisconnected ((wait_round env ^^ i) w)" by (auto simp: comes_up_def)
  show "isWifiConnected w \<or> \<not> bStopLNFWhileDisconnected w \<and> comes_up env n (wait_round env w)"
  proof (cases k)
    case 0
    then show ?thesis using k(2) by simp
  next
    case (Suc m)
    have "\<forall>i<m. \<not> bStopLNFWhileDisconnected ((wait_round env ^^ i) (wait_round env w))"
      using k(3) Suc by (metis Suc_less_eq funpow_swap1 funpow_simps_right(2) comp_apply)
    then show ?thesis using k Suc by (auto simp: comes_up_def funpow_swap1 intro!: exI [of _ m])
  qed
next
  assume "isWifiConnected w \<or> \<not> bStopLNFWhileDisconnected w \<and> comes_up env n (wait_round env w)"
  then show "comes_up env (Suc n) w"
  proof
    assume "isWifiConnected w"
    then show ?thesis by (auto simp: comes_up_def intro!: exI [of _ 0])
  next
    assume a: "\<not> bStopLNFWhileDisconnected w \<and> comes_up env n (wait_round env w)"
    then obtain k where k: "k < n" "isWifiConnected ((wait_round env ^^ k) (wait_round env w))"
      "\<forall>i<k. \<not> bStopLNFWhileDisconnected ((wait_round env ^^ i) (wait_round env w))" by (auto simp: comes_up_def)
    have "\<not> bStopLNFWhileDisconnected ((wait_round env ^^ i) w)" if "i < Suc k" for i
      using that a k(3) by (cases i) (auto simp: funpow_swap1)
    then show ?thesis using k by (auto simp: comes_up_def funpow_swap1 intro!: exI [of _ "Suc k"])
  qed
qed

lemma connect_wait_result:
  "(fst (connect_wait env n w) = 0 \<longleftrightarrow> comes_up env n w) \<and> (fst (connect_wait env n w) = 0 \<or> fst (connect_wait env n w) = EPERM) \<and>
   (fst (connect_wait env n w) = 0 \<longrightarrow> isWifiConnected (snd (connect_wait env n w)))"
  by (induction env n w rule: connect_wait.induct) (auto simp: comes_up_Suc)

text \<open>
  C11.  The connect callback of Lost and Found succeeds exactly if the device already is on the Lost and
  Found network asked for, or the request was made and the connection comes up within the configured
  number of sleeps with no request to stop before.  On success the adapter is connected, and for a
  private network the Lost and Found state says so.
\<close>

theorem laf_wifi_connect_completes:
  assumes "laf_wifi_connect env cred w = (r, w')" and "lnf = laf_is_lnfssid env (cred_ssid cred)"
  shows "(r = 0 \<longleftrightarrow> lnf \<and> isLAFCurrConnectedssid w \<and> isWifiConnected w \<or>
      \<not> bStopLNFWhileDisconnected w \<and> fst (laf_request env cred w) \<and>
      comes_up env (unat (lnfRetryCount (w_conf env)) + 1) (snd (laf_request env cred w))) \<and>
    (r = 0 \<longrightarrow> isWifiConnected w' \<and> (\<not> lnf \<longrightarrow> gWifiLNFStatus w' = CONNECTED_PRIVATE))"
proof -
  obtain ok w1 where req: "laf_request env cred w = (ok, w1)" by fastforce
  define n where "n = unat (lnfRetryCount (w_conf env)) + 1"
  obtain q w2 where wait: "connect_wait env n w1 = (q, w2)" by fastforce
  have q: "q = 0 \<longleftrightarrow> comes_up env n w1" "q = 0 \<Longrightarrow> isWifiConnected w2"
    using connect_wait_result [of env n w1] by (auto simp: wait simp del: connect_wait.simps)
  have same: "isWifiConnected (v \<lparr> gWifiLNFStatus := st \<rparr>) = isWifiConnected v" for st v
    by (simp add: isWifiConnected_def)
  show ?thesis
    using assms q unfolding laf_wifi_connect_def Let_def n_def [symmetric]
    by (auto simp: req wait same EPERM_def setLNFState_def simp del: connect_wait.simps split: if_splits)
qed

text \<open>
  The disconnect callback takes success for failure: on the Lost and Found network, when the HAL
  accepts the disconnect request, the callback reports an error at once and does not wait for the
  disconnection.
\<close>

theorem laf_wifi_disconnect_rejects_success:
  assumes "isLAFCurrConnectedssid w" and "\<not> bStopLNFWhileDisconnected w"
    and "w_disconnectEndpoint env (w_tick w) (ssid (savedWiFiConnList w)) = RETURN_OK"
  shows "\<exists>w'. laf_wifi_disconnect env w = (EPERM, w') \<and> gWifiLNFStatus w' = LNF_IN_PROGRESS \<and>
    w_trace w' = w_trace w @ [DisconnectEndpoint (ssid (savedWiFiConnList w))]"
  using assms by (simp add: laf_wifi_disconnect_def Let_def RETURN_OK_def setLNFState_def out_def)

section \<open>The private thread\<close>


text \<open>
  An iteration of the private thread that fails and goes on leaves a back-off that is not zero, if
  a retry interval is configured: the next run waits.
\<close>

theorem failed_run_backs_off:
  assumes "priv_body env s = Val (False, s')" and "lnfRetryInSecs (w_conf (l_wifi env)) \<noteq> 0"
  shows "backoff s' \<noteq> 0"
proof -
  have n: "real (unat (lnfRetryInSecs (w_conf (l_wifi env)))) \<noteq> 0" using assms(2)
    by (simp only: of_nat_eq_0_iff unat_eq_0 not_False_eq_True)
  have "backoff (laf_wait env (manual_connect env v)) \<noteq> 0" for v
    using n by (simp add: laf_wait_def on_wifi_def manual_connect_def Let_def split: prod.split)
  then show ?thesis
    using assms(1) by (auto simp: priv_body_def Let_def res_bind_Val_iff split: prod.splits if_splits)
qed


text \<open>
  Out of memory counts as success: when the run of the library cannot allocate, the activation
  thread records that the device is on the Lost and Found network although no request was made.
\<close>

theorem out_of_memory_reports_lnf:
  assumes "lnf_status s \<notin> {CONNECTED_LNF, CONNECTED_PRIVATE}" and "\<not> isWifiConnected (laf_wifi s)"
    and "\<not> bStopLNFWhileDisconnected (laf_wifi s)" and "backoff s \<le> 0" and "\<not> l_malloc_ops env (w_tick (laf_wifi s))" and "0 < fuel"
  shows "\<exists>s'. activation_inner env fuel s = Val (Some (False, s')) \<and> lnf_status s' = CONNECTED_LNF \<and>
    w_trace (laf_wifi s') = w_trace (laf_wifi s)"
proof -
  obtain f where f: "fuel = Suc f" using assms(6) by (cases fuel) auto
  show ?thesis
    using assms(1-5) unfolding f
    by (auto simp: on_wifi_def isWifiConnected_def doLnFBackoff_def triggerLostFound_def laf_set_def setLNFState_def Let_def)
qed

section \<open>Witnesses\<close>

definition sample_laf_env :: laf_env where
  "sample_laf_env = \<lparr> l_wifi = sample_wifi_env, l_glib = sample_glib, l_malloc_ops = (\<lambda>t. 0 < t), l_malloc_info = (\<lambda>_. True),
     l_mfrData = (\<lambda>k. Some ''x''), l_config_new = (\<lambda>_. 0), l_client_new = (\<lambda>_. 0), l_calls = (\<lambda>_ _. []),
     l_start = (\<lambda>_ _. (1, 0)), l_NO_RESPONSE = 11, l_now = (\<lambda>t. (int t, 0)), l_time = (\<lambda>_. ''now''), l_curl = (\<lambda>_. []), l_warehouse = False \<rparr>"

definition sample_laf :: laf where
  "sample_laf = \<lparr> laf_wifi = initial_wifi, backoff = 0, last_lnf_server_contact_time = (0, 0), lstLnfPvtResults = [], bLastLnfSuccess = False,
     deviceID = ''T00'', partnerID = ''p'' \<rparr>"

theorem laf_wifi_connect_completes_witness:
  "\<exists>w'. laf_wifi_connect sample_wifi_env \<lparr> cred_ssid = ''home'', cred_passphrase = ''secret'', cred_mode = NET_WIFI_SECURITY_WPA2_PSK_AES \<rparr>
     (initial_wifi \<lparr> gWifiAdopterStatus := WIFI_CONNECTED, gWifiLNFStatus := CONNECTED_PRIVATE \<rparr>) = (0, w') \<and>
   isWifiConnected w' \<and> gWifiLNFStatus w' = CONNECTED_PRIVATE"
proof -
  let ?w = "initial_wifi \<lparr> gWifiAdopterStatus := WIFI_CONNECTED, gWifiLNFStatus := CONNECTED_PRIVATE \<rparr>"
  let ?c = "\<lparr> cred_ssid = ''home'', cred_passphrase = ''secret'', cred_mode = NET_WIFI_SECURITY_WPA2_PSK_AES \<rparr>"
  obtain r w' where r: "laf_wifi_connect sample_wifi_env ?c ?w = (r, w')" by fastforce
  have lnf: "\<not> laf_is_lnfssid sample_wifi_env (cred_ssid ?c)" by (simp add: sample_wifi_env_def)
  have "fst (laf_request sample_wifi_env ?c ?w) \<and> isWifiConnected (snd (laf_request sample_wifi_env ?c ?w))"
    by (simp add: laf_request_def sample_wifi_env_def initial_wifi_def fetch_saved_def lastConnectedSSID_def isWifiConnected_def out_def)
  moreover have "\<not> bStopLNFWhileDisconnected ?w" by (simp add: initial_wifi_def)
  ultimately have "r = 0 \<and> isWifiConnected w' \<and> gWifiLNFStatus w' = CONNECTED_PRIVATE"
    using laf_wifi_connect_completes [OF r refl] lnf by (auto simp: comes_up_def)
  then show ?thesis using r by blast
qed

theorem laf_wifi_disconnect_rejects_success_witness:
  "\<exists>w'. laf_wifi_disconnect sample_wifi_env (initial_wifi \<lparr> isLAFCurrConnectedssid := True \<rparr>) = (EPERM, w') \<and>
     gWifiLNFStatus w' = LNF_IN_PROGRESS"
  using laf_wifi_disconnect_rejects_success [of "initial_wifi \<lparr> isLAFCurrConnectedssid := True \<rparr>" sample_wifi_env]
  by (auto simp: initial_wifi_def sample_wifi_env_def RETURN_OK_def)


theorem failed_run_backs_off_witness:
  "\<exists>s'. priv_body sample_laf_env (sample_laf \<lparr> laf_wifi := initial_wifi \<lparr> w_tick := 1 \<rparr> \<rparr>) = Val (False, s') \<and> backoff s' \<noteq> 0"
proof -
  let ?s = "sample_laf \<lparr> laf_wifi := initial_wifi \<lparr> w_tick := 1 \<rparr> \<rparr>"
  have "\<exists>s'. priv_body sample_laf_env ?s = Val (False, s')"
    by (simp add: priv_body_def priv_request_def on_wifi_def sample_laf_env_def sample_laf_def initial_wifi_def isWifiConnected_def
        doLnFBackoff_def triggerLostFound_def getDeviceInfo_def laf_set_def setLNFState_def)
  moreover have "lnfRetryInSecs (w_conf (l_wifi sample_laf_env)) \<noteq> 0"
    by (simp add: sample_laf_env_def sample_wifi_env_def sample_wifi_conf_def sample_conf_def)
  ultimately show ?thesis using failed_run_backs_off [of sample_laf_env ?s] by blast
qed

theorem out_of_memory_reports_lnf_witness:
  "\<exists>s'. activation_inner sample_laf_env 1 sample_laf = Val (Some (False, s')) \<and> lnf_status s' = CONNECTED_LNF"
  using out_of_memory_reports_lnf [of sample_laf sample_laf_env 1]
  by (auto simp: initial_wifi_def sample_laf_def sample_laf_env_def isWifiConnected_def)


end
