(* ===== verification/Wifi_Scan.thy ===== *)
theory Wifi_Scan
  imports Lost_Found
begin

text \<open>
  Scanning for networks: the scans of \<^verbatim>\<open>wifiHalUtiles.cpp\<close> (all neighbours, one name on a band) that
  turn the list of the HAL into a JSON text, and the requests of \<^verbatim>\<open>wifiSrvMgr.cpp\<close> that serve it, at once,
  by an event, or band by band with a request to stop in between; and the results of Lost and Found as
  JSON.

  A cJSON document is a tree; printing it, checking the text and the conversion of a decimal string to
  a \<^verbatim>\<open>double\<close> are parameters.
\<close>

section \<open>Data\<close>

datatype cjson = JString string | JNumber real | JArray "cjson list" | JObject "(string \<times> cjson) list"

record neighbor_ap =
  ap_SSID :: string
  ap_SecurityModeEnabled :: string
  ap_EncryptionMode :: string
  ap_OperatingFrequencyBand :: string
  ap_SignalStrength :: int

datatype WIFI_HAL_FREQ_BAND = WIFI_HAL_FREQ_BAN_NONE | WIFI_HAL_FREQ_BAND_24GHZ | WIFI_HAL_FREQ_BAND_5GHZ

datatype IARM_Result = IARM_RESULT_SUCCESS | IARM_RESULT_INVALID_PARAM | IARM_RESULT_IPCCORE_FAIL

datatype scan_out =
    SetRadioScanningFreqList string
  | OnAvailableSSIDs string
  | OnAvailableSSIDsIncr string bool

record scan =
  scan_wifi :: wifi
  bStopProgressiveScanning :: bool
  scan_trace :: "scan_out list"

text \<open>
  The outside.  A scan answers with a code and an array; \<^verbatim>\<open>sc_stop\<close> says whether a client asks to stop
  while the scan of that tick runs, \<^verbatim>\<open>sc_char_signed\<close> whether the compiler's \<^verbatim>\<open>char\<close> is signed.
\<close>

record scan_env =
  sc_wifi :: wifi_env
  wifiHALVer :: string
  sc_neighbors :: "nat \<Rightarrow> int \<times> neighbor_ap list"
  sc_specific :: "nat \<Rightarrow> string \<Rightarrow> WIFI_HAL_FREQ_BAND \<Rightarrow> int \<times> neighbor_ap list"
  cJSON_create :: "nat \<Rightarrow> bool"
  cJSON_PrintUnformatted :: "cjson \<Rightarrow> string option"
  cJSON_parses :: "string \<Rightarrow> bool"
  sc_strtod :: "string \<Rightarrow> real"
  wifi_getDualBandSupport :: bool
  sc_stop :: "nat \<Rightarrow> bool"
  sc_char_signed :: bool

record ssid_param =
  jdata :: string
  jdataLen :: nat
  ssid_status :: bool

definition MAX_SSIDLIST_BUF :: nat where "MAX_SSIDLIST_BUF = 48 * 1024"

definition LNF_NON_SECURE_SSID :: string where "LNF_NON_SECURE_SSID = ''A16746DF2466410CA2ED9FB2E32FE7D9''"
definition LNF_SECURE_SSID :: string where "LNF_SECURE_SSID = ''D375C1D9F8B041E2A1995B784064977B''"

fun security_code :: "SsidSecurity \<Rightarrow> int" where
  "security_code NET_WIFI_SECURITY_NONE = 0"
| "security_code NET_WIFI_SECURITY_WEP_64 = 1"
| "security_code NET_WIFI_SECURITY_WEP_128 = 2"
| "security_code NET_WIFI_SECURITY_WPA_PSK_TKIP = 3"
| "security_code NET_WIFI_SECURITY_WPA_PSK_AES = 4"
| "security_code NET_WIFI_SECURITY_WPA2_PSK_TKIP = 5"
| "security_code NET_WIFI_SECURITY_WPA2_PSK_AES = 6"
| "security_code NET_WIFI_SECURITY_WPA_ENTERPRISE_TKIP = 7"
| "security_code NET_WIFI_SECURITY_WPA_ENTERPRISE_AES = 8"
| "security_code NET_WIFI_SECURITY_WPA2_ENTERPRISE_TKIP = 9"
| "security_code NET_WIFI_SECURITY_WPA2_ENTERPRISE_AES = 10"
| "security_code NET_WIFI_SECURITY_WPA_WPA2_PSK = 11"
| "security_code NET_WIFI_SECURITY_WPA_WPA2_ENTERPRISE = 12"
| "security_code NET_WIFI_SECURITY_WPA3_PSK_AES = 13"
| "security_code NET_WIFI_SECURITY_WPA3_SAE = 14"
| "security_code NET_WIFI_SECURITY_NOT_SUPPORTED = 99"

section \<open>Scans\<close>

definition listed_ap :: "neighbor_ap \<Rightarrow> bool" where
  "listed_ap a \<longleftrightarrow> ap_SSID a \<noteq> [] \<and> ap_SSID a \<noteq> LNF_NON_SECURE_SSID \<and> ap_SSID a \<noteq> LNF_SECURE_SSID"

definition ap_mode :: "scan_env \<Rightarrow> neighbor_ap \<Rightarrow> SsidSecurity res" where
  "ap_mode env a =
     (if wifiHALVer env = WIFI_HAL_VERSION
      then get_wifiSecurityModeFromString (wifiHALVer env) (Some (ap_EncryptionMode a)) None
      else get_wifiSecurityModeFromString (wifiHALVer env) (Some (ap_SecurityModeEnabled a)) (Some (ap_EncryptionMode a)))"

definition ap_element :: "scan_env \<Rightarrow> neighbor_ap \<Rightarrow> SsidSecurity \<Rightarrow> cjson" where
  "ap_element env a mode = JObject
     [(''ssid'', JString (ap_SSID a)), (''security'', JNumber (of_int (security_code mode))),
      (''signalStrength'', JNumber (of_int (ap_SignalStrength a))),
      (''frequency'', JNumber (sc_strtod env (ap_OperatingFrequencyBand a)))]"

fun ap_loop :: "scan_env \<Rightarrow> neighbor_ap list \<Rightarrow> cjson list res" where
  "ap_loop env [] = Val []"
| "ap_loop env (a # as) =
     (if listed_ap a
      then res_bind (ap_mode env a) (\<lambda>mode. res_bind (ap_loop env as) (\<lambda>es. Val (ap_element env a mode # es)))
      else ap_loop env as)"

text \<open>
  The part both scans share after the call of the HAL: the JSON text of the listed networks in the
  caller's buffer, which is empty before.
\<close>

definition scan_json :: "scan_env \<Rightarrow> string \<Rightarrow> nat \<Rightarrow> int \<times> neighbor_ap list \<Rightarrow> (bool \<times> string) res" where
  "scan_json env name t r = (case r of (ret, aps) \<Rightarrow>
     if ret \<noteq> RETURN_OK \<and> aps = [] then Val (False, [])
     else if \<not> cJSON_create env t then Val (False, [])
     else res_bind (ap_loop env aps) (\<lambda>es.
       case cJSON_PrintUnformatted env (JObject [(name, JArray es)]) of
         None \<Rightarrow> Val (False, [])
       | Some text \<Rightarrow>
           if \<not> cJSON_parses env text then Val (False, [])
           else if MAX_SSIDLIST_BUF \<le> length text then UB
           else Val (True, text)))"

definition scan_SpecificSSID_WifiAP :: "scan_env \<Rightarrow> string \<Rightarrow> real \<Rightarrow> nat \<Rightarrow> (bool \<times> string) res" where
  "scan_SpecificSSID_WifiAP env SSID freq_in t =
     (case (if freq_in = 2.4 then Some WIFI_HAL_FREQ_BAND_24GHZ
            else if freq_in = 5 then Some WIFI_HAL_FREQ_BAND_5GHZ
            else if freq_in = 0 then Some WIFI_HAL_FREQ_BAN_NONE else None) of
        None \<Rightarrow> Val (False, [])
      | Some band \<Rightarrow> scan_json env ''getAvailableSSIDsWithName'' t (sc_specific env t SSID band))"

text \<open>A scan on the Lost and Found network asks to leave it first.\<close>

definition scan_Neighboring_WifiAP :: "scan_env \<Rightarrow> wifi \<Rightarrow> (bool \<times> string \<times> wifi) res" where
  "scan_Neighboring_WifiAP env w =
     (let w = (if isWifiConnected w \<and> isLAFCurrConnectedssid w then out [DisconnectEndpoint (wifiConnData_ssid w)] w else w);
          t = w_tick w in
      res_bind (scan_json env ''getAvailableSSIDs'' t (sc_neighbors env t)) (\<lambda>(ok, text). Val (ok, text, out [] w)))"

section \<open>Requests\<close>

definition ssid_reply :: "bool \<times> string \<Rightarrow> ssid_param \<Rightarrow> IARM_Result \<times> ssid_param" where
  "ssid_reply r param = (case r of (ok, text) \<Rightarrow>
     if \<not> ok then (IARM_RESULT_IPCCORE_FAIL, param \<lparr> ssid_status := False \<rparr>)
     else if text \<noteq> [] then (IARM_RESULT_SUCCESS, param \<lparr> jdata := text, jdataLen := length text, ssid_status := True \<rparr>)
     else (IARM_RESULT_IPCCORE_FAIL, param \<lparr> ssid_status := False \<rparr>))"

definition getAvailableSSIDsWithName :: "scan_env \<Rightarrow> string \<Rightarrow> real \<Rightarrow> nat \<Rightarrow> ssid_param \<Rightarrow> (IARM_Result \<times> ssid_param) res" where
  "getAvailableSSIDsWithName env SSID frequency t param =
     res_bind (scan_SpecificSSID_WifiAP env (take 63 SSID) frequency t) (\<lambda>r. Val (ssid_reply r param))"

definition getAvailableSSIDs :: "scan_env \<Rightarrow> ssid_param \<Rightarrow> wifi \<Rightarrow> (IARM_Result \<times> ssid_param \<times> wifi) res" where
  "getAvailableSSIDs env param w =
     res_bind (scan_Neighboring_WifiAP env w) (\<lambda>(ok, text, w).
       case ssid_reply (ok, text) param of (ret, param) \<Rightarrow> Val (ret, param, w))"

definition no_param :: ssid_param where
  "no_param = \<lparr> jdata = [], jdataLen = 0, ssid_status = False \<rparr>"

definition scan_emit :: "scan_out list \<Rightarrow> scan \<Rightarrow> scan" where
  "scan_emit es s = s \<lparr> scan_trace := scan_trace s @ es \<rparr>"

text \<open>The thread behind \<^verbatim>\<open>getAvailableSSIDsAsync\<close>.\<close>

definition getAvailableSSIDsThread :: "scan_env \<Rightarrow> scan \<Rightarrow> scan res" where
  "getAvailableSSIDsThread env s =
     res_bind (getAvailableSSIDs env no_param (scan_wifi s)) (\<lambda>(ret, param, w).
       let s = s \<lparr> scan_wifi := w \<rparr> in
       Val (if ret = IARM_RESULT_SUCCESS
            then scan_emit [OnAvailableSSIDs (snprintf_to MAX_SSIDLIST_BUF (jdata param))] s else s))"

definition scanAndBroadcastResults :: "scan_env \<Rightarrow> bool \<Rightarrow> scan \<Rightarrow> (IARM_Result \<times> scan) res" where
  "scanAndBroadcastResults env moreData s =
     res_bind (getAvailableSSIDs env no_param (scan_wifi s)) (\<lambda>(ret, param, w).
       let s = s \<lparr> scan_wifi := w \<rparr> in
       Val (ret, if ret = IARM_RESULT_SUCCESS
            then scan_emit [OnAvailableSSIDsIncr (snprintf_to MAX_SSIDLIST_BUF (jdata param)) moreData] s else s))"

definition stopProgressiveWifiScanning :: "scan \<Rightarrow> scan" where
  "stopProgressiveWifiScanning s = s \<lparr> bStopProgressiveScanning := True \<rparr>"

section \<open>The progressive scan\<close>

definition FREQ_5_PREFERRED :: string where
  "FREQ_5_PREFERRED = ''5785 5180 5220 5240 5805 5745 5200 5500 5825''"
definition FREQ_24 :: string where
  "FREQ_24 = ''2412 2417 2422 2427 2432 2437 2442 2447 2452 2457 2462''"
definition FREQ_5_LOW :: string where
  "FREQ_5_LOW = ''5260 5280 5300 5320 5520 5540 5560 5580 5600 5620 5640 5660 5680 5700 5720 5765''"

text \<open>One band: its channels are selected and scanned, and a request to stop may arrive meanwhile.\<close>

definition scan_band :: "scan_env \<Rightarrow> string \<Rightarrow> bool \<Rightarrow> scan \<Rightarrow> scan res" where
  "scan_band env freq_list more_data s =
     (let t = w_tick (scan_wifi s) in
      res_bind (scanAndBroadcastResults env more_data (scan_emit [SetRadioScanningFreqList freq_list] s)) (\<lambda>(_, s).
        Val (if sc_stop env t then stopProgressiveWifiScanning s else s)))"

definition exit_scan :: "scan \<Rightarrow> scan" where
  "exit_scan s = scan_emit [SetRadioScanningFreqList ''0''] s"

definition getAvailableSSIDsIncrThread :: "scan_env \<Rightarrow> scan \<Rightarrow> scan res" where
  "getAvailableSSIDsIncrThread env s =
     res_bind (scan_band env FREQ_5_PREFERRED True (s \<lparr> bStopProgressiveScanning := False \<rparr>)) (\<lambda>s.
       if bStopProgressiveScanning s then Val (exit_scan s)
       else res_bind (if wifi_getDualBandSupport env then scan_band env FREQ_24 True s else Val s) (\<lambda>s.
         if bStopProgressiveScanning s then Val (exit_scan s)
         else res_bind (scan_band env FREQ_5_LOW False s) (\<lambda>s. Val (exit_scan s))))"

section \<open>Results of Lost and Found\<close>

text \<open>
  The length of the list goes through a \<^verbatim>\<open>char\<close>, whose sign depends on the target; the loop stops when
  it has counted down to zero or the length is negative.
\<close>

definition char_length :: "scan_env \<Rightarrow> nat \<Rightarrow> int" where
  "char_length env n = (let c = word_of_nat n :: u8 in if sc_char_signed env then sint c else uint c)"

definition results_shown :: "scan_env \<Rightarrow> (string \<times> u8) list \<Rightarrow> (string \<times> u8) list" where
  "results_shown env rs = take (nat (char_length env (length rs))) rs"

definition result_element :: "string \<times> u8 \<Rightarrow> cjson" where
  "result_element r = JObject [(''timestamp'', JString (fst r)), (''result'', JNumber (of_int (uint (snd r))))]"

definition convertSwitchToPrivateResultsToJson :: "scan_env \<Rightarrow> nat \<Rightarrow> (string \<times> u8) list \<Rightarrow> (bool \<times> string) res" where
  "convertSwitchToPrivateResultsToJson env t rs =
     (if \<not> cJSON_create env t then Val (False, [])
      else (case cJSON_PrintUnformatted env (JObject [(''results'', JArray (map result_element (results_shown env rs)))]) of
          None \<Rightarrow> Val (True, [])
        | Some text \<Rightarrow> if MAX_SSIDLIST_BUF \<le> length text then UB else Val (True, text)))"

definition getSwitchToPrivateResults :: "scan_env \<Rightarrow> laf \<Rightarrow> ssid_param \<Rightarrow> (IARM_Result \<times> ssid_param) res" where
  "getSwitchToPrivateResults env s param =
     res_bind (convertSwitchToPrivateResultsToJson env (w_tick (laf_wifi s)) (lstLnfPvtResults s)) (\<lambda>r. Val (ssid_reply r param))"

section \<open>What a scan lists\<close>

lemma ap_loop_Val:
  "ap_loop env as = Val es \<longleftrightarrow>
     (\<exists>ms. list_all2 (\<lambda>a m. ap_mode env a = Val m) (filter listed_ap as) ms \<and> es = map2 (ap_element env) (filter listed_ap as) ms)"
proof (induction as arbitrary: es)
  case (Cons a as)
  show ?case
  proof (cases "listed_ap a")
    case True
    have "(\<exists>m. ap_mode env a = Val m \<and> (\<exists>es'. ap_loop env as = Val es' \<and> es = ap_element env a m # es')) \<longleftrightarrow>
      (\<exists>ms. list_all2 (\<lambda>a m. ap_mode env a = Val m) (a # filter listed_ap as) ms \<and> es = map2 (ap_element env) (a # filter listed_ap as) ms)"
      unfolding Cons.IH list_all2_Cons1 by (auto; metis list.simps(9) zip_Cons_Cons case_prod_conv)
    then show ?thesis using True by (auto simp: res_bind_Val_iff)
  qed (simp add: Cons.IH)
qed auto

lemma ap_mode_no_throw: "ap_mode env a \<noteq> Throws e"
proof -
  have "mode_from_end sec enc n \<noteq> Throws e" for sec enc n by (induction n) simp_all
  then show ?thesis by (auto simp: ap_mode_def get_wifiSecurityModeFromString_def split: option.split)
qed

lemma ap_loop_UB:
  assumes "a \<in> set as" and "listed_ap a" and "ap_mode env a = UB"
  shows "ap_loop env as = UB"
  using assms
proof (induction as)
  case (Cons b as)
  have "ap_mode env b = UB \<or> (\<exists>m. ap_mode env b = Val m)"
    using ap_mode_no_throw by (cases "ap_mode env b") auto
  then show ?case using Cons by auto
qed simp

lemma available_Val:
  assumes "getAvailableSSIDs env p w = Val (IARM_RESULT_SUCCESS, p', w')" and "aps = snd (sc_neighbors env (w_tick w' - 1))"
  shows "\<exists>es. ap_loop env aps = Val es \<and>
    cJSON_PrintUnformatted env (JObject [(''getAvailableSSIDs'', JArray es)]) = Some (jdata p') \<and>
    0 < length (jdata p') \<and> length (jdata p') < MAX_SSIDLIST_BUF \<and> jdataLen p' = length (jdata p') \<and> ssid_status p'"
proof -
  obtain w0 ret as where w0: "w' = out [] w0" "sc_neighbors env (w_tick w0) = (ret, as)"
      "\<exists>text. text \<noteq> [] \<and> scan_json env ''getAvailableSSIDs'' (w_tick w0) (ret, as) = Val (True, text) \<and>
         p' = p \<lparr> jdata := text, jdataLen := length text, ssid_status := True \<rparr>"
    using assms(1) by (cases "sc_neighbors env (w_tick (if isWifiConnected w \<and> isLAFCurrConnectedssid w
          then out [DisconnectEndpoint (wifiConnData_ssid w)] w else w))")
      (fastforce simp: getAvailableSSIDs_def scan_Neighboring_WifiAP_def Let_def ssid_reply_def res_bind_Val_iff split: if_splits)
  then have "aps = as" using assms(2) by (simp add: out_def)
  then show ?thesis
    using w0(3) by (auto simp: scan_json_def res_bind_Val_iff split: if_splits option.splits)
qed


text \<open>
  With the HAL version 1.0.0 the encryption type is passed as a null pointer, so every network is
  listed as one without security, whatever it advertises.
\<close>

theorem scan_hal_1_all_open:
  assumes "wifiHALVer env = WIFI_HAL_VERSION"
    and "getAvailableSSIDs env p w = Val (IARM_RESULT_SUCCESS, p', w')"
    and "aps = filter listed_ap (snd (sc_neighbors env (w_tick w' - 1)))"
  shows "cJSON_PrintUnformatted env
      (JObject [(''getAvailableSSIDs'', JArray (map (\<lambda>a. ap_element env a NET_WIFI_SECURITY_NONE) aps))]) = Some (jdata p')"
proof -
  have open_mode: "ap_mode env a = Val NET_WIFI_SECURITY_NONE" for a
    using assms(1) by (simp add: ap_mode_def get_wifiSecurityModeFromString_def)
  have "ap_loop env as = Val (map (\<lambda>a. ap_element env a NET_WIFI_SECURITY_NONE) (filter listed_ap as))" for as
    by (induction as) (simp_all add: open_mode)
  then show ?thesis using available_Val [OF assms(2) refl] assms(3) by auto
qed

text \<open>
  With any other HAL version an open network that advertises None, with an encryption type without
  AES, makes the scan read before the start of the table of modes.
\<close>

theorem scan_open_network_undefined:
  assumes "wifiHALVer env \<noteq> WIFI_HAL_VERSION" and "a \<in> set (snd r)" and "listed_ap a"
    and "ap_SecurityModeEnabled a = ''None''" and "\<not> strcasestr (ap_EncryptionMode a) ''AES''" and "cJSON_create env t"
  shows "scan_json env name t r = UB"
proof -
  have "get_wifiSecurityModeFromString (wifiHALVer env) (Some ''None'') (Some (ap_EncryptionMode a))
      = mode_from_end ''None'' (ap_EncryptionMode a) 15"
    using assms(1) by (simp add: get_wifiSecurityModeFromString_def length_modes del: mode_from_end.simps)
  then have "ap_mode env a = UB" using assms(1,4,5) by (simp add: ap_mode_def mode_entries(6) del: mode_from_end.simps)
  from ap_loop_UB [OF assms(2,3) this] show ?thesis
    using assms(2,6) by (cases r) (auto simp: scan_json_def)
qed

section \<open>The progressive scan\<close>

definition scan_plan :: "scan_env \<Rightarrow> string list" where
  "scan_plan env = FREQ_5_PREFERRED # (if wifi_getDualBandSupport env then [FREQ_24] else []) @ [FREQ_5_LOW]"

fun selected :: "scan_out list \<Rightarrow> string list" where
  "selected [] = []"
| "selected (SetRadioScanningFreqList f # es) = f # selected es"
| "selected (_ # es) = selected es"

lemma selected_append [simp]: "selected (xs @ ys) = selected xs @ selected ys"
  by (induction xs rule: selected.induct) simp_all

text \<open>The events that announce the end of the list.\<close>

fun ends :: "scan_out list \<Rightarrow> nat" where
  "ends [] = 0"
| "ends (OnAvailableSSIDsIncr t m # es) = (if m then 0 else 1) + ends es"
| "ends (_ # es) = ends es"

lemma ends_append [simp]: "ends (xs @ ys) = ends xs + ends ys"
  by (induction xs rule: ends.induct) simp_all

lemma scan_band_effect:
  assumes "scan_band env f m s = Val s'"
  shows "\<exists>es. scan_trace s' = scan_trace s @ es \<and> selected es = [f] \<and> ends es \<le> (if m then 0 else 1) \<and>
    bStopProgressiveScanning s' = (bStopProgressiveScanning s \<or> sc_stop env (w_tick (scan_wifi s)))"
proof -
  let ?s = "scan_emit [SetRadioScanningFreqList f] s"
  obtain ret p w1 where g: "getAvailableSSIDs env no_param (scan_wifi ?s) = Val (ret, p, w1)"
    using assms unfolding scan_band_def scanAndBroadcastResults_def Let_def res_bind_Val_iff by auto
  let ?es = "if ret = IARM_RESULT_SUCCESS then [OnAvailableSSIDsIncr (snprintf_to MAX_SSIDLIST_BUF (jdata p)) m] else []"
  have "scan_trace s' = scan_trace s @ SetRadioScanningFreqList f # ?es"
    "bStopProgressiveScanning s' = (bStopProgressiveScanning s \<or> sc_stop env (w_tick (scan_wifi s)))"
    using assms unfolding scan_band_def scanAndBroadcastResults_def g Let_def
    by (auto simp: scan_emit_def stopProgressiveWifiScanning_def split: if_splits)
  then show ?thesis by (intro exI [of _ "SetRadioScanningFreqList f # ?es"]) simp
qed

text \<open>
  C19.  A progressive scan goes through its bands in the fixed order, skips the 2.4 GHz band on a radio
  without it, and always ends with the selection of channels reset.  It leaves bands out only after a
  request to stop, and the event that ends the list is sent at most once and only if no band was left
  out: a listener of a stopped scan is never told that the list has ended.
\<close>

theorem progressive_scan_order:
  assumes "getAvailableSSIDsIncrThread env s = Val s'"
  shows "\<exists>es n. scan_trace s' = scan_trace s @ es \<and> selected es = take n (scan_plan env) @ [''0''] \<and>
    1 \<le> n \<and> n \<le> length (scan_plan env) \<and> (n < length (scan_plan env) \<longrightarrow> bStopProgressiveScanning s' \<and> ends es = 0) \<and> ends es \<le> 1"
proof -
  let ?s0 = "s \<lparr> bStopProgressiveScanning := False \<rparr>"
  obtain s1 where s1: "scan_band env FREQ_5_PREFERRED True ?s0 = Val s1"
    using assms by (auto simp: getAvailableSSIDsIncrThread_def res_bind_Val_iff)
  from scan_band_effect [OF s1] obtain e1 where
    e1: "scan_trace s1 = scan_trace s @ e1" "selected e1 = [FREQ_5_PREFERRED]" "ends e1 = 0" by auto
  show ?thesis
  proof (cases "bStopProgressiveScanning s1")
    case True
    then have "s' = exit_scan s1" using assms s1 by (simp add: getAvailableSSIDsIncrThread_def)
    then show ?thesis using e1 True
      by (intro exI [of _ "e1 @ [SetRadioScanningFreqList ''0'']"] exI [of _ "Suc 0"])
        (simp add: exit_scan_def scan_emit_def scan_plan_def)
  next
    case False
    obtain s2 where s2: "(if wifi_getDualBandSupport env then scan_band env FREQ_24 True s1 else Val s1) = Val s2"
      using assms s1 False by (auto simp: getAvailableSSIDsIncrThread_def res_bind_Val_iff)
    obtain e2 where e2: "scan_trace s2 = scan_trace s @ e1 @ e2" "ends e2 = 0"
        "selected e2 = (if wifi_getDualBandSupport env then [FREQ_24] else [])"
      using s2 scan_band_effect [of env FREQ_24 True s1 s2] e1(1)
      by (cases "wifi_getDualBandSupport env") (auto intro: that [of "[]"])
    show ?thesis
    proof (cases "bStopProgressiveScanning s2")
      case True
      then have "wifi_getDualBandSupport env" using s2 False by (auto split: if_splits)
      moreover have "s' = exit_scan s2" using assms s1 False s2 True by (simp add: getAvailableSSIDsIncrThread_def)
      ultimately show ?thesis using e1 e2 True
        by (intro exI [of _ "e1 @ e2 @ [SetRadioScanningFreqList ''0'']"] exI [of _ "Suc (Suc 0)"])
          (simp add: exit_scan_def scan_emit_def scan_plan_def)
    next
      case stop2: False
      obtain s3 where s3: "scan_band env FREQ_5_LOW False s2 = Val s3" "s' = exit_scan s3"
        using assms s1 False s2 stop2 by (auto simp: getAvailableSSIDsIncrThread_def res_bind_Val_iff)
      from scan_band_effect [OF s3(1)] obtain e3 where
        e3: "scan_trace s3 = scan_trace s2 @ e3" "selected e3 = [FREQ_5_LOW]" "ends e3 \<le> 1" by auto
      then show ?thesis using s3(2) e1 e2
        by (intro exI [of _ "e1 @ e2 @ e3 @ [SetRadioScanningFreqList ''0'']"] exI [of _ "length (scan_plan env)"])
          (simp add: exit_scan_def scan_emit_def scan_plan_def)
    qed
  qed
qed

text \<open>
  The results of Lost and Found are all shown while there are fewer than 128; with 256 of them none
  is, because their number goes through a byte.
\<close>

theorem results_shown_bounds:
  "(length rs < 128 \<longrightarrow> results_shown env rs = rs) \<and> (length rs = 256 \<longrightarrow> results_shown env rs = [])"
proof -
  have "char_length env n = int n" if "n < 128" for n
    using that by (auto simp: char_length_def Let_def sint_uint unsigned_of_nat signed_take_bit_int_eq_self take_bit_nat_eq_self)
  moreover have "char_length env 256 = 0" by (simp add: char_length_def)
  ultimately show ?thesis by (simp add: results_shown_def)
qed

section \<open>Witnesses\<close>

definition sample_ap :: neighbor_ap where
  "sample_ap = \<lparr> ap_SSID = ''cafe'', ap_SecurityModeEnabled = ''None'', ap_EncryptionMode = ''TKIP'',
     ap_OperatingFrequencyBand = ''2.4'', ap_SignalStrength = -60 \<rparr>"

definition sample_scan_env :: "string \<Rightarrow> scan_env" where
  "sample_scan_env ver = \<lparr> sc_wifi = sample_wifi_env, wifiHALVer = ver, sc_neighbors = (\<lambda>_. (0, [sample_ap])),
     sc_specific = (\<lambda>_ _ _. (0, [])), cJSON_create = (\<lambda>_. True), cJSON_PrintUnformatted = (\<lambda>_. Some ''{}''),
     cJSON_parses = (\<lambda>_. True), sc_strtod = (\<lambda>_. 2.4), wifi_getDualBandSupport = True, sc_stop = (\<lambda>t. t = 0),
     sc_char_signed = True \<rparr>"

definition sample_scan :: scan where
  "sample_scan = \<lparr> scan_wifi = initial_wifi, bStopProgressiveScanning = False, scan_trace = [] \<rparr>"

lemma sample_scan_Val:
  "getAvailableSSIDs (sample_scan_env WIFI_HAL_VERSION) no_param initial_wifi
     = Val (IARM_RESULT_SUCCESS, \<lparr> jdata = ''{}'', jdataLen = 2, ssid_status = True \<rparr>, out [] initial_wifi)"
  by (simp add: getAvailableSSIDs_def scan_Neighboring_WifiAP_def scan_json_def ssid_reply_def sample_scan_env_def sample_ap_def
      ap_mode_def get_wifiSecurityModeFromString_def no_param_def MAX_SSIDLIST_BUF_def isWifiConnected_def initial_wifi_def)


theorem scan_hal_1_all_open_witness:
  "cJSON_PrintUnformatted (sample_scan_env WIFI_HAL_VERSION) (JObject [(''getAvailableSSIDs'',
     JArray (map (\<lambda>a. ap_element (sample_scan_env WIFI_HAL_VERSION) a NET_WIFI_SECURITY_NONE) (filter listed_ap [sample_ap])))]) = Some ''{}''"
  using scan_hal_1_all_open [OF _ sample_scan_Val refl] by (simp add: sample_scan_env_def)

theorem scan_open_network_undefined_witness:
  "scan_json (sample_scan_env ''2.0.0'') ''getAvailableSSIDs'' 0 (0, [sample_ap]) = UB"
  using scan_open_network_undefined [of "sample_scan_env ''2.0.0''" sample_ap "(0, [sample_ap])" 0 "''getAvailableSSIDs''"]
  by (simp add: sample_scan_env_def sample_ap_def WIFI_HAL_VERSION_def listed_ap_def LNF_NON_SECURE_SSID_def LNF_SECURE_SSID_def no_aes)

theorem progressive_scan_order_witness:
  "\<exists>s'. getAvailableSSIDsIncrThread (sample_scan_env WIFI_HAL_VERSION) sample_scan = Val s' \<and>
     (\<exists>es n. scan_trace s' = es \<and> selected es = take n (scan_plan (sample_scan_env WIFI_HAL_VERSION)) @ [''0''] \<and> 1 \<le> n)"
proof -
  have "\<exists>s'. getAvailableSSIDsIncrThread (sample_scan_env WIFI_HAL_VERSION) sample_scan = Val s'"
    by (simp add: getAvailableSSIDsIncrThread_def scan_band_def scanAndBroadcastResults_def Let_def sample_scan_def scan_emit_def
        sample_scan_Val stopProgressiveWifiScanning_def)
      (simp add: sample_scan_env_def initial_wifi_def)
  then obtain s' where s': "getAvailableSSIDsIncrThread (sample_scan_env WIFI_HAL_VERSION) sample_scan = Val s'" ..
  from progressive_scan_order [OF s'] s' show ?thesis by (auto simp: sample_scan_def)
qed

theorem results_shown_bounds_witness:
  "results_shown (sample_scan_env ''2.0.0'') [(''now'', 3)] = [(''now'', 3)]"
  using results_shown_bounds [of "[(''now'', 3)]" "sample_scan_env ''2.0.0''"] by simp

end
