(* ===== verification/Wifi_Mgr.thy ===== *)
theory Wifi_Mgr
  imports Wifi_Scan
begin

text \<open>
  The requests of \<^verbatim>\<open>wifiSrvMgr.cpp\<close> beside the scans: connecting, saving and clearing networks, pairing,
  the queries, switching the service on and off (with \<^verbatim>\<open>shutdownWifi\<close> of \<^verbatim>\<open>wifiHalUtiles.cpp\<close>), the change
  of the system mode and the files of credentials that are set up at the start.

  Threads are not run here: starting, joining and cancelling them is recorded, and their bodies are in
  the other files.
\<close>

section \<open>Credential files\<close>

type_synonym files = "string \<rightharpoonup> string"

text \<open>
  The database and the JSON text in it: \<^term>\<open>None\<close> stands for a failed call, and a member of the document
  whose value is no string has the null pointer as its string.
\<close>

record netapp_db =
  db_open :: bool
  db_prepare :: bool
  db_row :: bool
  db_value :: "string option"
  db_json :: "string \<Rightarrow> (string \<rightharpoonup> string option) option"
  conf_fopen :: bool

definition security_mode_map :: "(string \<times> string) list" where
  "security_mode_map = [(''Open'', ''NONE''), (''Wep'', ''NONE''), (''WpaPskAes'', ''WPA-PSK''), (''WpaPskTkip'', ''WPA-PSK''),
     (''Wpa2PskAes'', ''WPA-PSK''), (''Wpa2PskTkip'', ''WPA-PSK''), (''WpaEnterprise'', ''WPA-EAP''), (''Wpa2Enterprise'', ''WPA-EAP''),
     (''SAE'', ''SAE'')]"

definition wpa_security_mode :: "string \<Rightarrow> string" where
  "wpa_security_mode sec =
     (case find (\<lambda>p. strcasecmp_eq sec (fst p)) security_mode_map of Some p \<Rightarrow> snd p | None \<Rightarrow> [])"

definition quoted :: "string \<Rightarrow> string" where
  "quoted s = CHR 0x22 # s @ [CHR 0x22]"

definition wpa_conf_lines :: "string \<Rightarrow> string \<Rightarrow> string \<Rightarrow> string \<Rightarrow> string list" where
  "wpa_conf_lines s b password sec =
     [''ctrl_interface=/var/run/wpa_supplicant'', ''update_config=1'', [], ''network={'',
      ''    ssid='' @ quoted s, ''    scan_ssid=1'', ''    bssid='' @ b, ''    psk='' @ quoted password,
      ''    key_mgmt='' @ wpa_security_mode sec, ''    auth_alg=OPEN'', ''    }'']"

definition wpa_conf_text :: "string \<Rightarrow> string \<Rightarrow> string \<Rightarrow> string \<Rightarrow> string" where
  "wpa_conf_text s b password sec = concat (map (\<lambda>l. l @ [newline]) (wpa_conf_lines s b password sec))"

definition json_string :: "(string \<rightharpoonup> string option) \<Rightarrow> string \<Rightarrow> string res" where
  "json_string j k = (case j k of None \<Rightarrow> Val [] | Some None \<Rightarrow> UB | Some (Some v) \<Rightarrow> Val v)"

text \<open>The document, if every step up to opening the file for writing succeeds.\<close>

definition netapp_document :: "netapp_db \<Rightarrow> (string \<rightharpoonup> string option) option" where
  "netapp_document env =
     (if \<not> db_open env \<or> \<not> db_prepare env \<or> \<not> db_row env then None
      else (case db_value env of
          None \<Rightarrow> None
        | Some value \<Rightarrow> (case db_json env value of None \<Rightarrow> None | Some j \<Rightarrow> if conf_fopen env then Some j else None)))"

definition create_wpa_supplicant_conf_from_netapp_db ::
    "netapp_db \<Rightarrow> string \<Rightarrow> string \<Rightarrow> files \<Rightarrow> (int \<times> files) res" where
  "create_wpa_supplicant_conf_from_netapp_db env conf db fs =
     res_bind
       (if fs conf \<noteq> None then Val (1, fs)
        else (case netapp_document env of
            None \<Rightarrow> Val (1, fs)
          | Some j \<Rightarrow>
              res_bind (json_string j ''SSID'') (\<lambda>s.
              res_bind (json_string j ''BSSID'') (\<lambda>b.
              res_bind (json_string j ''Password'') (\<lambda>p.
              res_bind (json_string j ''Security'') (\<lambda>sec.
                Val (0, fs(conf \<mapsto> wpa_conf_text s b p sec))))))))
       (\<lambda>(ret, fs). Val (ret, fs(db := None)))"

definition wpaSupplicantConfFile :: string where "wpaSupplicantConfFile = ''/opt/wifi/wpa_supplicant.conf''"
definition wifiRoamingFile :: string where "wifiRoamingFile = ''/opt/wifi/wifi_roamingControl.json''"

definition remove_existing :: "(string \<Rightarrow> bool) \<Rightarrow> string \<Rightarrow> int \<times> files \<Rightarrow> int \<times> files" where
  "remove_existing removable f r = (case r of (ret, fs) \<Rightarrow>
     if fs f = None then (ret, fs) else if removable f then (0, fs(f := None)) else (-1, fs))"

definition removeWifiCredsFromNonSecuredPartition :: "(string \<Rightarrow> bool) \<Rightarrow> files \<Rightarrow> int \<times> files" where
  "removeWifiCredsFromNonSecuredPartition removable fs =
     remove_existing removable wifiRoamingFile (remove_existing removable wpaSupplicantConfFile (0, fs))"

section \<open>The service\<close>

datatype mgr_out =
    WifiInit
  | WifiUninit
  | StartMonitor
  | JoinMonitor
  | StartPrivateThread
  | StartThread laf_thread
  | CancelThreads
  | RunCommand string

datatype sys_mode = SYS_MODE_NORMAL | SYS_MODE_EAS | SYS_MODE_WAREHOUSE

record mgr =
  mgr_laf :: laf
  bWiFiEnabled :: bool
  sysModeParam :: sys_mode
  mgr_trace :: "mgr_out list"

definition mgr_emit :: "mgr_out list \<Rightarrow> mgr \<Rightarrow> mgr" where
  "mgr_emit es m = m \<lparr> mgr_trace := mgr_trace m @ es \<rparr>"

definition in_mode :: "laf_env \<Rightarrow> mgr \<Rightarrow> laf_env" where
  "in_mode env m = env \<lparr> l_warehouse := (sysModeParam m = SYS_MODE_WAREHOUSE) \<rparr>"

text \<open>The name of the Lost and Found network is an array on the stack, so the test for it never fails.\<close>

definition getLAFssid :: bool where "getLAFssid = True"

definition WiFi_Start_lnf :: "laf_env \<Rightarrow> mgr \<Rightarrow> mgr res" where
  "WiFi_Start_lnf env m =
     (if \<not> bEnableLostFound (w_conf (l_wifi env)) then Val m
      else if \<not> getLAFssid then Val m
      else
        let m = mgr_emit [StartPrivateThread] m in
        if isWifiConnected (laf_wifi (mgr_laf m)) then Val m
        else res_bind (connectToLAF (in_mode env m) (mgr_laf m)) (\<lambda>(th, s). Val (mgr_emit [StartThread th] (m \<lparr> mgr_laf := s \<rparr>))))"

definition WiFi_Start :: "laf_env \<Rightarrow> mgr \<Rightarrow> mgr res" where
  "WiFi_Start env m =
     (let m = mgr_emit [StartMonitor, WifiInit] m;
          w = (laf_wifi (mgr_laf m)) \<lparr> bShutdownWifi := False \<rparr>;
          ok = fst (lastConnectedSSID (l_wifi env) (w_tick w) no_connection);
          w = (if \<not> ok then snd (connectToMfrWifiCredentials (l_wifi env) (out [] w)) else out [] w) in
      WiFi_Start_lnf env (m \<lparr> mgr_laf := (mgr_laf m) \<lparr> laf_wifi := w \<rparr> \<rparr>))"

definition shutdownWifi :: "wifi \<Rightarrow> wifi" where
  "shutdownWifi w = w \<lparr> bShutdownWifi := True, gWifiAdopterStatus := WIFI_UNINSTALLED, gWifiLNFStatus := LNF_UNITIALIZED,
     bLNFConnect := False, isLAFCurrConnectedssid := False, savedWiFiConnList := no_connection, wifiConnData_ssid := [] \<rparr>"

definition WiFi_Stop :: "mgr \<Rightarrow> mgr" where
  "WiFi_Stop m = mgr_emit [JoinMonitor, CancelThreads, WifiUninit] (m \<lparr> mgr_laf := on_wifi shutdownWifi (mgr_laf m) \<rparr>)"

definition setWifiEnabled :: "laf_env \<Rightarrow> bool \<Rightarrow> mgr \<Rightarrow> mgr res" where
  "setWifiEnabled env newState m =
     (if bWiFiEnabled m = newState then Val m
      else let m = m \<lparr> bWiFiEnabled := newState \<rparr> in if newState then WiFi_Start env m else Val (WiFi_Stop m))"

definition sysModeChange :: "sys_mode \<Rightarrow> mgr \<Rightarrow> mgr" where
  "sysModeChange newMode m =
     (let m = m \<lparr> sysModeParam := newMode \<rparr> in
      if newMode = SYS_MODE_WAREHOUSE then mgr_emit [RunCommand (triggerDhcpRenew None)] m else m)"

section \<open>Connection requests\<close>

text \<open>\<^verbatim>\<open>connect\<close>: the status of the reply says that a request was made, not that it was accepted.\<close>

definition connect :: "wifi_env \<Rightarrow> WiFiConnection \<Rightarrow> wifi \<Rightarrow> bool \<times> wifi" where
  "connect env param w =
     (let saved = savedWiFiConnList w;
          request = (\<lambda>s mode pass. (True, snd (connect_withSSID env s mode pass True WIFI_CON_MANUAL w))) in
      if ssid param = []
      then if ssid saved \<noteq> [] \<and> passphrase saved \<noteq> [] then request (ssid saved) (security_mode saved) (passphrase saved)
           else (False, w)
      else if passphrase param \<noteq> [] then request (ssid param) (security_mode param) (passphrase param)
      else if security_mode param = NET_WIFI_SECURITY_NONE then request (ssid param) (security_mode param) (passphrase saved)
      else (False, w))"

definition saveSSID :: "WiFiConnection \<Rightarrow> wifi \<Rightarrow> IARM_Result \<times> bool \<times> wifi" where
  "saveSSID param w =
     (if ssid param \<noteq> [] \<and> passphrase param \<noteq> []
      then (IARM_RESULT_SUCCESS, True, w \<lparr> savedWiFiConnList := no_connection \<lparr> ssid := ssid param, passphrase := passphrase param,
              security_mode := security_mode param \<rparr> \<rparr>)
      else (IARM_RESULT_INVALID_PARAM, False, w))"

definition initiateWPSPairing2 :: "wifi_env \<Rightarrow> bool \<Rightarrow> string \<Rightarrow> wifi \<Rightarrow> bool \<times> wifi" where
  "initiateWPSPairing2 env pbc pin w = (if pbc then connect_WpsPush env w else connect_WpsPin env (Some pin) w)"

text \<open>The event of the remote control; the argument says whether it is the WPS key going down.\<close>

definition irEventHandler :: "wifi_env \<Rightarrow> bool \<Rightarrow> wifi \<Rightarrow> wifi" where
  "irEventHandler env wps_key_down w =
     (if disableWpsXRE (w_conf env) \<and> wps_key_down then snd (connect_WpsPush env w) else w)"

section \<open>Queries\<close>

definition getPairedSSID :: "wifi_env \<Rightarrow> nat \<Rightarrow> string option" where
  "getPairedSSID env t = (case lastConnectedSSID env t no_connection of (ok, c) \<Rightarrow> if ok then Some (ssid c) else None)"

fun convertSecurityModeToString :: "SsidSecurity \<Rightarrow> string" where
  "convertSecurityModeToString NET_WIFI_SECURITY_WPA2_PSK_AES = ''WPA2-Personal''"
| "convertSecurityModeToString NET_WIFI_SECURITY_WPA2_PSK_TKIP = ''WPA2-Personal''"
| "convertSecurityModeToString NET_WIFI_SECURITY_WPA_PSK_AES = ''WPA-Personal''"
| "convertSecurityModeToString NET_WIFI_SECURITY_WPA_PSK_TKIP = ''WPA-Personal''"
| "convertSecurityModeToString NET_WIFI_SECURITY_WPA2_ENTERPRISE_AES = ''WPA2-Enterprise''"
| "convertSecurityModeToString NET_WIFI_SECURITY_WPA2_ENTERPRISE_TKIP = ''WPA2-Enterprise''"
| "convertSecurityModeToString NET_WIFI_SECURITY_WPA_ENTERPRISE_AES = ''WPA-Enterprise''"
| "convertSecurityModeToString NET_WIFI_SECURITY_WPA_ENTERPRISE_TKIP = ''WPA-Enterprise''"
| "convertSecurityModeToString NET_WIFI_SECURITY_WEP_64 = ''WEP-64''"
| "convertSecurityModeToString NET_WIFI_SECURITY_WEP_128 = ''WEP-128''"
| "convertSecurityModeToString NET_WIFI_SECURITY_WPA3_PSK_AES = ''WPA2-WPA3''"
| "convertSecurityModeToString NET_WIFI_SECURITY_WPA3_SAE = ''WPA3''"
| "convertSecurityModeToString NET_WIFI_SECURITY_WPA_WPA2_PSK = ''WPA-WPA2-Personal''"
| "convertSecurityModeToString NET_WIFI_SECURITY_WPA_WPA2_ENTERPRISE = ''WPA-WPA2-Enterprise''"
| "convertSecurityModeToString NET_WIFI_SECURITY_NONE = ''None''"
| "convertSecurityModeToString NET_WIFI_SECURITY_NOT_SUPPORTED = ''None''"

record WiFiPairedSSIDInfo =
  paired_ssid :: string
  paired_bssid :: string
  paired_security :: string

definition getPairedSSIDInfo :: "wifi_env \<Rightarrow> nat \<Rightarrow> WiFiPairedSSIDInfo option" where
  "getPairedSSIDInfo env t =
     (case lastConnectedSSID env t no_connection of (ok, c) \<Rightarrow>
       if ok then Some \<lparr> paired_ssid = ssid c, paired_bssid = bssid c,
           paired_security = take 32 (convertSecurityModeToString (security_mode c)) \<rparr>
       else None)"

definition isPaired :: "wifi_env \<Rightarrow> nat \<Rightarrow> bool" where
  "isPaired env t = (ssid (snd (lastConnectedSSID env t no_connection)) \<noteq> [])"

definition getCurrentState :: "nm_env \<Rightarrow> WiFiStatusCode" where
  "getCurrentState env =
     (case isInterfaceEnabled env ''WIFI'' of
        None \<Rightarrow> WIFI_UNINSTALLED
      | Some enabled \<Rightarrow> if \<not> enabled then WIFI_DISABLED else getWpaStatus (nm_os env))"

definition ethernet_on :: "os \<Rightarrow> bool" where
  "ethernet_on env \<longleftrightarrow> os_file env ''/tmp/wifi-on'' = None"

definition getCurrentConnectionType :: "os \<Rightarrow> wifi \<Rightarrow> WiFiConnectionTypeCode" where
  "getCurrentConnectionType env w = (if \<not> ethernet_on env then gWifiConnectionType w else WIFI_CON_UNKNOWN)"

section \<open>Runs of the service\<close>

datatype mgr_input =
    Enable bool
  | Sys_Mode sys_mode
  | Arrives arrival
  | Connect WiFiConnection
  | Save WiFiConnection

definition mgr_step :: "laf_env \<Rightarrow> mgr res \<Rightarrow> mgr_input \<Rightarrow> mgr res" where
  "mgr_step env r i = res_bind r (\<lambda>m. case i of
       Enable b \<Rightarrow> setWifiEnabled env b m
     | Sys_Mode mode \<Rightarrow> Val (sysModeChange mode m)
     | Arrives a \<Rightarrow> Val (m \<lparr> mgr_laf := on_wifi (\<lambda>w. deliver (l_wifi env) w a) (mgr_laf m) \<rparr>)
     | Connect c \<Rightarrow> Val (m \<lparr> mgr_laf := on_wifi (\<lambda>w. snd (connect (l_wifi env) c w)) (mgr_laf m) \<rparr>)
     | Save c \<Rightarrow> Val (m \<lparr> mgr_laf := on_wifi (\<lambda>w. snd (snd (saveSSID c w))) (mgr_laf m) \<rparr>))"

text \<open>Following the calls that switch the HAL on and off; \<^term>\<open>None\<close> when one comes twice in a row.\<close>

fun power :: "bool \<Rightarrow> mgr_out list \<Rightarrow> bool option" where
  "power on [] = Some on"
| "power on (WifiInit # es) = (if on then None else power True es)"
| "power on (WifiUninit # es) = (if on then power False es else None)"
| "power on (_ # es) = power on es"

lemma power_append: "power on (xs @ ys) = (case power on xs of None \<Rightarrow> None | Some b \<Rightarrow> power b ys)"
  by (induction on xs rule: power.induct) simp_all

definition power_inv :: "mgr \<Rightarrow> bool" where
  "power_inv m \<longleftrightarrow> power False (mgr_trace m) = Some (bWiFiEnabled m)"

lemma WiFi_Start_power:
  assumes "power_inv (m \<lparr> bWiFiEnabled := False \<rparr>)" and "WiFi_Start env (m \<lparr> bWiFiEnabled := True \<rparr>) = Val m'"
  shows "power_inv m'"
  using assms
  by (auto simp: WiFi_Start_def WiFi_Start_lnf_def Let_def power_inv_def mgr_emit_def power_append res_bind_Val_iff split: if_splits)

lemma setWifiEnabled_power: "power_inv m \<Longrightarrow> setWifiEnabled env b m = Val m' \<Longrightarrow> power_inv m'"
  using WiFi_Start_power [of m env m']
  by (cases "bWiFiEnabled m"; cases b) (auto simp: setWifiEnabled_def Let_def WiFi_Stop_def power_inv_def mgr_emit_def power_append)

interpretation service: step_invariant "mgr_step env" "res_inv power_inv" for env
proof
  fix r i
  assume "res_inv power_inv r"
  moreover have "power_inv m \<Longrightarrow> power_inv (sysModeChange mode m)" "power_inv (m \<lparr> mgr_laf := s \<rparr>) = power_inv m" for m mode s
    by (auto simp: sysModeChange_def Let_def power_inv_def mgr_emit_def power_append)
  ultimately show "res_inv power_inv (mgr_step env r i)"
    by (cases r; cases i) (auto simp: mgr_step_def res_inv_def intro: setWifiEnabled_power)
qed

text \<open>
  C23.  In every run of the service the HAL is switched on and off alternately, starting with on, and the
  flag of the service says which came last; repeated requests are ignored.
\<close>

theorem wifi_power_alternates:
  assumes "foldl (mgr_step env) (Val m) inputs = Val m'" and "mgr_trace m = []" and "\<not> bWiFiEnabled m"
  shows "power False (mgr_trace m') = Some (bWiFiEnabled m')"
  using service.run_keeps [of "Val m" env inputs] assms by (simp add: power_inv_def)

section \<open>A stop during the activation\<close>

definition lnf_blocked :: "bool \<Rightarrow> wifi \<Rightarrow> bool" where
  "lnf_blocked b w \<longleftrightarrow> bLnfActivationLoop w \<and> startLAF w = b"

lemma lnf_blocked_update [simp]:
  "lnf_blocked b (out es w) = lnf_blocked b w"
  "lnf_blocked b (set_WiFiStatusCode st w) = lnf_blocked b w"
  "lnf_blocked b (set_WiFiConnectionType ct w) = lnf_blocked b w"
  "lnf_blocked b (setLNFState lst w) = lnf_blocked b w"
  "lnf_blocked b (w \<lparr> savedWiFiConnList := c \<rparr>) = lnf_blocked b w"
  "lnf_blocked b (w \<lparr> bShutdownWifi := sh \<rparr>) = lnf_blocked b w"
  "lnf_blocked b (w \<lparr> bDeviceActivated := da \<rparr>) = lnf_blocked b w"
  "lnf_blocked b (w \<lparr> connCode_prev_state := pc \<rparr>) = lnf_blocked b w"
  "lnf_blocked b (w \<lparr> wifiConnData_ssid := sd \<rparr>) = lnf_blocked b w"
  "lnf_blocked b (w \<lparr> bPrivConnectionLost := pl \<rparr>) = lnf_blocked b w"
  "lnf_blocked b (w \<lparr> bSwitch2Private := sp \<rparr>) = lnf_blocked b w"
  "lnf_blocked b (w \<lparr> bStopLNFWhileDisconnected := sl \<rparr>) = lnf_blocked b w"
  "lnf_blocked b (w \<lparr> bAutoSwitchToPrivateEnabled := au \<rparr>) = lnf_blocked b w"
  "lnf_blocked b (w \<lparr> switchLnf2Priv := s1 \<rparr>) = lnf_blocked b w"
  "lnf_blocked b (w \<lparr> switchPriv2Lnf := s2 \<rparr>) = lnf_blocked b w"
  "lnf_blocked b (w \<lparr> isLAFCurrConnectedssid := lc \<rparr>) = lnf_blocked b w"
  "lnf_blocked b (w \<lparr> gWifiLNFStatus := ls \<rparr>) = lnf_blocked b w"
  "lnf_blocked b (w \<lparr> deviceModel := dm \<rparr>) = lnf_blocked b w"
  "lnf_blocked b (w \<lparr> deviceMake := dk \<rparr>) = lnf_blocked b w"
  "lnf_blocked b (w \<lparr> deviceMACAddr := da' \<rparr>) = lnf_blocked b w"
  by (simp_all add: lnf_blocked_def out_def set_WiFiStatusCode_def set_WiFiConnectionType_def setLNFState_def)

lemma lnf_blocked_request: "lnf_blocked b w \<Longrightarrow> lnf_blocked b (lnfConnectPrivCredentials w)"
  by (simp add: lnf_blocked_def lnfConnectPrivCredentials_def)

lemma lnf_blocked_fetch [simp]: "lnf_blocked b (snd (fetch_saved env w)) = lnf_blocked b w"
  by (simp add: fetch_saved_def split: prod.split)

lemma lnf_blocked_store [simp]: "lnf_blocked b (snd (storeMfrWifiCredentials env w)) = lnf_blocked b w"
  using lnf_blocked_fetch [of b env w]
  by (auto simp: storeMfrWifiCredentials_def Let_def simp del: lnf_blocked_fetch split: prod.splits)

lemma lnf_blocked_connected [simp]: "lnf_blocked b (on_connected env ap same w) = lnf_blocked b w"
  by (simp add: on_connected_def Let_def private_network_changed_def xre_refresh_def setHostifParam_def renew_lease_def
      connected_private_def connected_lnf_def split: prod.split option.split)

lemma lnf_blocked_deliver: "lnf_blocked b w \<Longrightarrow> lnf_blocked b (deliver env w a)"
proof (cases a)
  case (Hal c)
  obtain code ap act where c: "c = (code, ap, act)" by (cases c)
  assume w: "lnf_blocked b w"
  have lost: "lnf_blocked b v \<Longrightarrow> lnf_blocked b (private_lost env v)" for v
    by (simp add: private_lost_def lnf_blocked_request)
  have "lnf_blocked b (fst (status_branch env code ap act w))"
    using w by (cases code; cases act) (simp_all add: status_branch_def Let_def on_disconnected_def lost)
  then show ?thesis using Hal c
    by (auto simp: deliver_def callback_def wifi_status_action_def Let_def split: prod.split)
next
  case (Bus e)
  assume "lnf_blocked b w"
  then show ?thesis using Bus by (cases e) (auto simp: deliver_def Let_def lnf_blocked_request)
qed

interpretation blocked: step_invariant "deliver env" "lnf_blocked b" for env b
  by unfold_locales (rule lnf_blocked_deliver)

lemma lnf_blocked_wait: "lnf_blocked b w \<Longrightarrow> lnf_blocked b (wait_round env w)"
  unfolding wait_round_def by (rule blocked.run_keeps) simp

lemma fetch_device_id_blocked:
  assumes "fetch_device_id env n s = Val (ok, s')" and "lnf_blocked b (laf_wifi s)"
  shows "lnf_blocked b (laf_wifi s')"
  using assms
  by (induction env n s rule: fetch_device_id.induct)
    (auto simp: Let_def res_bind_Val_iff laf_wait_def on_wifi_def lnf_blocked_wait split: if_splits option.splits)

lemma activation_blocked:
  assumes "getDeviceActivationState env s = Val (ok, s')" and "lnf_blocked b (laf_wifi s)"
  shows "lnf_blocked b (laf_wifi s')"
  using assms fetch_device_id_blocked [of env 4 s _ _ b]
  by (auto simp: getDeviceActivationState_def res_bind_Val_iff Let_def on_wifi_def split: if_splits)


section \<open>Requests and queries\<close>


text \<open>
  A request for an open network hands the passphrase of the saved network to the HAL.
\<close>

theorem open_network_gets_saved_passphrase:
  assumes "ssid c \<noteq> []" and "passphrase c = []" and "security_mode c = NET_WIFI_SECURITY_NONE"
  shows "ConnectEndpoint (ssid c) NET_WIFI_SECURITY_NONE (passphrase (savedWiFiConnList w)) True \<in> set (w_trace (snd (connect env c w)))"
  using assms
  by (simp add: connect_def connect_withSSID_def Let_def out_def broadcast_state_def set_WiFiStatusCode_def
      set_WiFiConnectionType_def)

text \<open>
  A paired network protected by a pre-shared key is reported as WPA3, also when it is a WPA or WPA2
  network.
\<close>

theorem paired_psk_reported_wpa3:
  assumes "w_lastConnected env t = Some p" and "length (ap_security p) < BUFF_LENGTH_64"
    and "contains (ap_security p) ''WPA-PSK''"
  shows "\<exists>i. getPairedSSIDInfo env t = Some i \<and> paired_security i = ''WPA3''"
  using assms
  by (simp add: getPairedSSIDInfo_def lastConnectedSSID_def paired_connection_def Let_def paired_security_mode_def)

section \<open>Credential files\<close>


section \<open>Witnesses\<close>

definition sample_mgr :: mgr where
  "sample_mgr = \<lparr> mgr_laf = sample_laf, bWiFiEnabled = False, sysModeParam = SYS_MODE_NORMAL, mgr_trace = [] \<rparr>"

definition home :: WiFiConnection where
  "home = no_connection \<lparr> ssid := ''home'', passphrase := ''secret'', security_mode := NET_WIFI_SECURITY_WPA2_PSK_AES \<rparr>"

lemma sample_start: "WiFi_Start sample_laf_env m = Val (mgr_emit [StartMonitor, WifiInit]
    (m \<lparr> mgr_laf := on_wifi (\<lambda>w. out [] (w \<lparr> bShutdownWifi := False \<rparr>)) (mgr_laf m) \<rparr>))"
  by (simp add: WiFi_Start_def WiFi_Start_lnf_def Let_def lastConnectedSSID_def sample_laf_env_def sample_wifi_env_def sample_wifi_conf_def
      sample_conf_def mgr_emit_def on_wifi_def)

theorem wifi_power_alternates_witness:
  "\<exists>m'. foldl (mgr_step sample_laf_env) (Val sample_mgr) [Enable True, Enable True, Enable False] = Val m' \<and>
     power False (mgr_trace m') = Some (bWiFiEnabled m')"
proof -
  have "\<exists>m'. foldl (mgr_step sample_laf_env) (Val sample_mgr) [Enable True, Enable True, Enable False] = Val m'"
    by (simp add: mgr_step_def setWifiEnabled_def Let_def sample_start mgr_emit_def sample_mgr_def)
  then obtain m' where m': "foldl (mgr_step sample_laf_env) (Val sample_mgr) [Enable True, Enable True, Enable False] = Val m'" ..
  from wifi_power_alternates [OF this] show ?thesis using m' by (simp add: sample_mgr_def)
qed



theorem open_network_gets_saved_passphrase_witness:
  "ConnectEndpoint ''cafe'' NET_WIFI_SECURITY_NONE ''secret'' True
     \<in> set (w_trace (snd (connect sample_wifi_env (no_connection \<lparr> ssid := ''cafe'' \<rparr>) (initial_wifi \<lparr> savedWiFiConnList := home \<rparr>))))"
  using open_network_gets_saved_passphrase [of "no_connection \<lparr> ssid := ''cafe'' \<rparr>" "initial_wifi \<lparr> savedWiFiConnList := home \<rparr>" sample_wifi_env]
  by (simp add: no_connection_def home_def)

theorem paired_psk_reported_wpa3_witness:
  "\<exists>i. getPairedSSIDInfo sample_wifi_env 0 = Some i \<and> paired_security i = ''WPA3''"
  using paired_psk_reported_wpa3 [of sample_wifi_env 0 "\<lparr> ap_ssid = ''home'', ap_passphrase = ''secret'', ap_bssid = [],
    ap_security = ''WPA-PSK'', ap_wep_key = [] \<rparr>"]
  by (simp add: sample_wifi_env_def BUFF_LENGTH_64_def contains_def starts_with_def)


end
