(* ===== verification/Wifi_Diag.thy ===== *)
theory Wifi_Diag
  imports Wifi_Mgr
begin

text \<open>
  The diagnostics of the wireless service: the properties of the radio and of the network
  (\<^verbatim>\<open>getRadioProps\<close>, \<^verbatim>\<open>getSSIDProps\<close> of \<^verbatim>\<open>wifiSrvMgr.cpp\<close>), the statistics, the end point, the roaming controls,
  the description of the gateway found by UPnP and the Lost and Found token (\<^verbatim>\<open>wifiHalUtiles.cpp\<close>).

  Each question to the HAL is a member of a record, with \<^term>\<open>None\<close> for a failure.  The answers are used as
  format strings, which is modelled: a percent sign that is not doubled asks for an argument that is not
  there.
\<close>

section \<open>Format strings\<close>

fun format_text :: "string \<Rightarrow> string res" where
  "format_text [] = Val []"
| "format_text (c # s) =
     (if c \<noteq> CHR ''%'' then res_bind (format_text s) (\<lambda>t. Val (c # t))
      else (case s of
          d # s' \<Rightarrow> if d = CHR ''%'' then res_bind (format_text s') (\<lambda>t. Val (CHR ''%'' # t)) else UB
        | [] \<Rightarrow> UB))"

definition printf_to :: "nat \<Rightarrow> string \<Rightarrow> string res" where
  "printf_to n s = res_bind (format_text s) (\<lambda>t. Val (snprintf_to n t))"

text \<open>A text from the HAL into a field, if there is one.\<close>

definition answer_text :: "nat \<Rightarrow> string option \<Rightarrow> (string \<Rightarrow> 'r) \<Rightarrow> 'r \<Rightarrow> 'r res" where
  "answer_text n v upd r = (case v of None \<Rightarrow> Val r | Some s \<Rightarrow> res_bind (printf_to n s) (\<lambda>t. Val (upd t)))"

definition answer :: "'v option \<Rightarrow> ('v \<Rightarrow> 'r) \<Rightarrow> 'r \<Rightarrow> 'r" where
  "answer v upd r = (case v of None \<Rightarrow> r | Some x \<Rightarrow> upd x)"

section \<open>Properties of the radio\<close>

definition BUFF_MIN :: nat where "BUFF_MIN = 17"
definition BUFF_LENGTH_24 :: nat where "BUFF_LENGTH_24 = 24"
definition BUFF_LENGTH_256 :: nat where "BUFF_LENGTH_256 = 257"
definition BUFF_LENGTH_4 :: nat where "BUFF_LENGTH_4 = 4"
definition BUFF_LENGTH_32 :: nat where "BUFF_LENGTH_32 = 33"
definition BUFF_MAC :: nat where "BUFF_MAC = 18"

record radio_params =
  rp_enable :: bool
  rp_status :: string
  rp_name :: string
  rp_maxBitRate :: u32
  rp_supportedFrequencyBands :: string
  rp_operatingFrequencyBand :: string
  rp_supportedStandards :: string
  rp_operatingStandards :: string
  rp_possibleChannels :: string
  rp_channelsInUse :: string
  rp_channel :: u32
  rp_autoChannelSupported :: bool
  rp_autoChannelEnable :: bool
  rp_autoChannelRefreshPeriod :: u32
  rp_operatingChannelBandwidth :: string
  rp_extensionChannel :: string
  rp_guardInterval :: string
  rp_mcs :: int
  rp_transmitPowerSupported :: string
  rp_transmitPower :: int
  rp_regulatoryDomain :: string

record radio_hal =
  getRadioEnable :: "u8 option"
  getRadioStatus :: "string option"
  getRadioIfName :: "string option"
  getRadioMaxBitRate :: "string option"
  getRadioAutoChannelSupported :: "u8 option"
  getRadioAutoChannelEnable :: "u8 option"
  getRadioAutoChannelRefreshPeriod :: "64 word option"
  getRadioExtChannel :: "string option"
  getRadioGuardInterval :: "string option"
  getRadioMCS :: "int option"
  getRadioTransmitPowerSupported :: "string option"
  getRadioTransmitPower :: "int option"
  getRadioChannel :: "64 word option"
  getRadioChannelsInUse :: "string option"
  getRadioOperatingChannelBandwidth :: "string option"
  getRadioSupportedFrequencyBands :: "string option"
  getRadioOperatingFrequencyBand :: "string option"
  getRadioSupportedStandards :: "int \<Rightarrow> string option"
  getRadioStandard :: "int \<Rightarrow> string option"
  getRadioPossibleChannels :: "int \<Rightarrow> string option"
  getRegulatoryDomain :: "string option"

text \<open>
  The flags of automatic channel selection compare the address of a local array with the address of a
  string literal, so an answer of any value stores false.
\<close>

definition radio_general :: "radio_hal \<Rightarrow> radio_params \<Rightarrow> radio_params res" where
  "radio_general h r =
     (let r = answer (getRadioEnable h) (\<lambda>b. r \<lparr> rp_enable := (b \<noteq> 0) \<rparr>) r in
      res_bind (answer_text BUFF_MIN (getRadioStatus h) (\<lambda>t. r \<lparr> rp_status := t \<rparr>) r) (\<lambda>r.
      res_bind (answer_text BUFF_LENGTH_24 (getRadioIfName h) (\<lambda>t. r \<lparr> rp_name := t \<rparr>) r) (\<lambda>r.
        let r = answer (getRadioMaxBitRate h) (\<lambda>s. r \<lparr> rp_maxBitRate := word_of_int (atoi s) \<rparr>) r;
            r = answer (getRadioAutoChannelSupported h) (\<lambda>_. r \<lparr> rp_autoChannelSupported := False \<rparr>) r;
            r = answer (getRadioAutoChannelEnable h) (\<lambda>_. r \<lparr> rp_autoChannelEnable := False \<rparr>) r
        in Val (answer (getRadioAutoChannelRefreshPeriod h) (\<lambda>n. r \<lparr> rp_autoChannelRefreshPeriod := ucast n \<rparr>) r))))"

definition radio_channels :: "radio_hal \<Rightarrow> radio_params \<Rightarrow> radio_params res" where
  "radio_channels h r =
     res_bind (answer_text BUFF_LENGTH_24 (getRadioExtChannel h) (\<lambda>t. r \<lparr> rp_extensionChannel := t \<rparr>) r) (\<lambda>r.
     res_bind (answer_text BUFF_LENGTH_24 (getRadioGuardInterval h) (\<lambda>t. r \<lparr> rp_guardInterval := t \<rparr>) r) (\<lambda>r.
       let r = answer (getRadioMCS h) (\<lambda>n. r \<lparr> rp_mcs := n \<rparr>) r in
     res_bind (answer_text BUFF_LENGTH_64 (getRadioTransmitPowerSupported h) (\<lambda>t. r \<lparr> rp_transmitPowerSupported := t \<rparr>) r) (\<lambda>r.
       let r = answer (getRadioChannel h) (\<lambda>n. r \<lparr> rp_channel := ucast n \<rparr>) r in
     res_bind (answer_text BUFF_LENGTH_24 (getRadioChannelsInUse h) (\<lambda>t. r \<lparr> rp_channelsInUse := t \<rparr>) r) (\<lambda>r.
     res_bind (answer_text BUFF_LENGTH_24 (getRadioOperatingChannelBandwidth h) (\<lambda>t. r \<lparr> rp_operatingChannelBandwidth := t \<rparr>) r) (\<lambda>r.
       answer_text BUFF_LENGTH_24 (getRadioSupportedFrequencyBands h) (\<lambda>t. r \<lparr> rp_supportedFrequencyBands := t \<rparr>) r)))))"

text \<open>The standards and channels are asked for the radio of the band in use.\<close>

definition actualRadioIndex :: "radio_hal \<Rightarrow> int" where
  "actualRadioIndex h =
     (let freqBand = (case getRadioOperatingFrequencyBand h of None \<Rightarrow> [] | Some s \<Rightarrow> take (BUFF_MIN - 1) s) in
      if strncmp_eq freqBand ''5GHz'' (BUFF_MIN - 1) then 1 else 0)"

definition radio_standards :: "radio_hal \<Rightarrow> radio_params \<Rightarrow> radio_params res" where
  "radio_standards h r =
     (let i = actualRadioIndex h in
      res_bind (answer_text BUFF_LENGTH_24 (getRadioOperatingFrequencyBand h) (\<lambda>t. r \<lparr> rp_operatingFrequencyBand := t \<rparr>) r) (\<lambda>r.
      res_bind (answer_text BUFF_LENGTH_24 (getRadioSupportedStandards h i) (\<lambda>t. r \<lparr> rp_supportedStandards := t \<rparr>) r) (\<lambda>r.
      res_bind (answer_text BUFF_MIN (getRadioStandard h i) (\<lambda>t. r \<lparr> rp_operatingStandards := t \<rparr>) r) (\<lambda>r.
      res_bind (answer_text BUFF_LENGTH_256 (getRadioPossibleChannels h i) (\<lambda>t. r \<lparr> rp_possibleChannels := t \<rparr>) r) (\<lambda>r.
        let r = answer (getRadioTransmitPower h) (\<lambda>n. r \<lparr> rp_transmitPower := n \<rparr>) r in
        answer_text BUFF_LENGTH_4 (getRegulatoryDomain h) (\<lambda>t. r \<lparr> rp_regulatoryDomain := t \<rparr>) r)))))"

text \<open>The status of the reply is true on every path.\<close>

definition getRadioProps :: "radio_hal \<Rightarrow> radio_params \<Rightarrow> (bool \<times> radio_params) res" where
  "getRadioProps h r =
     res_bind (radio_general h r) (\<lambda>r. res_bind (radio_channels h r) (\<lambda>r. res_bind (radio_standards h r) (\<lambda>r. Val (True, r))))"

section \<open>Properties of the network\<close>

datatype num_entry = SSID_Tbl_Props | SSIDEntry | RadioEntry

record ssid_params =
  sp_enable :: bool
  sp_status :: string
  sp_name :: string
  sp_bssid :: string
  sp_macaddr :: string
  sp_ssid :: string

record ssid_hal =
  getSSIDNumberOfEntries :: "64 word option"
  getRadioNumberOfEntries :: "64 word option"
  getSSIDName :: "string option"
  getBaseBSSID :: "string option"

text \<open>The reply is a union: a number of entries, the parameters of the network, or left alone.\<close>

datatype ssid_reply_data = Unchanged | Entries u32 | Params ssid_params

definition current_ssid :: "os \<Rightarrow> wifi \<Rightarrow> string" where
  "current_ssid env w =
     (let s = fst (get_CurrentSsidInfo w) in if s \<noteq> [] then s else fst (getWpaSsid env ([], False)))"

definition ssid_table :: "os \<Rightarrow> ssid_hal \<Rightarrow> string \<Rightarrow> wifi \<Rightarrow> ssid_params \<Rightarrow> ssid_params res" where
  "ssid_table env h gWifiMacAddress w r =
     res_bind (answer_text BUFF_LENGTH_32 (getSSIDName h) (\<lambda>t. r \<lparr> sp_name := t \<rparr>) r) (\<lambda>r.
     res_bind (answer_text BUFF_MAC (getBaseBSSID h) (\<lambda>t. r \<lparr> sp_bssid := t \<rparr>) r) (\<lambda>r.
     res_bind (answer_text BUFF_MAC (if gWifiMacAddress = [] then None else Some gWifiMacAddress) (\<lambda>t. r \<lparr> sp_macaddr := t \<rparr>) r) (\<lambda>r.
     res_bind (strcpy_to SSID_SIZE (current_ssid env w)) (\<lambda>s.
       let up = (isWifiConnected w \<or> getWpaStatus env = WIFI_CONNECTED) in
       Val (r \<lparr> sp_ssid := s, sp_enable := up, sp_status := (if up then ''UP'' else ''DOWN'') \<rparr>)))))"

definition getSSIDProps :: "os \<Rightarrow> ssid_hal \<Rightarrow> string \<Rightarrow> num_entry \<Rightarrow> wifi \<Rightarrow> ssid_params \<Rightarrow> ssid_reply_data res" where
  "getSSIDProps env h mac numEntry w r = (case numEntry of
      SSIDEntry \<Rightarrow> Val (answer (getSSIDNumberOfEntries h) (\<lambda>n. Entries (ucast n)) Unchanged)
    | RadioEntry \<Rightarrow> Val (answer (getRadioNumberOfEntries h) (\<lambda>n. Entries (ucast n)) Unchanged)
    | SSID_Tbl_Props \<Rightarrow> res_bind (ssid_table env h mac w r) (\<lambda>r. Val (Params r)))"

section \<open>Statistics and the end point\<close>

text \<open>The numbers of the HAL as far as they are read, converted to the types of the reply.\<close>

record radioTrafficStats =
  radio_BytesSent :: "64 word"
  radio_BytesReceived :: "64 word"
  radio_PacketsSent :: "64 word"
  radio_PacketsReceived :: "64 word"
  radio_ErrorsSent :: u32
  radio_ErrorsReceived :: u32
  radio_DiscardPacketsSent :: u32
  radio_DiscardPacketsReceived :: u32
  radio_FCSErrorCount :: u32
  radio_InvalidMACCount :: u32
  radio_PacketsOtherReceived :: u32
  radio_NoiseFloor :: u32

record radio_stats =
  bytesSent :: "64 word"
  bytesReceived :: "64 word"
  packetsSent :: "64 word"
  packetsReceived :: "64 word"
  errorsSent :: u32
  errorsReceived :: u32
  discardPacketsSent :: u32
  discardPacketsReceived :: u32
  plcErrorCount :: u32
  fcsErrorCount :: u32
  invalidMACCount :: u32
  packetsOtherReceived :: u32
  noiseFloor :: u32

definition getRadioStats :: "bool \<Rightarrow> radioTrafficStats option \<Rightarrow> radio_stats \<Rightarrow> bool \<times> radio_stats" where
  "getRadioStats malloc_ok trafficStats r =
     (if \<not> malloc_ok then (False, r)
      else (True, answer trafficStats (\<lambda>t.
        \<lparr> bytesSent = radio_BytesSent t, bytesReceived = radio_BytesReceived t, packetsSent = radio_PacketsSent t,
          packetsReceived = radio_PacketsReceived t, errorsSent = radio_ErrorsSent t, errorsReceived = radio_ErrorsReceived t,
          discardPacketsSent = radio_DiscardPacketsSent t, discardPacketsReceived = radio_DiscardPacketsReceived t,
          plcErrorCount = radio_DiscardPacketsReceived t, fcsErrorCount = radio_FCSErrorCount t,
          invalidMACCount = radio_InvalidMACCount t, packetsOtherReceived = radio_PacketsOtherReceived t,
          noiseFloor = radio_NoiseFloor t \<rparr>) r))"

record sta_stats =
  sta_SSID :: string
  sta_RSSI :: int
  sta_Retransmissions :: "64 word"
  sta_LastDataDownlinkRate :: "64 word"
  sta_LastDataUplinkRate :: "64 word"

record endpoint_info =
  ep_enable :: bool
  ep_status :: string
  ep_SSIDReference :: string
  ep_signalStrength :: int
  ep_retransmissions :: "64 word"
  ep_lastDataDownlinkRate :: "64 word"
  ep_lastDataUplinkRate :: "64 word"

definition getEndPointInfo :: "sta_stats \<Rightarrow> wifi \<Rightarrow> endpoint_info \<Rightarrow> endpoint_info" where
  "getEndPointInfo stats w e =
     (if isWifiConnected w
      then e \<lparr> ep_status := ''Enabled'', ep_enable := True, ep_SSIDReference := take BUFF_LENGTH_64 (sta_SSID stats),
             ep_signalStrength := sta_RSSI stats, ep_retransmissions := sta_Retransmissions stats,
             ep_lastDataDownlinkRate := sta_LastDataDownlinkRate stats, ep_lastDataUplinkRate := sta_LastDataUplinkRate stats \<rparr>
      else e \<lparr> ep_status := ''Disabled'', ep_enable := False \<rparr>)"

section \<open>Roaming\<close>

datatype roam_status = ROAM_PARAM_SUCCESS | ROAM_PARAM_FAILURE | ROAM_PARAM_DISABLED

record roam_numbers =
  preassnBestThreshold :: int
  preassnBestDelta :: int
  postAssnLevelDeltaConnected :: int
  postAssnLevelDeltaDisconnected :: int
  postAssnSelfSteerThreshold :: int
  postAssnSelfSteerTimeframe :: int
  postAssnBackOffTime :: int
  postAssnAPcontrolThresholdLevel :: int
  postAssnAPcontrolTimeframe :: int

record roaming_ctrl =
  roam_status :: roam_status
  roamingEnable :: bool
  roaming80211kvrEnable :: bool
  selfSteerOverride :: bool
  roam_numbers :: roam_numbers

record hal_roaming =
  hal_roamingEnable :: int
  hal_roam80211kvrEnable :: int
  hal_selfSteerOverride :: int
  hal_numbers :: roam_numbers

definition roam_status_of :: "int \<Rightarrow> roam_status" where
  "roam_status_of status =
     (if status = 0 then ROAM_PARAM_SUCCESS else if status = -2 then ROAM_PARAM_DISABLED else ROAM_PARAM_FAILURE)"

definition getRoamingConfigInfo :: "int \<times> hal_roaming \<Rightarrow> roaming_ctrl \<Rightarrow> bool \<times> roaming_ctrl" where
  "getRoamingConfigInfo ans param = (case ans of (status, out_param) \<Rightarrow>
     if status = 0
     then (True, \<lparr> roam_status = ROAM_PARAM_SUCCESS, roamingEnable = (hal_roamingEnable out_param = 1),
             roaming80211kvrEnable = (hal_roam80211kvrEnable out_param \<noteq> 0), selfSteerOverride = (hal_selfSteerOverride out_param = 1),
             roam_numbers = hal_numbers out_param \<rparr>)
     else (False, param \<lparr> roam_status := roam_status_of status \<rparr>))"

definition roaming_request :: "roaming_ctrl \<Rightarrow> hal_roaming" where
  "roaming_request param =
     \<lparr> hal_roamingEnable = of_bool (roamingEnable param), hal_roam80211kvrEnable = of_bool (roaming80211kvrEnable param),
       hal_selfSteerOverride = of_bool (selfSteerOverride param), hal_numbers = roam_numbers param \<rparr>"

definition setRoamingConfigInfo :: "(hal_roaming \<Rightarrow> int) \<Rightarrow> roaming_ctrl \<Rightarrow> bool \<times> roaming_ctrl" where
  "setRoamingConfigInfo hal param =
     (let status = hal (roaming_request param) in (status = 0, param \<lparr> roam_status := roam_status_of status \<rparr>))"

section \<open>The gateway\<close>

text \<open>An entry of the UPnP list: its members, where present and strings.\<close>

record xmedia_gateway =
  gw_DevType :: "string option"
  gw_modelClass :: "string option"
  gw_make :: "string option"
  gw_bcastMacAddress :: "string option"

definition MAX_DEVICE_INFO_STRING_LENGTH :: nat where "MAX_DEVICE_INFO_STRING_LENGTH = 32"

definition store_info :: "string option \<Rightarrow> (string \<Rightarrow> wifi) \<Rightarrow> wifi \<Rightarrow> wifi res" where
  "store_info v upd w =
     (case v of None \<Rightarrow> Val w | Some s \<Rightarrow> res_bind (strcpy_to MAX_DEVICE_INFO_STRING_LENGTH s) (\<lambda>s. Val (upd s)))"

fun gateway_loop :: "glib \<Rightarrow> xmedia_gateway list \<Rightarrow> wifi \<Rightarrow> wifi res" where
  "gateway_loop g [] w = Val w"
| "gateway_loop g (d # ds) w =
     (if (case gw_DevType d of None \<Rightarrow> False | Some t \<Rightarrow> g_strrstr g (g_strstrip g t) ''XB'')
      then res_bind (store_info (gw_modelClass d) (\<lambda>s. w \<lparr> deviceModel := s \<rparr>) w) (\<lambda>w.
           res_bind (store_info (gw_make d) (\<lambda>s. w \<lparr> deviceMake := s \<rparr>) w) (\<lambda>w.
             store_info (gw_bcastMacAddress d) (\<lambda>s. w \<lparr> deviceMACAddr := s \<rparr>) w))
      else gateway_loop g ds w)"

text \<open>The document: \<^term>\<open>None\<close> when it does not parse, and inside when it has no list of gateways.\<close>

definition parseAPDetails :: "glib \<Rightarrow> xmedia_gateway list option option \<Rightarrow> wifi \<Rightarrow> (bool \<times> wifi) res" where
  "parseAPDetails g doc w = (case doc of
      Some (Some ds) \<Rightarrow> res_bind (gateway_loop g ds w) (\<lambda>w. Val (True, w))
    | _ \<Rightarrow> Val (False, w))"

text \<open>
  One round of the collecting thread, with the memory and the reply of the UPnP service: whether the
  thread is done.
\<close>

definition getAPMakeAndModel :: "glib \<Rightarrow> bool \<Rightarrow> xmedia_gateway list option option \<Rightarrow> wifi \<Rightarrow> (bool \<times> wifi) res" where
  "getAPMakeAndModel g malloc_ok doc w =
     res_bind (if malloc_ok then parseAPDetails g doc w else Val (False, w)) (\<lambda>(ret, w).
       Val (ret \<and> deviceModel w \<noteq> [] \<and> deviceMake w \<noteq> [], w))"

section \<open>The Lost and Found token\<close>

record lfat =
  lfat_version :: string
  lfat_ttl :: int
  lfat_token :: string

text \<open>
  The reply of the authentication service: the HTTP code, the text, and the members of its document, each
  if it is there; one that should be a string and is not has the null pointer, an inner \<^term>\<open>None\<close>.
\<close>

record lfat_reply =
  http_code :: int
  reply_text :: string
  reply_version :: "string option option"
  reply_expires :: "int option"
  reply_LFAT :: "string option option"

definition EINVAL :: int where "EINVAL = 22"
definition ENOMEM :: int where "ENOMEM = 12"

definition http_error :: "int \<Rightarrow> int" where
  "http_error code = (if code = 0 then 404 else code)"

text \<open>The size of the token's version and the success of the allocation are given.\<close>

definition laf_get_lfat :: "nat \<Rightarrow> bool \<Rightarrow> lfat_reply \<Rightarrow> bool \<Rightarrow> lfat \<Rightarrow> (int \<times> lfat) res" where
  "laf_get_lfat version_size malloc_ok r parses l =
     (if http_code r \<noteq> 200 \<or> length (reply_text r) \<le> 1 then Val (http_error (http_code r), l)
      else if \<not> parses then Val (EINVAL, l)
      else (case reply_version r of
          None \<Rightarrow> Val (EINVAL, l)
        | Some None \<Rightarrow> UB
        | Some (Some v) \<Rightarrow> res_bind (strcpy_to version_size v) (\<lambda>v.
            let l = l \<lparr> lfat_version := v \<rparr> in
            case reply_expires r of
              None \<Rightarrow> Val (EINVAL, l)
            | Some e \<Rightarrow>
                let l = l \<lparr> lfat_ttl := e \<rparr> in
                (case reply_LFAT r of
                   None \<Rightarrow> Val (EINVAL, l)
                 | Some None \<Rightarrow> UB
                 | Some (Some t) \<Rightarrow> if \<not> malloc_ok then Val (ENOMEM, l) else Val (0, l \<lparr> lfat_token := t \<rparr>)))))"

definition laf_set_lfat :: "bool \<Rightarrow> (cjson \<Rightarrow> string option) \<Rightarrow> (string \<Rightarrow> int) \<Rightarrow> lfat \<Rightarrow> int" where
  "laf_set_lfat create_ok print post l =
     (if \<not> create_ok then EINVAL
      else (case print (JObject [(''version'', JString (lfat_version l)), (''expires'', JNumber (of_int (lfat_ttl l))),
               (''lfat'', JString (lfat_token l))]) of
          None \<Rightarrow> EINVAL
        | Some data \<Rightarrow> let code = post data in if code \<noteq> 200 then http_error code else 0))"

section \<open>Fields fit their buffers\<close>

definition radio_wf :: "radio_params \<Rightarrow> bool" where
  "radio_wf r \<longleftrightarrow> length (rp_status r) < BUFF_MIN \<and> length (rp_name r) < BUFF_LENGTH_24 \<and>
     length (rp_supportedFrequencyBands r) < BUFF_LENGTH_24 \<and> length (rp_operatingFrequencyBand r) < BUFF_LENGTH_24 \<and>
     length (rp_supportedStandards r) < BUFF_LENGTH_24 \<and> length (rp_operatingStandards r) < BUFF_LENGTH_24 \<and>
     length (rp_possibleChannels r) < BUFF_LENGTH_256 \<and> length (rp_channelsInUse r) < BUFF_LENGTH_24 \<and>
     length (rp_operatingChannelBandwidth r) < BUFF_LENGTH_24 \<and> length (rp_extensionChannel r) < BUFF_LENGTH_24 \<and>
     length (rp_guardInterval r) < BUFF_LENGTH_24 \<and> length (rp_transmitPowerSupported r) < BUFF_LENGTH_64 \<and>
     length (rp_regulatoryDomain r) < BUFF_LENGTH_4"

lemma answer_text_inv:
  assumes "I r" and "0 < n" and "\<And>t. length t < n \<Longrightarrow> I (upd t)"
  shows "res_inv I (answer_text n v upd r)"
  using assms
  by (auto simp: answer_text_def printf_to_def res_inv_def res_bind_Val_iff length_snprintf_to split: option.split)

lemma answer_inv: "I r \<Longrightarrow> (\<And>x. I (upd x)) \<Longrightarrow> I (answer v upd r)"
  by (simp add: answer_def split: option.split)

lemmas diag_sizes = BUFF_MIN_def BUFF_LENGTH_24_def BUFF_LENGTH_256_def BUFF_LENGTH_4_def BUFF_LENGTH_64_def

lemma radio_wf_update:
  "radio_wf r \<Longrightarrow> length t < BUFF_MIN \<Longrightarrow> radio_wf (r \<lparr> rp_status := t \<rparr>)"
  "radio_wf r \<Longrightarrow> length t < BUFF_LENGTH_24 \<Longrightarrow> radio_wf (r \<lparr> rp_name := t \<rparr>)"
  "radio_wf r \<Longrightarrow> length t < BUFF_LENGTH_24 \<Longrightarrow> radio_wf (r \<lparr> rp_supportedFrequencyBands := t \<rparr>)"
  "radio_wf r \<Longrightarrow> length t < BUFF_LENGTH_24 \<Longrightarrow> radio_wf (r \<lparr> rp_operatingFrequencyBand := t \<rparr>)"
  "radio_wf r \<Longrightarrow> length t < BUFF_LENGTH_24 \<Longrightarrow> radio_wf (r \<lparr> rp_supportedStandards := t \<rparr>)"
  "radio_wf r \<Longrightarrow> length t < BUFF_MIN \<Longrightarrow> radio_wf (r \<lparr> rp_operatingStandards := t \<rparr>)"
  "radio_wf r \<Longrightarrow> length t < BUFF_LENGTH_256 \<Longrightarrow> radio_wf (r \<lparr> rp_possibleChannels := t \<rparr>)"
  "radio_wf r \<Longrightarrow> length t < BUFF_LENGTH_24 \<Longrightarrow> radio_wf (r \<lparr> rp_channelsInUse := t \<rparr>)"
  "radio_wf r \<Longrightarrow> length t < BUFF_LENGTH_24 \<Longrightarrow> radio_wf (r \<lparr> rp_operatingChannelBandwidth := t \<rparr>)"
  "radio_wf r \<Longrightarrow> length t < BUFF_LENGTH_24 \<Longrightarrow> radio_wf (r \<lparr> rp_extensionChannel := t \<rparr>)"
  "radio_wf r \<Longrightarrow> length t < BUFF_LENGTH_24 \<Longrightarrow> radio_wf (r \<lparr> rp_guardInterval := t \<rparr>)"
  "radio_wf r \<Longrightarrow> length t < BUFF_LENGTH_64 \<Longrightarrow> radio_wf (r \<lparr> rp_transmitPowerSupported := t \<rparr>)"
  "radio_wf r \<Longrightarrow> length t < BUFF_LENGTH_4 \<Longrightarrow> radio_wf (r \<lparr> rp_regulatoryDomain := t \<rparr>)"
  "radio_wf r \<Longrightarrow> radio_wf (r \<lparr> rp_enable := b \<rparr>)" "radio_wf r \<Longrightarrow> radio_wf (r \<lparr> rp_maxBitRate := n \<rparr>)"
  "radio_wf r \<Longrightarrow> radio_wf (r \<lparr> rp_autoChannelSupported := b \<rparr>)" "radio_wf r \<Longrightarrow> radio_wf (r \<lparr> rp_autoChannelEnable := b \<rparr>)"
  "radio_wf r \<Longrightarrow> radio_wf (r \<lparr> rp_autoChannelRefreshPeriod := n \<rparr>)" "radio_wf r \<Longrightarrow> radio_wf (r \<lparr> rp_mcs := i \<rparr>)"
  "radio_wf r \<Longrightarrow> radio_wf (r \<lparr> rp_channel := n \<rparr>)" "radio_wf r \<Longrightarrow> radio_wf (r \<lparr> rp_transmitPower := i \<rparr>)"
  by (simp_all add: radio_wf_def diag_sizes)

lemma diag_sizes_pos: "0 < BUFF_MIN" "0 < BUFF_LENGTH_24" "0 < BUFF_LENGTH_256" "0 < BUFF_LENGTH_4" "0 < BUFF_LENGTH_64"
  by (simp_all add: diag_sizes)

lemma radio_Val: "radio_wf r \<Longrightarrow> res_inv radio_wf (Val r)"
  by simp

lemmas radio_rules = res_inv_bind [where I = radio_wf and J = radio_wf] answer_text_inv [where I = radio_wf]
  answer_inv [where I = radio_wf] radio_Val radio_wf_update diag_sizes_pos

lemma radio_parts_wf:
  assumes "radio_wf r"
  shows "res_inv radio_wf (radio_general h r)" "res_inv radio_wf (radio_channels h r)" "res_inv radio_wf (radio_standards h r)"
  unfolding radio_general_def radio_channels_def radio_standards_def Let_def
  by (rule radio_rules assms | assumption)+


lemma format_text_percent: "CHR ''%'' \<notin> set s \<Longrightarrow> format_text (s @ [CHR ''%'']) = UB"
  by (induction s) auto

text \<open>
  The name of the network is used as a format string: with one that ends in a percent sign, say
  \<^verbatim>\<open>100%\<close>, the query of its properties is undefined.
\<close>

theorem ssid_name_format_undefined:
  assumes "getSSIDName h = Some (name @ [CHR ''%''])" and "CHR ''%'' \<notin> set name"
  shows "getSSIDProps env h mac SSID_Tbl_Props w r = UB"
  using assms(1) format_text_percent [OF assms(2)]
  by (simp add: getSSIDProps_def ssid_table_def answer_text_def printf_to_def)

text \<open>
  Roaming controls that were set are read back as they are from a HAL that stores them.
\<close>

theorem roaming_roundtrip:
  assumes "setRoamingConfigInfo hal p = (True, p')"
  shows "getRoamingConfigInfo (0, roaming_request p) q = (True, p')"
  using assms by (cases p) (auto simp: setRoamingConfigInfo_def getRoamingConfigInfo_def roaming_request_def roam_status_of_def Let_def)

definition is_XB :: "glib \<Rightarrow> xmedia_gateway \<Rightarrow> bool" where
  "is_XB g d \<longleftrightarrow> (case gw_DevType d of None \<Rightarrow> False | Some t \<Rightarrow> g_strrstr g (g_strstrip g t) ''XB'')"

definition stated :: "string option \<Rightarrow> string \<Rightarrow> string" where
  "stated v old = (case v of None \<Rightarrow> old | Some s \<Rightarrow> s)"

definition info_fits :: "string option \<Rightarrow> bool" where
  "info_fits v \<longleftrightarrow> (case v of None \<Rightarrow> True | Some s \<Rightarrow> length s < MAX_DEVICE_INFO_STRING_LENGTH)"

lemma store_info_Val: "store_info v upd w = Val w' \<longleftrightarrow> info_fits v \<and> w' = (case v of None \<Rightarrow> w | Some s \<Rightarrow> upd s)"
  by (auto simp: store_info_def info_fits_def res_bind_Val_iff split: option.split)

lemma gateway_loop_find:
  "gateway_loop g ds w = (case find (is_XB g) ds of None \<Rightarrow> Val w | Some d \<Rightarrow> gateway_loop g [d] w)"
  by (induction ds) (auto simp: is_XB_def split: option.splits)

text \<open>
  The gateway is described by the first XB in the list: what it states is stored and fits its
  buffer, what it leaves out stays as it was, and the other devices change nothing.
\<close>

theorem gateway_described:
  assumes "parseAPDetails g (Some (Some ds)) w = Val (ok, w')"
  shows "ok \<and> (case find (is_XB g) ds of
      None \<Rightarrow> w' = w
    | Some d \<Rightarrow> info_fits (gw_modelClass d) \<and> info_fits (gw_make d) \<and> info_fits (gw_bcastMacAddress d) \<and>
        w' = w \<lparr> deviceModel := stated (gw_modelClass d) (deviceModel w), deviceMake := stated (gw_make d) (deviceMake w),
          deviceMACAddr := stated (gw_bcastMacAddress d) (deviceMACAddr w) \<rparr>)"
proof -
  have w': "ok" "gateway_loop g ds w = Val w'" using assms by (auto simp: parseAPDetails_def res_bind_Val_iff)
  show ?thesis
  proof (cases "find (is_XB g) ds")
    case None
    then show ?thesis using w' gateway_loop_find [of g ds w] by simp
  next
    case (Some d)
    then have "is_XB g d" by (metis find_Some_iff)
    then have "gateway_loop g [d] w = Val w'" "case gw_DevType d of None \<Rightarrow> False | Some t \<Rightarrow> g_strrstr g (g_strstrip g t) ''XB''"
      using Some w' gateway_loop_find [of g ds w] by (simp_all add: is_XB_def del: gateway_loop.simps)
    then show ?thesis using Some w'(1)
      by (auto simp: res_bind_Val_iff store_info_Val stated_def split: option.splits)
  qed
qed

text \<open>
  A token from the authentication service: the call reports success exactly if the reply has the
  code 200, parses and has all three members and the memory is there, and then the token is the one of
  the reply; a reply without a code counts as 404.
\<close>

theorem lfat_outcome:
  assumes "laf_get_lfat n malloc_ok r parses l = Val (e, l')"
  shows "(e = 0 \<longrightarrow> http_code r = 200 \<and> parses \<and> malloc_ok \<and> reply_version r = Some (Some (lfat_version l')) \<and>
      reply_expires r = Some (lfat_ttl l') \<and> reply_LFAT r = Some (Some (lfat_token l'))) \<and>
    (e \<noteq> 0 \<longrightarrow> lfat_token l' = lfat_token l) \<and> (http_code r = 0 \<longrightarrow> e = 404 \<and> l' = l)"
  using assms
  by (auto simp: laf_get_lfat_def Let_def http_error_def res_bind_Val_iff EINVAL_def ENOMEM_def split: if_splits option.splits)

section \<open>Witnesses\<close>

definition no_radio :: radio_params where
  "no_radio = \<lparr> rp_enable = False, rp_status = [], rp_name = [], rp_maxBitRate = 0, rp_supportedFrequencyBands = [],
     rp_operatingFrequencyBand = [], rp_supportedStandards = [], rp_operatingStandards = [], rp_possibleChannels = [],
     rp_channelsInUse = [], rp_channel = 0, rp_autoChannelSupported = False, rp_autoChannelEnable = False,
     rp_autoChannelRefreshPeriod = 0, rp_operatingChannelBandwidth = [], rp_extensionChannel = [], rp_guardInterval = [],
     rp_mcs = 0, rp_transmitPowerSupported = [], rp_transmitPower = 0, rp_regulatoryDomain = [] \<rparr>"

definition sample_radio_hal :: radio_hal where
  "sample_radio_hal = \<lparr> getRadioEnable = Some 1, getRadioStatus = Some ''Up'', getRadioIfName = Some ''wlan0'',
     getRadioMaxBitRate = None, getRadioAutoChannelSupported = None, getRadioAutoChannelEnable = None,
     getRadioAutoChannelRefreshPeriod = None, getRadioExtChannel = None, getRadioGuardInterval = None, getRadioMCS = None,
     getRadioTransmitPowerSupported = None, getRadioTransmitPower = None, getRadioChannel = None, getRadioChannelsInUse = None,
     getRadioOperatingChannelBandwidth = None, getRadioSupportedFrequencyBands = None, getRadioOperatingFrequencyBand = None,
     getRadioSupportedStandards = (\<lambda>_. None), getRadioStandard = (\<lambda>_. None), getRadioPossibleChannels = (\<lambda>_. None),
     getRegulatoryDomain = None \<rparr>"


theorem ssid_name_format_undefined_witness:
  "getSSIDProps sample_os \<lparr> getSSIDNumberOfEntries = None, getRadioNumberOfEntries = None, getSSIDName = Some ''100%'', getBaseBSSID = None \<rparr>
     [] SSID_Tbl_Props initial_wifi
     \<lparr> sp_enable = False, sp_status = [], sp_name = [], sp_bssid = [], sp_macaddr = [], sp_ssid = [] \<rparr> = UB"
  by (rule ssid_name_format_undefined [of _ "''100''"]) simp_all

definition sample_roaming :: roaming_ctrl where
  "sample_roaming = \<lparr> roam_status = ROAM_PARAM_FAILURE, roamingEnable = True, roaming80211kvrEnable = False, selfSteerOverride = True,
     roam_numbers = \<lparr> preassnBestThreshold = -67, preassnBestDelta = 3, postAssnLevelDeltaConnected = 12,
       postAssnLevelDeltaDisconnected = 8, postAssnSelfSteerThreshold = -75, postAssnSelfSteerTimeframe = 60,
       postAssnBackOffTime = 2, postAssnAPcontrolThresholdLevel = 0, postAssnAPcontrolTimeframe = 0 \<rparr> \<rparr>"

theorem roaming_roundtrip_witness:
  "getRoamingConfigInfo (0, roaming_request sample_roaming) sample_roaming = (True, sample_roaming \<lparr> roam_status := ROAM_PARAM_SUCCESS \<rparr>)"
  by (rule roaming_roundtrip [of "\<lambda>_. 0"]) (simp add: setRoamingConfigInfo_def roam_status_of_def)

lemma sample_XB: "g_strrstr sample_glib (g_strstrip sample_glib ''XB6'') ''XB''"
  by code_simp

theorem gateway_described_witness:
  "\<exists>w'. parseAPDetails sample_glib (Some (Some [\<lparr> gw_DevType = Some ''XB6'', gw_modelClass = Some ''TG3482'', gw_make = None,
       gw_bcastMacAddress = None \<rparr>])) initial_wifi = Val (True, w') \<and> deviceModel w' = ''TG3482''"
proof -
  let ?d = "\<lparr> gw_DevType = Some ''XB6'', gw_modelClass = Some ''TG3482'', gw_make = None, gw_bcastMacAddress = None \<rparr>"
  obtain w' where w': "parseAPDetails sample_glib (Some (Some [?d])) initial_wifi = Val (True, w')"
    by (simp add: parseAPDetails_def sample_XB store_info_def strcpy_to_def MAX_DEVICE_INFO_STRING_LENGTH_def)
  from gateway_described [OF w'] w' show ?thesis by (simp add: is_XB_def sample_XB stated_def)
qed

theorem lfat_outcome_witness:
  "\<exists>l'. laf_get_lfat 8 True \<lparr> http_code = 200, reply_text = ''{..}'', reply_version = Some (Some ''1.0''), reply_expires = Some 60,
       reply_LFAT = Some (Some ''tok'') \<rparr> True \<lparr> lfat_version = [], lfat_ttl = 0, lfat_token = [] \<rparr> = Val (0, l') \<and> lfat_token l' = ''tok''"
proof -
  let ?r = "\<lparr> http_code = 200, reply_text = ''{..}'', reply_version = Some (Some ''1.0''), reply_expires = Some 60, reply_LFAT = Some (Some ''tok'') \<rparr>"
  let ?l = "\<lparr> lfat_version = [], lfat_ttl = 0, lfat_token = [] \<rparr>"
  obtain l' where l': "laf_get_lfat 8 True ?r True ?l = Val (0, l')" by (simp add: laf_get_lfat_def strcpy_to_def)
  from lfat_outcome [OF l'] l' show ?thesis by simp
qed

end
