(* ===== verification/Wifi_Telemetry.thy ===== *)
theory Wifi_Telemetry
  imports Wifi_Diag
begin

text \<open>
  The turn of the connection monitor (the body of the loop of \<^verbatim>\<open>wifiConnStatusThread\<close>) and the two lists of
  telemetry parameters it writes to the log (\<^verbatim>\<open>logs_Period1_Params\<close>, \<^verbatim>\<open>logs_Period2_Params\<close> of
  \<^verbatim>\<open>wifiHalUtiles.cpp\<close>), with the static variables of the second.

  A line of the log is a value here, with the number or text at the type of its format.  The structures
  that are filled by \<^verbatim>\<open>getEndPointInfo\<close> and \<^verbatim>\<open>getRadioStats\<close> are not initialized by the caller: reading a
  member that was not filled is undefined.
\<close>

section \<open>Lines and answers\<close>

datatype tele_value = Lu "64 word" | D int | U u32 | S string

datatype tele_line =
    ConnectionStatus string
  | WifiStats string string "int list" string "(string \<times> string \<times> string) option"
  | Param string tele_value

record monitor_stats = sta_stats +
  sta_BSSID :: string
  sta_BAND :: string
  sta_numbers :: "int list"

record tele_env =
  te_glib :: glib
  te_stats :: monitor_stats
  te_malloc :: bool
  te_traffic :: "radioTrafficStats option"
  te_channel :: "64 word option"
  te_power :: "int option"
  te_bssid :: string
  te_name :: "string option"
  te_mac :: string

definition no_endpoint :: endpoint_info where
  "no_endpoint = \<lparr> ep_enable = False, ep_status = [], ep_SSIDReference = [], ep_signalStrength = 0, ep_retransmissions = 0,
     ep_lastDataDownlinkRate = 0, ep_lastDataUplinkRate = 0 \<rparr>"

definition no_stats :: radio_stats where
  "no_stats = \<lparr> bytesSent = 0, bytesReceived = 0, packetsSent = 0, packetsReceived = 0, errorsSent = 0, errorsReceived = 0,
     discardPacketsSent = 0, discardPacketsReceived = 0, plcErrorCount = 0, fcsErrorCount = 0, invalidMACCount = 0,
     packetsOtherReceived = 0, noiseFloor = 0 \<rparr>"

text \<open>A member of the end point's numbers, which are filled while the adapter is connected.\<close>

definition endpoint_value :: "tele_env \<Rightarrow> wifi \<Rightarrow> (endpoint_info \<Rightarrow> tele_value) \<Rightarrow> tele_value res" where
  "endpoint_value te w f =
     (if isWifiConnected w then Val (f (getEndPointInfo (sta_stats.truncate (te_stats te)) w no_endpoint)) else UB)"

text \<open>A member of the radio's numbers, which are filled if the memory is there and the HAL answers.\<close>

definition radio_value :: "tele_env \<Rightarrow> (radio_stats \<Rightarrow> tele_value) \<Rightarrow> tele_value res" where
  "radio_value te f =
     (if te_malloc te \<and> te_traffic te \<noteq> None then Val (f (snd (getRadioStats (te_malloc te) (te_traffic te) no_stats))) else UB)"

section \<open>The lists\<close>

definition param_line :: "tele_env \<Rightarrow> string \<Rightarrow> string \<Rightarrow> tele_value res option \<Rightarrow> tele_line list res" where
  "param_line te x key v =
     (if g_strrstr (te_glib te) x key
      then (case v of None \<Rightarrow> Val [] | Some r \<Rightarrow> res_bind r (\<lambda>v. Val [Param x v]))
      else Val [])"

fun res_concat :: "'a list res list \<Rightarrow> 'a list res" where
  "res_concat [] = Val []"
| "res_concat (r # rs) = res_bind r (\<lambda>xs. res_bind (res_concat rs) (\<lambda>ys. Val (xs @ ys)))"

definition period1_param :: "tele_env \<Rightarrow> wifi \<Rightarrow> string \<Rightarrow> tele_line list res" where
  "period1_param te w x = res_concat
     [param_line te x ''LastDataDownlinkRate'' (Some (endpoint_value te w (\<lambda>e. Lu (ep_lastDataDownlinkRate e)))),
      param_line te x ''LastDataUplinkRate '' (Some (endpoint_value te w (\<lambda>e. Lu (ep_lastDataUplinkRate e)))),
      param_line te x ''Retransmissions'' (Some (endpoint_value te w (\<lambda>e. Lu (ep_retransmissions e)))),
      param_line te x ''SignalStrength'' (Some (endpoint_value te w (\<lambda>e. D (ep_signalStrength e)))),
      param_line te x ''Channel'' (map_option (\<lambda>n. Val (Lu n)) (te_channel te)),
      param_line te x ''Stats.FCSErrorCount'' (Some (radio_value te (\<lambda>p. U (fcsErrorCount p)))),
      param_line te x ''Stats.Noise'' (Some (radio_value te (\<lambda>p. U (noiseFloor p)))),
      param_line te x ''TransmitPower'' (map_option (\<lambda>n. Val (D n)) (te_power te)),
      param_line te x ''Stats.ErrorsReceived'' (Some (radio_value te (\<lambda>p. U (errorsReceived p)))),
      param_line te x ''Stats.ErrorsSent'' (Some (radio_value te (\<lambda>p. U (errorsSent p)))),
      param_line te x ''Stats.PacketsReceived'' (Some (radio_value te (\<lambda>p. Lu (packetsReceived p)))),
      param_line te x ''Stats.PacketsSent'' (Some (radio_value te (\<lambda>p. Lu (packetsSent p))))]"

text \<open>A null name in the list is searched without success.\<close>

definition logs_Period1_Params :: "tele_env \<Rightarrow> wifi \<Rightarrow> telemetryParams \<Rightarrow> tele_line list res" where
  "logs_Period1_Params te w params =
     res_concat (map (\<lambda>x. case x of None \<Rightarrow> Val [] | Some x \<Rightarrow> period1_param te w x) (paramlist params))"

definition period2_param :: "tele_env \<Rightarrow> wifi \<Rightarrow> string \<Rightarrow> tele_line list" where
  "period2_param te w x =
     (let found = g_strrstr (te_glib te) x in
      (if found ''NumberOfEntries'' then [Param x (D 1)] else []) @
      (if found ''Device.WiFi.EndPoint.1.Profile.1.SSID'' \<or> found ''Device.WiFi.SSID.1.SSID'' \<or> found ''Device.WiFi.EndPoint.1.SSIDReference''
       then [Param x (S (fst (get_CurrentSsidInfo w)))] else []) @
      (if found ''BSSID'' then [Param x (S (te_bssid te))] else []) @
      (if found ''Name'' then (case te_name te of Some t \<Rightarrow> [Param x (S t)] | None \<Rightarrow> []) else []) @
      (if found ''Device.WiFi.SSID.1.MACAddress'' \<and> te_mac te \<noteq> [] then [Param x (S (te_mac te))] else []))"

record period2 =
  print_flag :: bool
  lastExec_t :: int

definition initial_period2 :: period2 where
  "initial_period2 = \<lparr> print_flag = True, lastExec_t = 0 \<rparr>"

text \<open>The two readings of the clock are arguments.\<close>

definition logs_Period2_Params ::
    "tele_env \<Rightarrow> wifi \<Rightarrow> telemetryParams \<Rightarrow> int \<Rightarrow> int \<Rightarrow> period2 \<Rightarrow> tele_line list \<times> period2" where
  "logs_Period2_Params te w params start_t now_t p =
     (if print_flag p
      then concat (map (\<lambda>x. case x of None \<Rightarrow> [] | Some x \<Rightarrow> period2_param te w x) (paramlist params)) else [],
      if timePeriod params \<le> start_t - lastExec_t p then p \<lparr> lastExec_t := now_t, print_flag := True \<rparr>
      else p \<lparr> print_flag := False \<rparr>)"

section \<open>The turn of the monitor\<close>

text \<open>
  The first state is the one in which the status is read, the second the one in which the lists are
  written: callbacks may arrive in between.
\<close>

definition stats_line :: "tele_env \<Rightarrow> wifi \<Rightarrow> tele_line" where
  "stats_line te w =
     WifiStats (sta_SSID (te_stats te)) (sta_BSSID (te_stats te)) (sta_numbers (te_stats te)) (sta_BAND (te_stats te))
       (if deviceModel w \<noteq> [] \<and> deviceMake w \<noteq> [] then Some (deviceMake w, deviceModel w, deviceMACAddr w) else None)"

definition status_turn ::
    "tele_env \<Rightarrow> telemetryParams \<times> telemetryParams \<Rightarrow> wifi \<Rightarrow> wifi \<Rightarrow> int \<Rightarrow> int \<Rightarrow> period2 \<Rightarrow> (tele_line list \<times> period2) res" where
  "status_turn te params w w' start_t now_t p =
     (let status = [ConnectionStatus (get_WiFiStatusCodeAsString (gWifiAdopterStatus w))] in
      if gWifiAdopterStatus w \<noteq> WIFI_CONNECTED then Val (status, p)
      else res_bind (logs_Period1_Params te w' (fst params)) (\<lambda>ls1.
        case logs_Period2_Params te w' (snd params) start_t now_t p of (ls2, p) \<Rightarrow>
          Val (status @ [stats_line te w] @ ls1 @ ls2, p)))"

section \<open>Undefined values in the log\<close>

lemma res_concat_UB: "\<forall>r\<in>set rs. \<forall>e. r \<noteq> Throws e \<Longrightarrow> res_concat rs = UB \<longleftrightarrow> UB \<in> set rs"
proof (induction rs)
  case (Cons r rs)
  show ?case
  proof (cases r)
    case (Val xs)
    then show ?thesis using Cons by (cases "res_concat rs") auto
  qed (use Cons.prems in auto)
qed simp

lemma res_concat_no_throw: "\<forall>r\<in>set rs. \<forall>e. r \<noteq> Throws e \<Longrightarrow> res_concat rs \<noteq> Throws e"
proof (induction rs)
  case (Cons r rs)
  then show ?case by (cases r; cases "res_concat rs") auto
qed simp

lemma param_line_UB: "param_line te x key v = UB \<longleftrightarrow> g_strrstr (te_glib te) x key \<and> v = Some UB"
proof (cases v)
  case (Some r)
  then show ?thesis by (cases r) (simp_all add: param_line_def)
qed (simp add: param_line_def)

lemma param_line_no_throw: "v \<noteq> Some (Throws e) \<Longrightarrow> param_line te x key v \<noteq> Throws e"
proof (cases v)
  case (Some r)
  assume "v \<noteq> Some (Throws e)"
  with Some show ?thesis by (cases r) (simp_all add: param_line_def)
qed (simp add: param_line_def)

lemma value_outcomes [simp]:
  "endpoint_value te w f = UB \<longleftrightarrow> \<not> isWifiConnected w" "endpoint_value te w f \<noteq> Throws e"
  "radio_value te g = UB \<longleftrightarrow> \<not> (te_malloc te \<and> te_traffic te \<noteq> None)" "radio_value te g \<noteq> Throws e"
  by (simp_all add: endpoint_value_def radio_value_def)

definition endpoint_keys :: "string list" where
  "endpoint_keys = [''LastDataDownlinkRate'', ''LastDataUplinkRate '', ''Retransmissions'', ''SignalStrength'']"

definition radio_keys :: "string list" where
  "radio_keys = [''Stats.FCSErrorCount'', ''Stats.Noise'', ''Stats.ErrorsReceived'', ''Stats.ErrorsSent'',
     ''Stats.PacketsReceived'', ''Stats.PacketsSent'']"

definition asks :: "tele_env \<Rightarrow> string list \<Rightarrow> string \<Rightarrow> bool" where
  "asks te keys x \<longleftrightarrow> (\<exists>k\<in>set keys. g_strrstr (te_glib te) x k)"

lemma period1_param_UB:
  "period1_param te w x = UB \<longleftrightarrow>
     \<not> isWifiConnected w \<and> asks te endpoint_keys x \<or> \<not> (te_malloc te \<and> te_traffic te \<noteq> None) \<and> asks te radio_keys x"
proof -
  have m: "map_option (\<lambda>n. Val (f n)) v \<noteq> Some UB" for f :: "'a \<Rightarrow> tele_value" and v by (cases v) simp_all
  have n: "map_option (\<lambda>n. Val (f n)) v \<noteq> Some (Throws e)" for f :: "'a \<Rightarrow> tele_value" and v e by (cases v) simp_all
  show ?thesis unfolding period1_param_def
    by (subst res_concat_UB)
      (auto simp: param_line_UB param_line_no_throw m n asks_def endpoint_keys_def radio_keys_def eq_commute [of UB])
qed

lemma period1_param_no_throw: "period1_param te w x \<noteq> Throws e"
proof -
  have n: "map_option (\<lambda>n. Val (f n)) v \<noteq> Some (Throws e)" for f :: "'a \<Rightarrow> tele_value" and v e by (cases v) simp_all
  show ?thesis unfolding period1_param_def
    by (rule res_concat_no_throw) (simp add: param_line_no_throw n)
qed

text \<open>
  Writing the first list is undefined exactly if it asks for a number that nobody filled in: one of the
  end point when the connection was lost since the status was read, or one of the radio when the memory
  for the HAL's statistics is missing or the HAL does not answer.
\<close>

theorem period1_undefined_iff:
  "logs_Period1_Params te w params = UB \<longleftrightarrow>
     (\<exists>x. Some x \<in> set (paramlist params) \<and>
       (\<not> isWifiConnected w \<and> asks te endpoint_keys x \<or> \<not> (te_malloc te \<and> te_traffic te \<noteq> None) \<and> asks te radio_keys x))"
proof -
  let ?item = "\<lambda>x. case x of None \<Rightarrow> Val [] | Some x \<Rightarrow> period1_param te w x"
  have "?item x = UB \<longleftrightarrow> (\<exists>y. x = Some y \<and> period1_param te w y = UB)" for x by (cases x) simp_all
  moreover have "?item x \<noteq> Throws e" for x e by (cases x) (simp_all add: period1_param_no_throw)
  ultimately have "logs_Period1_Params te w params = UB \<longleftrightarrow>
      (\<exists>x. Some x \<in> set (paramlist params) \<and> period1_param te w x = UB)"
    unfolding logs_Period1_Params_def by (subst res_concat_UB) (simp_all add: image_iff eq_commute [of UB], blast)
  then show ?thesis by (simp only: period1_param_UB)
qed

text \<open>
  The key of the uplink rate ends with a blank: with names that have none, the log does not depend on
  the uplink rate.
\<close>

lemma contains_set: "contains s p \<Longrightarrow> set p \<subseteq> set s"
  by (auto simp: contains_iff)

theorem uplink_rate_not_logged:
  assumes "g_strrstr (te_glib te) = contains" and "\<forall>x. Some x \<in> set (paramlist params) \<longrightarrow> CHR '' '' \<notin> set x"
  shows "logs_Period1_Params (te \<lparr> te_stats := (te_stats te) \<lparr> sta_LastDataUplinkRate := u \<rparr> \<rparr>) w params =
    logs_Period1_Params te w params"
proof -
  let ?te = "te \<lparr> te_stats := (te_stats te) \<lparr> sta_LastDataUplinkRate := u \<rparr> \<rparr>"
  have "period1_param ?te w x = period1_param te w x" if "Some x \<in> set (paramlist params)" for x
  proof -
    have "\<not> contains x ''LastDataUplinkRate ''" using contains_set [of x "''LastDataUplinkRate ''"] assms(2) that by auto
    then have up: "param_line te x ''LastDataUplinkRate '' v = Val []" for v
      using assms(1) by (simp add: param_line_def)
    have other: "param_line ?te x k v = param_line te x k v" for k v by (simp add: param_line_def)
    have same: "endpoint_value ?te w (\<lambda>e. Lu (ep_lastDataDownlinkRate e)) = endpoint_value te w (\<lambda>e. Lu (ep_lastDataDownlinkRate e))"
      "endpoint_value ?te w (\<lambda>e. Lu (ep_retransmissions e)) = endpoint_value te w (\<lambda>e. Lu (ep_retransmissions e))"
      "endpoint_value ?te w (\<lambda>e. D (ep_signalStrength e)) = endpoint_value te w (\<lambda>e. D (ep_signalStrength e))"
      "radio_value ?te f = radio_value te f" "te_channel ?te = te_channel te" "te_power ?te = te_power te" for f
      by (simp_all add: endpoint_value_def radio_value_def getEndPointInfo_def sta_stats.truncate_def)
    show ?thesis unfolding period1_param_def same
      by (simp only: other up)
  qed
  then show ?thesis unfolding logs_Period1_Params_def
    by (intro arg_cong [where f = res_concat] map_cong refl) (auto split: option.splits)
qed

section \<open>The rate of the second list\<close>

type_synonym period2_call = "tele_env \<times> wifi \<times> int \<times> int"

fun period2_run :: "telemetryParams \<Rightarrow> period2 \<Rightarrow> period2_call list \<Rightarrow> tele_line list list \<times> period2" where
  "period2_run params p [] = ([], p)"
| "period2_run params p ((te, w, start_t, now_t) # cs) =
     (case logs_Period2_Params te w params start_t now_t p of (ls, p) \<Rightarrow>
        case period2_run params p cs of (lss, p) \<Rightarrow> (ls # lss, p))"

text \<open>The readings of the clock do not go back.\<close>

fun clock_ok :: "int \<Rightarrow> period2_call list \<Rightarrow> bool" where
  "clock_ok t [] \<longleftrightarrow> True"
| "clock_ok t ((te, w, start_t, now_t) # cs) \<longleftrightarrow> t \<le> start_t \<and> start_t \<le> now_t \<and> clock_ok now_t cs"

fun clock_end :: "int \<Rightarrow> period2_call list \<Rightarrow> int" where
  "clock_end t [] = t"
| "clock_end t ((te, w, start_t, now_t) # cs) = clock_end now_t cs"

definition reports :: "tele_line list list \<Rightarrow> int" where
  "reports lss = int (length (filter (\<lambda>ls. ls \<noteq> []) lss))"

lemma reports_simps [simp]: "reports [] = 0" "reports (ls # lss) = (if ls = [] then 0 else 1) + reports lss"
  by (simp_all add: reports_def)

lemma logs_Period2_effect:
  assumes "logs_Period2_Params te w params start_t now_t p = (ls, p')" "lastExec_t p \<le> start_t" "start_t \<le> now_t" "0 \<le> timePeriod params"
  shows "lastExec_t p' \<le> now_t" "lastExec_t p \<le> lastExec_t p'" "ls \<noteq> [] \<Longrightarrow> print_flag p"
    "timePeriod params * (if print_flag p' then 1 else 0) \<le> lastExec_t p' - lastExec_t p"
  using assms by (auto simp: logs_Period2_Params_def split: if_splits)

text \<open>Every report is paid for by the flag at the start or by a period that has passed.\<close>

lemma period2_run_rate:
  assumes "clock_ok t cs" "lastExec_t p \<le> t" "0 \<le> timePeriod params" "period2_run params p cs = (lss, p')"
  shows "lastExec_t p' \<le> clock_end t cs \<and>
    timePeriod params * (reports lss - (if print_flag p then 1 else 0) + (if print_flag p' then 1 else 0)) \<le> lastExec_t p' - lastExec_t p"
  using assms
proof (induction params p cs arbitrary: t lss p' rule: period2_run.induct)
  case (1 params p)
  then show ?case by simp
next
  case (2 params p te w start_t now_t cs)
  obtain ls p1 where l: "logs_Period2_Params te w params start_t now_t p = (ls, p1)" by fastforce
  obtain rest where r: "period2_run params p1 cs = (rest, p')" "lss = ls # rest"
    using "2.prems"(4) by (auto simp: l split: prod.splits)
  have e: "lastExec_t p1 \<le> now_t" "ls \<noteq> [] \<Longrightarrow> print_flag p"
    "timePeriod params * (if print_flag p1 then 1 else 0) \<le> lastExec_t p1 - lastExec_t p"
    using logs_Period2_effect [OF l] "2.prems"(1-3) by simp_all
  have ih: "lastExec_t p' \<le> clock_end now_t cs"
    "timePeriod params * (reports rest - (if print_flag p1 then 1 else 0) + (if print_flag p' then 1 else 0)) \<le> lastExec_t p' - lastExec_t p1"
    using "2.IH" [OF l [symmetric] _ e(1) _ r(1)] "2.prems"(1,3) by simp_all
  have "reports lss - (if print_flag p then 1 else 0) \<le> reports rest" using e(2) by (simp add: r(2))
  then have "timePeriod params * (reports lss - (if print_flag p then 1 else 0) + (if print_flag p' then 1 else 0)) \<le>
      timePeriod params * (reports rest + (if print_flag p' then 1 else 0))"
    using "2.prems"(3) by (intro mult_left_mono) simp_all
  also have "\<dots> \<le> lastExec_t p' - lastExec_t p" using ih(2) e(3) by (simp add: algebra_simps split: if_splits)
  finally show ?case using ih(1) by simp
qed

text \<open>
  The second list is written at most once per period, up to two reports more: in every run of the calls
  from the start of the daemon, with a clock that does not go back, a period for each report but two fits
  into the time between the first and the last call.
\<close>

theorem period2_rate_bound:
  assumes "period2_run params initial_period2 ((te, w, start_t, now_t) # cs) = (lss, p')"
    and "clock_ok 0 ((te, w, start_t, now_t) # cs)" and "0 \<le> timePeriod params"
  shows "timePeriod params * (reports lss - 2) \<le> clock_end now_t cs - start_t"
proof -
  obtain ls p1 where l: "logs_Period2_Params te w params start_t now_t initial_period2 = (ls, p1)" by fastforce
  obtain rest where r: "period2_run params p1 cs = (rest, p')" "lss = ls # rest"
    using assms(1) by (auto simp: l split: prod.splits)
  have c: "0 \<le> start_t" "start_t \<le> now_t" "clock_ok now_t cs" using assms(2) by simp_all
  then have p1: "lastExec_t p1 \<le> now_t" using logs_Period2_effect(1) [OF l] assms(3) by (simp add: initial_period2_def)
  note rate = period2_run_rate [OF c(3) p1 assms(3) r(1)]
  have "timePeriod params * (reports lss - 2) \<le> timePeriod params * (reports rest - 1 + (if print_flag p' then 1 else 0))"
    using assms(3) by (intro mult_left_mono) (simp_all add: r(2))
  also have "\<dots> \<le> clock_end now_t cs - start_t"
  proof (cases "timePeriod params \<le> start_t")
    case True
    then have "print_flag p1" "lastExec_t p1 = now_t" using l by (auto simp: logs_Period2_Params_def initial_period2_def)
    then show ?thesis using rate c(2) by simp
  next
    case False
    then have "\<not> print_flag p1" "lastExec_t p1 = 0" using l by (auto simp: logs_Period2_Params_def initial_period2_def)
    then show ?thesis using rate False by (simp add: algebra_simps)
  qed
  finally show ?thesis .
qed

section \<open>Witnesses\<close>

definition sample_tele :: tele_env where
  "sample_tele = \<lparr> te_glib = sample_glib, te_stats = \<lparr> sta_SSID = ''home'', sta_RSSI = -40, sta_Retransmissions = 3,
     sta_LastDataDownlinkRate = 866, sta_LastDataUplinkRate = 433, sta_BSSID = ''00:11'', sta_BAND = ''5GHz'', sta_numbers = [866, -90, -40, 866, 433] \<rparr>,
     te_malloc = True, te_traffic = None, te_channel = Some 36, te_power = Some 20, te_bssid = ''00:11'', te_name = Some ''home'', te_mac = ''22:33'' \<rparr>"

definition sample_period2 :: telemetryParams where
  "sample_period2 = \<lparr> timePeriod = 900, paramlist = [Some ''Device.WiFi.SSID.1.BSSID''] \<rparr>"

definition sample_calls :: "period2_call list" where
  "sample_calls = map (\<lambda>t. (sample_tele, initial_wifi, t, t)) [1000, 1300, 1600, 1900, 2200]"

definition sample_reports :: "tele_line list list" where
  "sample_reports = fst (period2_run sample_period2 initial_period2 sample_calls)"

theorem period2_rate_bound_witness:
  "reports sample_reports = 3 \<and> (900::int) * (3 - 2) \<le> 2200 - 1000"
proof -
  have n: "reports sample_reports = 3" by code_simp
  have run: "period2_run sample_period2 initial_period2 ((sample_tele, initial_wifi, 1000, 1000) # tl sample_calls) =
      (sample_reports, snd (period2_run sample_period2 initial_period2 sample_calls))"
    by (simp add: sample_reports_def sample_calls_def)
  have "clock_ok 0 ((sample_tele, initial_wifi, 1000, 1000) # tl sample_calls)" by (simp add: sample_calls_def)
  from period2_rate_bound [OF run this] show ?thesis
    unfolding n by (simp add: sample_period2_def sample_calls_def)
qed

theorem uplink_rate_not_logged_witness:
  "logs_Period1_Params (sample_tele \<lparr> te_stats := (te_stats sample_tele) \<lparr> sta_LastDataUplinkRate := 7 \<rparr> \<rparr>)
     (initial_wifi \<lparr> gWifiAdopterStatus := WIFI_CONNECTED \<rparr>)
     \<lparr> timePeriod = 900, paramlist = [Some ''Device.WiFi.EndPoint.1.Stats.LastDataUplinkRate''] \<rparr> = Val []"
proof -
  let ?p = "\<lparr> timePeriod = 900, paramlist = [Some ''Device.WiFi.EndPoint.1.Stats.LastDataUplinkRate''] \<rparr>"
  let ?w = "initial_wifi \<lparr> gWifiAdopterStatus := WIFI_CONNECTED \<rparr>"
  have "logs_Period1_Params sample_tele ?w ?p = Val []" by code_simp
  moreover have "g_strrstr (te_glib sample_tele) = contains" by (simp add: sample_tele_def sample_glib_def)
  ultimately show ?thesis using uplink_rate_not_logged [of sample_tele ?p 7 ?w] by simp
qed

end
