(* ===== verification/Thread_Runs.thy ===== *)
theory Thread_Runs
  imports Netsrv_Prelude
begin

text \<open>
  Threads that interleave: a transition relation whose steps are labelled with their cause, the states
  it reaches, its finite runs, and two contracts with their consequences: an invariant of the reachable
  states, and a rank that every step of a certain kind decreases, so that runs of such steps end.
\<close>

section \<open>Reachable states and runs\<close>

inductive reachable :: "('c \<Rightarrow> 's \<Rightarrow> 's \<Rightarrow> bool) \<Rightarrow> 's \<Rightarrow> 's \<Rightarrow> bool" for step init where
  start: "reachable step init init"
| step: "reachable step init s \<Longrightarrow> step c s s' \<Longrightarrow> reachable step init s'"

text \<open>The states of a run after the first, all steps with a cause of the given kind.\<close>

fun path :: "('c \<Rightarrow> 's \<Rightarrow> 's \<Rightarrow> bool) \<Rightarrow> ('c \<Rightarrow> bool) \<Rightarrow> 's \<Rightarrow> 's list \<Rightarrow> bool" where
  "path step kind s [] \<longleftrightarrow> True"
| "path step kind s (t # ts) \<longleftrightarrow> (\<exists>c. kind c \<and> step c s t) \<and> path step kind t ts"

lemma path_reachable:
  "path step kind s ss \<Longrightarrow> reachable step init s \<Longrightarrow> reachable step init (last (s # ss))"
proof (induction ss arbitrary: s)
  case (Cons t ss)
  then have "reachable step init t" "path step kind t ss" by (auto intro: reachable.step)
  then show ?case using Cons.IH by simp
qed simp

text \<open>The run in which given threads move one after the other; a thread that cannot move has no next state.\<close>

fun run_threads :: "('t \<Rightarrow> 's \<Rightarrow> 's option) \<Rightarrow> 's \<Rightarrow> 't list \<Rightarrow> 's list option" where
  "run_threads move s [] = Some []"
| "run_threads move s (t # ts) =
     (case move t s of None \<Rightarrow> None | Some s' \<Rightarrow> map_option ((#) s') (run_threads move s' ts))"

section \<open>Contracts\<close>

locale relation_invariant =
  fixes step :: "'c \<Rightarrow> 's \<Rightarrow> 's \<Rightarrow> bool"
    and init :: 's
    and inv :: "'s \<Rightarrow> bool"
  assumes init_inv: "inv init"
    and relation_step: "step c s s' \<Longrightarrow> inv s \<Longrightarrow> inv s'"
begin

lemma reachable_inv: "reachable step init s \<Longrightarrow> inv s"
  by (induction rule: reachable.induct) (auto intro: init_inv relation_step)

end

text \<open>Threads with a function for their next step, which is one of the causes.\<close>

locale threads = relation_invariant step init inv
  for step :: "'c \<Rightarrow> 's \<Rightarrow> 's \<Rightarrow> bool" and init :: 's and inv :: "'s \<Rightarrow> bool" +
  fixes move :: "'t \<Rightarrow> 's \<Rightarrow> 's option"
    and by_thread :: "'t \<Rightarrow> 'c"
    and kind :: "'c \<Rightarrow> bool"
  assumes moves: "move t s = Some s' \<Longrightarrow> step (by_thread t) s s'"
    and moves_kind: "kind (by_thread t)"
begin

lemma run_threads_path: "run_threads move s ts = Some ss \<Longrightarrow> path step kind s ss"
proof (induction ts arbitrary: s ss)
  case (Cons t ts)
  then obtain s' rest where s': "move t s = Some s'" "run_threads move s' ts = Some rest" "ss = s' # rest"
    by (auto split: option.splits)
  then show ?case using Cons.IH moves [OF s'(1)] moves_kind [of t] by auto
qed simp

lemma run_path: "run_threads move s ts \<noteq> None \<Longrightarrow> path step kind s (the (run_threads move s ts))"
  by (auto intro: run_threads_path)

lemma run_reachable: "run_threads move init ts \<noteq> None \<Longrightarrow> reachable step init (last (init # the (run_threads move init ts)))"
  by (rule path_reachable [OF run_path reachable.start])

end

text \<open>A rank for the states with a further property, and steps that keep the property and lower the rank.\<close>

locale ranked_threads = threads step init inv move by_thread kind
  for step :: "'c \<Rightarrow> 's \<Rightarrow> 's \<Rightarrow> bool" and init :: 's and inv :: "'s \<Rightarrow> bool"
    and move :: "'t \<Rightarrow> 's \<Rightarrow> 's option" and by_thread :: "'t \<Rightarrow> 'c" and kind :: "'c \<Rightarrow> bool" +
  fixes good :: "'s \<Rightarrow> bool"
    and rank :: "'s \<Rightarrow> nat"
  assumes ranked_step: "step c s s' \<Longrightarrow> kind c \<Longrightarrow> inv s \<Longrightarrow> good s \<Longrightarrow> good s' \<and> rank s' < rank s"
begin

lemma ranked_path:
  assumes "path step kind s ts" "inv s" "good s"
  shows "inv (last (s # ts)) \<and> good (last (s # ts)) \<and> length ts + rank (last (s # ts)) \<le> rank s"
  using assms
proof (induction ts arbitrary: s)
  case (Cons t ts)
  then obtain c where c: "kind c" "step c s t" by auto
  have t: "inv t" "good t" "rank t < rank s"
    using relation_step [OF c(2)] ranked_step [OF c(2,1)] Cons.prems by simp_all
  then show ?case using Cons.IH [of t] Cons.prems(1) by force
qed simp

end

end
