(* ===== verification/Wifi_Monitor.thy ===== *)
theory Wifi_Monitor
  imports Thread_Runs
begin

text \<open>
  The threads that meet at the mutex and the condition variable of the connection monitor in
  \<^verbatim>\<open>wifiHalUtiles.cpp\<close>: the monitor itself (\<^verbatim>\<open>wifiConnStatusThread\<close>), a callback of the HAL that reports a
  connection (the loop in \<^verbatim>\<open>wifi_status_action\<close>) and \<^verbatim>\<open>shutdownWifi\<close> up to the return of \<^verbatim>\<open>pthread_join\<close>.

  Each thread is a function from the state to its next state, with \<^term>\<open>None\<close> for a thread that is blocked
  or has ended; the threads interleave freely.  A wait on the condition variable gives up the mutex and
  sleeps in one step, a signal wakes the sleeper and is lost without one, and the sleeper takes the mutex
  again before it goes on, as POSIX has it.  The system may also wake it without a signal, or at the
  timeout of a timed wait.
\<close>

section \<open>State\<close>

datatype thread = Monitor | Stopper | Callback

text \<open>
  Where the threads are.  The monitor: its first wait, the test of the outer loop, its turn, the inner
  loop, whose argument says whether the last wait timed out, and the timed wait.
\<close>

datatype mon_pc =
    M_start | M_locked | M_wait_first | M_woken_first | M_unlock_first
  | M_test | M_turn | M_lock | M_check bool | M_timed | M_wait | M_woken bool | M_unlock | M_exit

datatype stop_pc = S_idle | S_lock | S_signal | S_unlock | S_join | S_done

datatype call_pc = C_idle | C_loop | C_try | C_signal | C_unlock

record sys =
  mon :: mon_pc
  stop :: stop_pc
  call :: call_pc
  mutexGo :: "thread option"
  shutting_down :: bool
  turns :: nat

text \<open>The state after \<^verbatim>\<open>monitor_WiFiStatus\<close>.\<close>

definition monitor_WiFiStatus :: sys where
  "monitor_WiFiStatus = \<lparr> mon = M_start, stop = S_idle, call = C_idle, mutexGo = None, shutting_down = False, turns = 0 \<rparr>"

section \<open>Mutex and condition variable\<close>

definition mutex_lock :: "thread \<Rightarrow> (sys \<Rightarrow> sys) \<Rightarrow> sys \<Rightarrow> sys option" where
  "mutex_lock t f s = (if mutexGo s = None then Some (f (s \<lparr> mutexGo := Some t \<rparr>)) else None)"

definition mutex_unlock :: "sys \<Rightarrow> sys" where
  "mutex_unlock s = s \<lparr> mutexGo := None \<rparr>"

definition cond_signal :: "sys \<Rightarrow> sys" where
  "cond_signal s = (case mon s of
      M_wait_first \<Rightarrow> s \<lparr> mon := M_woken_first \<rparr>
    | M_wait \<Rightarrow> s \<lparr> mon := M_woken False \<rparr>
    | _ \<Rightarrow> s)"

section \<open>Threads\<close>

definition wifiConnStatusThread :: "sys \<Rightarrow> sys option" where
  "wifiConnStatusThread s = (case mon s of
      M_start \<Rightarrow> mutex_lock Monitor (mon_update (\<lambda>_. M_locked)) s
    | M_locked \<Rightarrow> Some ((mutex_unlock s) \<lparr> mon := M_wait_first \<rparr>)
    | M_wait_first \<Rightarrow> None
    | M_woken_first \<Rightarrow> mutex_lock Monitor (mon_update (\<lambda>_. M_unlock_first)) s
    | M_unlock_first \<Rightarrow> Some ((mutex_unlock s) \<lparr> mon := M_test \<rparr>)
    | M_test \<Rightarrow> Some (s \<lparr> mon := (if shutting_down s then M_exit else M_turn) \<rparr>)
    | M_turn \<Rightarrow> Some (s \<lparr> mon := M_lock, turns := turns s + 1 \<rparr>)
    | M_lock \<Rightarrow> mutex_lock Monitor (mon_update (\<lambda>_. M_check False)) s
    | M_check timed_out \<Rightarrow> Some (s \<lparr> mon := (if \<not> shutting_down s \<and> \<not> timed_out then M_timed else M_unlock) \<rparr>)
    | M_timed \<Rightarrow> Some ((mutex_unlock s) \<lparr> mon := M_wait \<rparr>)
    | M_wait \<Rightarrow> None
    | M_woken timed_out \<Rightarrow> mutex_lock Monitor (mon_update (\<lambda>_. M_check timed_out)) s
    | M_unlock \<Rightarrow> Some ((mutex_unlock s) \<lparr> mon := M_test \<rparr>)
    | M_exit \<Rightarrow> None)"

definition shutdown_thread :: "sys \<Rightarrow> sys option" where
  "shutdown_thread s = (case stop s of
      S_idle \<Rightarrow> Some (s \<lparr> shutting_down := True, stop := S_lock \<rparr>)
    | S_lock \<Rightarrow> mutex_lock Stopper (stop_update (\<lambda>_. S_signal)) s
    | S_signal \<Rightarrow> Some ((cond_signal s) \<lparr> stop := S_unlock \<rparr>)
    | S_unlock \<Rightarrow> Some ((mutex_unlock s) \<lparr> stop := S_join \<rparr>)
    | S_join \<Rightarrow> if mon s = M_exit then Some (s \<lparr> stop := S_done \<rparr>) else None
    | S_done \<Rightarrow> None)"

text \<open>The callback: \<^term>\<open>C_idle\<close> is a thread of the HAL outside the loop.\<close>

definition signal_monitor :: "sys \<Rightarrow> sys option" where
  "signal_monitor s = (case call s of
      C_idle \<Rightarrow> None
    | C_loop \<Rightarrow> Some (s \<lparr> call := (if shutting_down s then C_idle else C_try) \<rparr>)
    | C_try \<Rightarrow> Some (case mutex_lock Callback (call_update (\<lambda>_. C_signal)) s of Some t \<Rightarrow> t | None \<Rightarrow> s \<lparr> call := C_loop \<rparr>)
    | C_signal \<Rightarrow> Some ((cond_signal s) \<lparr> call := C_unlock \<rparr>)
    | C_unlock \<Rightarrow> Some ((mutex_unlock s) \<lparr> call := C_idle \<rparr>))"

fun thread_step :: "thread \<Rightarrow> sys \<Rightarrow> sys option" where
  "thread_step Monitor s = wifiConnStatusThread s"
| "thread_step Stopper s = shutdown_thread s"
| "thread_step Callback s = signal_monitor s"

text \<open>A step of a thread, of the system that wakes the monitor, or a new callback.\<close>

datatype cause = Thread thread | Wakeup | Connected

inductive monitor_step :: "cause \<Rightarrow> sys \<Rightarrow> sys \<Rightarrow> bool" where
  thread: "thread_step t s = Some s' \<Longrightarrow> monitor_step (Thread t) s s'"
| wake_first: "mon s = M_wait_first \<Longrightarrow> monitor_step Wakeup s (s \<lparr> mon := M_woken_first \<rparr>)"
| wake: "mon s = M_wait \<Longrightarrow> monitor_step Wakeup s (s \<lparr> mon := M_woken timed_out \<rparr>)"
| connected: "call s = C_idle \<Longrightarrow> monitor_step Connected s (s \<lparr> call := C_loop \<rparr>)"

inductive_cases monitor_stepE: "monitor_step c s s'"

section \<open>The invariant\<close>

fun in_section :: "thread \<Rightarrow> sys \<Rightarrow> bool" where
  "in_section Monitor s \<longleftrightarrow> (case mon s of
      M_locked \<Rightarrow> True | M_unlock_first \<Rightarrow> True | M_check _ \<Rightarrow> True | M_timed \<Rightarrow> True | M_unlock \<Rightarrow> True | _ \<Rightarrow> False)"
| "in_section Stopper s \<longleftrightarrow> stop s = S_signal \<or> stop s = S_unlock"
| "in_section Callback s \<longleftrightarrow> call s = C_signal \<or> call s = C_unlock"

text \<open>
  The mutex belongs to the thread that is between its lock and its unlock; the flag is set once
  \<^verbatim>\<open>shutdownWifi\<close> has been called; and while the monitor is about to wait or waits for the timeout, the
  signal of \<^verbatim>\<open>shutdownWifi\<close> is still to come.
\<close>

definition sys_inv :: "sys \<Rightarrow> bool" where
  "sys_inv s \<longleftrightarrow> (\<forall>t. in_section t s \<longleftrightarrow> mutexGo s = Some t) \<and> (shutting_down s \<longleftrightarrow> stop s \<noteq> S_idle) \<and>
     (mon s = M_timed \<or> mon s = M_wait \<longrightarrow> stop s \<in> {S_idle, S_lock, S_signal})"

lemmas thread_defs = mutex_lock_def mutex_unlock_def cond_signal_def

lemma all_threads: "(\<forall>t. P t) \<longleftrightarrow> P Monitor \<and> P Stopper \<and> P Callback"
  using thread.exhaust by metis

lemma sys_inv_monitor:
  assumes "sys_inv s" and "wifiConnStatusThread s = Some s'"
  shows "sys_inv s'"
  using assms unfolding sys_inv_def all_threads wifiConnStatusThread_def thread_defs
  by (cases "mon s"; clarsimp split: if_splits)

lemma sys_inv_stopper:
  assumes "sys_inv s" and "shutdown_thread s = Some s'"
  shows "sys_inv s'"
  using assms unfolding sys_inv_def all_threads shutdown_thread_def thread_defs
  by (cases "stop s"; cases "mon s"; clarsimp split: if_splits)

lemma sys_inv_callback:
  assumes "sys_inv s" and "signal_monitor s = Some s'"
  shows "sys_inv s'"
  using assms unfolding sys_inv_def all_threads signal_monitor_def thread_defs
  by (cases "call s"; cases "mon s"; clarsimp split: if_splits)

lemma sys_inv_step: "monitor_step c s s' \<Longrightarrow> sys_inv s \<Longrightarrow> sys_inv s'"
proof (induction rule: monitor_step.induct)
  case (thread t s s')
  then show ?case by (cases t) (auto intro: sys_inv_monitor sys_inv_stopper sys_inv_callback)
qed (simp_all add: sys_inv_def all_threads)

section \<open>Ending the monitor\<close>

text \<open>What each thread has still to do once the flag is set.\<close>

fun mon_rank :: "mon_pc \<Rightarrow> nat" where
  "mon_rank M_start = 7" | "mon_rank M_locked = 6" | "mon_rank M_wait_first = 5" | "mon_rank M_woken_first = 4"
| "mon_rank M_unlock_first = 2" | "mon_rank M_test = 1" | "mon_rank M_turn = 5" | "mon_rank M_lock = 4"
| "mon_rank (M_check b) = 3" | "mon_rank M_timed = 6" | "mon_rank M_wait = 5" | "mon_rank (M_woken b) = 4"
| "mon_rank M_unlock = 2" | "mon_rank M_exit = 0"

fun stop_rank :: "stop_pc \<Rightarrow> nat" where
  "stop_rank S_idle = 5" | "stop_rank S_lock = 4" | "stop_rank S_signal = 3" | "stop_rank S_unlock = 2"
| "stop_rank S_join = 1" | "stop_rank S_done = 0"

fun call_rank :: "call_pc \<Rightarrow> nat" where
  "call_rank C_idle = 0" | "call_rank C_loop = 1" | "call_rank C_try = 3" | "call_rank C_signal = 2" | "call_rank C_unlock = 1"

definition rank :: "sys \<Rightarrow> nat" where
  "rank s = mon_rank (mon s) + stop_rank (stop s) + call_rank (call s)"

lemma rank_signal: "rank (cond_signal s) \<le> rank s"
  by (cases "mon s") (simp_all add: cond_signal_def rank_def)

text \<open>The monitor will not miss the signal: it is past its start, and in the first wait the signal is to come.\<close>

definition ready :: "sys \<Rightarrow> bool" where
  "ready s \<longleftrightarrow> shutting_down s \<and> stop s \<noteq> S_idle \<and> mon s \<noteq> M_start \<and> (mon s = M_locked \<longrightarrow> stop s = S_lock) \<and>
     (mon s = M_wait_first \<longrightarrow> stop s = S_lock \<or> stop s = S_signal)"

definition turns_due :: "sys \<Rightarrow> nat" where
  "turns_due s = turns s + (if mon s = M_turn then 1 else 0)"

lemma ready_monitor:
  assumes "sys_inv s" "ready s" "wifiConnStatusThread s = Some s'"
  shows "ready s' \<and> rank s' < rank s \<and> turns_due s' \<le> turns_due s"
  using assms unfolding ready_def rank_def turns_due_def wifiConnStatusThread_def thread_defs
  by (cases "mon s"; clarsimp split: if_splits)

lemma ready_stopper:
  assumes "sys_inv s" "ready s" "shutdown_thread s = Some s'"
  shows "ready s' \<and> rank s' < rank s \<and> turns_due s' \<le> turns_due s"
  using assms unfolding sys_inv_def all_threads ready_def rank_def turns_due_def shutdown_thread_def thread_defs
  by (cases "stop s"; cases "mon s"; clarsimp split: if_splits)

lemma ready_callback:
  assumes "ready s" "signal_monitor s = Some s'"
  shows "ready s' \<and> rank s' < rank s \<and> turns_due s' \<le> turns_due s"
  using assms unfolding ready_def rank_def turns_due_def signal_monitor_def thread_defs
  by (cases "call s"; cases "mon s"; clarsimp split: if_splits)

lemma ready_step:
  assumes "monitor_step c s s'" "c \<noteq> Connected" "sys_inv s" "ready s"
  shows "ready s' \<and> rank s' < rank s \<and> turns_due s' \<le> turns_due s"
  using assms(1)
proof cases
  case (thread t)
  then show ?thesis
    using ready_monitor [OF assms(3,4)] ready_stopper [OF assms(3,4)] ready_callback [OF assms(4)] by (cases t) auto
qed (use assms in \<open>simp_all add: ready_def rank_def turns_due_def\<close>)

text \<open>Runs without new callbacks, with a bound on the turns.\<close>

interpretation shutdown: ranked_threads monitor_step monitor_WiFiStatus sys_inv thread_step Thread "\<lambda>c. c \<noteq> Connected"
    "\<lambda>s. ready s \<and> turns_due s \<le> n" rank for n
proof
  show "sys_inv monitor_WiFiStatus" by (simp add: sys_inv_def all_threads monitor_WiFiStatus_def)
qed (auto intro: sys_inv_step monitor_step.thread dest: ready_step)

lemma owner_moves:
  assumes "sys_inv s" "mutexGo s = Some t"
  shows "thread_step t s \<noteq> None"
proof -
  have "in_section t s" using assms by (simp add: sys_inv_def)
  then show ?thesis
    by (cases t) (auto simp: wifiConnStatusThread_def shutdown_thread_def signal_monitor_def split: mon_pc.splits)
qed

lemma ready_progress:
  assumes "sys_inv s" "ready s" "\<forall>t. thread_step t s = None"
  shows "stop s = S_done \<and> mon s = M_exit"
proof -
  have free: "mutexGo s = None" using owner_moves assms(1,3) by fastforce
  have "wifiConnStatusThread s = None" "shutdown_thread s = None" using assms(3) by (simp_all add: all_threads)
  with assms(1,2) free show ?thesis unfolding sys_inv_def ready_def all_threads
    by (cases "mon s"; cases "stop s") (simp_all add: wifiConnStatusThread_def shutdown_thread_def thread_defs split: if_splits)
qed

text \<open>
  C6.  Shutting down the service ends the monitor.  Once \<^verbatim>\<open>shutdownWifi\<close> has set its flag, and if the monitor
  has by then taken the mutex for its first wait, every run of the threads in which no new callback
  arrives is over after thirteen steps, whatever the order of the threads, the wake-ups of the system and
  the timeouts; the monitor makes at most one more turn; and where no thread can move any more, it has
  ended and \<^verbatim>\<open>pthread_join\<close> has returned.
\<close>

theorem shutdown_completes:
  assumes "reachable monitor_step monitor_WiFiStatus s" and "stop s = S_lock" and "mon s \<noteq> M_start"
    and "path monitor_step (\<lambda>c. c \<noteq> Connected) s ts" and "s' = last (s # ts)"
  shows "length ts \<le> 13 \<and> turns s' \<le> turns s + 1 \<and>
    ((\<forall>t. thread_step t s' = None) \<longrightarrow> stop s' = S_done \<and> mon s' = M_exit)"
proof -
  have inv: "sys_inv s" using assms(1) by (rule shutdown.reachable_inv)
  then have "ready s \<and> turns_due s \<le> turns_due s" using assms(2,3) by (simp add: sys_inv_def ready_def)
  from shutdown.ranked_path [OF assms(4) inv this] have
    p: "sys_inv s'" "ready s'" "length ts \<le> rank s" "turns_due s' \<le> turns_due s" unfolding assms(5) by linarith+
  have "mon_rank (mon s) \<le> 6" using assms(3) by (cases "mon s") simp_all
  moreover have "call_rank (call s) \<le> 3" by (cases "call s") simp_all
  ultimately have "rank s \<le> 13" using assms(2) by (simp add: rank_def)
  then show ?thesis using p ready_progress [OF p(1,2)] by (simp add: turns_due_def split: if_splits)
qed

definition sample_stopping :: sys where
  "sample_stopping = last (monitor_WiFiStatus # the (run_threads thread_step monitor_WiFiStatus [Monitor, Monitor, Stopper]))"

definition sample_shutdown :: "sys list" where
  "sample_shutdown = the (run_threads thread_step sample_stopping
     [Stopper, Stopper, Stopper, Monitor, Monitor, Monitor, Stopper])"

lemma sample_stopping_run: "run_threads thread_step monitor_WiFiStatus [Monitor, Monitor, Stopper] \<noteq> None" by code_simp
lemma sample_shutdown_run:
  "run_threads thread_step sample_stopping [Stopper, Stopper, Stopper, Monitor, Monitor, Monitor, Stopper] \<noteq> None" by code_simp

lemma sample_stopping_reachable: "reachable monitor_step monitor_WiFiStatus sample_stopping"
  unfolding sample_stopping_def by (rule shutdown.run_reachable [OF sample_stopping_run])

lemma sample_shutdown_path: "path monitor_step (\<lambda>c. c \<noteq> Connected) sample_stopping sample_shutdown"
  unfolding sample_shutdown_def by (rule shutdown.run_path [OF sample_shutdown_run])

theorem shutdown_completes_witness:
  "length sample_shutdown = 7 \<and> stop (last (sample_stopping # sample_shutdown)) = S_done \<and>
   mon (last (sample_stopping # sample_shutdown)) = M_exit"
proof -
  have "stop sample_stopping = S_lock" "mon sample_stopping \<noteq> M_start" by code_simp+
  moreover have "\<forall>t. thread_step t (last (sample_stopping # sample_shutdown)) = None"
    unfolding all_threads by code_simp
  moreover have "length sample_shutdown = 7" by code_simp
  ultimately show ?thesis
    using shutdown_completes [OF sample_stopping_reachable _ _ sample_shutdown_path refl] by blast
qed

section \<open>A shutdown before the first wait\<close>

definition quiet :: "sys \<Rightarrow> sys \<Rightarrow> bool" where
  "quiet s s' \<longleftrightarrow> (\<exists>c. c \<noteq> Wakeup \<and> monitor_step c s s')"

definition lost :: "sys \<Rightarrow> bool" where
  "lost s \<longleftrightarrow> mon s = M_wait_first \<and> stop s = S_join \<and> shutting_down s \<and> (call s = C_idle \<or> call s = C_loop)"

lemma lost_step: "lost s \<Longrightarrow> quiet s s' \<Longrightarrow> lost s'"
  unfolding quiet_def lost_def
proof (elim exE conjE)
  fix c assume "mon s = M_wait_first" "stop s = S_join" "shutting_down s" "call s = C_idle \<or> call s = C_loop"
    "c \<noteq> Wakeup" "monitor_step c s s'"
  then show "mon s' = M_wait_first \<and> stop s' = S_join \<and> shutting_down s' \<and> (call s' = C_idle \<or> call s' = C_loop)"
  proof (cases c)
    case (Thread t)
    with \<open>monitor_step c s s'\<close> have "thread_step t s = Some s'" by (auto elim: monitor_stepE)
    then show ?thesis using \<open>mon s = _\<close> \<open>stop s = _\<close> \<open>shutting_down s\<close> \<open>call s = _ \<or> _\<close>
      by (cases t) (auto simp: wifiConnStatusThread_def shutdown_thread_def signal_monitor_def)
  qed (auto elim: monitor_stepE)
qed

definition lost_run :: "sys list" where
  "lost_run = the (run_threads thread_step monitor_WiFiStatus [Stopper, Stopper, Stopper, Stopper, Monitor, Monitor])"

text \<open>
  C39.  The first wait of the monitor tests no condition: there is a run in which \<^verbatim>\<open>shutdownWifi\<close>, called before
  the new thread has taken the mutex, signals to nobody, and after which the monitor sleeps and
  \<^verbatim>\<open>pthread_join\<close> blocks whatever the threads and later callbacks do, unless the system wakes the monitor
  without a signal.
\<close>

theorem first_wait_misses_shutdown:
  "\<exists>s. reachable monitor_step monitor_WiFiStatus s \<and> {s'. quiet\<^sup>*\<^sup>* s s'} \<subseteq> {s'. mon s' = M_wait_first \<and> stop s' = S_join}"
proof (intro exI conjI subsetI CollectI; (elim CollectE)?)
  let ?s = "last (monitor_WiFiStatus # lost_run)"
  have "run_threads thread_step monitor_WiFiStatus [Stopper, Stopper, Stopper, Stopper, Monitor, Monitor] \<noteq> None" by code_simp
  then show "reachable monitor_step monitor_WiFiStatus ?s" unfolding lost_run_def by (rule shutdown.run_reachable)
  fix s' assume "quiet\<^sup>*\<^sup>* ?s s'"
  moreover have "lost ?s" by code_simp
  ultimately have "lost s'" by (induction rule: rtranclp_induct) (auto intro: lost_step)
  then show "mon s' = M_wait_first" "stop s' = S_join" by (simp_all add: lost_def)
qed

end
