(* ===== verification/Ap_Details.thy ===== *)
theory Ap_Details
  imports Thread_Runs
begin

text \<open>
  The threads around the description of the access point in \<^verbatim>\<open>wifiHalUtiles.cpp\<close>: the collector
  (\<^verbatim>\<open>getAPMakeAndModel\<close>), the handler of the discovery events that wakes it (\<^verbatim>\<open>_evtHandler\<close>) and the part of
  \<^verbatim>\<open>shutdownWifi\<close> that tells it to end.  They share a mutex, a condition variable, a flag and the length of
  the announced data.

  The conventions are those of \<^verbatim>\<open>Wifi_Monitor\<close>.  There is one collector; the cancellation that follows in
  \<^verbatim>\<open>shutdownWifi\<close> is not part of the model, and the theorem at the end shows that the collector ends without
  it.  Whether data of a given length describes the gateway completely is a parameter.
\<close>

section \<open>State\<close>

datatype ap_thread = Collector | Discovery | Shutdown

datatype col_pc = A_test | A_lock | A_check | A_sleep | A_wait | A_woken | A_fetch | A_unlock bool | A_exit

datatype ev_pc = E_idle | E_lock nat | E_set nat | E_signal nat | E_unlock

datatype down_pc = D_idle | D_lock | D_set | D_signal | D_unlock | D_done

record ap =
  col :: col_pc
  ev :: ev_pc
  down :: down_pc
  mutexAPDetails :: "ap_thread option"
  bsignalAPDetailsReady :: bool
  apDetailsBuffLength :: nat
  ap_shutdown :: bool
  fetched :: "nat list"

text \<open>The state after \<^verbatim>\<open>collectAPDetails\<close> has started the thread for the first time; the flag starts set.\<close>

definition collectAPDetails :: ap where
  "collectAPDetails = \<lparr> col = A_test, ev = E_idle, down = D_idle, mutexAPDetails = None, bsignalAPDetailsReady = True,
     apDetailsBuffLength = 0, ap_shutdown = False, fetched = [] \<rparr>"

definition ap_lock :: "ap_thread \<Rightarrow> (ap \<Rightarrow> ap) \<Rightarrow> ap \<Rightarrow> ap option" where
  "ap_lock t f s = (if mutexAPDetails s = None then Some (f (s \<lparr> mutexAPDetails := Some t \<rparr>)) else None)"

definition ap_unlock :: "ap \<Rightarrow> ap" where
  "ap_unlock s = s \<lparr> mutexAPDetails := None \<rparr>"

definition ap_signal :: "ap \<Rightarrow> ap" where
  "ap_signal s = (if col s = A_wait then s \<lparr> col := A_woken \<rparr> else s)"

section \<open>Threads\<close>

text \<open>The argument says for which lengths the fetched data names make and model.\<close>

definition collector_step :: "(nat \<Rightarrow> bool) \<Rightarrow> ap \<Rightarrow> ap option" where
  "collector_step complete s = (case col s of
      A_test \<Rightarrow> Some (s \<lparr> col := (if ap_shutdown s then A_exit else A_lock) \<rparr>)
    | A_lock \<Rightarrow> ap_lock Collector (col_update (\<lambda>_. A_check)) s
    | A_check \<Rightarrow> Some (s \<lparr> col := (if bsignalAPDetailsReady s then A_fetch else A_sleep) \<rparr>)
    | A_sleep \<Rightarrow> Some ((ap_unlock s) \<lparr> col := A_wait \<rparr>)
    | A_wait \<Rightarrow> None
    | A_woken \<Rightarrow> ap_lock Collector (col_update (\<lambda>_. A_check)) s
    | A_fetch \<Rightarrow> Some (s \<lparr> bsignalAPDetailsReady := False, fetched := fetched s @ [apDetailsBuffLength s],
                       col := A_unlock (complete (apDetailsBuffLength s)) \<rparr>)
    | A_unlock found \<Rightarrow> Some ((ap_unlock s) \<lparr> col := (if found then A_exit else A_test) \<rparr>)
    | A_exit \<Rightarrow> None)"

definition discovery_step :: "ap \<Rightarrow> ap option" where
  "discovery_step s = (case ev s of
      E_idle \<Rightarrow> None
    | E_lock n \<Rightarrow> ap_lock Discovery (ev_update (\<lambda>_. E_set n)) s
    | E_set n \<Rightarrow> Some (s \<lparr> bsignalAPDetailsReady := True, ev := E_signal n \<rparr>)
    | E_signal n \<Rightarrow> Some ((ap_signal s) \<lparr> apDetailsBuffLength := n, ev := E_unlock \<rparr>)
    | E_unlock \<Rightarrow> Some ((ap_unlock s) \<lparr> ev := E_idle \<rparr>))"

definition details_shutdown_step :: "ap \<Rightarrow> ap option" where
  "details_shutdown_step s = (case down s of
      D_idle \<Rightarrow> Some (s \<lparr> ap_shutdown := True, down := D_lock \<rparr>)
    | D_lock \<Rightarrow> ap_lock Shutdown (down_update (\<lambda>_. D_set)) s
    | D_set \<Rightarrow> Some (s \<lparr> bsignalAPDetailsReady := True, down := D_signal \<rparr>)
    | D_signal \<Rightarrow> Some ((ap_signal s) \<lparr> down := D_unlock \<rparr>)
    | D_unlock \<Rightarrow> Some ((ap_unlock s) \<lparr> down := D_done \<rparr>)
    | D_done \<Rightarrow> None)"

fun ap_move :: "(nat \<Rightarrow> bool) \<Rightarrow> ap_thread \<Rightarrow> ap \<Rightarrow> ap option" where
  "ap_move complete Collector s = collector_step complete s"
| "ap_move complete Discovery s = discovery_step s"
| "ap_move complete Shutdown s = (if down s = D_idle then None else details_shutdown_step s)"

text \<open>A step of a thread; the service is told to stop; the system wakes the collector; an announcement arrives.\<close>

datatype ap_cause = Moves ap_thread | Stopped | Woken | Announced nat

inductive ap_step :: "(nat \<Rightarrow> bool) \<Rightarrow> ap_cause \<Rightarrow> ap \<Rightarrow> ap \<Rightarrow> bool" for complete where
  moves: "ap_move complete t s = Some s' \<Longrightarrow> ap_step complete (Moves t) s s'"
| stopped: "down s = D_idle \<Longrightarrow> details_shutdown_step s = Some s' \<Longrightarrow> ap_step complete Stopped s s'"
| woken: "col s = A_wait \<Longrightarrow> ap_step complete Woken s (s \<lparr> col := A_woken \<rparr>)"
| announced: "ev s = E_idle \<Longrightarrow> ap_step complete (Announced n) s (s \<lparr> ev := E_lock n \<rparr>)"

section \<open>The invariant\<close>

fun ap_section :: "ap_thread \<Rightarrow> ap \<Rightarrow> bool" where
  "ap_section Collector s \<longleftrightarrow> (case col s of A_check \<Rightarrow> True | A_sleep \<Rightarrow> True | A_fetch \<Rightarrow> True | A_unlock _ \<Rightarrow> True | _ \<Rightarrow> False)"
| "ap_section Discovery s \<longleftrightarrow> (case ev s of E_set _ \<Rightarrow> True | E_signal _ \<Rightarrow> True | E_unlock \<Rightarrow> True | _ \<Rightarrow> False)"
| "ap_section Shutdown s \<longleftrightarrow> down s = D_set \<or> down s = D_signal \<or> down s = D_unlock"

text \<open>
  The mutex belongs to the thread inside its section; a collector that sleeps while the flag is set is
  about to be signalled; data is fetched with the length last announced; and once the flag has been set by
  the shutdown, a collector that consumed it does not wait again.
\<close>

definition ap_inv :: "ap \<Rightarrow> bool" where
  "ap_inv s \<longleftrightarrow> (\<forall>t. ap_section t s \<longleftrightarrow> mutexAPDetails s = Some t) \<and>
     (ap_shutdown s \<longleftrightarrow> down s \<noteq> D_idle) \<and>
     (col s = A_sleep \<longrightarrow> \<not> bsignalAPDetailsReady s) \<and>
     (col s = A_fetch \<longrightarrow> bsignalAPDetailsReady s) \<and>
     ((\<exists>n. ev s = E_signal n) \<or> down s = D_signal \<longrightarrow> bsignalAPDetailsReady s) \<and>
     (col s = A_wait \<and> bsignalAPDetailsReady s \<longrightarrow> (\<exists>n. ev s = E_signal n) \<or> down s = D_signal) \<and>
     (\<not> bsignalAPDetailsReady s \<longrightarrow> last (0 # fetched s) = apDetailsBuffLength s) \<and>
     (down s \<in> {D_signal, D_unlock, D_done} \<and> \<not> bsignalAPDetailsReady s \<longrightarrow> (\<exists>b. col s = A_unlock b) \<or> col s = A_test \<or> col s = A_exit)"

lemmas ap_defs = ap_lock_def ap_unlock_def ap_signal_def

lemma all_ap_threads: "(\<forall>t. P t) \<longleftrightarrow> P Collector \<and> P Discovery \<and> P Shutdown"
  using ap_thread.exhaust by metis

lemma ap_inv_collector:
  assumes "ap_inv s" and "collector_step complete s = Some s'"
  shows "ap_inv s'"
  using assms unfolding ap_inv_def all_ap_threads collector_step_def ap_defs
  by (cases "col s"; clarsimp split: if_splits)

lemma ap_inv_discovery:
  assumes "ap_inv s" and "discovery_step s = Some s'"
  shows "ap_inv s'"
  using assms unfolding ap_inv_def all_ap_threads discovery_step_def ap_defs
  by (cases "ev s"; cases "col s"; clarsimp split: if_splits)

lemma ap_inv_shutdown:
  assumes "ap_inv s" and "details_shutdown_step s = Some s'"
  shows "ap_inv s'"
  using assms unfolding ap_inv_def all_ap_threads details_shutdown_step_def ap_defs
  by (cases "down s"; cases "col s"; clarsimp split: if_splits)

lemma ap_inv_step: "ap_step complete c s s' \<Longrightarrow> ap_inv s \<Longrightarrow> ap_inv s'"
proof (induction rule: ap_step.induct)
  case (moves t s s')
  then show ?case by (cases t) (auto intro: ap_inv_collector ap_inv_discovery ap_inv_shutdown split: if_splits)
next
  case (stopped s s')
  then show ?case by (auto intro: ap_inv_shutdown)
qed (auto simp: ap_inv_def all_ap_threads)

section \<open>Quiet runs\<close>

text \<open>
  The work left when nothing arrives from outside: a round of the collector for a flag that is set or that a
  thread is about to set, and the rest of each thread's way.
\<close>

fun col_rank :: "col_pc \<Rightarrow> nat" where
  "col_rank A_exit = 0" | "col_rank A_wait = 1" | "col_rank A_sleep = 2" | "col_rank A_fetch = 2" | "col_rank A_check = 3"
| "col_rank A_lock = 4" | "col_rank A_woken = 4" | "col_rank A_test = 5" | "col_rank (A_unlock b) = 6"

fun ev_rank :: "ev_pc \<Rightarrow> nat" where
  "ev_rank E_idle = 0" | "ev_rank E_unlock = 1" | "ev_rank (E_signal n) = 5" | "ev_rank (E_set n) = 11" | "ev_rank (E_lock n) = 12"

fun down_rank :: "down_pc \<Rightarrow> nat" where
  "down_rank D_done = 0" | "down_rank D_unlock = 1" | "down_rank D_signal = 5" | "down_rank D_set = 11" | "down_rank D_lock = 12"
| "down_rank D_idle = 0"

definition ap_rank :: "ap \<Rightarrow> nat" where
  "ap_rank s = col_rank (col s) + ev_rank (ev s) + down_rank (down s) + (if bsignalAPDetailsReady s then 5 else 0)"

fun quiet_cause :: "ap_cause \<Rightarrow> bool" where
  "quiet_cause (Moves t) = True"
| "quiet_cause _ = False"

lemma ap_rank_step:
  assumes "ap_step complete c s s'" "quiet_cause c" "ap_inv s"
  shows "ap_rank s' < ap_rank s"
  using assms(1)
proof cases
  case (moves t)
  show ?thesis
  proof (cases t)
    case Collector
    then show ?thesis using moves assms(3) unfolding ap_inv_def
      by (cases "col s"; clarsimp simp: collector_step_def ap_defs ap_rank_def split: if_splits)
  next
    case Discovery
    then show ?thesis using moves by (cases "ev s"; clarsimp simp: discovery_step_def ap_defs ap_rank_def split: if_splits)
  next
    case Shutdown
    then show ?thesis using moves
      by (cases "down s"; clarsimp simp: details_shutdown_step_def ap_defs ap_rank_def split: if_splits)
  qed
qed (use assms(2) in simp_all)

interpretation details: ranked_threads "ap_step complete" collectAPDetails ap_inv "ap_move complete" Moves quiet_cause
    "\<lambda>_. True" ap_rank for complete
proof
  show "ap_inv collectAPDetails" by (simp add: ap_inv_def all_ap_threads collectAPDetails_def)
qed (auto intro: ap_inv_step ap_step.moves ap_rank_step)

lemma ap_owner_moves:
  assumes "ap_inv s" "mutexAPDetails s = Some t"
  shows "ap_move complete t s \<noteq> None"
proof -
  have "ap_section t s" using assms by (simp add: ap_inv_def)
  then show ?thesis
    by (cases t) (auto simp: collector_step_def discovery_step_def details_shutdown_step_def split: col_pc.splits ev_pc.splits)
qed

lemma ap_stuck:
  assumes "ap_inv s" "\<forall>t. ap_move complete t s = None"
  shows "ev s = E_idle" "down s = D_idle \<or> down s = D_done" "col s = A_exit \<or> col s = A_wait"
proof -
  have free: "mutexAPDetails s = None" using ap_owner_moves [OF assms(1), of _ complete] assms(2) by (metis option.exhaust)
  have m: "collector_step complete s = None" "discovery_step s = None" "down s = D_idle \<or> details_shutdown_step s = None"
    using assms(2) by (auto simp: all_ap_threads split: if_splits)
  show "ev s = E_idle" using m(2) free by (cases "ev s") (simp_all add: discovery_step_def ap_defs)
  show "down s = D_idle \<or> down s = D_done" using m(3) free by (cases "down s") (simp_all add: details_shutdown_step_def ap_defs)
  show "col s = A_exit \<or> col s = A_wait" using m(1) free by (cases "col s") (simp_all add: collector_step_def ap_defs)
qed

text \<open>
  C13.  No announcement of the discovery is lost.  From every reachable state a run of the three threads, in
  any order and without new announcements, is over after thirty-five steps; where it ends, the collector has
  ended or it sleeps with the flag cleared and the last data it fetched was of the length announced last;
  and if the service was told to stop, the collector has ended.
\<close>

theorem ap_details_current:
  assumes "reachable (ap_step complete) collectAPDetails s" and "path (ap_step complete) quiet_cause s ts" and "s' = last (s # ts)"
  shows "length ts \<le> 35 \<and> ((\<forall>t. ap_move complete t s' = None) \<longrightarrow>
    (col s' = A_exit \<or> \<not> bsignalAPDetailsReady s' \<and> last (0 # fetched s') = apDetailsBuffLength s') \<and>
    (ap_shutdown s' \<longrightarrow> col s' = A_exit))"
proof -
  have inv: "ap_inv s" using assms(1) by (rule details.reachable_inv)
  from details.ranked_path [OF assms(2) inv] have p: "ap_inv s'" "length ts \<le> ap_rank s" unfolding assms(3) by auto
  have "col_rank (col s) \<le> 6" by (cases "col s") simp_all
  moreover have "ev_rank (ev s) \<le> 12" by (cases "ev s") simp_all
  moreover have "down_rank (down s) \<le> 12" by (cases "down s") simp_all
  ultimately have "length ts \<le> 35" using p(2) by (simp add: ap_rank_def split: if_splits)
  moreover have "(col s' = A_exit \<or> \<not> bsignalAPDetailsReady s' \<and> last (0 # fetched s') = apDetailsBuffLength s') \<and>
      (ap_shutdown s' \<longrightarrow> col s' = A_exit)" if "\<forall>t. ap_move complete t s' = None"
    using ap_stuck [OF p(1) that] p(1) unfolding ap_inv_def by auto
  ultimately show ?thesis by blast
qed

section \<open>Witness\<close>

text \<open>The collector fetches at once, finds nothing and sleeps; then the service is told to stop.\<close>

definition sample_asleep :: ap where
  "sample_asleep = last (collectAPDetails # the (run_threads (ap_move (\<lambda>_. False)) collectAPDetails (replicate 9 Collector)))"

definition sample_stop :: "ap list" where
  "sample_stop = the (run_threads (ap_move (\<lambda>_. False)) (sample_asleep \<lparr> ap_shutdown := True, down := D_lock \<rparr>)
     (replicate 4 Shutdown @ replicate 5 Collector))"

theorem ap_details_current_witness:
  "length sample_stop = 9 \<and> col sample_asleep = A_wait \<and> col (last (sample_asleep \<lparr> ap_shutdown := True, down := D_lock \<rparr> # sample_stop)) = A_exit"
proof -
  let ?c = "\<lambda>_ :: nat. False"
  let ?s = "sample_asleep \<lparr> ap_shutdown := True, down := D_lock \<rparr>"
  have "run_threads (ap_move ?c) collectAPDetails (replicate 9 Collector) \<noteq> None" by code_simp
  then have "reachable (ap_step ?c) collectAPDetails sample_asleep"
    unfolding sample_asleep_def by (rule details.run_reachable)
  moreover have "down sample_asleep = D_idle" by code_simp
  then have "ap_step ?c Stopped sample_asleep ?s" by (simp add: ap_step.stopped details_shutdown_step_def)
  ultimately have r: "reachable (ap_step ?c) collectAPDetails ?s" by (rule reachable.step)
  have "run_threads (ap_move ?c) ?s (replicate 4 Shutdown @ replicate 5 Collector) \<noteq> None" by code_simp
  then have p: "path (ap_step ?c) quiet_cause ?s sample_stop" unfolding sample_stop_def by (rule details.run_path)
  have "ap_move ?c Collector (last (?s # sample_stop)) = None" "ap_move ?c Discovery (last (?s # sample_stop)) = None"
    "ap_move ?c Shutdown (last (?s # sample_stop)) = None" "ap_shutdown (last (?s # sample_stop))"
    "length sample_stop = 9" "col sample_asleep = A_wait" by code_simp+
  then show ?thesis using ap_details_current [OF r p refl] unfolding all_ap_threads by blast
qed

end
