(* ===== verification/Moca_Mgr.thy ===== *)
theory Moca_Mgr
  imports C_Strings
begin

text \<open>
  The MoCA service (\<^verbatim>\<open>mocaSrvMgr.cpp\<close>): the telemetry it logs about the coaxial network, the settings that
  enable it, the loop of its thread and the callbacks.  The lines marked \<^verbatim>\<open>TELEMETRY\<close> are the output of the
  component and are recorded; other log lines are not.  The MoCA HAL is a parameter; what it leaves
  undefined when a call fails is \<^term>\<open>None\<close>.
\<close>

section \<open>State\<close>

text \<open>A line with its tag and value, or with the numbers of the own and the remote node as well.\<close>

datatype moca_line = Moca_Line string string | Moca_Node string int nat string

record moca =
  mocaLogEnable :: bool
  mocaLogDuration :: u32
  bFirst :: bool
  moca_log :: "moca_line list"

definition initial_moca :: moca where
  "initial_moca = \<lparr> mocaLogEnable = True, mocaLogDuration = 3600, bFirst = True, moca_log = [] \<rparr>"

datatype RMH_LinkStatus = RMH_LINK_STATUS_UP | RMH_LINK_STATUS_Other int

text \<open>
  The answers of the HAL at a point in time.  The flags of the present nodes have the length
  \<^verbatim>\<open>RMH_MAX_MOCA_NODES\<close>; the power is the text that \<^verbatim>\<open>%2.02f\<close> prints for it.
\<close>

record rmh =
  rmh_link :: "RMH_LinkStatus option"
  rmh_up_code :: int
  rmh_version :: "string option"
  rmh_ncNodeId :: "u32 option"
  rmh_ncMac :: "string option"
  rmh_numNodes :: "u32 option"
  rmh_nodeId :: "u32 option"
  rmh_present :: "bool list option"
  rmh_rxRate :: "nat \<Rightarrow> u32 option"
  rmh_txRate :: "nat \<Rightarrow> u32 option"
  rmh_rxPower :: "nat \<Rightarrow> string option"
  rmh_txReduction :: "nat \<Rightarrow> u32 option"

definition show_d :: "u32 \<Rightarrow> string" where
  "show_d n = show_int (sint n)"

definition moca_emit :: "moca_line list \<Rightarrow> moca \<Rightarrow> moca" where
  "moca_emit ls s = s \<lparr> moca_log := moca_log s @ ls \<rparr>"

section \<open>Telemetry\<close>

text \<open>
  The loop over the nodes: a line per node that is present and answers, and the text of the answers, each
  followed by a comma.
\<close>

fun node_loop :: "string \<Rightarrow> int \<Rightarrow> (nat \<Rightarrow> string option) \<Rightarrow> nat \<Rightarrow> bool list \<Rightarrow> moca_line list \<times> string" where
  "node_loop tag self ask i [] = ([], [])"
| "node_loop tag self ask i (p # ps) =
     (case (if p then ask i else None) of
        None \<Rightarrow> node_loop tag self ask (Suc i) ps
      | Some v \<Rightarrow> (case node_loop tag self ask (Suc i) ps of (ls, res) \<Rightarrow> (Moca_Node tag self i v # ls, v @ CHR '','' # res)))"

definition node_report :: "string \<Rightarrow> string \<Rightarrow> int \<Rightarrow> (nat \<Rightarrow> string option) \<Rightarrow> bool list \<Rightarrow> moca_line list" where
  "node_report tag summary self ask ps =
     (case node_loop tag self ask 0 ps of (ls, resString) \<Rightarrow>
       ls @ (if resString \<noteq> [] then [Moca_Line summary (butlast resString)] else []))"

definition nodes_report :: "rmh \<Rightarrow> moca_line list" where
  "nodes_report h =
     (case (rmh_nodeId h, rmh_present h) of
        (Some self, Some ps) \<Rightarrow>
          node_report ''PHYRXRATE'' ''PHY_RX_RATE'' (sint self) (\<lambda>i. map_option show_d (rmh_rxRate h i)) ps @
          node_report ''PHYTXRATE'' ''PHY_TX_RATE'' (sint self) (\<lambda>i. map_option show_d (rmh_txRate h i)) ps @
          node_report ''RXPOWER'' ''RX_POWER'' (sint self) (rmh_rxPower h) ps @
          node_report ''TXPOWERREDUCTION'' ''TX_POWER_REDUCTION'' (sint self) (\<lambda>i. map_option show_d (rmh_txReduction h i)) ps
      | _ \<Rightarrow> [])"

definition opt_line :: "string \<Rightarrow> string option \<Rightarrow> moca_line list" where
  "opt_line tag v = (case v of None \<Rightarrow> [] | Some t \<Rightarrow> [Moca_Line tag t])"

text \<open>The last test compares the own node with the controller, whether or not they were found.\<close>

definition printMocaTelemetry :: "rmh \<Rightarrow> moca \<Rightarrow> moca res" where
  "printMocaTelemetry h s =
     (case rmh_link h of
        None \<Rightarrow> Val s
      | Some (RMH_LINK_STATUS_Other n) \<Rightarrow> Val (moca_emit [Moca_Line ''STATUS'' ''DOWN''] s)
      | Some RMH_LINK_STATUS_UP \<Rightarrow>
          let s = moca_emit [Moca_Line ''STATUS'' ''UP''] s;
              s = (if bFirst s
                   then moca_emit (Moca_Line ''LINK_STATUS_CHANGED'' (show_int (rmh_up_code h)) #
                          opt_line ''VERSION_CHANGED'' (rmh_version h)) (s \<lparr> bFirst := False \<rparr>)
                   else s);
              s = moca_emit (opt_line ''NC_NODEID'' (map_option show_d (rmh_ncNodeId h)) @ opt_line ''NC_MAC'' (rmh_ncMac h) @
                    opt_line ''TOTAL_NODE'' (map_option show_d (rmh_numNodes h)) @ nodes_report h) s in
          (case (rmh_nodeId h, rmh_ncNodeId h) of
             (Some self, Some nc) \<Rightarrow> Val (moca_emit [Moca_Line ''IS_CURRENT_NODE_NC'' (if self = nc then ''1'' else ''0'')] s)
           | _ \<Rightarrow> UB))"

section \<open>The thread and the handlers\<close>

text \<open>A turn of the loop of the thread: the seconds it sleeps and the state.\<close>

definition telemetry_turn :: "rmh \<Rightarrow> moca \<Rightarrow> (nat \<times> moca) res" where
  "telemetry_turn h s =
     (if mocaLogEnable s then res_bind (printMocaTelemetry h s) (\<lambda>s. Val (unat (mocaLogDuration s), s))
      else Val (300, s))"

datatype moca_event = Telemetry_Log bool | Telemetry_Log_Duration u32 | Other_Event

definition mocaEventHandler :: "string \<Rightarrow> moca_event \<Rightarrow> moca \<Rightarrow> moca" where
  "mocaEventHandler owner e s =
     (if owner \<noteq> ''NET_SRV_MGR'' then s
      else (case e of
          Telemetry_Log b \<Rightarrow> s \<lparr> mocaLogEnable := b \<rparr>
        | Telemetry_Log_Duration d \<Rightarrow> s \<lparr> mocaLogDuration := d \<rparr>
        | Other_Event \<Rightarrow> s))"

datatype rmh_event = Link_Status_Changed int | Version_Changed string | Unsupported

definition eventCallback :: "rmh_event \<Rightarrow> moca \<Rightarrow> moca" where
  "eventCallback e s = (case e of
      Link_Status_Changed n \<Rightarrow> moca_emit [Moca_Line ''LINK_STATUS_CHANGED'' (show_int n)] s
    | Version_Changed v \<Rightarrow> moca_emit [Moca_Line ''VERSION_CHANGED'' v] s
    | Unsupported \<Rightarrow> s)"

section \<open>The summaries\<close>

text \<open>The numbered answers of the present nodes.\<close>

fun answers_from :: "(nat \<Rightarrow> 'v option) \<Rightarrow> nat \<Rightarrow> bool list \<Rightarrow> (nat \<times> 'v) list" where
  "answers_from ask i [] = []"
| "answers_from ask i (p # ps) =
     (case (if p then ask i else None) of None \<Rightarrow> [] | Some v \<Rightarrow> [(i, v)]) @ answers_from ask (Suc i) ps"

lemma answers_from_set:
  "set (answers_from ask i ps) = {(i + j, v) | j v. j < length ps \<and> ps ! j \<and> ask (i + j) = Some v}"
proof (induction ps arbitrary: i)
  case (Cons p ps)
  have "{(i + j, v) | j v. j < length (p # ps) \<and> (p # ps) ! j \<and> ask (i + j) = Some v}
      = {(i, v) | v. p \<and> ask i = Some v} \<union> {(Suc i + j, v) | j v. j < length ps \<and> ps ! j \<and> ask (Suc i + j) = Some v}"
    by (auto simp: less_Suc_eq_0_disj nth_Cons')
  moreover have "set (case (if p then ask i else None) of None \<Rightarrow> [] | Some v \<Rightarrow> [(i, v)]) = {(i, v) | v. p \<and> ask i = Some v}"
    by (auto split: option.split)
  ultimately show ?case using Cons [of "Suc i"] by simp
qed simp

lemma answers_from_sorted: "sorted_wrt (<) (map fst (answers_from ask i ps)) \<and> (\<forall>a\<in>set (answers_from ask i ps). i \<le> fst a)"
proof (induction ps arbitrary: i)
  case (Cons p ps)
  show ?case using Cons [of "Suc i"] by (force simp: sorted_wrt_append split: option.split)
qed simp

lemma node_loop_answers:
  "node_loop tag self (\<lambda>i. map_option f (ask i)) i ps =
     (map (\<lambda>a. Moca_Node tag self (fst a) (f (snd a))) (answers_from ask i ps),
      concat (map (\<lambda>a. f (snd a) @ '','') (answers_from ask i ps)))"
  by (induction ps arbitrary: i) (auto split: option.split)

lemma concat_commas: "vs \<noteq> [] \<Longrightarrow> butlast (concat (map (\<lambda>v. v @ [d]) vs)) = join_char d vs"
  by (induction d vs rule: join_char.induct) (simp_all add: butlast_append)

lemma show_int_chars: "c \<in> set (show_int i) \<Longrightarrow> isdigit_c c \<or> c = CHR ''-''"
  by (auto simp: show_int_def dest: show_nat_digits split: if_splits)

lemma digit_not_special: "isdigit_c c \<Longrightarrow> c \<noteq> CHR ''-'' \<and> c \<noteq> CHR ''+'' \<and> c \<noteq> CHR '','' \<and> \<not> isspace_c c"
  by (auto simp: isdigit_c_def isspace_c_def Let_def)

lemma minus_char: "\<not> isspace_c CHR ''-''" "\<not> isdigit_c CHR ''-''"
  by (simp_all add: isspace_c_def isdigit_c_def)

lemma atoi_show_int [simp]: "atoi (show_int i) = i"
proof -
  have t: "takeWhile isdigit_c (show_nat n) = show_nat n" for n by (simp add: takeWhile_eq_all_conv show_nat_digits)
  obtain d ds where d: "show_nat (nat i) = d # ds" by (cases "show_nat (nat i)") auto
  then have "isdigit_c d" using show_nat_digits [of d "nat i"] by simp
  then have s: "dropWhile isspace_c (show_nat (nat i)) = show_nat (nat i)" "skip_sign (show_nat (nat i)) = show_nat (nat i)" "d \<noteq> CHR ''-''"
    using digit_not_special [of d] d by (simp_all add: skip_sign_def)
  show ?thesis
  proof (cases "i < 0")
    case True
    then show ?thesis by (simp only: show_int_def atoi_def Let_def) (simp add: minus_char skip_sign_def t)
  next
    case False
    have "hd (show_nat (nat i)) \<noteq> CHR ''-''" using s(3) d by simp
    then show ?thesis using False s(1,2) by (simp only: show_int_def atoi_def Let_def) (simp add: t)
  qed
qed

lemma show_int_facts: "CHR '','' \<notin> set (show_int i)" "show_int i \<noteq> []"
  using show_int_chars [of "CHR '',''" i] digit_not_special [of "CHR '',''"] by (auto simp: show_int_def)

text \<open>
  C36.  The rates of the remote nodes: a line for every node that is present and answers, in the order of
  the nodes, and one summary, exactly if there is such a node, from which the rates are read back.
\<close>

theorem moca_rate_summary:
  "\<exists>as. sorted_wrt (<) (map fst as) \<and> set as = {(j, r). j < length ps \<and> ps ! j \<and> ask j = Some r} \<and>
     (\<exists>sum. node_report tag summary self (\<lambda>i. map_option show_d (ask i)) ps
        = map (\<lambda>a. Moca_Node tag self (fst a) (show_d (snd a))) as @ (if as = [] then [] else [Moca_Line summary sum]) \<and>
      (as = [] \<or> map atoi (split_char CHR '','' sum) = map (\<lambda>a. sint (snd a)) as))"
proof -
  define as where "as = answers_from ask 0 ps"
  define sum where "sum = join_char CHR '','' (map (\<lambda>a. show_d (snd a)) as)"
  have "concat (map (\<lambda>a. show_d (snd a) @ '','') as) = concat (map (\<lambda>v. v @ '','') (map (\<lambda>a. show_d (snd a)) as))"
    by (simp add: comp_def)
  then have report: "node_report tag summary self (\<lambda>i. map_option show_d (ask i)) ps
      = map (\<lambda>a. Moca_Node tag self (fst a) (show_d (snd a))) as @ (if as = [] then [] else [Moca_Line summary sum])"
    using concat_commas [of "map (\<lambda>a. show_d (snd a)) as" "CHR '',''"]
    by (cases "as") (simp_all add: node_report_def node_loop_answers as_def [symmetric] sum_def)
  have reads: "as = [] \<or> map atoi (split_char CHR '','' sum) = map (\<lambda>a. sint (snd a)) as"
    unfolding sum_def by (cases "as = []") (simp_all add: split_char_join show_d_def show_int_facts)
  show ?thesis
    using answers_from_sorted [of ask 0 ps] answers_from_set [of ask 0 ps] report reads
    by (intro exI [of _ "as"]) (auto simp: as_def [symmetric])
qed

text \<open>
  When the link is up and the number of the own node or of the controller cannot be had, the test
  for the controller reads a variable that was never set.
\<close>

theorem moca_controller_test_undefined:
  assumes "rmh_link h = Some RMH_LINK_STATUS_UP" and "rmh_nodeId h = None \<or> rmh_ncNodeId h = None"
  shows "printMocaTelemetry h s = UB"
  using assms by (auto simp: printMocaTelemetry_def Let_def split: option.split)

section \<open>Witnesses\<close>

definition sample_rmh :: rmh where
  "sample_rmh = \<lparr> rmh_link = Some RMH_LINK_STATUS_UP, rmh_up_code = 1, rmh_version = Some ''2.0'', rmh_ncNodeId = None,
     rmh_ncMac = None, rmh_numNodes = Some 2, rmh_nodeId = Some 0, rmh_present = Some [False, True],
     rmh_rxRate = (\<lambda>_. Some 600), rmh_txRate = (\<lambda>_. None), rmh_rxPower = (\<lambda>_. None), rmh_txReduction = (\<lambda>_. None) \<rparr>"

theorem moca_controller_test_undefined_witness: "printMocaTelemetry sample_rmh initial_moca = UB"
  by (rule moca_controller_test_undefined) (simp_all add: sample_rmh_def)

end
