(* ===== verification/Connectivity_Cli.thy ===== *)
theory Connectivity_Cli
  imports Connectivity
begin

text \<open>
  The command line program \<^verbatim>\<open>test_connectivity.cpp\<close>: it repeats the connectivity test until it succeeds or
  the given number of tries is used up, and reports the outcome as its exit status.  The answers of
  libcurl and the clock are given for each try.
\<close>

section \<open>The program\<close>

definition strtol10 :: "string \<Rightarrow> int" where
  "strtol10 s = max (- (2 ^ 63)) (min (2 ^ 63 - 1) (atoi s))"

text \<open>An argument with its default for a missing or non-positive one.\<close>

definition positive_arg :: "string list \<Rightarrow> nat \<Rightarrow> int \<Rightarrow> int" where
  "positive_arg argv i d = (if length argv < i + 1 \<or> strtol10 (argv ! i) \<le> 0 then d else strtol10 (argv ! i))"

text \<open>The loop, with the number of tries left after this one; the result has the number of the last test.\<close>

fun try_loop :: "(nat \<Rightarrow> conn_env) \<Rightarrow> nat \<Rightarrow> int \<Rightarrow> nat \<Rightarrow> nat \<Rightarrow> string option \<Rightarrow> (bool \<times> nat \<times> string option) option" where
  "try_loop envs fuel timeout_ms i left file =
     (case test_connectivity (envs i) fuel timeout_ms file of
        None \<Rightarrow> None
      | Some r \<Rightarrow>
          if connected r then Some (True, i, endpoints_file r)
          else (case left of
              0 \<Rightarrow> Some (False, i, endpoints_file r)
            | Suc left \<Rightarrow> try_loop envs fuel timeout_ms (i + 1) left (endpoints_file r)))"

definition test_connectivity_main :: "(nat \<Rightarrow> conn_env) \<Rightarrow> nat \<Rightarrow> string list \<Rightarrow> string option \<Rightarrow> (int \<times> nat \<times> string option) option" where
  "test_connectivity_main envs fuel argv file =
     map_option (\<lambda>(ok, n, file). (if ok then 0 else 1, n, file))
       (try_loop envs fuel (positive_arg argv 1 2000) 1 (nat (positive_arg argv 2 1) - 1) file)"

declare try_loop.simps [simp del]

section \<open>Outcome\<close>

text \<open>The results of successive tests, each with the file the one before left.\<close>

fun tests :: "(nat \<Rightarrow> conn_env) \<Rightarrow> nat \<Rightarrow> int \<Rightarrow> nat \<Rightarrow> string option \<Rightarrow> test_result list \<Rightarrow> bool" where
  "tests envs fuel t i file [] \<longleftrightarrow> True"
| "tests envs fuel t i file (r # rs) \<longleftrightarrow>
     test_connectivity (envs i) fuel t file = Some r \<and> tests envs fuel t (i + 1) (endpoints_file r) rs"

lemma try_loop_tests:
  assumes "\<And>j f. i \<le> j \<Longrightarrow> test_connectivity (envs j) fuel t f \<noteq> None"
  shows "\<exists>ok n rs. try_loop envs fuel t i left file = Some (ok, i + n, endpoints_file (last rs)) \<and> tests envs fuel t i file rs \<and>
     length rs = n + 1 \<and> n \<le> left \<and> connected (last rs) = ok \<and> (\<forall>r\<in>set (butlast rs). \<not> connected r) \<and> (\<not> ok \<longrightarrow> n = left)"
  using assms
proof (induction left arbitrary: i "file")
  case 0
  obtain r where r: "test_connectivity (envs i) fuel t file = Some r" using "0.prems" [of i "file"] by auto
  then show ?case
    by (intro exI [of _ "connected r"] exI [of _ "0::nat"] exI [of _ "[r]"]) (simp add: try_loop.simps)
next
  case (Suc left)
  obtain r where r: "test_connectivity (envs i) fuel t file = Some r" using Suc.prems [of i "file"] by auto
  show ?case
  proof (cases "connected r")
    case True
    with r show ?thesis
      by (intro exI [of _ True] exI [of _ "0::nat"] exI [of _ "[r]"]) (simp add: try_loop.simps)
  next
    case False
    obtain ok n rs where IH: "try_loop envs fuel t (i + 1) left (endpoints_file r) = Some (ok, i + 1 + n, endpoints_file (last rs))"
      "tests envs fuel t (i + 1) (endpoints_file r) rs" "length rs = n + 1" "n \<le> left" "connected (last rs) = ok"
      "\<forall>r\<in>set (butlast rs). \<not> connected r" "\<not> ok \<longrightarrow> n = left"
      using Suc.IH [of "i + 1" "endpoints_file r"] Suc.prems by auto
    then have "rs \<noteq> []" by auto
    with IH r False show ?thesis
      by (intro exI [of _ ok] exI [of _ "n + 1"] exI [of _ "r # rs"]) (simp add: try_loop.simps [of envs fuel t i])
  qed
qed

lemma test_connectivity_returns:
  assumes "last_round env (conn_start env + t) k" and "k < fuel"
  shows "test_connectivity env fuel t file \<noteq> None"
proof -
  define m where "m = (LEAST k. last_round env (conn_start env + t) k)"
  have m: "last_round env (conn_start env + t) m" "m \<le> k" "\<forall>j<m. \<not> last_round env (conn_start env + t) j"
    unfolding m_def using assms(1) by (auto intro: LeastI Least_le dest: not_less_Least)
  then have "transfer_loop env fuel 0 (conn_start env + t) 0 \<noteq> None"
    using transfer_loop_result [of env "conn_start env + t" 0 m fuel 0] assms(2) by simp
  then show ?thesis by (auto simp: test_connectivity_def Let_def split: prod.splits)
qed

text \<open>
  C33.  The program ends if every test has a round in which its loop stops, and it makes at least one and at
  most the given number of tests (one by default), each with the file the one before left.  Its exit
  status is 0 exactly if the last test succeeded; no test before it did, and after a failure all tries
  were used.
\<close>

theorem test_connectivity_main_outcome:
  assumes "\<forall>i. \<exists>k<fuel. last_round (envs i) (conn_start (envs i) + positive_arg argv 1 2000) k"
  shows "\<exists>status rs. test_connectivity_main envs fuel argv file = Some (status, length rs, endpoints_file (last rs)) \<and>
    tests envs fuel (positive_arg argv 1 2000) 1 file rs \<and> rs \<noteq> [] \<and> int (length rs) \<le> positive_arg argv 2 1 \<and>
    (status = 0 \<and> connected (last rs) \<or> status = 1 \<and> \<not> connected (last rs) \<and> int (length rs) = positive_arg argv 2 1) \<and>
    (\<forall>r\<in>set (butlast rs). \<not> connected r)"
proof -
  have total: "test_connectivity (envs j) fuel (positive_arg argv 1 2000) f \<noteq> None" for j f
    using assms test_connectivity_returns by blast
  have pos: "1 \<le> positive_arg argv 2 1" by (simp add: positive_arg_def)
  obtain ok n rs where l: "try_loop envs fuel (positive_arg argv 1 2000) 1 (nat (positive_arg argv 2 1) - 1) file =
      Some (ok, 1 + n, endpoints_file (last rs))" "tests envs fuel (positive_arg argv 1 2000) 1 file rs"
    "length rs = n + 1" "n \<le> nat (positive_arg argv 2 1) - 1" "connected (last rs) = ok"
    "\<forall>r\<in>set (butlast rs). \<not> connected r" "\<not> ok \<longrightarrow> n = nat (positive_arg argv 2 1) - 1"
    using try_loop_tests [of 1 envs fuel "positive_arg argv 1 2000" "nat (positive_arg argv 2 1) - 1" "file"] total by auto
  then show ?thesis using pos
    by (intro exI [of _ "if ok then 0 else 1"] exI [of _ rs]) (auto simp: test_connectivity_main_def nat_diff_distrib)
qed

theorem test_connectivity_main_outcome_witness:
  "\<exists>n file. test_connectivity_main (\<lambda>_. sample_conn) 10 [''test'', ''2000'', ''3''] None = Some (0, n, file)"
proof -
  have arg: "positive_arg [''test'', ''2000'', ''3''] 1 2000 = 2000" by code_simp
  have "\<forall>i::nat. \<exists>k<10. last_round sample_conn (conn_start sample_conn + positive_arg [''test'', ''2000'', ''3''] 1 2000) k"
    unfolding arg by (auto simp: last_round_def sample_conn_def intro!: exI [of _ 1])
  from test_connectivity_main_outcome [OF this, of None] obtain status and rs :: "test_result list" where
    m: "test_connectivity_main (\<lambda>_. sample_conn) 10 [''test'', ''2000'', ''3''] None = Some (status, length rs, endpoints_file (last rs))"
    by blast
  have "fst (the (test_connectivity_main (\<lambda>_. sample_conn) 10 [''test'', ''2000'', ''3''] None)) = 0" by code_simp
  then show ?thesis using m by auto
qed

end
