(* ===== verification/Http_Client.thy ===== *)
theory Http_Client
  imports Wifi_Diag
begin

text \<open>
  The wrapper of libcurl in \<^verbatim>\<open>netSrvCurl.cpp\<close> and the request for the Lost and Found token that is made
  through it.  libcurl is a parameter: whether a handle can be made, the blocks it hands to the write
  function of a transfer, and the response code it reports afterwards, 0 if there was no response.
\<close>

section \<open>A request\<close>

record curl =
  curl_handle :: bool
  curl_blocks :: "string \<Rightarrow> string option \<Rightarrow> string list"
  curl_response :: "string \<Rightarrow> string option \<Rightarrow> int"

text \<open>\<^verbatim>\<open>curlwritefunc\<close>: the buffer, if there is one, and the number of characters taken.\<close>

definition curlwritefunc :: "string \<Rightarrow> string option \<Rightarrow> nat \<times> string option" where
  "curlwritefunc data buffer = (case buffer of None \<Rightarrow> (0, None) | Some b \<Rightarrow> (length data, Some (b @ data)))"

text \<open>libcurl stops the transfer when the write function does not take the whole block.\<close>

fun curl_transfer :: "string list \<Rightarrow> string option \<Rightarrow> string option" where
  "curl_transfer [] buffer = buffer"
| "curl_transfer (d # ds) buffer =
     (case curlwritefunc d buffer of (n, buffer) \<Rightarrow> if n = length d then curl_transfer ds buffer else buffer)"

text \<open>Without a handle no call of libcurl has an effect and the response code is never set.\<close>

record curl_object =
  curlDataBuffer :: string
  m_httpcode :: "int res"

definition CurlObject :: "curl \<Rightarrow> string \<Rightarrow> string option \<Rightarrow> curl_object" where
  "CurlObject env url data =
     (if curl_handle env
      then \<lparr> curlDataBuffer = the (curl_transfer (curl_blocks env url data) (Some [])), m_httpcode = Val (curl_response env url data) \<rparr>
      else \<lparr> curlDataBuffer = [], m_httpcode = UB \<rparr>)"

definition getCurlData :: "curl_object \<Rightarrow> string" where
  "getCurlData c = takeWhile (\<lambda>x. x \<noteq> CHR 0x00) (curlDataBuffer c)"

definition gethttpcode :: "curl_object \<Rightarrow> int res" where
  "gethttpcode c = m_httpcode c"

lemma curl_transfer_concat: "curl_transfer ds (Some b) = Some (b @ concat ds)"
  by (induction ds arbitrary: b) (simp_all add: curlwritefunc_def)

section \<open>The token\<close>

text \<open>The members of the reply's document, read from its text.\<close>

record lfat_doc =
  doc_version :: "string option option"
  doc_expires :: "int option"
  doc_LFAT :: "string option option"

definition request_lfat ::
    "curl \<Rightarrow> (string \<Rightarrow> lfat_doc option) \<Rightarrow> string \<Rightarrow> nat \<Rightarrow> bool \<Rightarrow> lfat \<Rightarrow> (int \<times> lfat) res" where
  "request_lfat env parse url version_size malloc_ok l =
     (let c = CurlObject env url None; retStr = getCurlData c in
      res_bind (gethttpcode c) (\<lambda>code.
        let doc = (case parse retStr of Some d \<Rightarrow> d | None \<Rightarrow> \<lparr> doc_version = None, doc_expires = None, doc_LFAT = None \<rparr>) in
        laf_get_lfat version_size malloc_ok
          \<lparr> http_code = code, reply_text = retStr, reply_version = doc_version doc, reply_expires = doc_expires doc, reply_LFAT = doc_LFAT doc \<rparr>
          (parse retStr \<noteq> None) l))"

text \<open>
  The request for the token over HTTP.  Without a curl handle its outcome is undefined, since the
  response code is read although it was never set.  With one, the text that is parsed is the blocks of
  the transfer in order, up to a null character; a transfer without a response is reported as 404 and
  leaves the token alone; and success means that the response code was 200 and the token is the one of
  the document in that text.
\<close>

theorem request_lfat_outcome:
  "(\<not> curl_handle env \<longrightarrow> request_lfat env parse url n malloc_ok l = UB) \<and>
   (curl_handle env \<and> curl_response env url None = 0 \<longrightarrow> request_lfat env parse url n malloc_ok l = Val (404, l)) \<and>
   (request_lfat env parse url n malloc_ok l = Val (0, l') \<longrightarrow>
      curl_response env url None = 200 \<and>
      (\<exists>d. parse (takeWhile (\<lambda>x. x \<noteq> CHR 0x00) (concat (curl_blocks env url None))) = Some d \<and> doc_LFAT d = Some (Some (lfat_token l'))))"
proof (intro conjI impI)
  show "request_lfat env parse url n malloc_ok l = UB" if "\<not> curl_handle env"
    using that by (simp add: request_lfat_def CurlObject_def gethttpcode_def Let_def)
  show "request_lfat env parse url n malloc_ok l = Val (404, l)" if "curl_handle env \<and> curl_response env url None = 0"
    using that by (simp add: request_lfat_def CurlObject_def gethttpcode_def Let_def laf_get_lfat_def http_error_def)
  assume v: "request_lfat env parse url n malloc_ok l = Val (0, l')"
  then have h: "curl_handle env" by (auto simp: request_lfat_def CurlObject_def gethttpcode_def Let_def split: if_splits)
  have retStr: "getCurlData (CurlObject env url None) = takeWhile (\<lambda>x. x \<noteq> CHR 0x00) (concat (curl_blocks env url None))"
    using h by (simp add: getCurlData_def CurlObject_def curl_transfer_concat)
  have code: "gethttpcode (CurlObject env url None) = Val (curl_response env url None)"
    using h by (simp add: gethttpcode_def CurlObject_def)
  show "curl_response env url None = 200"
    using v by (auto simp: request_lfat_def Let_def code laf_get_lfat_def http_error_def split: if_splits)
  show "\<exists>d. parse (takeWhile (\<lambda>x. x \<noteq> CHR 0x00) (concat (curl_blocks env url None))) = Some d \<and> doc_LFAT d = Some (Some (lfat_token l'))"
    using v by (auto simp: request_lfat_def Let_def code retStr laf_get_lfat_def http_error_def EINVAL_def ENOMEM_def res_bind_Val_iff
        split: if_splits option.splits)
qed

definition sample_curl :: curl where
  "sample_curl = \<lparr> curl_handle = True, curl_blocks = (\<lambda>_ _. [''{ab'', ''c}'']), curl_response = (\<lambda>_ _. 200) \<rparr>"

definition sample_doc :: "string \<Rightarrow> lfat_doc option" where
  "sample_doc s = (if s = ''{abc}'' then Some \<lparr> doc_version = Some (Some ''1.0''), doc_expires = Some 60, doc_LFAT = Some (Some ''tok'') \<rparr> else None)"

theorem request_lfat_outcome_witness:
  "\<exists>l'. request_lfat sample_curl sample_doc ''http://auth'' 8 True \<lparr> lfat_version = [], lfat_ttl = 0, lfat_token = [] \<rparr> = Val (0, l') \<and>
     lfat_token l' = ''tok''"
proof -
  let ?l = "\<lparr> lfat_version = [], lfat_ttl = 0, lfat_token = [] \<rparr>"
  obtain l' where l': "request_lfat sample_curl sample_doc ''http://auth'' 8 True ?l = Val (0, l')"
    by (simp add: request_lfat_def CurlObject_def getCurlData_def gethttpcode_def sample_curl_def curl_transfer_concat sample_doc_def
        laf_get_lfat_def strcpy_to_def)
  with request_lfat_outcome [of sample_curl sample_doc "''http://auth''" 8 True ?l l'] show ?thesis
    by (auto simp: sample_doc_def sample_curl_def)
qed

end
