(* ===== verification/Upnp_Fetch.thy ===== *)
theory Upnp_Fetch
  imports Wifi_Diag Route_Mgr
begin

text \<open>
  Fetching device data from the UPnP service over the bus: \<^verbatim>\<open>RouteNetworkMgr::getGatewayResults\<close> with
  \<^verbatim>\<open>storeRouteDetails\<close> of \<^verbatim>\<open>routeSrvMgr.cpp\<close>, and \<^verbatim>\<open>getAPDetails\<close> of \<^verbatim>\<open>wifiHalUtiles.cpp\<close>.  Both ask with the length
  that was announced and believe the length in the reply.

  The bus is a parameter: whether the memory of the request is there, and the reply to a request with a
  given length, if the call succeeds: a length and the characters behind the header.
\<close>

section \<open>The reply\<close>

record upnp_bus =
  up_malloc :: bool
  up_call :: "nat \<Rightarrow> (nat \<times> string) option"

text \<open>
  The copy into a buffer of one character more than was asked for, with a null character behind it: a
  longer reply is written past the buffer.
\<close>

definition copy_reply :: "nat \<Rightarrow> nat \<times> string \<Rightarrow> string res" where
  "copy_reply msgLength r =
     (case r of (bufLength, chars) \<Rightarrow>
        if msgLength < bufLength then UB else Val (takeWhile (\<lambda>c. c \<noteq> CHR 0x00) (take bufLength chars)))"

definition getGatewayResults :: "upnp_bus \<Rightarrow> nat \<Rightarrow> string \<Rightarrow> (bool \<times> string) res" where
  "getGatewayResults bus msgLength gatewayResults =
     (if \<not> up_malloc bus then Val (False, gatewayResults)
      else (case up_call bus msgLength of
          None \<Rightarrow> Val (False, gatewayResults)
        | Some r \<Rightarrow> res_bind (copy_reply msgLength r) (\<lambda>t. Val (True, t))))"

text \<open>The route manager stores what it can parse; the model of the storing takes the parsed document.\<close>

definition fetch_routes :: "upnp_bus \<Rightarrow> (string \<Rightarrow> rt_env) \<Rightarrow> nat \<Rightarrow> rt \<Rightarrow> (bool \<times> rt) res" where
  "fetch_routes bus parsed msgLength s =
     res_bind (getGatewayResults bus msgLength []) (\<lambda>(ok, upnpResults).
       Val (if ok then storeRouteDetails (parsed upnpResults) s else (False, s)))"

text \<open>A failed call is not an error here: an empty text is parsed.\<close>

definition getAPDetails ::
    "upnp_bus \<Rightarrow> glib \<Rightarrow> (string \<Rightarrow> xmedia_gateway list option option) \<Rightarrow> nat \<Rightarrow> wifi \<Rightarrow> (bool \<times> wifi) res" where
  "getAPDetails bus g parse msgLength w =
     (if \<not> up_malloc bus then Val (False, w)
      else res_bind (case up_call bus msgLength of None \<Rightarrow> Val [] | Some r \<Rightarrow> copy_reply msgLength r) (\<lambda>apDetails.
        parseAPDetails g (parse apDetails) w))"

section \<open>Outcome\<close>

lemma copy_reply_Val: "copy_reply n r = Val t \<longleftrightarrow> fst r \<le> n \<and> t = takeWhile (\<lambda>c. c \<noteq> CHR 0x00) (take (fst r) (snd r))"
  by (auto simp: copy_reply_def split: prod.splits)

lemma copy_reply_bound: "copy_reply n r = Val t \<Longrightarrow> length t \<le> n"
proof -
  assume "copy_reply n r = Val t"
  then have "fst r \<le> n" and t: "t = takeWhile (\<lambda>c. c \<noteq> CHR 0x00) (take (fst r) (snd r))" by (simp_all add: copy_reply_Val)
  moreover have "length t \<le> length (take (fst r) (snd r))" unfolding t by (rule length_takeWhile_le)
  ultimately show ?thesis by simp
qed



end
