(* ===== verification/Camera_Build.thy ===== *)
theory Camera_Build
  imports Wifi_Diag
begin

text \<open>
  The code of \<^verbatim>\<open>wifiHalUtiles.cpp\<close> for other builds than the set-top box: the Lost and Found token and the
  device information from files (\<^verbatim>\<open>ENABLE_XCAM_SUPPORT\<close>, \<^verbatim>\<open>XHB1\<close>, \<^verbatim>\<open>XHC3\<close>), the request to connect over
  \<^verbatim>\<open>rtMessage\<close>, and the list of networks from the TR-069 host (\<^verbatim>\<open>USE_HOSTIF_WIFI_HAL\<close>).

  Files and environment variables are those of \<^verbatim>\<open>Netsrv_Utils\<close>.  The manufacturer library, the helper that
  reads and writes small files, and the sizes of the buffers of the Lost and Found library are parameters.
\<close>

section \<open>The token file\<close>

definition EBADF :: int where "EBADF = 9"

definition getlfatfilename :: "os \<Rightarrow> string option" where
  "getlfatfilename env = os_getenv env ''LFAT_TOKEN_FILE''"

text \<open>Opening a file without a name is undefined.\<close>

definition open_token :: "os \<Rightarrow> string option res" where
  "open_token env = (case getlfatfilename env of None \<Rightarrow> UB | Some f \<Rightarrow> Val (os_file env f))"

definition get_token_length :: "os \<Rightarrow> nat \<Rightarrow> (int \<times> nat) res" where
  "get_token_length env tokenlength =
     res_bind (open_token env) (\<lambda>f. Val (case f of None \<Rightarrow> (EBADF, tokenlength) | Some t \<Rightarrow> (0, length t)))"

text \<open>The token is read into a buffer of the given size; the argument is the number of characters asked for.\<close>

definition get_laf_token :: "os \<Rightarrow> nat \<Rightarrow> nat \<Rightarrow> string \<Rightarrow> (int \<times> string) res" where
  "get_laf_token env bsize tokenlength old =
     res_bind (open_token env) (\<lambda>f. case f of
         None \<Rightarrow> Val (EBADF, old)
       | Some t \<Rightarrow> let t = take tokenlength t in if bsize < length t then UB else Val (0, t))"

section \<open>A value from a file of keys\<close>

text \<open>\<^verbatim>\<open>strtok\<close> once: the first piece, and what follows the character that ended it.\<close>

definition strtok_once :: "char \<Rightarrow> string \<Rightarrow> (string \<times> string) option" where
  "strtok_once d s =
     (let s' = dropWhile (\<lambda>c. c = d) s in
      if s' = [] then None else Some (takeWhile (\<lambda>c. c \<noteq> d) s', drop 1 (dropWhile (\<lambda>c. c \<noteq> d) s')))"

definition DATA_LEN :: nat where "DATA_LEN = 4096"

fun value_in_lines :: "string list \<Rightarrow> string \<Rightarrow> nat \<Rightarrow> string \<Rightarrow> string res" where
  "value_in_lines [] pToken bsize data = Val data"
| "value_in_lines (l # ls) pToken bsize data =
     (case strtok_once CHR ''='' l of
        None \<Rightarrow> UB
      | Some (key, rest) \<Rightarrow>
          if key \<noteq> pToken then value_in_lines ls pToken bsize data
          else (case strtok_once newline rest of None \<Rightarrow> Val data | Some (v, _) \<Rightarrow> strcpy_to bsize v))"

definition readValue :: "string option \<Rightarrow> string \<Rightarrow> nat \<Rightarrow> string \<Rightarrow> string res" where
  "readValue pFile pToken bsize data =
     (case pFile of None \<Rightarrow> Val data | Some t \<Rightarrow> value_in_lines (fgets_all (DATA_LEN - 2) t) pToken bsize data)"

section \<open>Token and device information\<close>

definition LFAT_CONF_FILE :: string where "LFAT_CONF_FILE = ''/mnt/ramdisk/env/.lnf_conf''"

text \<open>
  The two local arrays are never null, so the defaults of the code are never taken.  The file may exist and
  still not open.
\<close>

definition lfat_from_conf :: "nat \<Rightarrow> nat \<Rightarrow> string \<Rightarrow> lfat \<Rightarrow> lfat res" where
  "lfat_from_conf bsize version_size t l =
     res_bind (readValue (Some t) ''lfat_version'' bsize []) (\<lambda>version.
     res_bind (strcpy_to version_size version) (\<lambda>version.
     res_bind (readValue (Some t) ''lfat_ttl'' bsize []) (\<lambda>ttl.
       Val (l \<lparr> lfat_version := version, lfat_ttl := atoi ttl \<rparr>))))"

definition camera_get_lfat ::
    "os \<Rightarrow> wifiMgrConfigProps \<Rightarrow> bool \<Rightarrow> bool \<Rightarrow> nat \<Rightarrow> nat \<Rightarrow> lfat \<Rightarrow> (int \<times> lfat) res" where
  "camera_get_lfat env props malloc_ok fopen_ok bsize version_size l =
     res_bind (get_token_length env 0) (\<lambda>(ret, tokenlength).
       if ret \<noteq> 0 then Val (ret, l)
       else if \<not> malloc_ok then Val (ENOMEM, l)
       else res_bind (get_laf_token env (tokenlength + 1) tokenlength []) (\<lambda>(ret, token).
         let l = l \<lparr> lfat_token := token \<rparr> in
         case os_file env LFAT_CONF_FILE of
           Some t \<Rightarrow> if fopen_ok then res_bind (lfat_from_conf bsize version_size t l) (\<lambda>l. Val (ret, l)) else Val (ret, l)
         | None \<Rightarrow> res_bind (strcpy_to version_size (lfatVersion props)) (\<lambda>v.
             Val (ret, l \<lparr> lfat_version := v, lfat_ttl := uint (lfatTTL props) \<rparr>))))"

text \<open>The helper writes the token to the file; its result is 0 for success.\<close>

definition camera_set_lfat :: "os \<Rightarrow> (string option \<Rightarrow> string \<Rightarrow> int) \<Rightarrow> string option \<Rightarrow> int" where
  "camera_set_lfat env getSetFileContent token =
     (case token of None \<Rightarrow> -1 | Some t \<Rightarrow> if getSetFileContent (getlfatfilename env) t \<noteq> 0 then -1 else 0)"

record device_info =
  serial_num :: string
  dev_model :: string
  dev_mac :: string
  dev_partnerId :: string
  auth_token :: string

text \<open>
  The manufacturer data is copied with the length it comes with, without a terminator, into a field of the
  given size; a missing answer leaves the field alone.  (The field is cleared before, so that shorter data
  than the field has places ends at a zero.)
\<close>

definition getMfrDeviceInfo :: "nat \<Rightarrow> string option \<Rightarrow> string \<Rightarrow> string res" where
  "getMfrDeviceInfo bsize reply data =
     (case reply of None \<Rightarrow> Val data | Some t \<Rightarrow> if bsize < length t then UB else Val (t @ drop (length t) data))"

record mfr_answers =
  mfr_serial :: "string option"
  mfr_model :: "string option"
  mfr_mac :: "string option"
  partner_file :: "string option"

record laf_sizes =
  serial_size :: nat
  model_size :: nat
  mac_size :: nat
  auth_token_size :: nat

definition camera_getDeviceInfo :: "os \<Rightarrow> laf_sizes \<Rightarrow> mfr_answers \<Rightarrow> device_info \<Rightarrow> (bool \<times> device_info) res" where
  "camera_getDeviceInfo env sz mfr d =
     res_bind (getMfrDeviceInfo (serial_size sz) (mfr_serial mfr) (serial_num d)) (\<lambda>s.
     res_bind (getMfrDeviceInfo (model_size sz) (mfr_model mfr) (dev_model d)) (\<lambda>m.
     res_bind (getMfrDeviceInfo (mac_size sz) (mfr_mac mfr) (dev_mac d)) (\<lambda>a.
       let d = d \<lparr> serial_num := s, dev_model := m, dev_mac := a, auth_token := [],
                 dev_partnerId := (case partner_file mfr of None \<Rightarrow> dev_partnerId d | Some p \<Rightarrow> takeWhile (\<lambda>c. c \<noteq> newline) p) \<rparr> in
       res_bind (get_token_length env 0) (\<lambda>(r, tokenlength).
         if r \<noteq> 0 then Val (False, d)
         else res_bind (get_laf_token env (auth_token_size sz) tokenlength []) (\<lambda>(r, token).
           if r \<noteq> 0 then Val (False, d) else Val (True, d \<lparr> auth_token := token \<rparr>))))))"

section \<open>A request to connect over rtMessage\<close>

fun wait_connected :: "wifi_env \<Rightarrow> nat \<Rightarrow> wifi \<Rightarrow> wifi" where
  "wait_connected env 0 w = w"
| "wait_connected env (Suc n) w = (if isWifiConnected w then w else wait_connected env n (wait_round env w))"

definition WIFI_CONNECT_TIME :: nat where "WIFI_CONNECT_TIME = 30"

text \<open>The reply to the request; the security mode of the message is ignored in favour of mode 6.\<close>

definition onConnectWifi :: "wifi_env \<Rightarrow> string \<Rightarrow> string \<Rightarrow> wifi \<Rightarrow> int \<times> wifi" where
  "onConnectWifi env ssid_arg psk w =
     (case connect_withSSID env ssid_arg NET_WIFI_SECURITY_WPA2_PSK_AES psk True WIFI_CON_PRIVATE w of
        (False, w) \<Rightarrow> (0, w)
      | (True, w) \<Rightarrow>
          let w = wait_connected env (WIFI_CONNECT_TIME + 1) w in (if isWifiConnected w then 0 else 1, w))"

section \<open>The network from the TR-069 host\<close>

record ssidList =
  list_ssid :: string
  list_bssid :: string
  list_security :: SsidSecurity
  list_frequency :: int
  list_signalstrength :: int

text \<open>
  The host answers a name with a value or not at all; the first answer is read as a truth value.  The list
  is cleared before, and the sizes of its two fields are given.
\<close>

definition updateWiFiList ::
    "(string \<Rightarrow> string option) \<Rightarrow> (string \<Rightarrow> bool) \<Rightarrow> string \<times> string \<times> string \<Rightarrow> nat \<Rightarrow> nat \<Rightarrow> bool \<times> ssidList" where
  "updateWiFiList gpvFromTR069hostif get_boolean names ssid_size bssid_size =
     (case names of (enable_param, name_param, bssid_param) \<Rightarrow>
        let none = \<lparr> list_ssid = [], list_bssid = [], list_security = NET_WIFI_SECURITY_NONE, list_frequency = 0, list_signalstrength = 0 \<rparr> in
        case gpvFromTR069hostif enable_param of
          None \<Rightarrow> (False, none)
        | Some v \<Rightarrow>
            if \<not> get_boolean v then (False, none)
            else
              let l = (case gpvFromTR069hostif name_param of None \<Rightarrow> none | Some s \<Rightarrow> none \<lparr> list_ssid := take ssid_size s \<rparr>);
                  l = (case gpvFromTR069hostif bssid_param of None \<Rightarrow> l | Some s \<Rightarrow> l \<lparr> list_bssid := take bssid_size s \<rparr>)
              in (gpvFromTR069hostif bssid_param \<noteq> None, l \<lparr> list_frequency := -1, list_signalstrength := -1 \<rparr>))"

section \<open>Reading back a file of keys\<close>

definition key_ok :: "string \<Rightarrow> bool" where
  "key_ok k \<longleftrightarrow> k \<noteq> [] \<and> CHR ''='' \<notin> set k \<and> newline \<notin> set k"

definition value_ok :: "string \<Rightarrow> bool" where
  "value_ok v \<longleftrightarrow> v \<noteq> [] \<and> newline \<notin> set v"

definition conf_line :: "string \<times> string \<Rightarrow> string" where
  "conf_line kv = (case kv of (k, v) \<Rightarrow> k @ ''='' @ v @ [newline])"

lemma strtok_once_piece:
  assumes "p \<noteq> []" "d \<notin> set p"
  shows "strtok_once d (p @ d # r) = Some (p, r)"
proof -
  obtain c q where "p = c # q" "c \<noteq> d" using assms by (cases p) auto
  moreover have "takeWhile (\<lambda>c. c \<noteq> d) (p @ d # r) = p" "dropWhile (\<lambda>c. c \<noteq> d) (p @ d # r) = d # r"
    using assms(2) by (auto simp: takeWhile_append dropWhile_append)
  ultimately show ?thesis by (simp add: strtok_once_def)
qed

lemma conf_lines:
  assumes "\<forall>(k, v)\<in>set kvs. key_ok k \<and> value_ok v \<and> length k + length v < 4094"
  shows "fgets_all (DATA_LEN - 2) (concat (map conf_line kvs)) = map conf_line kvs"
  using assms
proof (induction kvs)
  case (Cons kv kvs)
  obtain k v where kv: "kv = (k, v)" by (cases kv)
  let ?l = "k @ ''='' @ v"
  have "length ?l \<le> DATA_LEN - 2" "newline \<notin> set ?l"
    using Cons.prems kv by (auto simp: DATA_LEN_def key_ok_def value_ok_def newline_def)
  from fgets_all_line [OF this] show ?case using Cons kv by (simp add: conf_line_def)
qed simp

lemma value_in_conf_lines:
  assumes "\<forall>(k, v)\<in>set kvs. key_ok k \<and> value_ok v \<and> length k + length v < 4094"
  shows "value_in_lines (map conf_line kvs) key n d = (case map_of kvs key of None \<Rightarrow> Val d | Some v \<Rightarrow> strcpy_to n v)"
  using assms
proof (induction kvs)
  case (Cons kv kvs)
  obtain k v where kv: "kv = (k, v)" "key_ok k" "value_ok v" using Cons.prems by (cases kv) auto
  have "strtok_once CHR ''='' (conf_line kv) = Some (k, v @ [newline])"
    using strtok_once_piece [of k "CHR ''=''" "v @ [newline]"] kv by (simp add: conf_line_def key_ok_def)
  moreover have "strtok_once newline (v @ [newline]) = Some (v, [])"
    using strtok_once_piece [of v newline "[]"] kv by (simp add: value_ok_def)
  ultimately show ?case using Cons kv by simp
qed simp

text \<open>
  Reading a value back: in a file of lines with a key, an equals sign and a value, none longer than the
  line buffer, \<^verbatim>\<open>readValue\<close> finds the value of the first line with the key and copies it, past the caller's
  buffer if the value does not fit, and leaves the buffer alone if no line has the key.
\<close>

theorem readValue_first:
  assumes "\<forall>(k, v)\<in>set kvs. key_ok k \<and> value_ok v \<and> length k + length v < 4094"
  shows "readValue (Some (concat (map conf_line kvs))) key n d =
    (case map_of kvs key of None \<Rightarrow> Val d | Some v \<Rightarrow> if length v < n then Val v else UB)"
  using conf_lines [OF assms] value_in_conf_lines [OF assms, of key n d]
  by (simp add: readValue_def strcpy_to_def split: option.split)

theorem readValue_first_witness:
  "readValue (Some (concat (map conf_line [(''lfat_ttl'', ''60''), (''lfat_version'', ''2'')]))) ''lfat_version'' 8 [] = Val ''2''"
proof -
  have "\<forall>(k, v)\<in>set [(''lfat_ttl'', ''60''), (''lfat_version'', ''2'')]. key_ok k \<and> value_ok v \<and> length k + length v < 4094"
    by (simp add: key_ok_def value_ok_def newline_def)
  from readValue_first [OF this, of "''lfat_version''" 8 "[]"] show ?thesis by simp
qed

section \<open>Defaults and replies\<close>

text \<open>
  A configuration file without the two keys gives an empty version and a time to live of 0, not the
  defaults of the code: the arrays they are read into are never null.
\<close>

theorem lfat_defaults_unused:
  assumes "\<forall>(k, v)\<in>set kvs. key_ok k \<and> value_ok v \<and> length k + length v < 4094"
    and "map_of kvs ''lfat_version'' = None" and "map_of kvs ''lfat_ttl'' = None"
    and "os_file env LFAT_CONF_FILE = Some (concat (map conf_line kvs))"
    and "getlfatfilename env = Some f" and "os_file env f = Some token" and "0 < version_size"
  shows "camera_get_lfat env props True True n version_size l =
    Val (0, l \<lparr> lfat_token := token, lfat_version := [], lfat_ttl := 0 \<rparr>)"
proof -
  have "readValue (Some (concat (map conf_line kvs))) k n [] = Val []" if "map_of kvs k = None" for k
    using conf_lines [OF assms(1)] value_in_conf_lines [OF assms(1), of k n "[]"] that by (simp add: readValue_def)
  then have "lfat_from_conf n version_size (concat (map conf_line kvs)) l' = Val (l' \<lparr> lfat_version := [], lfat_ttl := 0 \<rparr>)" for l'
    using assms(2,3,7) by (simp add: lfat_from_conf_def strcpy_to_def atoi_def nat_of_digits_def skip_sign_def)
  then show ?thesis
    using assms(4-6) by (simp add: camera_get_lfat_def get_token_length_def open_token_def get_laf_token_def Let_def)
qed

text \<open>
  The reply 0 of a request to connect means that the adapter is connected, or that the HAL refused the
  request.
\<close>

theorem onConnectWifi_reply:
  assumes "onConnectWifi env ssid_arg psk w = (reply, w')"
  shows "reply = 0 \<longleftrightarrow> \<not> fst (connect_withSSID env ssid_arg NET_WIFI_SECURITY_WPA2_PSK_AES psk True WIFI_CON_PRIVATE w) \<or> isWifiConnected w'"
  using assms by (auto simp: onConnectWifi_def Let_def split: prod.splits bool.splits if_splits)

text \<open>The token of the device information is copied without regard to the size of its field.\<close>

theorem device_token_overflow:
  assumes "getlfatfilename env = Some f" and "os_file env f = Some token"
    and "mfr_serial mfr = None" and "mfr_model mfr = None" and "mfr_mac mfr = None"
  shows "camera_getDeviceInfo env sz mfr d = UB \<longleftrightarrow> auth_token_size sz < length token"
  using assms by (auto simp: camera_getDeviceInfo_def getMfrDeviceInfo_def get_token_length_def get_laf_token_def open_token_def Let_def)

end
