(* ===== verification/Wifi_Bus.thy ===== *)
theory Wifi_Bus
  imports Wifi_Diag
begin

text \<open>
  The bus interface of the wireless service: the calls that \<^verbatim>\<open>WiFiNetworkMgr::Init\<close> registers, beside the
  scans and the results of the switch to the private network, which are in \<^verbatim>\<open>Wifi_Scan\<close>, as one step function on the state of the service,
  and what \<^verbatim>\<open>Init\<close> sets up itself.

  The invariant says for the whole service what \<^verbatim>\<open>Wifi_Status\<close> shows for the callbacks alone: the flags of
  Lost and Found describe the network that is connected, also after calls that wait for callbacks themselves, and
  the HAL is switched on and off in turn.  The runs of the daemon rest on it.
\<close>

section \<open>Setup\<close>

definition WiFi_Init ::
    "os \<Rightarrow> netapp_db \<Rightarrow> (string \<Rightarrow> bool) \<Rightarrow> wifi \<Rightarrow> files \<Rightarrow> (wifi \<times> string \<times> files) res" where
  "WiFi_Init env db removable w fs =
     (let w = snd (isWiFiCapable w);
          gWifiMacAddress = snd (getMacAddress_IfName env (os_getenv env ''WIFI_INTERFACE'') []) in
      res_bind (create_wpa_supplicant_conf_from_netapp_db db ''/opt/secure/wifi/wpa_supplicant.conf'' ''/opt/secure/wifi/NetApp.db'' fs)
        (\<lambda>(_, fs). Val (w, gWifiMacAddress, snd (removeWifiCredsFromNonSecuredPartition removable fs))))"

section \<open>Queries\<close>

text \<open>The statistics of the connection as the HAL gives them, and what the bus calls read of their surroundings.\<close>

record link_stats = sta_stats +
  ls_BSSID :: string
  ls_BAND :: string
  ls_PhyRate :: real
  ls_Noise :: real
  ls_RSSI :: real
  ls_Frequency :: int
  ls_SecMode :: string
  ls_Encryption :: string

record WiFiConnectedSSIDInfo =
  ci_ssid :: string
  ci_bssid :: string
  ci_band :: string
  ci_securityMode :: SsidSecurity
  ci_frequency :: int
  ci_rate :: real
  ci_noise :: real
  ci_signalStrength :: real

record bus_env =
  b_laf :: laf_env
  b_os :: os
  b_halver :: string
  b_cancelWps :: int
  b_stats :: link_stats
  b_roaming :: "int \<times> hal_roaming"
  b_setRoaming :: "hal_roaming \<Rightarrow> int"
  b_malloc :: bool
  b_traffic :: "radioTrafficStats option"
  b_nm :: nm_env
  b_radio :: radio_hal
  b_ssid :: ssid_hal
  b_mac :: string

definition getConnectedSSIDInfo :: "bus_env \<Rightarrow> WiFiConnectedSSIDInfo res" where
  "getConnectedSSIDInfo env =
     (let s = b_stats env in
      res_bind (get_wifiSecurityModeFromString (b_halver env) (Some (ls_SecMode s)) (Some (ls_Encryption s))) (\<lambda>m.
        Val \<lparr> ci_ssid = take SSID_SIZE (sta_SSID s), ci_bssid = take BSSID_BUFF (ls_BSSID s), ci_band = take BUFF_MIN (ls_BAND s),
              ci_securityMode = m, ci_frequency = ls_Frequency s, ci_rate = ls_PhyRate s, ci_noise = ls_Noise s,
              ci_signalStrength = ls_RSSI s \<rparr>))"

datatype query =
    Q_PairedSSID | Q_PairedSSIDInfo | Q_Paired | Q_ConnectionType | Q_LNFState | Q_AutoSwitch | Q_StopLNF
  | Q_ConnectedSSID | Q_RadioStats radio_stats | Q_EndPoint | Q_Roaming | Q_CurrentState | Q_RadioProps radio_params
  | Q_SSIDProps num_entry ssid_params

text \<open>
  What a call leaves in its parameter: \<^verbatim>\<open>Returned\<close> when it writes nothing, \<^verbatim>\<open>Done\<close> with the
  truth value when it writes that only.
\<close>

datatype reply =
    Returned
  | Done bool
  | Result IARM_Result bool
  | Paired "string option"
  | Paired_Info "WiFiPairedSSIDInfo option"
  | Connection_Type WiFiConnectionTypeCode
  | LNF_State WiFiLNFStatusCode
  | Connected_SSID WiFiConnectedSSIDInfo
  | Radio_Stats bool radio_stats
  | End_Point endpoint_info
  | Roaming IARM_Result roaming_ctrl
  | Current_State WiFiStatusCode
  | Radio_Props bool radio_params
  | SSID_Props ssid_reply_data

definition no_roaming :: roaming_ctrl where
  "no_roaming = \<lparr> roam_status = ROAM_PARAM_SUCCESS, roamingEnable = False, roaming80211kvrEnable = False, selfSteerOverride = False,
     roam_numbers = \<lparr> preassnBestThreshold = 0, preassnBestDelta = 0, postAssnLevelDeltaConnected = 0,
       postAssnLevelDeltaDisconnected = 0, postAssnSelfSteerThreshold = 0, postAssnSelfSteerTimeframe = 0, postAssnBackOffTime = 0,
       postAssnAPcontrolThresholdLevel = 0, postAssnAPcontrolTimeframe = 0 \<rparr> \<rparr>"

definition getRoamingCtrls :: "bus_env \<Rightarrow> reply" where
  "getRoamingCtrls env = (case getRoamingConfigInfo (b_roaming env) no_roaming of
     (ok, param) \<Rightarrow> Roaming (if ok then IARM_RESULT_SUCCESS else IARM_RESULT_IPCCORE_FAIL) param)"

definition setRoamingCtrls :: "bus_env \<Rightarrow> roaming_ctrl \<Rightarrow> reply" where
  "setRoamingCtrls env param = (case setRoamingConfigInfo (b_setRoaming env) param of
     (ok, param) \<Rightarrow> Roaming (if ok then IARM_RESULT_SUCCESS else IARM_RESULT_IPCCORE_FAIL) param)"

definition getEndPointProps :: "bus_env \<Rightarrow> wifi \<Rightarrow> endpoint_info" where
  "getEndPointProps env w = getEndPointInfo (sta_stats.truncate (b_stats env)) w
     \<lparr> ep_enable = False, ep_status = [], ep_SSIDReference = [], ep_signalStrength = 0, ep_retransmissions = 0,
       ep_lastDataDownlinkRate = 0, ep_lastDataUplinkRate = 0 \<rparr>"

definition getLNFState :: "wifi \<Rightarrow> reply" where
  "getLNFState w = LNF_State (gWifiLNFStatus w)"

definition isAutoSwitchToPrivateEnabled :: "wifi \<Rightarrow> reply" where
  "isAutoSwitchToPrivateEnabled w = Done (bAutoSwitchToPrivateEnabled w)"

definition isStopLNFWhileDisconnected :: "wifi \<Rightarrow> reply" where
  "isStopLNFWhileDisconnected w = Done (bIsStopLNFWhileDisconnected w)"

definition getConnectedSSID :: "bus_env \<Rightarrow> reply res" where
  "getConnectedSSID env = res_bind (getConnectedSSIDInfo env) (\<lambda>i. Val (Connected_SSID i))"

definition getRadioStatsProps :: "bus_env \<Rightarrow> radio_stats \<Rightarrow> reply" where
  "getRadioStatsProps env r = (case getRadioStats (b_malloc env) (b_traffic env) r of (ok, r) \<Rightarrow> Radio_Stats ok r)"

definition answer_query :: "bus_env \<Rightarrow> query \<Rightarrow> wifi \<Rightarrow> reply res" where
  "answer_query env q w = (let wenv = l_wifi (b_laf env) in case q of
      Q_PairedSSID \<Rightarrow> Val (Paired (getPairedSSID wenv (w_tick w)))
    | Q_PairedSSIDInfo \<Rightarrow> Val (Paired_Info (getPairedSSIDInfo wenv (w_tick w)))
    | Q_Paired \<Rightarrow> Val (Done (isPaired wenv (w_tick w)))
    | Q_ConnectionType \<Rightarrow> Val (Connection_Type (getCurrentConnectionType (b_os env) w))
    | Q_LNFState \<Rightarrow> Val (getLNFState w)
    | Q_AutoSwitch \<Rightarrow> Val (isAutoSwitchToPrivateEnabled w)
    | Q_StopLNF \<Rightarrow> Val (isStopLNFWhileDisconnected w)
    | Q_ConnectedSSID \<Rightarrow> getConnectedSSID env
    | Q_RadioStats r \<Rightarrow> Val (getRadioStatsProps env r)
    | Q_EndPoint \<Rightarrow> Val (End_Point (getEndPointProps env w))
    | Q_Roaming \<Rightarrow> Val (getRoamingCtrls env)
    | Q_CurrentState \<Rightarrow> Val (Current_State (getCurrentState (b_nm env)))
    | Q_RadioProps r \<Rightarrow> res_bind (getRadioProps (b_radio env) r) (\<lambda>(ok, r). Val (Radio_Props ok r))
    | Q_SSIDProps n r \<Rightarrow> res_bind (getSSIDProps (b_os env) (b_ssid env) (b_mac env) n w r) (\<lambda>d. Val (SSID_Props d)))"

section \<open>The time of a scan\<close>

record timespec =
  tv_sec :: int
  tv_nsec :: int

definition getTimeValDiff :: "timespec \<Rightarrow> timespec \<Rightarrow> timespec" where
  "getTimeValDiff start stop =
     (if tv_nsec stop - tv_nsec start < 0
      then \<lparr> tv_sec = tv_sec stop - tv_sec start - 1, tv_nsec = tv_nsec stop - tv_nsec start + 1000000000 \<rparr>
      else \<lparr> tv_sec = tv_sec stop - tv_sec start, tv_nsec = tv_nsec stop - tv_nsec start \<rparr>)"

definition nanoseconds :: "timespec \<Rightarrow> int" where
  "nanoseconds t = tv_sec t * 1000000000 + tv_nsec t"

lemma getTimeValDiff_exact:
  assumes "0 \<le> tv_nsec start" "tv_nsec start < 1000000000" "0 \<le> tv_nsec stop" "tv_nsec stop < 1000000000"
  shows "nanoseconds (getTimeValDiff start stop) = nanoseconds stop - nanoseconds start \<and>
    0 \<le> tv_nsec (getTimeValDiff start stop) \<and> tv_nsec (getTimeValDiff start stop) < 1000000000"
  using assms by (simp add: getTimeValDiff_def nanoseconds_def algebra_simps)

section \<open>Requests\<close>

datatype request =
    R_SetEnabled bool
  | R_Connect WiFiConnection
  | R_SaveSSID WiFiConnection
  | R_ClearSSID
  | R_DisconnectSSID
  | R_WPSPairing
  | R_WPSPairing2 bool string
  | R_CancelWPS
  | R_SysMode sys_mode
  | R_IrKey bool
  | R_SetRoaming roaming_ctrl
  | R_Query query

definition cancelWPSPairingOperation :: "bus_env \<Rightarrow> bool" where
  "cancelWPSPairingOperation env \<longleftrightarrow> b_cancelWps env = RETURN_OK"

definition on_connection :: "(wifi \<Rightarrow> bool \<times> wifi) \<Rightarrow> mgr \<Rightarrow> reply \<times> mgr" where
  "on_connection f m = (case f (laf_wifi (mgr_laf m)) of (ok, w) \<Rightarrow> (Done ok, m \<lparr> mgr_laf := (mgr_laf m) \<lparr> laf_wifi := w \<rparr> \<rparr>))"

definition setEnabled :: "bus_env \<Rightarrow> bool \<Rightarrow> mgr \<Rightarrow> (reply \<times> mgr) res" where
  "setEnabled env b m = res_bind (setWifiEnabled (b_laf env) b m) (\<lambda>m. Val (Returned, m))"

definition clearSSID :: "bus_env \<Rightarrow> mgr \<Rightarrow> reply \<times> mgr" where
  "clearSSID env = on_connection (clearSSID_On_Disconnect_AP (l_wifi (b_laf env)))"

definition disconnectSSID :: "bus_env \<Rightarrow> mgr \<Rightarrow> reply \<times> mgr" where
  "disconnectSSID env = on_connection (disconnectFromCurrentSSID (l_wifi (b_laf env)))"

definition initiateWPSPairing :: "bus_env \<Rightarrow> mgr \<Rightarrow> reply \<times> mgr" where
  "initiateWPSPairing env = on_connection (connect_WpsPush (l_wifi (b_laf env)))"

definition cancelWPSPairing :: "bus_env \<Rightarrow> mgr \<Rightarrow> reply \<times> mgr" where
  "cancelWPSPairing env m = (Done (cancelWPSPairingOperation env), m)"

text \<open>The dispatch of the calls, as they are registered.\<close>

fun handle :: "bus_env \<Rightarrow> request \<Rightarrow> mgr \<Rightarrow> (reply \<times> mgr) res" where
  "handle env (R_SetEnabled b) m = setEnabled env b m"
| "handle env (R_Connect c) m = Val (on_connection (connect (l_wifi (b_laf env)) c) m)"
| "handle env (R_SaveSSID c) m =
     Val (case saveSSID c (laf_wifi (mgr_laf m)) of (res, ok, w) \<Rightarrow> (Result res ok, m \<lparr> mgr_laf := (mgr_laf m) \<lparr> laf_wifi := w \<rparr> \<rparr>))"
| "handle env R_ClearSSID m = Val (clearSSID env m)"
| "handle env R_DisconnectSSID m = Val (disconnectSSID env m)"
| "handle env R_WPSPairing m = Val (initiateWPSPairing env m)"
| "handle env (R_WPSPairing2 pbc pin) m = Val (on_connection (initiateWPSPairing2 (l_wifi (b_laf env)) pbc pin) m)"
| "handle env R_CancelWPS m = Val (cancelWPSPairing env m)"
| "handle env (R_SysMode mode) m = Val (Returned, sysModeChange mode m)"
| "handle env (R_IrKey down) m =
     Val (Returned, m \<lparr> mgr_laf := on_wifi (irEventHandler (l_wifi (b_laf env)) down) (mgr_laf m) \<rparr>)"
| "handle env (R_SetRoaming c) m = Val (setRoamingCtrls env c, m)"
| "handle env (R_Query q) m = res_bind (answer_query env q (laf_wifi (mgr_laf m))) (\<lambda>r. Val (r, m))"

lemmas bus_calls = setEnabled_def clearSSID_def disconnectSSID_def initiateWPSPairing_def cancelWPSPairing_def

datatype bus_input = Request request | Arrival arrival

definition bus_step :: "bus_env \<Rightarrow> mgr res \<Rightarrow> bus_input \<Rightarrow> mgr res" where
  "bus_step env r i = res_bind r (\<lambda>m. case i of
       Request q \<Rightarrow> res_bind (handle env q m) (\<lambda>(_, m). Val m)
     | Arrival a \<Rightarrow> Val (m \<lparr> mgr_laf := on_wifi (\<lambda>w. deliver (l_wifi (b_laf env)) w a) (mgr_laf m) \<rparr>))"

section \<open>The connected network\<close>

fun short_name :: "arrival \<Rightarrow> bool" where
  "short_name (Hal c) \<longleftrightarrow> length (fst (snd c)) < SSID_SIZE"
| "short_name (Bus e) \<longleftrightarrow> True"

definition short_names :: "wifi_env \<Rightarrow> bool" where
  "short_names env \<longleftrightarrow> (\<forall>t. \<forall>a\<in>set (w_arrivals env t). short_name a)"

lemma network_inv_link: "link w' = link w \<Longrightarrow> network_inv env w' = network_inv env w"
  by (simp add: network_inv_def link_def)

lemma network_inv_out [simp]: "network_inv env (out es w) = network_inv env w"
  by (rule network_inv_link) (simp add: link_def out_def)

lemma network_inv_update [simp]:
  "network_inv env (w \<lparr> gWifiConnectionType := ct \<rparr>) = network_inv env w"
  "network_inv env (w \<lparr> savedWiFiConnList := c \<rparr>) = network_inv env w"
  "network_inv env (w \<lparr> bShutdownWifi := b \<rparr>) = network_inv env w"
  "network_inv env (w \<lparr> bDeviceActivated := b \<rparr>) = network_inv env w"
  "network_inv env (w \<lparr> bStopLNFWhileDisconnected := b \<rparr>) = network_inv env w"
  "network_inv env (w \<lparr> bAutoSwitchToPrivateEnabled := b \<rparr>) = network_inv env w"
  "network_inv env (w \<lparr> bSwitch2Private := b \<rparr>) = network_inv env w"
  "network_inv env (lnfConnectPrivCredentials w) = network_inv env w"
  "st \<noteq> WIFI_CONNECTED \<Longrightarrow> network_inv env (w \<lparr> gWifiAdopterStatus := st \<rparr>)"
  by (simp_all add: network_inv_def lnfConnectPrivCredentials_def signalStartLAF_def)

lemma network_deliver: "network_inv env w \<Longrightarrow> short_name a \<Longrightarrow> network_inv env (deliver env w a)"
proof (cases a)
  case (Hal c)
  assume "network_inv env w" "short_name a"
  then show ?thesis using Hal network.guarded_step [of env w c] by (simp add: deliver_def)
next
  case (Bus e)
  assume "network_inv env w"
  then show ?thesis using Bus by (cases e) (simp_all add: deliver_def Let_def)
qed

interpretation arrivals: guarded_invariant "deliver env" "network_inv env" short_name for env
  by unfold_locales (rule network_deliver)

lemma network_wait_round: "short_names env \<Longrightarrow> network_inv env w \<Longrightarrow> network_inv env (wait_round env w)"
  by (auto simp: wait_round_def short_names_def intro!: arrivals.guarded_run)

text \<open>The requests keep the invariant of the connection.\<close>

lemma network_connect_withSSID:
  "network_inv env w \<Longrightarrow> network_inv env (snd (connect_withSSID env s mode key save ct w))"
  by (simp add: connect_withSSID_def Let_def set_WiFiConnectionType_def broadcast_state_def set_WiFiStatusCode_def)

lemma network_leave: "short_names env \<Longrightarrow> network_inv env w \<Longrightarrow> network_inv env (leave_network env w)"
proof -
  assume e: "short_names env" and w: "network_inv env w"
  have "network_inv env v \<Longrightarrow> network_inv env (wait_while_connected env n v)" for n v
    by (induction n arbitrary: v) (simp_all add: network_wait_round [OF e])
  then show ?thesis using w by (simp add: leave_network_def network_wait_round [OF e])
qed

lemma network_wps:
  assumes "short_names env" and "network_inv env w"
  shows "network_inv env (snd (connect_WpsPush env w))" "network_inv env (snd (connect_WpsPin env pin w))"
  using network_leave [OF assms] assms(2)
  by (auto simp: connect_WpsPush_def connect_WpsPin_def Let_def set_WiFiConnectionType_def broadcast_state_def split: option.splits)

lemma network_connect: "network_inv env w \<Longrightarrow> network_inv env (snd (connect env c w))"
  by (simp add: connect_def Let_def network_connect_withSSID)

lemma network_saved:
  assumes "network_inv env w"
  shows "network_inv env (snd (snd (saveSSID c w)))" "network_inv env (snd (clearSSID_On_Disconnect_AP env w))"
    "network_inv env (snd (disconnectFromCurrentSSID env w))"
  using assms by (simp_all add: saveSSID_def clearSSID_On_Disconnect_AP_def eraseMfrWifiCredentials_def disconnectFromCurrentSSID_def Let_def)

lemma network_pairing:
  assumes "short_names env" and "network_inv env w"
  shows "network_inv env (snd (initiateWPSPairing2 env pbc pin w))" "network_inv env (irEventHandler env down w)"
  using assms(2) network_wps [OF assms] by (simp_all add: initiateWPSPairing2_def irEventHandler_def)

lemma network_mfr: "network_inv env w \<Longrightarrow> network_inv env (snd (connectToMfrWifiCredentials env w))"
  by (simp add: connectToMfrWifiCredentials_def network_connect_withSSID split: option.split)

lemma network_shutdown: "network_inv env (shutdownWifi w)"
  by (simp add: shutdownWifi_def network_inv_def)

definition laf_ok :: "wifi_env \<Rightarrow> laf \<Rightarrow> bool" where
  "laf_ok env s \<longleftrightarrow> network_inv env (laf_wifi s)"

lemma laf_ok_fetch:
  assumes "short_names (l_wifi env)"
  shows "laf_ok (l_wifi env) s \<Longrightarrow> fetch_device_id env n s = Val (ok, s') \<Longrightarrow> laf_ok (l_wifi env) s'"
proof (induction n arbitrary: s)
  case (Suc n)
  have step: "laf_ok (l_wifi env) (laf_wait env (s \<lparr> deviceID := i \<rparr>))" for i
    using Suc.prems(1) by (simp add: laf_ok_def laf_wait_def on_wifi_def network_wait_round [OF assms])
  have same: "laf_ok (l_wifi env) (s \<lparr> deviceID := i \<rparr>)" for i using Suc.prems(1) by (simp add: laf_ok_def)
  show ?case
    using Suc.prems Suc.IH [OF step] same
    by (auto simp: Let_def res_bind_Val_iff split: if_splits option.splits)
qed simp

lemma laf_ok_connectToLAF:
  assumes "short_names (l_wifi env)" and "laf_ok (l_wifi env) s" and "connectToLAF env s = Val (th, s')"
  shows "laf_ok (l_wifi env) s'"
  using assms(3) laf_ok_fetch [OF assms(1,2)]
  by (fastforce simp: connectToLAF_def getDeviceActivationState_def res_bind_Val_iff Let_def laf_ok_def on_wifi_def split: if_splits)

definition service_ok :: "wifi_env \<Rightarrow> mgr \<Rightarrow> bool" where
  "service_ok env m \<longleftrightarrow> laf_ok env (mgr_laf m) \<and> power_inv m"

lemma in_mode_wifi [simp]: "l_wifi (in_mode env m) = l_wifi env"
  by (simp add: in_mode_def)

lemma mgr_laf_emit [simp]: "mgr_laf (mgr_emit es m) = mgr_laf m"
  by (simp add: mgr_emit_def)

lemma laf_ok_start_lnf:
  assumes "short_names (l_wifi env)" and "laf_ok (l_wifi env) (mgr_laf m)" and "WiFi_Start_lnf env m = Val m'"
  shows "laf_ok (l_wifi env) (mgr_laf m')"
proof (cases "mgr_laf m' = mgr_laf m")
  case False
  let ?m = "mgr_emit [StartPrivateThread] m"
  obtain th s where "connectToLAF (in_mode env ?m) (mgr_laf ?m) = Val (th, s)" "mgr_laf m' = s"
    using assms(3) False by (auto simp: WiFi_Start_lnf_def Let_def mgr_emit_def res_bind_Val_iff split: if_splits)
  then show ?thesis using laf_ok_connectToLAF [of "in_mode env ?m" "mgr_laf m" th s] assms(1,2) by (simp add: mgr_emit_def)
qed (use assms(2) in simp)

lemma laf_ok_start:
  assumes "short_names (l_wifi env)" and "laf_ok (l_wifi env) (mgr_laf m)" and "WiFi_Start env m = Val m'"
  shows "laf_ok (l_wifi env) (mgr_laf m')"
proof -
  let ?w = "(laf_wifi (mgr_laf m)) \<lparr> bShutdownWifi := False \<rparr>"
  let ?ok = "fst (lastConnectedSSID (l_wifi env) (w_tick ?w) no_connection)"
  define w where "w = (if \<not> ?ok then snd (connectToMfrWifiCredentials (l_wifi env) (out [] ?w)) else out [] ?w)"
  have w: "network_inv (l_wifi env) w" unfolding w_def using assms(2) by (simp add: laf_ok_def network_mfr)
  have "WiFi_Start_lnf env ((mgr_emit [StartMonitor, WifiInit] m) \<lparr> mgr_laf := (mgr_laf m) \<lparr> laf_wifi := w \<rparr> \<rparr>) = Val m'"
    using assms(3) unfolding WiFi_Start_def Let_def w_def mgr_laf_emit .
  from laf_ok_start_lnf [OF assms(1) _ this] show ?thesis using w by (simp add: laf_ok_def)
qed

lemma laf_ok_enabled:
  assumes "short_names (l_wifi env)" and "laf_ok (l_wifi env) (mgr_laf m)" and "setWifiEnabled env b m = Val m'"
  shows "laf_ok (l_wifi env) (mgr_laf m')"
proof (cases "bWiFiEnabled m = b")
  case False
  then show ?thesis
    using assms(3) laf_ok_start [OF assms(1), of "m \<lparr> bWiFiEnabled := True \<rparr>" m'] assms(2)
    by (cases b) (auto simp: setWifiEnabled_def Let_def WiFi_Stop_def mgr_emit_def on_wifi_def laf_ok_def network_shutdown)
qed (use assms in \<open>simp add: setWifiEnabled_def\<close>)

lemma laf_ok_on_connection:
  assumes "network_inv env (snd (f (laf_wifi (mgr_laf m))))"
  shows "laf_ok env (mgr_laf (snd (on_connection f m)))"
  using assms by (cases "f (laf_wifi (mgr_laf m))") (simp add: on_connection_def laf_ok_def)

lemma handle_ok:
  assumes e: "short_names (l_wifi (b_laf env))" and m: "service_ok (l_wifi (b_laf env)) m" and h: "handle env q m = Val (r, m')"
  shows "service_ok (l_wifi (b_laf env)) m'"
proof -
  let ?env = "l_wifi (b_laf env)"
  have w: "network_inv ?env (laf_wifi (mgr_laf m))" and p: "power_inv m" using m by (simp_all add: service_ok_def laf_ok_def)
  have conn: "service_ok ?env m'" if "on_connection f m = (r, m')" "network_inv ?env (snd (f (laf_wifi (mgr_laf m))))" for f
    using laf_ok_on_connection [of ?env f m] that p
    by (auto simp: service_ok_def on_connection_def power_inv_def split: prod.splits)
  show ?thesis
  proof (cases q)
    case (R_SetEnabled b)
    then show ?thesis
      using h m laf_ok_enabled [OF e] setWifiEnabled_power [OF p] by (auto simp: bus_calls service_ok_def res_bind_Val_iff)
  next
    case (R_SaveSSID c)
    then show ?thesis
      using h p network_saved(1) [OF w, of c] by (auto simp: service_ok_def laf_ok_def power_inv_def split: prod.splits)
  next
    case (R_SysMode mode)
    then show ?thesis
      using h m by (auto simp: sysModeChange_def Let_def service_ok_def laf_ok_def power_inv_def mgr_emit_def power_append)
  next
    case (R_IrKey down)
    then show ?thesis
      using h p network_pairing(2) [OF e w] by (auto simp: service_ok_def laf_ok_def power_inv_def on_wifi_def)
  next
    case (R_Query query)
    then show ?thesis using h m by (auto simp: res_bind_Val_iff)
  qed (use h m network_connect [OF w] network_saved [OF w] network_wps [OF e w] network_pairing [OF e w] in \<open>auto simp: bus_calls intro: conn\<close>)
qed

definition short_input :: "bus_input \<Rightarrow> bool" where
  "short_input i \<longleftrightarrow> (case i of Request q \<Rightarrow> True | Arrival a \<Rightarrow> short_name a)"

definition bus_inv :: "bus_env \<Rightarrow> mgr res \<Rightarrow> bool" where
  "bus_inv env r \<longleftrightarrow> short_names (l_wifi (b_laf env)) \<and> res_inv (service_ok (l_wifi (b_laf env))) r"

interpretation bus: guarded_invariant "bus_step env" "bus_inv env" short_input for env
proof
  fix r i assume r: "bus_inv env r" and i: "short_input i"
  show "bus_inv env (bus_step env r i)"
  proof (cases r)
    case (Val m)
    then show ?thesis
      using r i handle_ok [of env m]
      by (cases i) (auto simp: bus_inv_def bus_step_def res_inv_def res_bind_Val_iff short_input_def service_ok_def laf_ok_def
          on_wifi_def power_inv_def network_deliver)
  qed (use r in \<open>simp_all add: bus_inv_def bus_step_def res_inv_def\<close>)
qed

section \<open>An example\<close>

definition sample_bus :: bus_env where
  "sample_bus = \<lparr> b_laf = sample_laf_env, b_os = sample_os, b_halver = ''2.1.0'', b_cancelWps = 0,
     b_stats = \<lparr> sta_SSID = ''LNF'', sta_RSSI = - 40, sta_Retransmissions = 0, sta_LastDataDownlinkRate = 0, sta_LastDataUplinkRate = 0,
       ls_BSSID = [], ls_BAND = ''5GHz'', ls_PhyRate = 0, ls_Noise = 0, ls_RSSI = - 40, ls_Frequency = 5180, ls_SecMode = ''WPA-PSK'', ls_Encryption = ''AES'' \<rparr>,
     b_roaming = (0, \<lparr> hal_roamingEnable = 0, hal_roam80211kvrEnable = 0, hal_selfSteerOverride = 0, hal_numbers = roam_numbers no_roaming \<rparr>),
     b_setRoaming = (\<lambda>_. 0), b_malloc = True, b_traffic = None, b_nm = sample_env, b_radio = sample_radio_hal,
     b_ssid = \<lparr> getSSIDNumberOfEntries = None, getRadioNumberOfEntries = None, getSSIDName = None, getBaseBSSID = None \<rparr>, b_mac = [] \<rparr>"

end
