(* ===== verification/Daemon_Calls.thy ===== *)
theory Daemon_Calls
  imports Public_Ip Ip_Settings Wifi_Bus
begin

text \<open>
  The bus calls of the daemon (\<^verbatim>\<open>netSrvMgrMain.cpp\<close>) that wrap an operation of another part, and what
  \<^verbatim>\<open>main\<close> reads before it starts the services.  The calls with work of their own are with the parts they
  belong to: \<^verbatim>\<open>Net_Main\<close>, \<^verbatim>\<open>Connectivity\<close>.
\<close>

section \<open>Calls\<close>

record iface_event =
  ev_setInterface :: string
  ev_isInterfaceEnabled :: bool
  ev_persist :: bool

definition iarm_result :: "bool \<Rightarrow> IARM_Result" where
  "iarm_result ok = (if ok then IARM_RESULT_SUCCESS else IARM_RESULT_IPCCORE_FAIL)"

definition setDefaultInterface_call :: "nm_env \<Rightarrow> iface_event \<Rightarrow> 'w nm \<Rightarrow> (IARM_Result \<times> 'w nm) res" where
  "setDefaultInterface_call env param s =
     res_bind (setDefaultInterface env (ev_setInterface param) (ev_persist param) s) (\<lambda>(ok, s). Val (iarm_result ok, s))"

text \<open>The answer is written only when the interface is known.\<close>

definition isInterfaceEnabled_call :: "nm_env \<Rightarrow> iface_event \<Rightarrow> IARM_Result \<times> iface_event" where
  "isInterfaceEnabled_call env param = (case isInterfaceEnabled env (ev_setInterface param) of
       None \<Rightarrow> (iarm_result False, param)
     | Some enabled \<Rightarrow> (iarm_result True, param \<lparr> ev_isInterfaceEnabled := enabled \<rparr>))"

definition setInterfaceEnabled_call ::
    "(bool \<Rightarrow> 'w \<Rightarrow> 'w) \<Rightarrow> nm_env \<Rightarrow> iface_event \<Rightarrow> 'w nm \<Rightarrow> (IARM_Result \<times> 'w nm) res" where
  "setInterfaceEnabled_call sw env param s =
     res_bind (setInterfaceEnabled sw env (ev_setInterface param) (ev_isInterfaceEnabled param) (ev_persist param) s)
       (\<lambda>(ok, s). Val (iarm_result ok, s))"

definition setIPSettings_call ::
    "nm_env \<Rightarrow> iface_settings \<Rightarrow> 'w nm \<Rightarrow> (IARM_Result \<times> iface_settings \<times> 'w nm) res" where
  "setIPSettings_call env param s = res_bind (setIPSettings env param s) (\<lambda>(ok, param, s). Val (iarm_result ok, param, s))"

definition getIPSettings_call :: "nm_env \<Rightarrow> iface_settings \<Rightarrow> 'w nm \<Rightarrow> (IARM_Result \<times> iface_settings) res" where
  "getIPSettings_call env param s = res_bind (getIPSettings env param s) (\<lambda>(ok, param). Val (iarm_result ok, param))"

definition getPublicIP_call ::
    "os \<Rightarrow> conn_env \<Rightarrow> nat \<Rightarrow> stun_net \<Rightarrow> stunConfigProps \<Rightarrow> stun_request \<Rightarrow> client \<times> string option \<Rightarrow>
     ((client \<times> string option) \<times> (IARM_Result \<times> stun_request) res) option" where
  "getPublicIP_call env cenv fuel net props param st =
     map_option (\<lambda>(st, r). (st, res_bind r (\<lambda>(ok, param). Val (iarm_result ok, param))))
       (getPublicIP env cenv fuel net props param st)"

definition isAvailable :: IARM_Result where "isAvailable = IARM_RESULT_SUCCESS"

section \<open>What is read at the start\<close>

text \<open>
  The parameters of the telemetry log: the name of the file is set by the build; the lists stay as they are when
  it cannot be read.  \<^verbatim>\<open>cJSON\<close> parses the contents.
\<close>

definition Read_Telemetery_Param_File ::
    "(string \<Rightarrow> json option) \<Rightarrow> string option \<Rightarrow> telemetryParams \<times> telemetryParams \<Rightarrow> (telemetryParams \<times> telemetryParams) res" where
  "Read_Telemetery_Param_File parse contents ts = (case contents of
       None \<Rightarrow> Val ts
     | Some c \<Rightarrow> parse_telemetry_logging_configuration (parse c))"

definition minidump_path :: "string option \<Rightarrow> string" where
  "minidump_path secure = (case secure of
       Some v \<Rightarrow> if take 5 v = ''false'' then ''/opt/minidumps'' else ''/opt/secure/minidumps''
     | None \<Rightarrow> ''/opt/secure/minidumps'')"

section \<open>The service behind the settings\<close>

lemma settings_wifi [simp]:
  "nm_wifi (ipv4_reconfigure_interface env i s) = nm_wifi s" "nm_wifi (remove_file env f s) = nm_wifi s"
  "ip_settings_file_write env f p s = (b, s') \<Longrightarrow> nm_wifi s' = nm_wifi s"
  by (auto simp: ipv4_reconfigure_interface_def run_command_def remove_file_def ip_settings_file_write_def split: prod.splits if_splits)

lemma set_manual_wifi: "set_manual env i f p s = Val (ok, p', s') \<Longrightarrow> nm_wifi s' = nm_wifi s"
  by (auto simp: set_manual_def res_bind_Val_iff split: if_splits prod.splits bool.splits)

lemma setIPSettings_keeps_wifi: "setIPSettings env p s = Val (ok, p', s') \<Longrightarrow> nm_wifi s' = nm_wifi s"
  by (auto simp: setIPSettings_def Let_def set_manual_wifi split: if_splits option.splits)

end
