(* ===== verification/Route_Worker.thy ===== *)
theory Route_Worker
  imports Thread_Runs Route_Mgr
begin

text \<open>
  The two threads of the route manager in \<^verbatim>\<open>routeSrvMgr.cpp\<close>: the worker that \<^verbatim>\<open>getGatewayRouteData\<close> starts
  (\<^verbatim>\<open>getGatewayRouteDataThrd\<close>) and the handler of the discovery events (\<^verbatim>\<open>_evtHandler\<close>).  They share a mutex, a
  condition variable, a flag and the length of the announced data; the worker handles an announcement
  outside of the mutex, so that the next one may arrive in the middle.

  The state holds the globals of the route manager as \<^verbatim>\<open>Route_Mgr\<close> has them, and the operations of the
  worker are those of that theory, one step each.  What the network answers in the rounds is a sequence of
  environments, the one of a round chosen by its number.
\<close>

section \<open>State\<close>

datatype rw_thread = Route_Thread | Upnp_Handler

text \<open>Where the worker is; \<^verbatim>\<open>W_undefined\<close> stands for a round whose behaviour the language does not define.\<close>

datatype work_pc = W_lock | W_check | W_sleep | W_wait | W_woken | W_take | W_unlock nat | W_store nat | W_valid | W_set
  | W_send | W_del | W_rest | W_undefined

datatype upnp_pc = U_idle | U_lock nat | U_flag nat | U_signal nat | U_unlock

record rw =
  work :: work_pc
  upnp :: upnp_pc
  mutexRoute :: "rw_thread option"
  routes :: rt
  taken :: "nat list"

text \<open>The state once \<^verbatim>\<open>Start\<close> has started the worker; the flag starts set, so the first round needs no event.\<close>

definition getGatewayRouteData :: "os \<Rightarrow> rw" where
  "getGatewayRouteData env =
     \<lparr> work = W_lock, upnp = U_idle, mutexRoute = None, routes = Start env initial_rt, taken = [] \<rparr>"

definition rw_lock :: "rw_thread \<Rightarrow> (rw \<Rightarrow> rw) \<Rightarrow> rw \<Rightarrow> rw option" where
  "rw_lock t f s = (if mutexRoute s = None then Some (f (s \<lparr> mutexRoute := Some t \<rparr>)) else None)"

definition rw_unlock :: "rw \<Rightarrow> rw" where
  "rw_unlock s = s \<lparr> mutexRoute := None \<rparr>"

definition rw_signal :: "rw \<Rightarrow> rw" where
  "rw_signal s = (if work s = W_wait then s \<lparr> work := W_woken \<rparr> else s)"

section \<open>Threads\<close>

text \<open>The part of a round outside of the mutex, from the point the worker is at to the next.\<close>

fun round_step :: "rt_env \<Rightarrow> work_pc \<Rightarrow> rt \<Rightarrow> (work_pc \<times> rt) res" where
  "round_step env (W_store n) r = (case storeRouteDetails env r of (ok, r) \<Rightarrow> Val (if ok then W_valid else W_del, r))"
| "round_step env W_valid r = (case checkExistingRouteValid env r of (ok, r) \<Rightarrow> Val (if ok then W_set else W_rest, r))"
| "round_step env W_set r = res_bind (setRoute env r) (\<lambda>(ok, r). Val (if ok then W_send else W_rest, r))"
| "round_step env W_send r = Val (W_rest, sendCurrentRouteData env r)"
| "round_step env W_del r = Val (W_rest, delRouteList env r)"
| "round_step env W_rest r = (let r = r \<lparr> gwRouteInfo := g_list_first (gwRouteInfo r) \<rparr> in
     Val (W_lock, if g_list_length (gwRouteInfo r) = 0 \<and> \<not> rt_dhcp_flag env then no_gateway_left env r else r))"
| "round_step env pc r = Val (pc, r)"

definition getGatewayRouteDataThrd :: "(nat \<Rightarrow> rt_env) \<Rightarrow> rw \<Rightarrow> rw option" where
  "getGatewayRouteDataThrd envs s = (case work s of
      W_lock \<Rightarrow> rw_lock Route_Thread (work_update (\<lambda>_. W_check)) s
    | W_check \<Rightarrow> Some (s \<lparr> work := (if signalUpnpDataReady (routes s) then W_take else W_sleep) \<rparr>)
    | W_sleep \<Rightarrow> Some ((rw_unlock s) \<lparr> work := W_wait \<rparr>)
    | W_wait \<Rightarrow> None
    | W_woken \<Rightarrow> rw_lock Route_Thread (work_update (\<lambda>_. W_check)) s
    | W_take \<Rightarrow> Some (s \<lparr> work := W_unlock (messageLength (routes s)), taken := taken s @ [messageLength (routes s)],
                       routes := (routes s) \<lparr> signalUpnpDataReady := False \<rparr> \<rparr>)
    | W_unlock n \<Rightarrow> Some ((rw_unlock s) \<lparr> work := W_store n \<rparr>)
    | W_undefined \<Rightarrow> None
    | pc \<Rightarrow> (case round_step (envs (length (taken s))) pc (routes s) of
          Val (pc, r) \<Rightarrow> Some (s \<lparr> work := pc, routes := r \<rparr>)
        | _ \<Rightarrow> Some (s \<lparr> work := W_undefined \<rparr>)))"

definition upnp_handler_step :: "rw \<Rightarrow> rw option" where
  "upnp_handler_step s = (case upnp s of
      U_idle \<Rightarrow> None
    | U_lock n \<Rightarrow> rw_lock Upnp_Handler (upnp_update (\<lambda>_. U_flag n)) s
    | U_flag n \<Rightarrow> Some (s \<lparr> routes := (routes s) \<lparr> signalUpnpDataReady := True \<rparr>, upnp := U_signal n \<rparr>)
    | U_signal n \<Rightarrow> Some ((rw_signal s) \<lparr> routes := (routes s) \<lparr> messageLength := n \<rparr>, upnp := U_unlock \<rparr>)
    | U_unlock \<Rightarrow> Some ((rw_unlock s) \<lparr> upnp := U_idle \<rparr>))"

fun rw_move :: "(nat \<Rightarrow> rt_env) \<Rightarrow> rw_thread \<Rightarrow> rw \<Rightarrow> rw option" where
  "rw_move envs Route_Thread s = getGatewayRouteDataThrd envs s"
| "rw_move envs Upnp_Handler s = upnp_handler_step s"

text \<open>
  A step of a thread; the system wakes the worker without a signal; an event arrives from the bus, which the
  handler takes when its owner and number are those of the discovery.
\<close>

datatype rw_cause = Runs rw_thread | Wakes | Event string nat nat

inductive rw_step :: "string \<Rightarrow> nat \<Rightarrow> (nat \<Rightarrow> rt_env) \<Rightarrow> rw_cause \<Rightarrow> rw \<Rightarrow> rw \<Rightarrow> bool" for sysmgr upnp_event envs where
  runs: "rw_move envs t s = Some s' \<Longrightarrow> rw_step sysmgr upnp_event envs (Runs t) s s'"
| wakes: "work s = W_wait \<Longrightarrow> rw_step sysmgr upnp_event envs Wakes s (s \<lparr> work := W_woken \<rparr>)"
| event: "upnp s = U_idle \<Longrightarrow> rw_step sysmgr upnp_event envs (Event owner eventId n) s
    (if owner = sysmgr \<and> eventId = upnp_event then s \<lparr> upnp := U_lock n \<rparr> else s)"

section \<open>What a round keeps\<close>

text \<open>The operations of a round leave the flag and the announced length to the event handler.\<close>

definition news :: "rt \<Rightarrow> bool \<times> nat" where
  "news r = (signalUpnpDataReady r, messageLength r)"

lemma news_update [simp]:
  "news (r \<lparr> gwRouteInfo := p \<rparr>) = news r" "news (r \<lparr> gwList := l \<rparr>) = news r" "news (r \<lparr> upnpGwyLost := b \<rparr>) = news r"
  "news (r \<lparr> gwSelected := b \<rparr>) = news r" "news (r \<lparr> routeIf := i \<rparr>) = news r" "news (r \<lparr> lastRouteSetV4 := b \<rparr>) = news r"
  "news (rt_emit es r) = news r" "news (sendCurrentRouteData env r) = news r" "news (snd (shell env c r)) = news r"
  by (auto simp: news_def rt_emit_def sendCurrentRouteData_def shell_def Let_def split: option.splits)

lemma news_remove [simp]: "news (snd (checkRemoveRouteInfo env ip v4 r)) = news r"
  by (auto simp: checkRemoveRouteInfo_def Let_def split: option.splits prod.splits dest: arg_cong [where f = "news \<circ> snd"])


lemma news_del_loop [simp]: "news (del_route_loop env n r) = news r"
  by (induction env n r rule: del_route_loop.induct) (auto simp: Let_def split: option.splits)

lemma news_del [simp]: "news (delRouteList env r) = news r"
  by (simp add: delRouteList_def Let_def)

lemma news_valid_loop [simp]: "news (valid_loop env rs r) = news r"
  by (induction env rs r rule: valid_loop.induct) (auto simp: Let_def split: option.splits)

lemma news_valid [simp]: "news (snd (checkExistingRouteValid env r)) = news r"
  by (auto simp: checkExistingRouteValid_def Let_def split: option.splits)

lemma news_store [simp]: "news (snd (storeRouteDetails env r)) = news r"
  by (auto simp: storeRouteDetails_def parse_store_gateway_data_def delGatewayList_def Let_def split: option.splits)

lemma news_add [simp]: "news (checkAddRouteInfo env ip v4 pfx r) = news r"
  by (auto simp: checkAddRouteInfo_def addRouteToList_def Let_def split: option.splits)

lemma news_disable [simp]: "news (disable_slaac env r) = news r" "news (no_gateway_left env r) = news r"
  by (simp_all add: disable_slaac_def no_gateway_left_def enable_slaac_def Let_def)

lemma news_set_loop [simp]: "news (snd (set_route_loop env gs first1 first2 flag retType retVal r)) = news r"
proof (induction gs arbitrary: first1 first2 flag retType retVal r)
  case (Cons g gs)
  define flag1 where "flag1 = (if devicetype g = ''XG2'' then flag \<or> first2 else flag \<or> first1)"
  define p where "p = (if flag1 then shell env (gw_command g (routeIf r)) (disable_slaac env (r \<lparr> upnpGwyLost := False \<rparr>))
    else (retType, r))"
  have "news (snd p) = news r" unfolding p_def by simp
  then show ?case
    unfolding set_route_loop.simps Let_def flag1_def [symmetric] p_def [symmetric] by (cases p) (simp add: Cons.IH)
qed simp

lemma news_set: "res_inv (\<lambda>p. news (snd p) = news r) (setRoute env r)"
  unfolding setRoute_def
proof (rule res_inv_bind)
  show "res_inv (\<lambda>r'. news r' = news r) (route_getRouteInterface env r)"
    unfolding route_getRouteInterface_def
    by (rule res_inv_bind [where I = "\<lambda>_. True"]) (auto simp: res_inv_def split: if_splits)
qed simp

lemma round_step_news: "res_inv (\<lambda>p. news (snd p) = news r) (round_step env pc r)"
proof (cases "pc = W_set")
  case True
  have "res_inv (\<lambda>p. news (snd p) = news r) (res_bind (setRoute env r) (\<lambda>(ok, r). Val (if ok then W_send else W_rest, r)))"
    by (rule res_inv_bind [OF news_set]) auto
  then show ?thesis using True by simp
next
  case False
  then show ?thesis by (cases pc) (auto simp: Let_def split: prod.split dest: arg_cong [where f = "news \<circ> snd"])
qed

lemma round_step_slaac:
  assumes "slaac_interfaces env \<noteq> []" and "slaac_inv r"
  shows "res_inv (\<lambda>p. slaac_inv (snd p)) (round_step env pc r)"
proof (cases pc)
  case (W_store n)
  have "slaac_inv (snd (storeRouteDetails env r))"
    using parse_store_keeps [OF assms(2)] assms(2) by (simp add: storeRouteDetails_def split: option.split)
  then show ?thesis using W_store by (cases "storeRouteDetails env r") simp
next
  case W_valid
  then show ?thesis using checkExistingRouteValid_keeps [OF assms(2), of env] by (cases "checkExistingRouteValid env r") simp
next
  case W_set
  have "res_inv (\<lambda>p. slaac_inv (snd p)) (res_bind (setRoute env r) (\<lambda>(ok, r). Val (if ok then W_send else W_rest, r)))"
    by (rule res_inv_bind [OF setRoute_keeps [OF assms]]) auto
  then show ?thesis using W_set by simp
next
  case W_del
  then show ?thesis using delRouteList_keeps [OF assms(2), of env] by simp
next
  case W_rest
  then show ?thesis using slaac_first [OF assms(2)] no_gateway_left_keeps [OF assms(1)] by (simp add: Let_def)
qed (use assms(2) in \<open>simp_all add: slaac_inv_base\<close>)

text \<open>
  A round that nothing interrupts is the round of \<^verbatim>\<open>Route_Mgr\<close>: the steps from \<^verbatim>\<open>W_store\<close> on do what
  \<^verbatim>\<open>gateway_round\<close> does once it has cleared the flag.
\<close>

fun round_steps :: "rt_env \<Rightarrow> nat \<Rightarrow> work_pc \<Rightarrow> rt \<Rightarrow> (work_pc \<times> rt) res" where
  "round_steps env 0 pc r = Val (pc, r)"
| "round_steps env (Suc k) pc r = res_bind (round_step env pc r) (\<lambda>(pc, r). round_steps env k pc r)"

lemma round_refines:
  assumes "signalUpnpDataReady r"
  shows "round_steps env 5 (W_store n) (r \<lparr> signalUpnpDataReady := False \<rparr>) =
    res_bind (gateway_round env r) (\<lambda>r. Val (W_lock, r))"
proof -
  let ?r = "r \<lparr> signalUpnpDataReady := False \<rparr>"
  obtain ok r1 where st: "storeRouteDetails env ?r = (ok, r1)" by fastforce
  obtain ok2 r2 where v: "checkExistingRouteValid env r1 = (ok2, r2)" by fastforce
  show ?thesis
    using assms by (cases "setRoute env r2") (auto simp: gateway_round_def st v Let_def eval_nat_numeral)
qed

section \<open>The invariant\<close>

fun rw_section :: "rw_thread \<Rightarrow> rw \<Rightarrow> bool" where
  "rw_section Route_Thread s \<longleftrightarrow>
     (case work s of W_check \<Rightarrow> True | W_sleep \<Rightarrow> True | W_take \<Rightarrow> True | W_unlock _ \<Rightarrow> True | _ \<Rightarrow> False)"
| "rw_section Upnp_Handler s \<longleftrightarrow> (case upnp s of U_flag _ \<Rightarrow> True | U_signal _ \<Rightarrow> True | U_unlock \<Rightarrow> True | _ \<Rightarrow> False)"

text \<open>
  The mutex belongs to the thread inside its section; a worker that sleeps while the flag is set is about to
  be signalled; with the flag cleared, the last round taken up is the one of the length announced last.
\<close>

definition rw_inv :: "(nat \<Rightarrow> rt_env) \<Rightarrow> rw \<Rightarrow> bool" where
  "rw_inv envs s \<longleftrightarrow> (\<forall>t. rw_section t s \<longleftrightarrow> mutexRoute s = Some t) \<and>
     (work s = W_sleep \<longrightarrow> \<not> fst (news (routes s))) \<and>
     (work s = W_take \<longrightarrow> fst (news (routes s))) \<and>
     ((\<exists>n. upnp s = U_signal n) \<longrightarrow> fst (news (routes s))) \<and>
     (work s = W_wait \<and> fst (news (routes s)) \<longrightarrow> (\<exists>n. upnp s = U_signal n)) \<and>
     (\<not> fst (news (routes s)) \<longrightarrow> last (0 # taken s) = snd (news (routes s))) \<and>
     ((\<forall>k. slaac_interfaces (envs k) \<noteq> []) \<longrightarrow> slaac_inv (routes s))"

lemmas rw_defs = rw_lock_def rw_unlock_def rw_signal_def

lemma all_rw_threads: "(\<forall>t. P t) \<longleftrightarrow> P Route_Thread \<and> P Upnp_Handler"
  using rw_thread.exhaust by metis

lemma news_simps: "signalUpnpDataReady r = fst (news r)" "messageLength r = snd (news r)"
  "news (r \<lparr> signalUpnpDataReady := b \<rparr>) = (b, messageLength r)" "news (r \<lparr> messageLength := n \<rparr>) = (signalUpnpDataReady r, n)"
  by (simp_all add: news_def)

lemma slaac_news: "slaac_inv (r \<lparr> signalUpnpDataReady := b \<rparr>) = slaac_inv r" "slaac_inv (r \<lparr> messageLength := n \<rparr>) = slaac_inv r"
  by (simp_all add: slaac_inv_base)

text \<open>The points outside of the mutex, between which \<^verbatim>\<open>round_step\<close> moves.\<close>

definition in_round :: "work_pc \<Rightarrow> bool" where
  "in_round pc \<longleftrightarrow> (case pc of W_store _ \<Rightarrow> True | W_valid \<Rightarrow> True | W_set \<Rightarrow> True | W_send \<Rightarrow> True | W_del \<Rightarrow> True | W_rest \<Rightarrow> True
     | _ \<Rightarrow> False)"

lemma round_step_pc: "in_round pc \<Longrightarrow> round_step env pc r = Val (pc', r') \<Longrightarrow> pc' = W_lock \<or> in_round pc'"
  by (cases pc) (auto simp: in_round_def Let_def res_bind_Val_iff split: prod.splits if_splits)

lemma worker_round:
  assumes "in_round (work s)"
  shows "getGatewayRouteDataThrd envs s = (case round_step (envs (length (taken s))) (work s) (routes s) of
      Val (pc, r) \<Rightarrow> Some (s \<lparr> work := pc, routes := r \<rparr>) | _ \<Rightarrow> Some (s \<lparr> work := W_undefined \<rparr>))"
  using assms by (cases "work s") (simp_all add: in_round_def getGatewayRouteDataThrd_def)

text \<open>How far the worker is from sleeping when nothing is announced.\<close>

fun work_rank :: "work_pc \<Rightarrow> nat" where
  "work_rank W_undefined = 0" | "work_rank W_wait = 0" | "work_rank W_sleep = 1" | "work_rank W_take = 1" | "work_rank W_check = 2"
| "work_rank W_lock = 3" | "work_rank W_woken = 3" | "work_rank W_rest = 4" | "work_rank W_send = 5" | "work_rank W_del = 5"
| "work_rank W_set = 6" | "work_rank W_valid = 7" | "work_rank (W_store n) = 8" | "work_rank (W_unlock n) = 9"

lemma round_step_rank: "in_round pc \<Longrightarrow> round_step env pc r = Val (pc', r') \<Longrightarrow> work_rank pc' < work_rank pc"
  by (cases pc) (auto simp: in_round_def Let_def res_bind_Val_iff split: prod.splits if_splits)

lemma in_round_moves:
  assumes "in_round (work s)" "getGatewayRouteDataThrd envs s = Some s'"
  obtains pc r where "s' = s \<lparr> work := pc, routes := r \<rparr>" "pc = W_lock \<or> pc = W_undefined \<or> in_round pc"
    "work_rank pc < work_rank (work s)" "news r = news (routes s)"
    "(\<forall>k. slaac_interfaces (envs k) \<noteq> []) \<Longrightarrow> slaac_inv (routes s) \<Longrightarrow> slaac_inv r"
proof (cases "\<exists>p. round_step (envs (length (taken s))) (work s) (routes s) = Val p")
  case True
  then obtain pc r where Val: "round_step (envs (length (taken s))) (work s) (routes s) = Val (pc, r)" by force
  show ?thesis
  proof (rule that)
    show "s' = s \<lparr> work := pc, routes := r \<rparr>" using assms(2) by (simp add: worker_round [OF assms(1)] Val)
    show "pc = W_lock \<or> pc = W_undefined \<or> in_round pc" "work_rank pc < work_rank (work s)"
      using round_step_pc [OF assms(1) Val] round_step_rank [OF assms(1) Val] by auto
    show "news r = news (routes s)" using round_step_news [of "routes s" "envs (length (taken s))" "work s"] Val by simp
    show "slaac_inv r" if "\<forall>k. slaac_interfaces (envs k) \<noteq> []" "slaac_inv (routes s)"
      using round_step_slaac [of "envs (length (taken s))" "routes s" "work s"] that Val by simp
  qed
next
  case False
  then have "s' = s \<lparr> work := W_undefined, routes := routes s \<rparr>"
    using assms(2) by (auto simp: worker_round [OF assms(1)] split: res.splits)
  moreover have "work_rank W_undefined < work_rank (work s)" using assms(1) by (cases "work s") (simp_all add: in_round_def)
  ultimately show ?thesis using that by blast
qed

lemma rw_inv_round:
  assumes "rw_inv envs s" "in_round (work s)" "getGatewayRouteDataThrd envs s = Some s'"
  shows "rw_inv envs s'"
proof -
  obtain pc r where r: "s' = s \<lparr> work := pc, routes := r \<rparr>" "pc = W_lock \<or> pc = W_undefined \<or> in_round pc"
    "news r = news (routes s)" "(\<forall>k. slaac_interfaces (envs k) \<noteq> []) \<Longrightarrow> slaac_inv (routes s) \<Longrightarrow> slaac_inv r"
    using in_round_moves [OF assms(2,3)] by metis
  have "mutexRoute s \<noteq> Some Route_Thread" "work s \<noteq> W_wait"
    using assms(1,2) unfolding rw_inv_def all_rw_threads by (cases "work s"; simp add: in_round_def)+
  moreover have "\<not> rw_section Route_Thread s'" "work s' \<noteq> W_sleep" "work s' \<noteq> W_take" "work s' \<noteq> W_wait"
    using r(1,2) by (cases pc; simp add: in_round_def)+
  ultimately show ?thesis using assms(1) r(3,4) unfolding rw_inv_def all_rw_threads by (simp add: r(1))
qed

lemma rw_inv_worker:
  assumes "rw_inv envs s" "getGatewayRouteDataThrd envs s = Some s'"
  shows "rw_inv envs s'"
proof (cases "in_round (work s)")
  case False
  then show ?thesis using assms unfolding rw_inv_def all_rw_threads getGatewayRouteDataThrd_def rw_defs
    by (cases "work s"; clarsimp simp: in_round_def news_simps slaac_news split: if_splits)
qed (use assms in \<open>blast intro: rw_inv_round\<close>)

lemma rw_inv_handler:
  assumes "rw_inv envs s" "upnp_handler_step s = Some s'"
  shows "rw_inv envs s'"
  using assms unfolding rw_inv_def all_rw_threads upnp_handler_step_def rw_defs
  by (cases "upnp s"; cases "work s"; clarsimp simp: news_simps slaac_news split: if_splits)

lemma rw_inv_step: "rw_step sysmgr upnp_event envs c s s' \<Longrightarrow> rw_inv envs s \<Longrightarrow> rw_inv envs s'"
proof (induction rule: rw_step.induct)
  case (runs t s s')
  then show ?case by (cases t) (auto intro: rw_inv_worker rw_inv_handler)
qed (auto simp: rw_inv_def all_rw_threads)

section \<open>Quiet runs\<close>

text \<open>The work left when no event arrives: a round for a flag that is set or about to be, and the rest of each way.\<close>

fun upnp_rank :: "upnp_pc \<Rightarrow> nat" where
  "upnp_rank U_idle = 0" | "upnp_rank U_unlock = 1" | "upnp_rank (U_signal n) = 5" | "upnp_rank (U_flag n) = 15"
| "upnp_rank (U_lock n) = 16"

definition rw_rank :: "rw \<Rightarrow> nat" where
  "rw_rank s = work_rank (work s) + upnp_rank (upnp s) + (if fst (news (routes s)) then 9 else 0)"

fun rw_quiet :: "rw_cause \<Rightarrow> bool" where
  "rw_quiet (Runs t) = True"
| "rw_quiet _ = False"

lemma rw_rank_worker:
  assumes "getGatewayRouteDataThrd envs s = Some s'" "rw_inv envs s"
  shows "rw_rank s' < rw_rank s"
proof (cases "in_round (work s)")
  case True
  then obtain pc r where "s' = s \<lparr> work := pc, routes := r \<rparr>" "work_rank pc < work_rank (work s)" "news r = news (routes s)"
    using in_round_moves [OF True assms(1)] by metis
  then show ?thesis by (simp add: rw_rank_def)
next
  case False
  then show ?thesis using assms unfolding rw_inv_def
    by (cases "work s"; clarsimp simp: in_round_def getGatewayRouteDataThrd_def rw_defs rw_rank_def news_simps split: if_splits)
qed

lemma rw_rank_step:
  assumes "rw_step sysmgr upnp_event envs c s s'" "rw_quiet c" "rw_inv envs s"
  shows "rw_rank s' < rw_rank s"
  using assms(1)
proof cases
  case (runs t)
  show ?thesis
  proof (cases t)
    case Route_Thread
    then show ?thesis using runs rw_rank_worker [OF _ assms(3)] by simp
  next
    case Upnp_Handler
    then show ?thesis using runs
      by (cases "upnp s"; clarsimp simp: upnp_handler_step_def rw_defs rw_rank_def news_simps split: if_splits)
  qed
qed (use assms(2) in simp_all)

interpretation route_threads: ranked_threads "rw_step sysmgr upnp_event envs" "getGatewayRouteData env" "rw_inv envs"
    "rw_move envs" Runs rw_quiet "\<lambda>_. True" rw_rank for sysmgr upnp_event envs env
proof
  have "signalUpnpDataReady (Start env initial_rt)" by (simp add: Start_def initial_rt_def split: option.split)
  then show "rw_inv envs (getGatewayRouteData env)"
    by (simp add: rw_inv_def all_rw_threads getGatewayRouteData_def Start_slaac news_simps)
qed (auto intro: rw_inv_step rw_step.runs rw_rank_step)

lemma rw_owner_moves:
  assumes "rw_inv envs s" "mutexRoute s = Some t"
  shows "rw_move envs t s \<noteq> None"
proof -
  have "rw_section t s" using assms by (simp add: rw_inv_def)
  then show ?thesis
    by (cases t) (auto simp: getGatewayRouteDataThrd_def upnp_handler_step_def split: work_pc.splits upnp_pc.splits)
qed

lemma rw_stuck:
  assumes "rw_inv envs s" "\<forall>t. rw_move envs t s = None"
  shows "upnp s = U_idle" "work s = W_wait \<or> work s = W_undefined"
proof -
  have free: "mutexRoute s = None" using rw_owner_moves [OF assms(1)] assms(2) by (metis option.exhaust)
  have m: "getGatewayRouteDataThrd envs s = None" "upnp_handler_step s = None" using assms(2) by (auto simp: all_rw_threads)
  show "upnp s = U_idle" using m(2) free by (cases "upnp s") (simp_all add: upnp_handler_step_def rw_defs)
  show "work s = W_wait \<or> work s = W_undefined"
    using m(1) free by (cases "work s") (auto simp: getGatewayRouteDataThrd_def rw_defs split: res.splits prod.splits)
qed

text \<open>
  C14.  No announcement of gateways is lost, although they arrive while the worker is busy with an earlier
  one.  From every reachable state a run of the worker and the handler, in any order and without new events,
  is over after thirty-four steps; where it ends the worker sleeps with the flag cleared and the last round
  it took up was for the length announced last, unless the device file of a round overflowed a buffer.  At
  every point, also in the middle of a round, autoconfiguration is switched off exactly while a gateway is
  selected, as long as the environment names an interface for it.
\<close>

theorem route_rounds_current:
  assumes "reachable (rw_step sysmgr upnp_event envs) (getGatewayRouteData env) s"
    and "path (rw_step sysmgr upnp_event envs) rw_quiet s ts" and "s' = last (s # ts)"
  shows "length ts \<le> 34 \<and>
    ((\<forall>t. rw_move envs t s' = None) \<longrightarrow> work s' = W_undefined \<or>
       work s' = W_wait \<and> \<not> signalUpnpDataReady (routes s') \<and> last (0 # taken s') = messageLength (routes s')) \<and>
    ((\<forall>k. slaac_interfaces (envs k) \<noteq> []) \<longrightarrow> slaac_off (rt_trace (routes s')) = gwSelected (routes s'))"
proof -
  have inv: "rw_inv envs s" using assms(1) by (rule route_threads.reachable_inv)
  from route_threads.ranked_path [OF assms(2) inv] have p: "rw_inv envs s'" "length ts \<le> rw_rank s" unfolding assms(3) by auto
  have "work_rank (work s) \<le> 9" by (cases "work s") simp_all
  moreover have "upnp_rank (upnp s) \<le> 16" by (cases "upnp s") simp_all
  ultimately have "length ts \<le> 34" using p(2) by (simp add: rw_rank_def split: if_splits)
  moreover have "work s' = W_undefined \<or> work s' = W_wait \<and> \<not> signalUpnpDataReady (routes s') \<and>
      last (0 # taken s') = messageLength (routes s')" if "\<forall>t. rw_move envs t s' = None"
    using rw_stuck [OF p(1) that] p(1) unfolding rw_inv_def news_simps by auto
  ultimately show ?thesis using p(1) by (simp add: rw_inv_def slaac_inv_base slaac_base_def)
qed

section \<open>Witness\<close>

text \<open>The first round finds no reply; while the worker is busy with it, data of length 7 is announced.\<close>

definition sample_route_envs :: "nat \<Rightarrow> rt_env" where
  "sample_route_envs k = sample_rt_env \<lparr> rt_gateways := None, rt_dhcp_flag := True, rt_os := sample_os \<rparr>"

definition sample_start :: rw where
  "sample_start = getGatewayRouteData (sample_os \<lparr> os_file := (\<lambda>_. None) \<rparr>)"

definition sample_busy :: rw where
  "sample_busy = last (sample_start # the (run_threads (rw_move sample_route_envs) sample_start (replicate 4 Route_Thread)))"

definition sample_announced :: rw where
  "sample_announced = sample_busy \<lparr> upnp := U_lock 7 \<rparr>"

definition sample_rest :: "rw list" where
  "sample_rest = the (run_threads (rw_move sample_route_envs) sample_announced
     (replicate 4 Upnp_Handler @ replicate 13 Route_Thread))"

theorem route_rounds_current_witness:
  "length sample_rest = 17 \<and> work sample_busy = W_store 0 \<and>
   work (last (sample_announced # sample_rest)) = W_wait \<and> taken (last (sample_announced # sample_rest)) = [0, 7]"
proof -
  let ?step = "rw_step ''SYSMgr'' 2 sample_route_envs" and ?move = "rw_move sample_route_envs"
  have "run_threads ?move sample_start (replicate 4 Route_Thread) \<noteq> None" by code_simp
  then have "reachable ?step sample_start sample_busy"
    unfolding sample_busy_def sample_start_def by (rule route_threads.run_reachable)
  moreover have "upnp sample_busy = U_idle" by code_simp
  then have "?step (Event ''SYSMgr'' 2 7) sample_busy sample_announced"
    using rw_step.event [of sample_busy "''SYSMgr''" 2 sample_route_envs "''SYSMgr''" 2 7] by (simp add: sample_announced_def)
  ultimately have r: "reachable ?step sample_start sample_announced" by (rule reachable.step)
  have "run_threads ?move sample_announced (replicate 4 Upnp_Handler @ replicate 13 Route_Thread) \<noteq> None" by code_simp
  then have p: "path ?step rw_quiet sample_announced sample_rest" unfolding sample_rest_def by (rule route_threads.run_path)
  have "?move Route_Thread (last (sample_announced # sample_rest)) = None" "?move Upnp_Handler (last (sample_announced # sample_rest)) = None"
    "length sample_rest = 17" "work sample_busy = W_store 0" "work (last (sample_announced # sample_rest)) = W_wait"
    "length (taken (last (sample_announced # sample_rest))) = 2" "hd (taken (last (sample_announced # sample_rest))) = 0"
    "messageLength (routes (last (sample_announced # sample_rest))) = 7" by code_simp+
  then show ?thesis
    using route_rounds_current [OF r [unfolded sample_start_def] p refl] unfolding all_rw_threads
    by (cases "taken (last (sample_announced # sample_rest))" rule: rev_cases) (auto simp: length_Suc_conv numeral_2_eq_2)
qed

end
