(* ===== verification/Laf_Threads.thy ===== *)
theory Laf_Threads
  imports Thread_Runs Lost_Found
begin

text \<open>
  The two threads of Lost and Found in \<^verbatim>\<open>wifiHalUtiles.cpp\<close> side by side: \<^verbatim>\<open>lafConnPrivThread\<close>, which waits for
  \<^verbatim>\<open>signalStartLAF\<close>, and the activation thread \<^verbatim>\<open>lafConnThread\<close>, with everything that calls \<^verbatim>\<open>signalStartLAF\<close> and
  with the callbacks and events that arrive at any time.  One mutex with its condition variable guards the
  flag \<^verbatim>\<open>startLAF\<close>, another one the runs of the Lost and Found library.

  The operations between two waits are those of \<^verbatim>\<open>Lost_Found\<close>, cut where a mutex is taken or released; lemmas
  put the pieces together again.  What the outside answers is a sequence of environments, one for each step.
  A call of \<^verbatim>\<open>signalStartLAF\<close> out of a callback or a run becomes a caller that waits for the mutex; several calls
  in one operation count as one.
\<close>

section \<open>The pieces of the private thread\<close>

text \<open>Up to the mutex of the runs: no request means that the loop breaks.\<close>

definition priv_before :: "laf \<Rightarrow> LAF_REQUEST_TYPE option \<times> laf" where
  "priv_before s =
     (case priv_request s of (req, s) \<Rightarrow>
       if bStopLNFWhileDisconnected (laf_wifi s) then (None, laf_set LNF_UNITIALIZED s)
       else if isWifiConnected (laf_wifi s) \<and> \<not> isLAFCurrConnectedssid (laf_wifi s) then (None, laf_set CONNECTED_PRIVATE s)
       else (Some req, on_wifi (\<lambda>w. w \<lparr> bIsStopLNFWhileDisconnected := False \<rparr>) s))"

text \<open>While the mutex is held: no result means that the device is on the private network already.\<close>

definition priv_inside :: "laf_env \<Rightarrow> LAF_REQUEST_TYPE \<Rightarrow> laf \<Rightarrow> (bool option \<times> laf) res" where
  "priv_inside env req s =
     res_bind (doLnFBackoff env s) (\<lambda>s.
       if lnf_status s = CONNECTED_PRIVATE \<and> isWifiConnected (laf_wifi s) then Val (None, s)
       else
         let s = (if lnf_status s = LNF_UNITIALIZED then laf_set LNF_IN_PROGRESS s else s) in
         res_bind (triggerLostFound env req s) (\<lambda>(ok, s). Val (Some ok, s)))"

text \<open>After it: whether the loop breaks.\<close>

definition priv_after :: "laf_env \<Rightarrow> LAF_REQUEST_TYPE \<Rightarrow> bool option \<Rightarrow> laf \<Rightarrow> bool \<times> laf" where
  "priv_after env req r s = (case r of
      None \<Rightarrow> (True, s)
    | Some False \<Rightarrow>
        if bStopLNFWhileDisconnected (laf_wifi s) then (True, laf_set LNF_UNITIALIZED s)
        else (False, laf_wait env (manual_connect env s))
    | Some True \<Rightarrow> (True, if req = LAF_REQUEST_CONNECT_TO_LFSSID then laf_set CONNECTED_LNF s else s))"

lemma priv_body_parts:
  "priv_body env s = (case priv_before s of
      (None, s) \<Rightarrow> Val (True, s)
    | (Some req, s) \<Rightarrow> res_bind (priv_inside env req s) (\<lambda>(r, s). Val (priv_after env req r s)))"
proof -
  obtain req s1 where r: "priv_request s = (req, s1)" by fastforce
  define s2 where "s2 = on_wifi (\<lambda>w. w \<lparr> bIsStopLNFWhileDisconnected := False \<rparr>) s1"
  have run: "res_bind (triggerLostFound env req v) (\<lambda>(ok, s).
        if \<not> ok then if bStopLNFWhileDisconnected (laf_wifi s) then Val (True, laf_set LNF_UNITIALIZED s)
          else Val (False, laf_wait env (manual_connect env s))
        else Val (True, if req = LAF_REQUEST_CONNECT_TO_LFSSID then laf_set CONNECTED_LNF s else s)) =
      res_bind (res_bind (triggerLostFound env req v) (\<lambda>(ok, s). Val (Some ok, s))) (\<lambda>(r, s). Val (priv_after env req r s))" for v
    by (cases "triggerLostFound env req v") (auto simp: priv_after_def split: bool.split)
  show ?thesis
    unfolding priv_body_def priv_before_def priv_inside_def r prod.case s2_def [symmetric]
    by (cases "doLnFBackoff env s2") (simp_all add: run [unfolded Let_def] Let_def priv_after_def)
qed

section \<open>The pieces of the activation thread\<close>

text \<open>Where the inner loop goes: to a run of the library, out of the loop, or to the end of the thread.\<close>

datatype act_next = Act_Run | Act_Out | Act_Quit

definition act_quit :: "laf \<Rightarrow> laf" where
  "act_quit = on_wifi (\<lambda>w. w \<lparr> bIsStopLNFWhileDisconnected := True, bLnfActivationLoop := False \<rparr>)"

definition act_before :: "laf \<Rightarrow> act_next \<times> laf" where
  "act_before s =
     (if lnf_status s = CONNECTED_LNF then (Act_Out, s)
      else
        let s = on_wifi (\<lambda>w. w \<lparr> bIsStopLNFWhileDisconnected := False \<rparr>) s in
        if isWifiConnected (laf_wifi s)
        then if isLAFCurrConnectedssid (laf_wifi s) then (Act_Out, s) else (Act_Quit, act_quit (laf_set CONNECTED_PRIVATE s))
        else if bStopLNFWhileDisconnected (laf_wifi s) then (Act_Quit, laf_set LNF_UNITIALIZED (act_quit s))
        else (Act_Run, s))"

definition act_inside :: "laf_env \<Rightarrow> laf \<Rightarrow> (bool option \<times> laf) res" where
  "act_inside env s =
     res_bind (doLnFBackoff env s) (\<lambda>s.
       if lnf_status s = CONNECTED_PRIVATE then Val (None, s)
       else res_bind (triggerLostFound env LAF_REQUEST_CONNECT_TO_LFSSID s) (\<lambda>(ok, s). Val (Some ok, s)))"

definition act_after :: "laf_env \<Rightarrow> bool option \<Rightarrow> laf \<Rightarrow> act_next \<times> laf" where
  "act_after env r s = (case r of
      None \<Rightarrow> (Act_Out, s)
    | Some True \<Rightarrow> (Act_Out, laf_set CONNECTED_LNF s)
    | Some False \<Rightarrow> if bStopLNFWhileDisconnected (laf_wifi s) then (Act_Quit, act_quit s) else (Act_Run, laf_wait env s))"

lemma activation_inner_parts:
  "activation_inner env (Suc fuel) s = (case act_before s of
      (Act_Out, s) \<Rightarrow> Val (Some (False, s))
    | (Act_Quit, s) \<Rightarrow> Val (Some (True, s))
    | (Act_Run, s) \<Rightarrow> res_bind (act_inside env s) (\<lambda>(r, s). case act_after env r s of
          (Act_Out, s) \<Rightarrow> Val (Some (False, s))
        | (Act_Quit, s) \<Rightarrow> Val (Some (True, s))
        | (Act_Run, s) \<Rightarrow> activation_inner env fuel s))"
proof -
  define s2 where "s2 = on_wifi (\<lambda>w. w \<lparr> bIsStopLNFWhileDisconnected := False \<rparr>) s"
  have run: "res_bind (triggerLostFound env LAF_REQUEST_CONNECT_TO_LFSSID v) (\<lambda>(ok, s).
            if ok then Val (Some (False, laf_set CONNECTED_LNF s))
            else if bStopLNFWhileDisconnected (laf_wifi s) then Val (Some (True, act_quit s))
            else activation_inner env fuel (laf_wait env s)) =
      res_bind (res_bind (triggerLostFound env LAF_REQUEST_CONNECT_TO_LFSSID v) (\<lambda>(ok, s). Val (Some ok, s)))
        (\<lambda>(r, s). case act_after env r s of
          (Act_Out, s) \<Rightarrow> Val (Some (False, s))
        | (Act_Quit, s) \<Rightarrow> Val (Some (True, s))
        | (Act_Run, s) \<Rightarrow> activation_inner env fuel s)" for v
    by (cases "triggerLostFound env LAF_REQUEST_CONNECT_TO_LFSSID v") (auto simp: act_after_def split: bool.split)
  show ?thesis
    unfolding activation_inner.simps act_before_def act_inside_def Let_def s2_def [symmetric] act_quit_def [symmetric]
    by (cases "doLnFBackoff env s2") (simp_all add: run act_after_def)
qed

text \<open>The head of the outer loop: whether the device is activated, which ends the thread.\<close>

definition act_outer :: "laf \<Rightarrow> bool \<times> laf" where
  "act_outer s =
     (if bDeviceActivated (laf_wifi s)
      then (True, let s = on_wifi (\<lambda>w. w \<lparr> bLnfActivationLoop := False \<rparr>) s in
        if lnf_status s = CONNECTED_LNF
        then on_wifi (\<lambda>w. lnfConnectPrivCredentials (w \<lparr> bPrivConnectionLost := False \<rparr>)) s else s)
      else (False, on_wifi (\<lambda>w. w \<lparr> bLnfActivationLoop := True \<rparr>) s))"

text \<open>Its tail, after the inner loop: whether the thread ends.\<close>

definition act_tail :: "laf_env \<Rightarrow> laf \<Rightarrow> bool \<times> laf" where
  "act_tail env s =
     (let s = laf_wait env (on_wifi (\<lambda>w. w \<lparr> bIsStopLNFWhileDisconnected := False \<rparr>) s);
          s = (if lnf_status s \<noteq> CONNECTED_PRIVATE \<and> \<not> isLAFCurrConnectedssid (laf_wifi s) \<and> isWifiConnected (laf_wifi s)
               then laf_set CONNECTED_PRIVATE s else s) in
      if bStopLNFWhileDisconnected (laf_wifi s)
      then (True, on_wifi (\<lambda>w. w \<lparr> bLnfActivationLoop := False \<rparr>) s) else (False, s))"

lemma activation_outer_parts:
  "activation_outer env (Suc fuel) s = (case act_outer s of
      (True, s) \<Rightarrow> Val (Some s)
    | (False, s) \<Rightarrow> res_bind (activation_inner env fuel s) (\<lambda>r. case r of
          None \<Rightarrow> Val None
        | Some (True, s) \<Rightarrow> Val (Some s)
        | Some (False, s) \<Rightarrow> (case act_tail env s of (True, s) \<Rightarrow> Val (Some s) | (False, s) \<Rightarrow> activation_outer env fuel s)))"
  by (auto simp: act_outer_def act_tail_def Let_def intro!: arg_cong2 [where f = res_bind] ext split: option.split bool.split)

section \<open>Threads\<close>

datatype lt_thread = Private_Thread | Activation | Caller

text \<open>The undefined points stand for operations whose behaviour the language does not define.\<close>

datatype priv_pc = P_lock | P_suppress | P_check | P_sleep | P_wait | P_woken | P_take | P_unlock | P_begin | P_iter
  | P_trigger LAF_REQUEST_TYPE | P_run LAF_REQUEST_TYPE | P_release LAF_REQUEST_TYPE "bool option"
  | P_post LAF_REQUEST_TYPE "bool option" | P_undefined

datatype act_pc = C_outer | C_inner | C_trigger | C_run | C_release "bool option" | C_post "bool option" | C_tail | C_ended
  | C_undefined

datatype caller_pc = S_none | S_set | S_signal | S_unlock

text \<open>
  The callers that wait for the mutex are counted, and one of them may be inside.  The flag is kept beside the
  other globals, whose own copy stays cleared.
\<close>

record lt =
  priv :: priv_pc
  act :: act_pc
  caller :: caller_pc
  callers :: nat
  mutexLAF :: "lt_thread option"
  mutexTriggerLAF :: "lt_thread option"
  lt_startLAF :: bool
  lt_laf :: laf
  lt_clock :: nat

definition clear_start :: "laf \<Rightarrow> laf" where
  "clear_start = on_wifi (\<lambda>w. w \<lparr> startLAF := False \<rparr>)"

text \<open>The state with the globals an operation leaves, one caller more if it called \<^verbatim>\<open>signalStartLAF\<close>.\<close>

definition leaves :: "laf \<Rightarrow> lt \<Rightarrow> lt" where
  "leaves l s = s \<lparr> lt_laf := clear_start l, callers := callers s + (if startLAF (laf_wifi l) then 1 else 0),
     lt_clock := Suc (lt_clock s) \<rparr>"

text \<open>Both threads started, by \<^verbatim>\<open>lafConnectToPrivate\<close> and \<^verbatim>\<open>connectToLAF\<close>.\<close>

definition laf_start_threads :: "laf \<Rightarrow> lt" where
  "laf_start_threads l = \<lparr> priv = P_lock, act = C_outer, caller = S_none, callers = 0, mutexLAF = None, mutexTriggerLAF = None,
     lt_startLAF = False, lt_laf = clear_start (laf_set LNF_IN_PROGRESS l), lt_clock = 0 \<rparr>"

definition laf_lock :: "lt_thread \<Rightarrow> (lt \<Rightarrow> lt) \<Rightarrow> lt \<Rightarrow> lt option" where
  "laf_lock t f s = (if mutexLAF s = None then Some (f (s \<lparr> mutexLAF := Some t \<rparr>)) else None)"

definition trigger_lock :: "lt_thread \<Rightarrow> (lt \<Rightarrow> lt) \<Rightarrow> lt \<Rightarrow> lt option" where
  "trigger_lock t f s = (if mutexTriggerLAF s = None then Some (f (s \<lparr> mutexTriggerLAF := Some t \<rparr>)) else None)"

definition private_step :: "laf_env \<Rightarrow> lt \<Rightarrow> lt option" where
  "private_step env s = (let l = lt_laf s in case priv s of
      P_lock \<Rightarrow> laf_lock Private_Thread (priv_update (\<lambda>_. P_suppress)) s
    | P_suppress \<Rightarrow> Some (s \<lparr> priv := P_check, lt_startLAF :=
        (if lnf_status l = CONNECTED_PRIVATE \<and> isWifiConnected (laf_wifi l) then False else lt_startLAF s) \<rparr>)
    | P_check \<Rightarrow> Some (s \<lparr> priv := (if lt_startLAF s then P_take else P_sleep) \<rparr>)
    | P_sleep \<Rightarrow> Some (s \<lparr> mutexLAF := None, priv := P_wait \<rparr>)
    | P_wait \<Rightarrow> None
    | P_woken \<Rightarrow> laf_lock Private_Thread (priv_update (\<lambda>_. P_check)) s
    | P_take \<Rightarrow> Some (s \<lparr> lt_startLAF := False, priv := P_unlock \<rparr>)
    | P_unlock \<Rightarrow> Some (s \<lparr> mutexLAF := None, priv := P_begin \<rparr>)
    | P_begin \<Rightarrow>
        let l = (if lnf_status l \<noteq> CONNECTED_LNF then laf_set LNF_IN_PROGRESS l else l);
            l = (if bPrivConnectionLost (laf_wifi l)
                 then laf_wait env (on_wifi (\<lambda>w. w \<lparr> bPrivConnectionLost := False \<rparr>) l) else l)
        in Some ((leaves l s) \<lparr> priv := P_iter \<rparr>)
    | P_iter \<Rightarrow> (case priv_before l of
          (Some req, l) \<Rightarrow> Some ((leaves l s) \<lparr> priv := P_trigger req \<rparr>)
        | (None, l) \<Rightarrow> Some ((leaves (on_wifi (\<lambda>w. w \<lparr> bIsStopLNFWhileDisconnected := True \<rparr>) l) s) \<lparr> priv := P_lock \<rparr>))
    | P_trigger req \<Rightarrow> trigger_lock Private_Thread (priv_update (\<lambda>_. P_run req)) s
    | P_run req \<Rightarrow> (case priv_inside env req l of
          Val (r, l) \<Rightarrow> Some ((leaves l s) \<lparr> priv := P_release req r \<rparr>)
        | _ \<Rightarrow> Some (s \<lparr> priv := P_undefined \<rparr>))
    | P_release req r \<Rightarrow> Some (s \<lparr> mutexTriggerLAF := None, priv := P_post req r \<rparr>)
    | P_post req r \<Rightarrow> (case priv_after env req r l of (brk, l) \<Rightarrow>
        if brk \<or> lnf_status l = CONNECTED_PRIVATE \<or> \<not> bAutoSwitchToPrivateEnabled (laf_wifi l)
        then Some ((leaves (on_wifi (\<lambda>w. w \<lparr> bIsStopLNFWhileDisconnected := True \<rparr>) l) s) \<lparr> priv := P_lock \<rparr>)
        else Some ((leaves l s) \<lparr> priv := P_iter \<rparr>))
    | P_undefined \<Rightarrow> None)"

definition activation_step :: "laf_env \<Rightarrow> lt \<Rightarrow> lt option" where
  "activation_step env s = (let l = lt_laf s in case act s of
      C_outer \<Rightarrow> (case act_outer l of (activated, l) \<Rightarrow> Some ((leaves l s) \<lparr> act := (if activated then C_ended else C_inner) \<rparr>))
    | C_inner \<Rightarrow> (case act_before l of (n, l) \<Rightarrow>
        Some ((leaves l s) \<lparr> act := (case n of Act_Run \<Rightarrow> C_trigger | Act_Out \<Rightarrow> C_tail | Act_Quit \<Rightarrow> C_ended) \<rparr>))
    | C_trigger \<Rightarrow> trigger_lock Activation (act_update (\<lambda>_. C_run)) s
    | C_run \<Rightarrow> (case act_inside env l of
          Val (r, l) \<Rightarrow> Some ((leaves l s) \<lparr> act := C_release r \<rparr>)
        | _ \<Rightarrow> Some (s \<lparr> act := C_undefined \<rparr>))
    | C_release r \<Rightarrow> Some (s \<lparr> mutexTriggerLAF := None, act := C_post r \<rparr>)
    | C_post r \<Rightarrow> (case act_after env r l of (n, l) \<Rightarrow>
        Some ((leaves l s) \<lparr> act := (case n of Act_Run \<Rightarrow> C_inner | Act_Out \<Rightarrow> C_tail | Act_Quit \<Rightarrow> C_ended) \<rparr>))
    | C_tail \<Rightarrow> (case act_tail env l of (stop, l) \<Rightarrow> Some ((leaves l s) \<lparr> act := (if stop then C_ended else C_outer) \<rparr>))
    | C_ended \<Rightarrow> None
    | C_undefined \<Rightarrow> None)"

text \<open>\<^verbatim>\<open>signalStartLAF\<close>.\<close>

definition signalStartLAF_step :: "lt \<Rightarrow> lt option" where
  "signalStartLAF_step s = (case caller s of
      S_none \<Rightarrow> if callers s = 0 then None
        else laf_lock Caller (\<lambda>s. s \<lparr> caller := S_set, callers := callers s - 1 \<rparr>) s
    | S_set \<Rightarrow> Some (s \<lparr> lt_startLAF := True, caller := S_signal \<rparr>)
    | S_signal \<Rightarrow> Some (s \<lparr> priv := (if priv s = P_wait then P_woken else priv s), caller := S_unlock \<rparr>)
    | S_unlock \<Rightarrow> Some (s \<lparr> mutexLAF := None, caller := S_none \<rparr>))"

fun lt_move :: "(nat \<Rightarrow> laf_env) \<Rightarrow> lt_thread \<Rightarrow> lt \<Rightarrow> lt option" where
  "lt_move envs Private_Thread s = private_step (envs (lt_clock s)) s"
| "lt_move envs Activation s = activation_step (envs (lt_clock s)) s"
| "lt_move envs Caller s = signalStartLAF_step s"

text \<open>
  A step of a thread; the system wakes the private thread; a callback of the HAL or an event of the bus
  arrives; the thread that starts Lost and Found if necessary.
\<close>

datatype lt_cause = Steps lt_thread | Woken_Up | Arrives arrival | Starts_If_Necessary

inductive lt_step :: "(nat \<Rightarrow> laf_env) \<Rightarrow> lt_cause \<Rightarrow> lt \<Rightarrow> lt \<Rightarrow> bool" for envs where
  steps: "lt_move envs t s = Some s' \<Longrightarrow> lt_step envs (Steps t) s s'"
| woken_up: "priv s = P_wait \<Longrightarrow> lt_step envs Woken_Up s (s \<lparr> priv := P_woken \<rparr>)"
| arrives: "lt_step envs (Arrives a) s (leaves (on_wifi (\<lambda>w. deliver (l_wifi (envs (lt_clock s))) w a) (lt_laf s)) s)"
| starts_if_necessary: "lt_step envs Starts_If_Necessary s (leaves (startLAFIfNecessary (envs (lt_clock s)) (lt_laf s)) s)"

section \<open>The invariant\<close>

text \<open>Which points lie inside of which mutex; an undefined operation may have left a thread with the second one.\<close>

fun laf_section :: "lt_thread \<Rightarrow> lt \<Rightarrow> bool" where
  "laf_section Private_Thread s \<longleftrightarrow> priv s \<in> {P_suppress, P_check, P_sleep, P_take, P_unlock}"
| "laf_section Activation s \<longleftrightarrow> False"
| "laf_section Caller s \<longleftrightarrow> caller s \<noteq> S_none"

fun trigger_section :: "lt_thread \<Rightarrow> lt \<Rightarrow> bool" where
  "trigger_section Private_Thread s \<longleftrightarrow> (case priv s of P_run _ \<Rightarrow> True | P_release _ _ \<Rightarrow> True | P_undefined \<Rightarrow> True | _ \<Rightarrow> False)"
| "trigger_section Activation s \<longleftrightarrow> (case act s of C_run \<Rightarrow> True | C_release _ \<Rightarrow> True | C_undefined \<Rightarrow> True | _ \<Rightarrow> False)"
| "trigger_section Caller s \<longleftrightarrow> False"

definition lt_inv :: "lt \<Rightarrow> bool" where
  "lt_inv s \<longleftrightarrow> (\<forall>t. laf_section t s \<longleftrightarrow> mutexLAF s = Some t) \<and> (\<forall>t. trigger_section t s \<longleftrightarrow> mutexTriggerLAF s = Some t) \<and>
     (priv s = P_sleep \<longrightarrow> \<not> lt_startLAF s) \<and> (priv s = P_take \<longrightarrow> lt_startLAF s) \<and>
     (caller s = S_signal \<longrightarrow> lt_startLAF s) \<and> (priv s = P_wait \<and> lt_startLAF s \<longrightarrow> caller s = S_signal)"

lemmas lt_defs = laf_lock_def trigger_lock_def leaves_def

lemma all_lt_threads: "(\<forall>t. P t) \<longleftrightarrow> P Private_Thread \<and> P Activation \<and> P Caller"
  using lt_thread.exhaust by metis

lemma lt_inv_leaves [simp]: "lt_inv (leaves l s) = lt_inv s"
  by (simp add: lt_inv_def all_lt_threads leaves_def)

lemma lt_inv_private:
  assumes "lt_inv s" and "private_step env s = Some s'"
  shows "lt_inv s'"
  using assms unfolding lt_inv_def all_lt_threads private_step_def lt_defs Let_def
  by (cases "priv s"; clarsimp split: if_splits prod.splits option.splits res.splits)

lemma lt_inv_activation:
  assumes "lt_inv s" and "activation_step env s = Some s'"
  shows "lt_inv s'"
  using assms unfolding lt_inv_def all_lt_threads activation_step_def lt_defs Let_def
  by (cases "act s"; clarsimp split: if_splits prod.splits res.splits act_next.splits)

lemma lt_inv_caller:
  assumes "lt_inv s" and "signalStartLAF_step s = Some s'"
  shows "lt_inv s'"
  using assms unfolding lt_inv_def all_lt_threads signalStartLAF_step_def lt_defs
  by (cases "caller s"; cases "priv s"; clarsimp split: if_splits)

lemma lt_inv_step: "lt_step envs c s s' \<Longrightarrow> lt_inv s \<Longrightarrow> lt_inv s'"
proof (induction rule: lt_step.induct)
  case (steps t s s')
  then show ?case by (cases t) (auto intro: lt_inv_private lt_inv_activation lt_inv_caller)
next
  case (woken_up s)
  then show ?case by (auto simp: lt_inv_def all_lt_threads)
qed simp_all

interpretation laf_threads: threads "lt_step envs" "laf_start_threads l" lt_inv "lt_move envs" Steps "\<lambda>_. True" for envs l
proof
  show "lt_inv (laf_start_threads l)" by (simp add: lt_inv_def all_lt_threads laf_start_threads_def)
qed (auto intro: lt_inv_step lt_step.steps)

section \<open>Runs of both threads\<close>

lemma laf_owner_moves:
  assumes "lt_inv s" "mutexLAF s = Some t"
  shows "lt_move envs t s \<noteq> None"
proof -
  have "laf_section t s" using assms by (simp add: lt_inv_def)
  then show ?thesis
    by (cases t) (auto simp: private_step_def signalStartLAF_step_def Let_def split: caller_pc.splits)
qed

lemma trigger_owner_moves:
  assumes "lt_inv s" "mutexTriggerLAF s = Some t" "priv s \<noteq> P_undefined" "act s \<noteq> C_undefined"
  shows "lt_move envs t s \<noteq> None"
proof -
  have "trigger_section t s" using assms(1,2) by (simp add: lt_inv_def)
  then show ?thesis using assms(3,4)
    by (cases t) (auto simp: private_step_def activation_step_def Let_def split: priv_pc.splits act_pc.splits res.splits prod.splits)
qed

lemma lt_stuck:
  assumes "lt_inv s" "\<forall>t. lt_move envs t s = None" "priv s \<noteq> P_undefined" "act s \<noteq> C_undefined"
  shows "priv s = P_wait" "act s = C_ended" "caller s = S_none" "callers s = 0"
proof -
  have free: "mutexLAF s = None" "mutexTriggerLAF s = None"
    using laf_owner_moves [OF assms(1)] trigger_owner_moves [OF assms(1) _ assms(3,4)] assms(2) by (metis option.exhaust)+
  have m: "private_step (envs (lt_clock s)) s = None" "activation_step (envs (lt_clock s)) s = None" "signalStartLAF_step s = None"
    using assms(2) by (auto simp: all_lt_threads)
  show "priv s = P_wait"
    using m(1) free assms(3) by (cases "priv s") (auto simp: private_step_def lt_defs Let_def split: res.splits prod.splits option.splits if_splits)
  show "act s = C_ended"
    using m(2) free assms(4) by (cases "act s") (auto simp: activation_step_def lt_defs Let_def split: res.splits prod.splits if_splits)
  have "caller s = S_none \<and> callers s = 0"
    using m(3) free by (cases "caller s") (auto simp: signalStartLAF_step_def lt_defs split: if_splits)
  then show "caller s = S_none" "callers s = 0" by simp_all
qed

text \<open>
  C28.  In every interleaving of the two Lost and Found threads with callbacks, events and requests to start:
  the two threads never run the library at the same time; a thread that holds one of the mutexes can go on,
  unless its operation is undefined; and no request to start is lost: where no thread can move, and no
  operation was undefined, the private thread sleeps with the flag cleared, no caller is waiting and the
  activation thread has ended.
\<close>

theorem laf_threads_exclusive:
  assumes "reachable (lt_step envs) (laf_start_threads l) s"
  shows "\<not> ((\<exists>req. priv s = P_run req) \<and> act s = C_run) \<and>
    (mutexLAF s = Some t \<or> mutexTriggerLAF s = Some t \<and> priv s \<noteq> P_undefined \<and> act s \<noteq> C_undefined \<longrightarrow> lt_move envs t s \<noteq> None) \<and>
    ((\<forall>t. lt_move envs t s = None) \<and> priv s \<noteq> P_undefined \<and> act s \<noteq> C_undefined \<longrightarrow>
       priv s = P_wait \<and> \<not> lt_startLAF s \<and> caller s = S_none \<and> callers s = 0 \<and> act s = C_ended)"
proof -
  have inv: "lt_inv s" using assms by (rule laf_threads.reachable_inv)
  have "\<not> (trigger_section Private_Thread s \<and> trigger_section Activation s)"
    using inv unfolding lt_inv_def all_lt_threads by auto
  then have "\<not> ((\<exists>req. priv s = P_run req) \<and> act s = C_run)" by auto
  moreover have "lt_move envs t s \<noteq> None" if "mutexLAF s = Some t \<or> mutexTriggerLAF s = Some t \<and> priv s \<noteq> P_undefined \<and> act s \<noteq> C_undefined"
    using that laf_owner_moves [OF inv] trigger_owner_moves [OF inv] by blast
  moreover have "priv s = P_wait \<and> \<not> lt_startLAF s \<and> caller s = S_none \<and> callers s = 0 \<and> act s = C_ended"
    if "(\<forall>t. lt_move envs t s = None) \<and> priv s \<noteq> P_undefined \<and> act s \<noteq> C_undefined"
  proof -
    have "priv s = P_wait" "act s = C_ended" "caller s = S_none" "callers s = 0" using lt_stuck [OF inv] that by blast+
    moreover have "\<not> lt_startLAF s" using inv calculation(1,3) by (simp add: lt_inv_def)
    ultimately show ?thesis by blast
  qed
  ultimately show ?thesis by blast
qed

section \<open>Witness\<close>

text \<open>
  The device is activated on the Lost and Found network: the activation thread ends and asks for the private
  network, the private thread sleeps, is woken by the caller and takes the request.
\<close>

definition sample_threads :: lt where
  "sample_threads = laf_start_threads (sample_laf \<lparr> laf_wifi := initial_wifi \<lparr> bDeviceActivated := True \<rparr> \<rparr>)"

definition sample_sleeping :: "lt list" where
  "sample_sleeping = the (run_threads (lt_move (\<lambda>_. sample_laf_env)) sample_threads ([Activation] @ replicate 4 Private_Thread))"

theorem laf_threads_exclusive_witness:
  "priv (last (sample_threads # sample_sleeping)) = P_wait \<and> act (last (sample_threads # sample_sleeping)) = C_ended \<and>
   \<not> lt_startLAF (last (sample_threads # sample_sleeping))"
proof -
  let ?e = "\<lambda>_ :: nat. sample_laf_env" and ?s = "last (sample_threads # sample_sleeping)"
  have "run_threads (lt_move ?e) sample_threads ([Activation] @ replicate 4 Private_Thread) \<noteq> None" by code_simp
  then have r: "reachable (lt_step ?e) sample_threads ?s"
    unfolding sample_sleeping_def sample_threads_def by (rule laf_threads.run_reachable)
  have "lt_move ?e Private_Thread ?s = None" "lt_move ?e Activation ?s = None" "lt_move ?e Caller ?s = None"
    "priv ?s \<noteq> P_undefined" "act ?s \<noteq> C_undefined" by code_simp+
  then show ?thesis using laf_threads_exclusive [OF r [unfolded sample_threads_def], folded sample_threads_def] unfolding all_lt_threads by blast
qed

end
