(* ===== verification/Hal_Services.thy ===== *)
theory Hal_Services
  imports Lost_Found Camera_Build
begin

text \<open>
  The services that the Wi-Fi code of \<^verbatim>\<open>wifiHalUtiles.cpp\<close> and the utilities of \<^verbatim>\<open>netsrvmgrUtiles.cpp\<close> build
  on: manufacturer data over the bus, the hardware address as the Lost and Found code reads it, the version
  of the HAL and its cache, the log of milestones, the log levels of the Lost and Found library, formatted
  time, and the dispatcher of rtMessage requests of the camera builds.

  The answers of the bus, of the HAL, of the operating system and of the message library are parameters.
\<close>

section \<open>Manufacturer data\<close>

text \<open>The answer of the manufacturer library: its buffer and the length it gives, none when the call fails.\<close>

type_synonym mfr_reply = "(string \<times> int) option"

definition getMfrData :: "(string \<Rightarrow> mfr_reply) \<Rightarrow> string \<Rightarrow> string option" where
  "getMfrData call mfrType =
     (case call mfrType of
        Some (buf, bufLen) \<Rightarrow> if bufLen \<noteq> 0 then Some (takeWhile (\<lambda>c. c \<noteq> CHR 0x00) buf) else None
      | None \<Rightarrow> None)"

text \<open>
  The device information of Lost and Found over this service: it is complete exactly if the library gives
  non-empty answers for the serial number, the hardware address and the model.
\<close>

theorem device_info_complete:
  assumes "partnerID s \<noteq> []"
  shows "getDeviceInfo (env \<lparr> l_mfrData := getMfrData call \<rparr>) s =
    Val (\<forall>k\<in>{''SERIALNUMBER'', ''DEVICEMAC'', ''MODELNAME''}. \<exists>buf n. call k = Some (buf, n) \<and> n \<noteq> 0, s)"
proof -
  have "getMfrData call k \<noteq> None \<longleftrightarrow> (\<exists>buf n. call k = Some (buf, n) \<and> n \<noteq> 0)" for k
    by (auto simp: getMfrData_def split: option.splits prod.splits if_splits)
  then show ?thesis using assms by (simp add: getDeviceInfo_def)
qed

section \<open>The hardware address\<close>

text \<open>\<^verbatim>\<open>getmacaddress\<close> writes the address with lower-case digits, \<^verbatim>\<open>getMacAddress_IfName\<close> with capitals.\<close>

definition hex_digit_x :: "u8 \<Rightarrow> char" where
  "hex_digit_x n = (if n < 10 then char_of (unat n + 48) else char_of (unat n + 87))"

definition hex_byte_x :: "u8 \<Rightarrow> string" where
  "hex_byte_x b = [hex_digit_x (drop_bit 4 b), hex_digit_x (b AND 15)]"

definition getmacaddress :: "os \<Rightarrow> string \<Rightarrow> string option" where
  "getmacaddress env ifname =
     (if os_socket env < 0 then None
      else (case os_hwaddr env (take (IFNAMSIZ - 1) ifname) of
          None \<Rightarrow> None
        | Some mac \<Rightarrow> Some (join_char (CHR '':'') (map hex_byte_x (take 6 mac)))))"

lemma hex_digit_lower:
  assumes "b < 16"
  shows "tolower_c (hex_digit b) = hex_digit_x b"
proof -
  have "unat b < 16" using assms by (simp add: word_less_nat_alt)
  then show ?thesis
    by (auto simp: hex_digit_def hex_digit_x_def tolower_c_def Let_def of_char_of word_less_nat_alt)
qed

lemma mac_string_lower:
  assumes "length mac = 6"
  shows "map tolower_c (mac_string mac) = join_char (CHR '':'') (map hex_byte_x (take 6 mac))"
proof -
  have c: "tolower_c (CHR '':'') = CHR '':''" by code_simp
  have b: "map tolower_c (hex_byte b) = hex_byte_x b" for b
    using nibbles_lt hex_digit_lower by (simp add: hex_byte_def hex_byte_x_def)
  show ?thesis using assms by (auto simp: mac_string_def numeral_eq_Suc length_Suc_conv c b)
qed

text \<open>
  The two routines for the hardware address agree: wherever the socket can be opened with a positive
  descriptor, they succeed for the same interfaces, and the answer of \<^verbatim>\<open>getmacaddress\<close> is the whole one of
  \<^verbatim>\<open>getMacAddress_IfName\<close> in lower case, with nothing cut off by the buffer of the latter.
\<close>

theorem mac_routines_agree:
  assumes "0 < os_socket env" and "\<And>i mac. os_hwaddr env i = Some mac \<Longrightarrow> length mac = 6"
  shows "getmacaddress env i = (case getMacAddress_IfName env (Some i) before of (True, m) \<Rightarrow> Some (map tolower_c m) | (False, _) \<Rightarrow> None)"
proof (cases "os_hwaddr env (take (IFNAMSIZ - 1) i)")
  case (Some mac)
  then have l: "length mac = 6" by (rule assms(2))
  have "snprintf_to MAC_ADDR_BUFF_LEN (mac_string mac) = mac_string mac"
    using length_mac_string [OF l] by (simp add: snprintf_to_def MAC_ADDR_BUFF_LEN_def)
  then show ?thesis using Some assms(1) mac_string_lower [OF l] by (simp add: getmacaddress_def getMacAddress_IfName_def)
qed (use assms(1) in \<open>simp add: getmacaddress_def getMacAddress_IfName_def\<close>)

theorem mac_routines_agree_witness:
  "getmacaddress (sample_os \<lparr> os_socket := 3, os_hwaddr := (\<lambda>_. Some [0xaa, 0xbb, 0xcc, 0, 1, 2]) \<rparr>) ''eth0'' = Some ''aa:bb:cc:00:01:02''"
proof -
  let ?env = "sample_os \<lparr> os_socket := 3, os_hwaddr := (\<lambda>_. Some [0xaa, 0xbb, 0xcc, 0, 1, 2]) \<rparr>"
  have "getMacAddress_IfName ?env (Some ''eth0'') [] = (True, ''AA:BB:CC:00:01:02'')" by code_simp
  moreover have "map tolower_c ''AA:BB:CC:00:01:02'' = ''aa:bb:cc:00:01:02''" by code_simp
  ultimately show ?thesis using mac_routines_agree [of ?env "''eth0''" "[]"] by simp
qed

section \<open>The version of the HAL\<close>

text \<open>
  The cache and the number of times the HAL was asked.  The HAL writes its version into the six characters of
  the cache.
\<close>

definition WIFI_HAL_VERSION_SIZE :: nat where "WIFI_HAL_VERSION_SIZE = 6"

definition getHALVersion :: "(nat \<Rightarrow> string) \<Rightarrow> string \<times> nat \<Rightarrow> (string \<times> nat) res" where
  "getHALVersion wifi_getHalVersion s = (case s of (ver, asked) \<Rightarrow>
     if ver = []
     then res_bind (strcpy_to WIFI_HAL_VERSION_SIZE (wifi_getHalVersion asked)) (\<lambda>v. Val (v, Suc asked))
     else Val s)"

text \<open>
  The version the rest of the code compares with is fixed once it is known: after a call that left a version,
  any number of further calls changes nothing and does not ask the HAL again.
\<close>

theorem hal_version_fixed:
  assumes "getHALVersion hal s = Val s'" and "fst s' \<noteq> []"
  shows "((\<lambda>r. res_bind r (getHALVersion hal)) ^^ Suc k) (Val s) = Val s'"
proof (induction k)
  case (Suc k)
  then show ?case using assms(2) by (cases s') (simp add: getHALVersion_def)
qed (simp add: assms(1))

section \<open>Milestones and log levels\<close>

text \<open>
  The time since the start of the system in milliseconds, from the first 63 characters of the first line of
  the file; the conversion of text to a number is a parameter.
\<close>

definition getUptimeMS :: "os \<Rightarrow> (string \<Rightarrow> real) \<Rightarrow> nat" where
  "getUptimeMS env atof =
     (case os_file env ''/proc/uptime'' of
        Some t \<Rightarrow> nat \<lfloor>atof (take 63 (takeWhile (\<lambda>c. c \<noteq> CHR 0x0A) t)) * 1000\<rfloor>
      | None \<Rightarrow> 0)"

text \<open>The line appended to the log of milestones, none when it cannot be opened.\<close>

definition logMilestone :: "os \<Rightarrow> (string \<Rightarrow> real) \<Rightarrow> bool \<Rightarrow> string \<Rightarrow> string option" where
  "logMilestone env atof opened msg_code =
     (if opened then Some (msg_code @ '':'' @ show_nat (getUptimeMS env atof) @ [CHR 0x0A]) else None)"

datatype laf_loglevel = LAF_LOG_DEBUG | LAF_LOG_INFO | LAF_LOG_WARNING | LAF_LOG_ERROR | LAF_LOG_OTHER int

datatype rdk_LogLevel = RDK_LOG_DEBUG | RDK_LOG_INFO | RDK_LOG_WARN | RDK_LOG_ERROR

fun map_to_rdkloglevel :: "laf_loglevel \<Rightarrow> rdk_LogLevel" where
  "map_to_rdkloglevel LAF_LOG_DEBUG = RDK_LOG_DEBUG"
| "map_to_rdkloglevel LAF_LOG_INFO = RDK_LOG_INFO"
| "map_to_rdkloglevel LAF_LOG_WARNING = RDK_LOG_WARN"
| "map_to_rdkloglevel LAF_LOG_ERROR = RDK_LOG_ERROR"
| "map_to_rdkloglevel (LAF_LOG_OTHER _) = RDK_LOG_INFO"

text \<open>The message handed to the logger with its level.\<close>

definition log_message :: "laf_loglevel \<Rightarrow> string \<Rightarrow> nat \<Rightarrow> string \<Rightarrow> rdk_LogLevel \<times> string" where
  "log_message level func line msg =
     (map_to_rdkloglevel level,
      ''[WIFI_MODULE:LNF:'' @ func @ '':'' @ show_nat line @ ''] '' @ msg @ [CHR 0x0A])"

section \<open>Formatted time\<close>

definition MAX_TIME_LENGTH :: nat where "MAX_TIME_LENGTH = 32"

text \<open>
  The broken-down time may be missing; \<^verbatim>\<open>strftime\<close> gives nothing when the text with its terminator does not
  fit, and an empty text counts as a failure too.
\<close>

definition getCurrentTime :: "'tm option \<Rightarrow> ('tm \<Rightarrow> string \<Rightarrow> string) \<Rightarrow> string \<Rightarrow> string option" where
  "getCurrentTime localtime strftime timeFormat =
     (case localtime of
        None \<Rightarrow> None
      | Some tmp \<Rightarrow>
          let t = strftime tmp timeFormat in if t = [] \<or> MAX_TIME_LENGTH \<le> length t then None else Some t)"

section \<open>The dispatcher of rtMessage requests\<close>

text \<open>
  A packet as the library hands it to a listener: whether it is a request, and its body.  The listener for
  \<^verbatim>\<open>RDKC.WIFI\<close> answers every request with \<^verbatim>\<open>Success\<close>, the one for \<^verbatim>\<open>RDKC.WIFI.CONNECT\<close> with the outcome of the
  connection; a packet that is no request gets no answer.
\<close>

datatype rt_body = Wifi_Message | Connect_Message string string

type_synonym rt_packet = "bool \<times> rt_body"

datatype rt_reply = Reply_Text string | Reply_Int int

definition onMessage :: "bool \<Rightarrow> rt_reply list" where
  "onMessage isRequest = (if isRequest then [Reply_Text ''Success''] else [])"

definition rtConnection_Dispatch :: "wifi_env \<Rightarrow> rt_packet \<Rightarrow> wifi \<Rightarrow> rt_reply list \<times> wifi" where
  "rtConnection_Dispatch env p w = (case p of
      (isRequest, Wifi_Message) \<Rightarrow> (onMessage isRequest, w)
    | (True, Connect_Message ap psk) \<Rightarrow> (case onConnectWifi env ap psk w of (r, w) \<Rightarrow> ([Reply_Int r], w))
    | (False, Connect_Message _ _) \<Rightarrow> ([], w))"

text \<open>The receiving thread: what each turn of its endless loop dispatched, a packet or an error of the library.\<close>

fun rtMessage_Receive :: "wifi_env \<Rightarrow> rt_packet option list \<Rightarrow> wifi \<Rightarrow> rt_reply list \<times> wifi" where
  "rtMessage_Receive env [] w = ([], w)"
| "rtMessage_Receive env (None # ps) w = rtMessage_Receive env ps w"
| "rtMessage_Receive env (Some p # ps) w =
     (case rtConnection_Dispatch env p w of (rs, w) \<Rightarrow> case rtMessage_Receive env ps w of (rs', w) \<Rightarrow> (rs @ rs', w))"

text \<open>
  Every request gets exactly one answer, and nothing else is answered: over any run of the receiving thread,
  errors of the library included, there are as many answers as requests.
\<close>

theorem requests_answered:
  "length (fst (rtMessage_Receive env ps w)) = length (filter (\<lambda>p. \<exists>b. p = Some (True, b)) ps)"
proof (induction env ps w rule: rtMessage_Receive.induct)
  case (3 env p ps w)
  obtain q b where p: "p = (q, b)" by fastforce
  obtain rs w1 where d: "rtConnection_Dispatch env p w = (rs, w1)" by fastforce
  have "length rs = (if q then 1 else 0)"
    using d p by (cases q; cases b) (auto simp: rtConnection_Dispatch_def onMessage_def split: prod.splits)
  then show ?case using 3 [OF d [symmetric]] d p by (auto split: prod.split)
qed simp_all

end
