(* ===== verification/Bus_Interface.thy ===== *)
theory Bus_Interface
  imports Wifi_Scan Wifi_Bus Moca_Mgr Route_Mgr
begin

text \<open>
  The names and numbers under which the parts of the daemon meet on the bus: the calls that \<^verbatim>\<open>main\<close>,
  \<^verbatim>\<open>RouteNetworkMgr::Start\<close>, \<^verbatim>\<open>WiFiNetworkMgr::Init\<close> and \<^verbatim>\<open>MocaNetworkMgr::Start\<close> register, the events they
  subscribe to and the events they broadcast, all under the one name of the daemon, and the entry of the
  handler of the Wi-Fi events, which finds out what an event is from its owner, its number and the bytes it
  carries.  The build has every optional part.
\<close>

section \<open>Calls\<close>

definition IARM_BUS_NM_SRV_MGR_NAME :: string where "IARM_BUS_NM_SRV_MGR_NAME = ''NET_SRV_MGR''"

text \<open>A registered call: its name and the function behind it.\<close>

datatype call_handler = Daemon_Call string | Route_Call string | Wifi_Call string | Moca_Call string

definition main_calls :: "(string \<times> call_handler) list" where
  "main_calls = map (\<lambda>n. (n, Daemon_Call n))
     [''getActiveInterface'', ''getNetworkInterfaces'', ''getInterfaceList'', ''getDefaultInterface'', ''setDefaultInterface'',
      ''isInterfaceEnabled'', ''setInterfaceEnabled'', ''getSTBip'', ''setIPSettings'', ''getIPSettings'', ''getSTBip_family'',
      ''isConnectedToInternet'', ''setConnectivityTestEndpoints'', ''isAvailable'', ''getPublicIP'']"

definition route_calls :: "(string \<times> call_handler) list" where
  "route_calls = [(''getCurrentRouteData'', Route_Call ''getCurrentRouteData'')]"

text \<open>The name of the call for a change of the system mode is defined with the bus.\<close>

definition wifi_calls :: "string \<Rightarrow> (string \<times> call_handler) list" where
  "wifi_calls sysModeChange_name = map (\<lambda>n. (n, Wifi_Call n))
     [''getAvailableSSIDs'', ''getAvailableSSIDsWithName'', ''getAvailableSSIDsAsync'', ''getAvailableSSIDsAsyncIncr'',
      ''stopProgressiveWifiScanning'', ''getCurrentState'', ''setEnabled'', ''connect'', ''initiateWPSPairing'',
      ''initiateWPSPairing2'', ''getPairedSSID'', ''getPairedSSIDInfo'', ''saveSSID'', ''clearSSID'', ''disconnectSSID'',
      ''isPaired'', ''getConnectedSSID'', ''cancelWPSPairing''] @
     [(''getConnectionType'', Wifi_Call ''getCurrentConnectionType'')] @ map (\<lambda>n. (n, Wifi_Call n))
     [''getRoamingCtrls'', ''setRoamingCtrls'', ''getLNFState'', ''isStopLNFWhileDisconnected'', ''isAutoSwitchToPrivateEnabled'',
      ''getSwitchToPrivateResults'', ''getRadioProps'', ''setRadioProps'', ''getRadioStatsProps'', ''getSSIDProps''] @
     [(sysModeChange_name, Wifi_Call ''sysModeChange''), (''getEndPointProps'', Wifi_Call ''getEndPointProps'')]"

definition moca_calls :: "(string \<times> call_handler) list" where
  "moca_calls = [(''getTelemetryLogStatus'', Moca_Call ''mocaTelemetryLogEnable''),
     (''getTelemetryLogDuration'', Moca_Call ''mocaTelemetryLogDuration'')]"

text \<open>In the order of registration: \<^verbatim>\<open>main\<close> registers its own calls and then starts the services.\<close>

definition registered_calls :: "string \<Rightarrow> (string \<times> call_handler) list" where
  "registered_calls sysModeChange_name = main_calls @ route_calls @ wifi_calls sysModeChange_name @ moca_calls"

text \<open>The request as the caller names it; the front panel key arrives as an event and has no name.\<close>

fun query_name :: "query \<Rightarrow> string" where
  "query_name Q_PairedSSID = ''getPairedSSID''" | "query_name Q_PairedSSIDInfo = ''getPairedSSIDInfo''"
| "query_name Q_Paired = ''isPaired''" | "query_name Q_ConnectionType = ''getConnectionType''"
| "query_name Q_LNFState = ''getLNFState''" | "query_name Q_AutoSwitch = ''isAutoSwitchToPrivateEnabled''"
| "query_name Q_StopLNF = ''isStopLNFWhileDisconnected''" | "query_name Q_ConnectedSSID = ''getConnectedSSID''"
| "query_name (Q_RadioStats _) = ''getRadioStatsProps''" | "query_name Q_EndPoint = ''getEndPointProps''"
| "query_name Q_Roaming = ''getRoamingCtrls''" | "query_name Q_CurrentState = ''getCurrentState''"
| "query_name (Q_RadioProps _) = ''getRadioProps''" | "query_name (Q_SSIDProps _ _) = ''getSSIDProps''"

fun request_name :: "string \<Rightarrow> request \<Rightarrow> string option" where
  "request_name mode (R_SetEnabled _) = Some ''setEnabled''" | "request_name mode (R_Connect _) = Some ''connect''"
| "request_name mode (R_SaveSSID _) = Some ''saveSSID''" | "request_name mode R_ClearSSID = Some ''clearSSID''"
| "request_name mode R_DisconnectSSID = Some ''disconnectSSID''" | "request_name mode R_WPSPairing = Some ''initiateWPSPairing''"
| "request_name mode (R_WPSPairing2 _ _) = Some ''initiateWPSPairing2''" | "request_name mode R_CancelWPS = Some ''cancelWPSPairing''"
| "request_name mode (R_SysMode _) = Some mode" | "request_name mode (R_IrKey _) = None"
| "request_name mode (R_SetRoaming _) = Some ''setRoamingCtrls''" | "request_name mode (R_Query q) = Some (query_name q)"

section \<open>Events\<close>

datatype event_handler = Wifi_EventHandler | Daemon_EventHandler | Moca_EventHandler

text \<open>The subscriptions to events under the name of the daemon, by number.\<close>

definition registered_events :: "(nat \<times> event_handler) list" where
  "registered_events = [(52, Daemon_EventHandler), (5, Wifi_EventHandler), (6, Wifi_EventHandler), (7, Wifi_EventHandler),
     (20, Moca_EventHandler), (21, Moca_EventHandler)]"

text \<open>What the parts broadcast under that name, and the numbers of it.\<close>

datatype own_broadcast = From_Wifi wifi_out | From_Scan scan_out | From_Daemon nm_event | From_Route rt_event

fun broadcast_number :: "own_broadcast \<Rightarrow> nat option" where
  "broadcast_number (From_Wifi (StateChanged _)) = Some 1"
| "broadcast_number (From_Wifi (OnError _)) = Some 2"
| "broadcast_number (From_Wifi SSIDsChanged) = Some 3"
| "broadcast_number (From_Wifi _) = None"
| "broadcast_number (From_Scan (OnAvailableSSIDs _)) = Some 4"
| "broadcast_number (From_Scan (OnAvailableSSIDsIncr _ _)) = Some 5"
| "broadcast_number (From_Scan (SetRadioScanningFreqList _)) = None"
| "broadcast_number (From_Route (Route_Data _ _ _)) = Some 10"
| "broadcast_number (From_Route _) = None"
| "broadcast_number (From_Daemon (InterfaceEnabledStatus _ _)) = Some 53"
| "broadcast_number (From_Daemon (InterfaceConnectionStatus _ _)) = Some 54"
| "broadcast_number (From_Daemon (InterfaceIPAddress _ _ _ _)) = Some 55"
| "broadcast_number (From_Daemon (DefaultInterface _ _)) = Some 56"

text \<open>
  The entry of \<^verbatim>\<open>_eventHandler\<close> of the Wi-Fi service: which event it takes the bytes for.  The name and the
  number of the event of the authentication service are defined with that service.
\<close>

fun read_int :: "u8 list \<Rightarrow> int" where
  "read_int (b0 # b1 # b2 # b3 # _) = sint (load32 b0 b1 b2 b3)"
| "read_int _ = 0"

definition wifi_event_of :: "string \<times> nat \<Rightarrow> string \<Rightarrow> nat \<Rightarrow> u8 list \<Rightarrow> bus_event option" where
  "wifi_event_of auth owner eventId data =
     (if owner = fst auth then (if eventId = snd auth then Some (Auth_Switch_To_Private (read_int data)) else None)
      else if owner = IARM_BUS_NM_SRV_MGR_NAME
      then (if eventId = 5 then Some (Switch_To_Private (read_int data))
            else if eventId = 6 then Some (Stop_LNF_While_Disconnected (hd data \<noteq> 0))
            else if eventId = 7 then Some (Auto_Switch_To_Private_Enabled (hd data \<noteq> 0)) else None)
      else None)"

text \<open>The bytes of a broadcast list of networks: \<^verbatim>\<open>strncpy\<close> fills the rest of the buffer with zeros.\<close>

definition ssid_list_bytes :: "string \<Rightarrow> u8 list" where
  "ssid_list_bytes t = map (\<lambda>c. of_nat (of_char c)) t @ replicate (MAX_SSIDLIST_BUF - length t) 0"

section \<open>Calls that start a thread\<close>

text \<open>
  The calls for a scan in the background answer at once, whether or not the thread could be created; the state is
  the one the thread leaves.  The message about a thread that could not be created for the first call lacks an
  argument.  Setting radio properties does nothing.
\<close>

definition getAvailableSSIDsAsync :: "int \<Rightarrow> scan_env \<Rightarrow> scan \<Rightarrow> (IARM_Result \<times> scan) res" where
  "getAvailableSSIDsAsync rc env s =
     (if rc \<noteq> 0 then UB else res_bind (getAvailableSSIDsThread env s) (\<lambda>s. Val (IARM_RESULT_SUCCESS, s)))"

definition getAvailableSSIDsAsyncIncr :: "int \<Rightarrow> scan_env \<Rightarrow> scan \<Rightarrow> (IARM_Result \<times> scan) res" where
  "getAvailableSSIDsAsyncIncr rc env s =
     (if rc \<noteq> 0 then Val (IARM_RESULT_SUCCESS, s)
      else res_bind (getAvailableSSIDsIncrThread env s) (\<lambda>s. Val (IARM_RESULT_SUCCESS, s)))"

definition setRadioProps :: "mgr \<Rightarrow> IARM_Result \<times> mgr" where
  "setRadioProps m = (IARM_RESULT_SUCCESS, m)"

section \<open>Properties\<close>

lemmas registered_calls_defs = registered_calls_def main_calls_def route_calls_def wifi_calls_def moca_calls_def

text \<open>The names with the one of the system mode in its place.\<close>

lemma registered_names:
  "map fst (registered_calls mode) =
     take 45 (map fst (registered_calls [])) @ mode # drop 46 (map fst (registered_calls []))"
  by (simp add: registered_calls_defs)

lemma registered_calls_distinct:
  assumes "mode \<notin> fst ` set (registered_calls [])"
  shows "distinct (map fst (registered_calls mode))"
proof -
  let ?l = "map fst (registered_calls [])"
  have l: "distinct ?l" "45 < length ?l" by (simp_all add: registered_calls_defs)
  have "?l = take 45 ?l @ ?l ! 45 # drop (Suc 45) ?l" using l(2) by (rule id_take_nth_drop)
  then have "distinct (take 45 ?l @ ?l ! 45 # drop 46 ?l)" using l(1) by simp
  then have "distinct (take 45 ?l @ drop 46 ?l)" by simp
  moreover have "mode \<notin> set (take 45 ?l @ drop 46 ?l)"
    using assms by (auto dest: in_set_takeD in_set_dropD)
  ultimately show ?thesis unfolding registered_names [of mode] by auto
qed

lemma request_registered:
  assumes "request_name mode q = Some n"
  shows "\<exists>f. (n, Wifi_Call f) \<in> set (wifi_calls mode)"
proof -
  have "n \<in> fst ` set (wifi_calls mode)"
  proof (cases q)
    case (R_Query x)
    then have "n = query_name x" using assms by simp
    then show ?thesis by (cases x) (simp_all add: wifi_calls_def)
  qed (use assms in \<open>auto simp: wifi_calls_def\<close>)
  moreover have "\<exists>f. h = Wifi_Call f" if "(n, h) \<in> set (wifi_calls mode)" for n h using that by (auto simp: wifi_calls_def)
  ultimately show ?thesis by force
qed



lemma own_numbers:
  "(\<exists>n h. broadcast_number b = Some n \<and> (n, h) \<in> set registered_events) \<longleftrightarrow> (\<exists>t m. b = From_Scan (OnAvailableSSIDsIncr t m))"
  by (cases b rule: broadcast_number.cases) (simp_all add: registered_events_def)

lemma list_is_no_activation: "read_int (ssid_list_bytes (CHR ''{'' # t)) \<noteq> DEVICE_ACTIVATED"
proof (cases "ssid_list_bytes (CHR ''{'' # t)" rule: read_int.cases)
  case (1 b0 b1 b2 b3 rest)
  then have "b0 = 123" by (simp add: ssid_list_bytes_def)
  moreover have "b0 = 1" if "load32 b0 b1 b2 b3 = 1" using load32_ucast0 [of b0 b1 b2 b3] unfolding that by simp
  ultimately have "load32 b0 b1 b2 b3 \<noteq> 1" by auto
  then have "sint (load32 b0 b1 b2 b3) \<noteq> 1" using signed_word_eqI [of "load32 b0 b1 b2 b3" 1] by (auto simp: signed_1)
  then show ?thesis by (simp add: DEVICE_ACTIVATED_def 1)
qed (simp_all add: DEVICE_ACTIVATED_def)

text \<open>
  C20.  Of all the events the daemon broadcasts, exactly the lists of a progressive scan carry a number that the
  daemon itself is subscribed to: the number 5 of the request to switch to the private network.  The handler
  takes such a list for that request: with automatic switching off it starts Lost and Found to switch, and the
  device does not count as activated by it.
\<close>

theorem progressive_scan_read_as_switch:
  "((\<exists>n h. broadcast_number b = Some n \<and> (n, h) \<in> set registered_events) \<longleftrightarrow> (\<exists>t m. b = From_Scan (OnAvailableSSIDsIncr t m))) \<and>
   (fst auth \<noteq> IARM_BUS_NM_SRV_MGR_NAME \<longrightarrow> (\<exists>v. wifi_event_of auth IARM_BUS_NM_SRV_MGR_NAME 5 (ssid_list_bytes (CHR ''{'' # t)) =
       Some (Switch_To_Private v) \<and>
     wifi_eventHandler env (Switch_To_Private v) w =
       (if bAutoSwitchToPrivateEnabled w then w else lnfConnectPrivCredentials (w \<lparr> bSwitch2Private := True \<rparr>))))"
  using own_numbers list_is_no_activation by (simp add: wifi_event_of_def IARM_BUS_NM_SRV_MGR_NAME_def)

theorem progressive_scan_read_as_switch_witness:
  "\<exists>v. wifi_event_of (''AUTH'', 1) IARM_BUS_NM_SRV_MGR_NAME 5 (ssid_list_bytes (CHR ''{'' # ''}'')) = Some (Switch_To_Private v) \<and>
     bSwitch2Private (wifi_eventHandler sample_wifi_env (Switch_To_Private v) (initial_wifi \<lparr> bAutoSwitchToPrivateEnabled := False \<rparr>))"
proof -
  have "fst (''AUTH'', 1 :: nat) \<noteq> IARM_BUS_NM_SRV_MGR_NAME" by (simp add: IARM_BUS_NM_SRV_MGR_NAME_def)
  from conjunct2 [OF progressive_scan_read_as_switch, rule_format, OF this, of "''}''" sample_wifi_env
      "initial_wifi \<lparr> bAutoSwitchToPrivateEnabled := False \<rparr>"]
  obtain v where v: "wifi_event_of (''AUTH'', 1) IARM_BUS_NM_SRV_MGR_NAME 5 (ssid_list_bytes (CHR ''{'' # ''}'')) = Some (Switch_To_Private v)"
    "wifi_eventHandler sample_wifi_env (Switch_To_Private v) (initial_wifi \<lparr> bAutoSwitchToPrivateEnabled := False \<rparr>) =
       lnfConnectPrivCredentials (initial_wifi \<lparr> bAutoSwitchToPrivateEnabled := False, bSwitch2Private := True \<rparr>)" by auto
  have "bSwitch2Private (lnfConnectPrivCredentials (initial_wifi \<lparr> bAutoSwitchToPrivateEnabled := False, bSwitch2Private := True \<rparr>))"
    by (simp add: lnfConnectPrivCredentials_def signalStartLAF_def)
  then show ?thesis using v by metis
qed

end
