(* ===== verification/Spec2Isabelle.thy ===== *)
theory Spec2Isabelle
  imports Stun_Client Connectivity Ip_Settings Net_Main Public_Ip Route_Mgr Wifi_Diag Wifi_Telemetry Wifi_Monitor Ap_Details Moca_Mgr
    Connectivity_Cli Http_Client Upnp_Fetch Camera_Build Wifi_Bus Daemon_Calls Route_Worker Laf_Threads Hal_Services Bus_Interface
begin

text \<open>
  A verification development for the RDK network service manager (\<^verbatim>\<open>netsrvmgr\<close>), the daemon of a set-top
  box that watches its network interfaces, tests the Internet connection, finds the public address,
  sets routes to announced gateways and runs the wireless and MoCA services.

  \<^bold>\<open>The program and its models.\<close>  Each theory models one part; definitions keep the names of the code.

  \<^item> \<^verbatim>\<open>Netsrv_Prelude\<close>: machine words, the result type of code that may throw or run into undefined
    behaviour, byte order, and the locales of the contracts that several parts share: a byte codec and
    its decoding loop, a step function that keeps an invariant (for all or for acceptable events), and a
    step function that refines an abstract one.
  \<^item> \<^verbatim>\<open>C_Strings\<close>: the C and C++ string functions the code calls, on lists of characters.
  \<^item> \<^verbatim>\<open>Netsrv_Utils\<close> (\<^verbatim>\<open>src/main/src/netsrvmgrUtiles.cpp\<close>): routes, interface types, addresses, the addresses
    that are skipped, the DHCP script.
  \<^item> \<^verbatim>\<open>Stun_Codec\<close>, \<^verbatim>\<open>Stun_Client\<close> (\<^verbatim>\<open>StunClient.cpp\<close>, \<^verbatim>\<open>StunClient.h\<close>): the STUN messages on the wire, and the
    client with its sockets, retries and cached result.
  \<^item> \<^verbatim>\<open>Net_Main\<close>, \<^verbatim>\<open>Ip_Settings\<close>, \<^verbatim>\<open>Public_Ip\<close> (\<^verbatim>\<open>netSrvMgrMain.cpp\<close>): configuration, netlink callbacks and
    events, enabling and preferring interfaces; manual and automatic IPv4 settings; the public address.
  \<^item> \<^verbatim>\<open>Daemon_Calls\<close> (\<^verbatim>\<open>netSrvMgrMain.cpp\<close>): the bus calls that wrap an operation of another part and the files read
    at the start; \<^verbatim>\<open>main\<close> itself and the runs of the whole daemon are in this theory.
  \<^item> \<^verbatim>\<open>Connectivity\<close>, \<^verbatim>\<open>Connectivity_Cli\<close> (\<^verbatim>\<open>connectivity.cpp\<close>, \<^verbatim>\<open>test_connectivity.cpp\<close>): the file of endpoints and
    the test over libcurl, and the command line program that repeats it.
  \<^item> \<^verbatim>\<open>Route_Mgr\<close> (\<^verbatim>\<open>routeSrvMgr.cpp\<close>): gateways from UPnP, the routes set for them, IPv6 autoconfiguration.
  \<^item> \<^verbatim>\<open>Wifi_State\<close>, \<^verbatim>\<open>Wifi_Status\<close> (\<^verbatim>\<open>wifiHalUtiles.cpp\<close>): the connection state behind the callback of the
    wireless HAL, the requests to connect and pair, the stored credentials; and the theorems about it,
    with the abstract connection machine it refines.
  \<^item> \<^verbatim>\<open>Lost_Found\<close> (\<^verbatim>\<open>wifiHalUtiles.cpp\<close>): the callbacks and the two threads of Lost and Found.
  \<^item> \<^verbatim>\<open>Wifi_Scan\<close>, \<^verbatim>\<open>Wifi_Mgr\<close>, \<^verbatim>\<open>Wifi_Diag\<close> (\<^verbatim>\<open>wifiSrvMgr.cpp\<close> with the functions of \<^verbatim>\<open>wifiHalUtiles.cpp\<close> it calls):
    scans, requests and the life of the service, diagnostics.  \<^verbatim>\<open>Wifi_Bus\<close>: its bus calls as one step function.
  \<^item> \<^verbatim>\<open>Thread_Runs\<close>, \<^verbatim>\<open>Wifi_Monitor\<close>, \<^verbatim>\<open>Ap_Details\<close>, \<^verbatim>\<open>Laf_Threads\<close> (\<^verbatim>\<open>wifiHalUtiles.cpp\<close>), \<^verbatim>\<open>Route_Worker\<close> (\<^verbatim>\<open>routeSrvMgr.cpp\<close>):
    interleavings of threads with a mutex and condition variables, as runs of a step relation whose progress
    a rank measures; the connection monitor with the callback that signals it and the shutdown that joins it;
    the thread that collects the details of the access point with the discovery that wakes it; the worker of
    the route manager, whose rounds run the operations of \<^verbatim>\<open>Route_Mgr\<close>, with the handler of the UPnP events; the
    two threads of Lost and Found, in the operations of \<^verbatim>\<open>Lost_Found\<close>, with the callers that start them.
  \<^item> \<^verbatim>\<open>Wifi_Telemetry\<close> (\<^verbatim>\<open>wifiHalUtiles.cpp\<close>): a turn of the monitor with the two telemetry lists it writes.
  \<^item> \<^verbatim>\<open>Http_Client\<close> (\<^verbatim>\<open>netSrvCurl.cpp\<close>): the wrapper of libcurl and the request for the token made through it.
    \<^verbatim>\<open>Upnp_Fetch\<close> (\<^verbatim>\<open>routeSrvMgr.cpp\<close>, \<^verbatim>\<open>wifiHalUtiles.cpp\<close>): the replies of the UPnP service copied into a buffer.
  \<^item> \<^verbatim>\<open>Camera_Build\<close> (\<^verbatim>\<open>wifiHalUtiles.cpp\<close>): the code that only the camera builds and the TR-069 build compile: token
    files, device information, the request to connect over rtMessage, the network list of the host.
  \<^item> \<^verbatim>\<open>Hal_Services\<close> (\<^verbatim>\<open>wifiHalUtiles.cpp\<close>, \<^verbatim>\<open>netsrvmgrUtiles.cpp\<close>): what the other parts build on: manufacturer data,
    the hardware address, the version of the HAL, milestones, log levels, formatted time, the rtMessage receiver.
  \<^item> \<^verbatim>\<open>Bus_Interface\<close> (\<^verbatim>\<open>Init\<close>, \<^verbatim>\<open>Start\<close> and \<^verbatim>\<open>main\<close> of the parts, \<^verbatim>\<open>wifiSrvMgrIarmIf.h\<close>, \<^verbatim>\<open>netsrvmgrIarm.h\<close>): the names of
    the calls and the numbers of the events with which the parts meet on the bus.
  \<^item> \<^verbatim>\<open>Moca_Mgr\<close> (\<^verbatim>\<open>mocaSrvMgr.cpp\<close>): the telemetry of the coaxial network.

  The parts call each other as in the code: the public address is asked for over the connectivity test,
  the utilities and the STUN client; the daemon switches the wireless service through \<^verbatim>\<open>setWifiEnabled\<close>,
  which is a parameter of \<^verbatim>\<open>Net_Main\<close> and is put together with \<^verbatim>\<open>Wifi_Mgr\<close> in this theory; Lost and Found and
  the scans act on the connection state of \<^verbatim>\<open>Wifi_State\<close>.

  \<^bold>\<open>Conventions.\<close>  Global variables and static locals are fields of a record; an operation takes and
  returns it.  A value of type \<^verbatim>\<open>res\<close> is a result, an exception, or undefined behaviour (a null pointer
  used, an index or a copy past a buffer, a variable never set).  What is outside \<^verbatim>\<open>src/\<close> (the wireless and MoCA
  HAL, libcurl, cJSON, GLib, sqlite, the message bus, the operating system and its clock, the Lost and
  Found library) is a record of functions that the definitions take; where an answer may change from
  call to call it depends on a tick that counts the calls.  What the code does to the outside (commands,
  events, packets, requests) is appended to a trace.  During a sleep or a wait, callbacks of the HAL and
  events of the bus may arrive; they are delivered by the model in the order the environment gives.

  The model follows the build with \<^verbatim>\<open>ENABLE_IARM\<close>, \<^verbatim>\<open>ENABLE_NLMONITOR\<close>, \<^verbatim>\<open>USE_RDK_WIFI_HAL\<close>, \<^verbatim>\<open>ENABLE_STUN_CLIENT\<close>,
  \<^verbatim>\<open>ENABLE_LOST_FOUND\<close>, \<^verbatim>\<open>ENABLE_ROUTE_SUPPORT\<close>, \<^verbatim>\<open>ENABLE_MOCA\<close> and \<^verbatim>\<open>WIFI_CLIENT_ROAMING\<close>, apart from \<^verbatim>\<open>Camera_Build\<close>
  without the camera variants, and without the bounds-checked string library, on a little-endian host.

  \<^bold>\<open>What the theorems show.\<close>  The numbered statements are spread over the theories.

  \<^item> Codecs and files: decoding an encoded STUN message, accepted messages as encodings, the settings file,
    saved networks, the summaries of MoCA rates.
  \<^item> Invariants of runs: the default-interface events form a chain; the status of the adapter is the one
    announced; the Lost and Found flags know the network; autoconfiguration is off exactly while a gateway
    is selected; the wireless HAL is switched on and off in turn; and in every run of the whole daemon from
    \<^verbatim>\<open>main\<close>, with all bus calls and callbacks in any order, both of the invariants of the wireless service hold.
  \<^item> Refinement: the callback of the HAL implements the abstract connection machine.
  \<^item> Outcomes of operations on every path: \<^verbatim>\<open>bind\<close> of the STUN client, the connectivity test, the IP
    settings, the routes, scans and the progressive scan, the credential files.
  \<^item> Progress: the connect callback of Lost and Found succeeds exactly if the connection comes up in time; a
    stopped private thread ends its turn after one iteration; a shutdown ends and joins the connection monitor
    in every interleaving, once the monitor has started; no announcement of the discovery is lost, neither for
    the details of the access point nor for the routes; the command line test ends within its tries; the
    back-off that the Lost and Found server asks for is waited out.
  \<^item> Exclusion: the two Lost and Found threads never run the library at the same time, and do not block each
    other.
  \<^item> Composition on the bus: no two calls share a name, and of the events that the daemon broadcasts only those
    of a progressive scan have a number that it listens to itself.
  \<^item> Behaviour that deviates from what the code or its comments intend, stated as theorems: each names the
    input on which it happens.

  \<^bold>\<open>Bounds and fuel.\<close>  Loops over data are structural recursion or have a measure.  The retry loop of the
  STUN client, the waits for a connection and the loop over curl rounds are bounded by numbers of the
  code (thirty requests, the configured number of sleeps, thirty sleeps, the deadline).  Only the loops of
  the two Lost and Found threads may run forever; they take fuel, and \<^verbatim>\<open>Val None\<close> is running out of it.
  Fuel 1 is enough for the statements that say how such a loop ends.

  \<^bold>\<open>Not modelled.\<close>  The macros around the logging library and the printing of lists to the log; the signal
  handler (it frees two lists and raises the signal again), crash dumps and the heartbeat of the main loop;
  the wrappers of GLib key files, which nothing calls, and those of the telemetry library, which hand on a
  pair; the empty base class of the services.  These change no state that another part reads.  Constants of the
  build that only name a HAL parameter are written where they are used.

  Outside \<^verbatim>\<open>Wifi_Monitor\<close>, \<^verbatim>\<open>Ap_Details\<close>, \<^verbatim>\<open>Route_Worker\<close> and \<^verbatim>\<open>Laf_Threads\<close> the start of threads is an event of the
  trace, a mutex is taken to be free, and the bodies of threads run between the arrivals of events.  The retry
  loops of the Lost and Found threads are endless by intention, so that there is no rank as for the other
  threads; the theorem about them is one of safety and of the absence of deadlock.  The MoCA thread shares two variables with its event handler and no
  mutex; \<^verbatim>\<open>Moca_Mgr\<close> has its turn and the handler as separate steps.
\<close>

section \<open>The daemon and the wireless service\<close>

text \<open>
  The daemon calls the wireless service through one function only.  A property of the service that this
  call keeps holds in every run of the daemon.
\<close>

locale wifi_port =
  fixes sw :: "bool \<Rightarrow> 'w \<Rightarrow> 'w"
    and wifi_ok :: "'w \<Rightarrow> bool"
  assumes sw_keeps: "wifi_ok w \<Longrightarrow> wifi_ok (sw b w)"
begin

definition port_ok :: "'w nm \<Rightarrow> bool" where
  "port_ok s \<longleftrightarrow> wifi_ok (nm_wifi s)"

lemma port_ok_update [simp]:
  "port_ok (broadcast e s) = port_ok s"
  "port_ok (s \<lparr> gDhcpServerIP := d \<rparr>) = port_ok s"
  "port_ok (s \<lparr> default_interface := i \<rparr>) = port_ok s"
  "port_ok (s \<lparr> nm_files := f \<rparr>) = port_ok s"
  "port_ok (s \<lparr> nm_commands := cs \<rparr>) = port_ok s"
  by (simp_all add: port_ok_def broadcast_def)

lemma port_ok_parts:
  "port_ok (detectDefaultInterfaceChange env s) = port_ok s"
  "port_ok (snd (getDhcpServerIP env s)) = port_ok s"
  "port_ok (unmark env f p s) = port_ok s"
  "port_ok (snd (setInterfaceState n b s)) = port_ok s"
  "port_ok (launch_pni_controller s) = port_ok s"
  "mark env f p s = Val s' \<Longrightarrow> port_ok s' = port_ok s"
  "port_ok s \<Longrightarrow> port_ok (wifi_call sw b s)"
  by (auto simp: detectDefaultInterfaceChange_def eventDefaultInterfaceChanged_def getDhcpServerIP_def mark_def touch_file_def
      unmark_def remove_file_def setInterfaceState_def run_command_def launch_pni_controller_def wifi_call_def port_ok_def
      broadcast_def sw_keeps res_bind_Val_iff Let_def split: if_splits option.splits)

lemma port_ok_callbacks:
  assumes "port_ok s"
  shows "port_ok (linkCallback env args s)" "port_ok (defaultRouteCallback env args s)"
    "addressCallback env args s = Val s' \<Longrightarrow> port_ok s'"
  using assms
  by (auto simp: linkCallback_def defaultRouteCallback_def addressCallback_def port_ok_parts
      eventInterfaceEnabledStatusChanged_def eventInterfaceConnectionStatusChanged_def
      eventInterfaceIPAddressStatusChanged_def res_bind_Val_iff Let_def split: prod.splits if_splits)

lemma port_ok_sets:
  assumes "port_ok s"
  shows "setDefaultInterface env i p s = Val (ok, s') \<Longrightarrow> port_ok s'"
    "setInterfaceEnabled sw env i e p s = Val (ok, s') \<Longrightarrow> port_ok s'"
  using assms
  by (auto simp: setDefaultInterface_def setInterfaceEnabled_def Let_def res_bind_Val_iff port_ok_parts split: if_splits)

lemma port_ok_step: "res_inv port_ok r \<Longrightarrow> res_inv port_ok (nm_step sw r e)"
  by (cases e; cases r)
    (auto simp: nm_step_def res_inv_def res_bind_Val_iff intro: port_ok_callbacks port_ok_sets split: nm_input.splits)

end

sublocale wifi_port \<subseteq> port: step_invariant "nm_step sw" "res_inv port_ok"
  by unfold_locales (rule port_ok_step)

context wifi_port
begin

lemma port_run:
  assumes "wifi_ok (nm_wifi s)" and "foldl (nm_step sw) (Val s) inputs = Val s'"
  shows "wifi_ok (nm_wifi s')"
  using port.run_keeps [of "Val s" inputs] assms by (simp add: port_ok_def)

end

text \<open>The service behind the port; after undefined behaviour nothing more is said of it.\<close>

definition wifi_service :: "laf_env \<Rightarrow> bool \<Rightarrow> mgr res \<Rightarrow> mgr res" where
  "wifi_service env b r = res_bind r (setWifiEnabled env b)"

lemma wifi_service_flag:
  assumes "wifi_service env b r = Val m"
  shows "bWiFiEnabled m = b"
proof -
  have start: "WiFi_Start env (n \<lparr> bWiFiEnabled := True \<rparr>) = Val m \<Longrightarrow> bWiFiEnabled m" for n
    by (auto simp: WiFi_Start_def WiFi_Start_lnf_def Let_def mgr_emit_def res_bind_Val_iff split: if_splits)
  have stop: "bWiFiEnabled (WiFi_Stop n) = bWiFiEnabled n" for n by (simp add: WiFi_Stop_def mgr_emit_def)
  obtain n where "setWifiEnabled env b n = Val m" using assms by (auto simp: wifi_service_def res_bind_Val_iff)
  then show ?thesis
    using start [of n] stop [of "n \<lparr> bWiFiEnabled := False \<rparr>"] by (cases b) (auto simp: setWifiEnabled_def Let_def split: if_splits)
qed

interpretation wifi: wifi_port "wifi_service env" "res_inv power_inv" for env
  by unfold_locales (auto simp: wifi_service_def res_inv_def res_bind_Val_iff intro: setWifiEnabled_power)

lemma enable_wifi_step:
  "nm_step sw (Val s) (env, Set_Enabled ''WIFI'' True p) = Val s' \<Longrightarrow> nm_wifi s' = sw True (nm_wifi s)"
  by (auto simp: nm_step_def setInterfaceEnabled_def Let_def launch_pni_controller_def run_command_def wifi_call_def
      setInterfaceState_def unmark_def remove_file_def res_bind_Val_iff split: if_splits)

text \<open>
  C5.  The daemon and the wireless service together: in every run of the daemon, with any callbacks and
  bus calls before, a request to enable the wireless interface leaves the wireless HAL on, initialised
  once more than it was shut down and never twice in a row.
\<close>

theorem enabled_wifi_is_on:
  assumes "foldl (nm_step (wifi_service wenv)) (Val s) (inputs @ [(env, Set_Enabled ''WIFI'' True p)]) = Val s'"
    and "nm_wifi s = Val m" and "mgr_trace m = []" and "\<not> bWiFiEnabled m" and "nm_wifi s' = Val m'"
  shows "power False (mgr_trace m') = Some True"
proof -
  obtain s1 where s1: "foldl (nm_step (wifi_service wenv)) (Val s) inputs = Val s1"
    using assms(1) by (cases "foldl (nm_step (wifi_service wenv)) (Val s) inputs") (auto simp: nm_step_def)
  have "nm_wifi s' = wifi_service wenv True (nm_wifi s1)" using assms(1) s1 enable_wifi_step by auto
  then have "bWiFiEnabled m'" using assms(5) wifi_service_flag by metis
  moreover have "res_inv power_inv (nm_wifi s')"
    using wifi.port_run [OF _ assms(1)] assms(2-4) by (simp add: power_inv_def)
  ultimately show ?thesis using assms(5) by (simp add: power_inv_def)
qed

definition sample_daemon :: "mgr res nm" where
  "sample_daemon = \<lparr> nm_files = Map.empty, nm_commands = [], nm_events = [], default_interface = [],
     gDhcpServerIP = [], nm_wifi = Val sample_mgr \<rparr>"

theorem enabled_wifi_is_on_witness:
  "\<exists>s' m'. foldl (nm_step (wifi_service sample_laf_env)) (Val sample_daemon) [(sample_env, Set_Enabled ''WIFI'' True False)] = Val s' \<and>
     nm_wifi s' = Val m' \<and> power False (mgr_trace m') = Some True"
proof -
  let ?in = "[] @ [(sample_env, Set_Enabled ''WIFI'' True False)]"
  have "\<exists>s'. nm_step (wifi_service sample_laf_env) (Val sample_daemon) (sample_env, Set_Enabled ''WIFI'' True False) = Val s'"
    by (simp add: nm_step_def setInterfaceEnabled_def Let_def)
  then obtain s' where s': "foldl (nm_step (wifi_service sample_laf_env)) (Val sample_daemon) ?in = Val s'" by auto
  then have "nm_wifi s' = wifi_service sample_laf_env True (Val sample_mgr)"
    using enable_wifi_step [of "wifi_service sample_laf_env" sample_daemon] by (simp add: sample_daemon_def)
  then obtain m' where "nm_wifi s' = Val m'"
    by (simp add: wifi_service_def setWifiEnabled_def sample_start sample_mgr_def)
  with enabled_wifi_is_on [OF s', of sample_mgr m'] s' show ?thesis
    by (auto simp: sample_daemon_def sample_mgr_def)
qed

section \<open>The whole daemon\<close>

text \<open>
  The start of the daemon, in the order of \<^verbatim>\<open>netSrvMgr_start\<close>, and its runs: the callbacks of the network
  monitor and the bus calls of the daemon and of the wireless service, and the callbacks of the wireless HAL,
  in any order.  The threads of the monitor, the route manager and the MoCA service are started here and have
  their own theories.
\<close>

datatype start_out = Run_Netlink | Start_Route | Init_Wifi | Launch_Pni | Start_Moca

definition netSrvMgr_start ::
    "os \<Rightarrow> netapp_db \<Rightarrow> (string \<Rightarrow> bool) \<Rightarrow> mgr res nm \<Rightarrow> (start_out list \<times> string \<times> mgr res nm) res" where
  "netSrvMgr_start env db removable s =
     res_bind (nm_wifi s) (\<lambda>m. res_bind (WiFi_Init env db removable (laf_wifi (mgr_laf m)) (nm_files s)) (\<lambda>(w, mac, fs).
       Val ([Run_Netlink, Start_Route, Init_Wifi, Launch_Pni, Start_Moca], mac,
            launch_pni_controller (s \<lparr> nm_files := fs, nm_wifi := Val (m \<lparr> mgr_laf := (mgr_laf m) \<lparr> laf_wifi := w \<rparr> \<rparr>) \<rparr>))))"

text \<open>What \<^verbatim>\<open>main\<close> finds: the results of the bus, the files it reads and the surroundings of the services.\<close>

record main_env =
  bus_init :: IARM_Result
  bus_connect :: IARM_Result
  e_os :: os
  e_load :: "string \<Rightarrow> key_file option"
  e_telemetry :: "string option"
  e_parse :: "string \<Rightarrow> json option"
  e_db :: netapp_db
  e_removable :: "string \<Rightarrow> bool"

datatype main_end =
    Exit IARM_Result
  | Serving netMgrConfigProps "telemetryParams \<times> telemetryParams" "start_out list" string "mgr res nm"

definition daemon_main ::
    "main_env \<Rightarrow> string list \<Rightarrow> netMgrConfigProps \<Rightarrow> telemetryParams \<times> telemetryParams \<Rightarrow> mgr res nm \<Rightarrow> main_end res" where
  "daemon_main env argv confProp ts s =
     (if bus_init env \<noteq> IARM_RESULT_SUCCESS then Val (Exit (bus_init env))
      else if bus_connect env \<noteq> IARM_RESULT_SUCCESS then Val (Exit (bus_connect env))
      else let configFilePath = snd (main_args argv (None, None)) in
        res_bind (main_config (e_os env) (configProp_FilePath configFilePath) (e_load env) confProp) (\<lambda>confProp.
        res_bind (Read_Telemetery_Param_File (e_parse env) (e_telemetry env) ts) (\<lambda>ts.
        res_bind (netSrvMgr_start (e_os env) (e_db env) (e_removable env) s) (\<lambda>(tr, mac, s).
          Val (Serving confProp ts tr mac s)))))"

datatype daemon_input =
    Daemon "nm_env \<times> nm_input"
  | Wifi_Event string nat bool
  | Set_Ip nm_env iface_settings
  | Service bus_input

definition daemon_step :: "bus_env \<Rightarrow> mgr res nm res \<Rightarrow> daemon_input \<Rightarrow> mgr res nm res" where
  "daemon_step env r i = (case i of
       Daemon e \<Rightarrow> nm_step (wifi_service (b_laf env)) r e
     | Wifi_Event owner eventId enabled \<Rightarrow> res_bind r (\<lambda>s. Val (eventHandler (wifi_service (b_laf env)) owner eventId enabled s))
     | Set_Ip nenv p \<Rightarrow> res_bind r (\<lambda>s. res_bind (setIPSettings_call nenv p s) (\<lambda>(_, _, s). Val s))
     | Service b \<Rightarrow> res_bind r (\<lambda>s. Val (s \<lparr> nm_wifi := bus_step env (nm_wifi s) b \<rparr>)))"

definition short_daemon_input :: "daemon_input \<Rightarrow> bool" where
  "short_daemon_input i \<longleftrightarrow> (case i of Service b \<Rightarrow> short_input b | _ \<Rightarrow> True)"

interpretation wifi_bus: wifi_port "wifi_service (b_laf env)" "bus_inv env" for env
proof
  fix r b assume "bus_inv env r"
  then show "bus_inv env (wifi_service (b_laf env) b r)"
    using laf_ok_enabled [of "b_laf env"]
    by (auto simp: bus_inv_def wifi_service_def res_inv_def res_bind_Val_iff service_ok_def intro: setWifiEnabled_power)
qed

interpretation whole: guarded_invariant "daemon_step env" "res_inv (wifi_bus.port_ok env)" short_daemon_input for env
proof
  fix r i assume r: "res_inv (wifi_bus.port_ok env) r" and i: "short_daemon_input i"
  show "res_inv (wifi_bus.port_ok env) (daemon_step env r i)"
  proof (cases i)
    case (Daemon e)
    then show ?thesis using wifi_bus.port_ok_step [OF r] by (simp add: daemon_step_def)
  next
    case (Wifi_Event owner eventId enabled)
    then show ?thesis
      using r wifi_bus.port_ok_parts(7) by (cases r) (auto simp: daemon_step_def eventHandler_def)
  next
    case (Set_Ip nenv p)
    then show ?thesis
      using r
      by (cases r) (auto simp: daemon_step_def setIPSettings_call_def res_inv_def res_bind_Val_iff wifi_bus.port_ok_def
          dest: setIPSettings_keeps_wifi)
  next
    case (Service b)
    then show ?thesis
      using r i bus.guarded_step [of env _ b]
      by (cases r) (simp_all add: daemon_step_def short_daemon_input_def wifi_bus.port_ok_def)
  qed
qed

lemma started_ok:
  assumes "daemon_main env argv c0 ts0 s = Val (Serving conf ts tr mac s')" and "short_names (l_wifi (b_laf benv))"
    and "nm_wifi s = Val m0" and "mgr_trace m0 = []" and "\<not> bWiFiEnabled m0"
  shows "res_inv (wifi_bus.port_ok benv) (Val s')"
  using assms
  by (auto simp: daemon_main_def netSrvMgr_start_def WiFi_Init_def isWiFiCapable_def set_WiFiStatusCode_def res_bind_Val_iff Let_def
      launch_pni_controller_def run_command_def wifi_bus.port_ok_def bus_inv_def service_ok_def laf_ok_def power_inv_def split: if_splits)


lemma sample_connected:
  fixes w :: wifi
  defines "w' \<equiv> callback sample_wifi_env w (WIFI_HAL_SUCCESS, ''LNF'', ACTION_ON_CONNECT)"
  shows "gWifiAdopterStatus w' = WIFI_CONNECTED" "wifiConnData_ssid w' = ''LNF''"
proof -
  have "link (on_connected sample_wifi_env ''LNF'' same w) = (WIFI_CONNECTED, CONNECTED_LNF, True, True, False, ''LNF'')" for same
    using on_connected_effect [of True sample_wifi_env "''LNF''" same w] by (simp add: sample_wifi_env_def SSID_SIZE_def)
  then show "gWifiAdopterStatus w' = WIFI_CONNECTED" "wifiConnData_ssid w' = ''LNF''"
    using wifi_status_action_link(1) [of sample_wifi_env WIFI_HAL_SUCCESS "''LNF''" ACTION_ON_CONNECT w]
    by (simp_all add: w'_def callback_def status_branch_def Let_def link_def)
qed

definition sample_db :: netapp_db where
  "sample_db = \<lparr> db_open = False, db_prepare = False, db_row = False, db_value = None, db_json = (\<lambda>_. None), conf_fopen = False \<rparr>"

definition sample_main :: main_env where
  "sample_main = \<lparr> bus_init = IARM_RESULT_SUCCESS, bus_connect = IARM_RESULT_SUCCESS, e_os = sample_os, e_load = (\<lambda>_. None), e_telemetry = None,
     e_parse = (\<lambda>_. None), e_db = sample_db, e_removable = (\<lambda>_. True) \<rparr>"

definition sample_telemetry :: "telemetryParams \<times> telemetryParams" where
  "sample_telemetry = (\<lparr> timePeriod = 0, paramlist = [] \<rparr>, \<lparr> timePeriod = 0, paramlist = [] \<rparr>)"

definition sample_daemon_run :: "daemon_input list" where
  "sample_daemon_run = [Wifi_Event ''IARM_BUS_SYSMGR'' 52 True, Daemon (sample_env, Set_Enabled ''WIFI'' True False), Service (Request (R_Connect home)),
     Service (Arrival (Hal (WIFI_HAL_SUCCESS, ''LNF'', ACTION_ON_CONNECT))), Service (Request (R_Query Q_Paired))]"

lemma sample_daemon_run_short: "short_names (l_wifi (b_laf sample_bus))" "\<forall>i\<in>set sample_daemon_run. short_daemon_input i"
  by (simp_all add: short_names_def short_input_def short_daemon_input_def sample_bus_def sample_laf_env_def sample_wifi_env_def
      sample_daemon_run_def SSID_SIZE_def)

lemma sample_daemon_runs:
  assumes "nm_wifi s = Val m" and "\<not> bWiFiEnabled m"
  shows "\<exists>s' m' w. foldl (daemon_step sample_bus) (Val s) sample_daemon_run = Val s' \<and> nm_wifi s' = Val m' \<and>
    laf_wifi (mgr_laf m') = callback sample_wifi_env w (WIFI_HAL_SUCCESS, ''LNF'', ACTION_ON_CONNECT)"
proof -
  have "\<exists>s1. nm_step (wifi_service sample_laf_env) (Val s) (sample_env, Set_Enabled ''WIFI'' True False) = Val s1"
    by (simp add: nm_step_def setInterfaceEnabled_def Let_def)
  then obtain s1 where s1: "nm_step (wifi_service sample_laf_env) (Val s) (sample_env, Set_Enabled ''WIFI'' True False) = Val s1" ..
  obtain m1 where m1: "nm_wifi s1 = Val m1"
    using enable_wifi_step [OF s1] assms by (auto simp: wifi_service_def setWifiEnabled_def sample_start)
  show ?thesis
    using s1 m1
    by (auto simp: sample_daemon_run_def daemon_step_def eventHandler_def bus_step_def on_connection_def on_wifi_def deliver_def answer_query_def Let_def
        sample_bus_def sample_laf_env_def split: prod.split)
qed


end
